(* ===== verification/Prelude.thy ===== *)
theory Prelude
  imports Main "HOL-Library.Multiset"
begin

text \<open>
  Shared vocabulary of the development: the outcome of a Go call (a value, a returned error or a
  run-time panic), the loops that stop at the first error, Go maps as association lists with
  their range loops, and the lemmas and rewrite collections the component theories rely on.
\<close>

named_theorems go_simps \<open>unfolding of the outcome combinators\<close>
named_theorems gmap_simps \<open>lookup laws of Go maps\<close>

section \<open>Outcomes of Go calls\<close>

text \<open>
  A Go function that can fail either returns a non-nil error (\<open>Fail e\<close>) or stops the goroutine
  with a panic (\<open>Panics why\<close>: a nil dereference, a slice bound out of range, a call of \<open>panic\<close>).
\<close>

datatype panic = NilDeref | SliceBounds | TypeAssertion | ExplicitPanic

datatype 'e fault = Fail 'e | Panics panic

type_synonym ('e, 'a) go = "'e fault + 'a"

definition bind_go :: "('e, 'a) go \<Rightarrow> ('a \<Rightarrow> ('e, 'b) go) \<Rightarrow> ('e, 'b) go" where
  "bind_go m f = (case m of Inl e \<Rightarrow> Inl e | Inr a \<Rightarrow> f a)"

definition err :: "'e \<Rightarrow> ('e, 'a) go" where
  "err e = Inl (Fail e)"

definition panic :: "panic \<Rightarrow> ('e, 'a) go" where
  "panic p = Inl (Panics p)"

text \<open>Wrapping an error (\<open>fmt.Errorf(... %w)\<close>): panics pass through unchanged.\<close>

definition wrap_err :: "('e \<Rightarrow> 'f) \<Rightarrow> ('e, 'a) go \<Rightarrow> ('f, 'a) go" where
  "wrap_err w m =
     (case m of Inl (Fail e) \<Rightarrow> Inl (Fail (w e)) | Inl (Panics p) \<Rightarrow> Inl (Panics p) | Inr a \<Rightarrow> Inr a)"

definition no_panic :: "('e, 'a) go \<Rightarrow> bool" where
  "no_panic m \<longleftrightarrow> (\<forall>p. m \<noteq> Inl (Panics p))"

lemma bind_go_Inr [simp]: "bind_go (Inr a) f = f a"
  and bind_go_Inl [simp]: "bind_go (Inl e) f = Inl e"
  by (simp_all add: bind_go_def)

lemma bind_go_eq_Inr [go_simps]:
  "bind_go m f = Inr b \<longleftrightarrow> (\<exists>a. m = Inr a \<and> f a = Inr b)"
  by (cases m) auto

lemma wrap_err_Inr [simp]: "wrap_err w (Inr a) = Inr a"
  by (simp add: wrap_err_def)

lemma wrap_err_eq_Inr [simp]: "wrap_err w m = Inr a \<longleftrightarrow> m = Inr a"
  by (cases m) (auto simp: wrap_err_def split: fault.splits)

lemma err_not_Inr [simp]: "err e \<noteq> Inr a" and Inr_not_err [simp]: "Inr a \<noteq> err e"
  and panic_not_Inr [simp]: "panic p \<noteq> Inr a" and Inr_not_panic [simp]: "Inr a \<noteq> panic p"
  by (simp_all add: err_def panic_def)

lemma no_panic_simps [simp]:
  "no_panic (Inr a)" "no_panic (err e)" "\<not> no_panic (panic p)"
  by (simp_all add: no_panic_def err_def panic_def)

lemma no_panic_wrap_err [simp]: "no_panic (wrap_err w m) = no_panic m"
  by (cases m) (auto simp: no_panic_def wrap_err_def split: fault.splits)

lemma no_panic_bind_go:
  "no_panic m \<Longrightarrow> (\<And>a. m = Inr a \<Longrightarrow> no_panic (f a)) \<Longrightarrow> no_panic (bind_go m f)"
  by (cases m) (auto simp: no_panic_def)

section \<open>Loops that stop at the first error\<close>

text \<open>\<open>for _, x := range xs { if err := f(x); err != nil { return err } }\<close>\<close>

fun each :: "('a \<Rightarrow> ('e, unit) go) \<Rightarrow> 'a list \<Rightarrow> ('e, unit) go" where
  "each f [] = Inr ()"
| "each f (x # xs) = bind_go (f x) (\<lambda>_. each f xs)"

text \<open>The same loop with an accumulator that every iteration updates.\<close>

fun fold_go :: "('s \<Rightarrow> 'a \<Rightarrow> ('e, 's) go) \<Rightarrow> 's \<Rightarrow> 'a list \<Rightarrow> ('e, 's) go" where
  "fold_go f s [] = Inr s"
| "fold_go f s (x # xs) = bind_go (f s x) (\<lambda>s'. fold_go f s' xs)"

lemma each_ok_iff: "each f xs = Inr () \<longleftrightarrow> (\<forall>x \<in> set xs. f x = Inr ())"
  by (induction xs) (auto simp: bind_go_def split: sum.splits)

lemma each_ok_mset: "mset xs = mset ys \<Longrightarrow> each f xs = Inr () \<longleftrightarrow> each f ys = Inr ()"
  by (simp add: each_ok_iff mset_eq_setD [of xs ys])

lemma no_panic_each: "(\<And>x. x \<in> set xs \<Longrightarrow> no_panic (f x)) \<Longrightarrow> no_panic (each f xs)"
  by (induction xs) (auto intro!: no_panic_bind_go)

lemma fold_go_append:
  "fold_go f s (xs @ ys) = bind_go (fold_go f s xs) (\<lambda>s'. fold_go f s' ys)"
  by (induction xs arbitrary: s) (auto simp: bind_go_def split: sum.splits)

lemma fold_go_Inr_foldl:
  "(\<And>s x. x \<in> set xs \<Longrightarrow> f s x = Inr (g s x)) \<Longrightarrow> fold_go f s xs = Inr (foldl g s xs)"
  by (induction xs arbitrary: s) auto

text \<open>The same loop over steps that change a state, also when they fail.\<close>

fun each_st :: "('a \<Rightarrow> 's \<Rightarrow> ('e, unit) go \<times> 's) \<Rightarrow> 'a list \<Rightarrow> 's \<Rightarrow> ('e, unit) go \<times> 's" where
  "each_st f [] s = (Inr (), s)"
| "each_st f (x # xs) s = (case f x s of (Inl e, s1) \<Rightarrow> (Inl e, s1) | (Inr _, s1) \<Rightarrow> each_st f xs s1)"

text \<open>What every step keeps, whatever its outcome, the loop keeps.\<close>

lemma each_st_keeps:
  assumes "\<And>x s r s'. x \<in> set xs \<Longrightarrow> P s \<Longrightarrow> f x s = (r, s') \<Longrightarrow> P s'"
  shows "P s \<Longrightarrow> each_st f xs s = (r, s') \<Longrightarrow> P s'"
  using assms
proof (induction xs arbitrary: s)
  case (Cons x xs)
  obtain r1 s1 where step: "f x s = (r1, s1)" by (cases "f x s")
  with Cons.prems have s1: "P s1" by auto
  show ?case
  proof (cases r1)
    case (Inr u)
    with step Cons.prems(2) have "each_st f xs s1 = (r, s')" by simp
    with Cons.IH [OF s1] Cons.prems(3) show ?thesis by (meson list.set_intros(2))
  qed (use step s1 Cons.prems(2) in simp)
qed auto

lemma each_st_Cons_ok:
  "each_st f (x # xs) s = (Inr (), s') \<longleftrightarrow> (\<exists>s1. f x s = (Inr (), s1) \<and> each_st f xs s1 = (Inr (), s'))"
  by (auto split: sum.splits prod.splits)

declare each_st.simps(2) [simp del]

lemma each_st_append:
  "each_st f (xs @ ys) s =
     (case each_st f xs s of (Inl e, s1) \<Rightarrow> (Inl e, s1) | (Inr _, s1) \<Rightarrow> each_st f ys s1)"
  by (induction xs arbitrary: s) (auto simp: each_st.simps(2) split: prod.splits sum.splits)

lemma each_st_keeps_ok:
  "(\<And>x s s'. x \<in> set xs \<Longrightarrow> P s \<Longrightarrow> f x s = (Inr (), s') \<Longrightarrow> P s') \<Longrightarrow>
     P s \<Longrightarrow> each_st f xs s = (Inr (), s') \<Longrightarrow> P s'"
proof (induction xs arbitrary: s)
  case (Cons x xs)
  from Cons.prems(3) obtain s1 where "f x s = (Inr (), s1)" "each_st f xs s1 = (Inr (), s')"
    unfolding each_st_Cons_ok by blast
  with Cons.IH [of s1] Cons.prems(1,2) show ?case by (meson list.set_intros)
qed simp

text \<open>A successful loop did every step, and no later step undid what an earlier one had achieved.\<close>

lemma each_st_achieves:
  assumes "\<And>x s s'. x \<in> set xs \<Longrightarrow> I s \<Longrightarrow> f x s = (Inr (), s') \<Longrightarrow> I s' \<and> Q x s'"
    and "\<And>x y s s'. x \<in> set xs \<Longrightarrow> y \<in> set xs \<Longrightarrow> I s \<Longrightarrow> Q x s \<Longrightarrow> f y s = (Inr (), s') \<Longrightarrow> Q x s'"
  shows "I s \<Longrightarrow> each_st f xs s = (Inr (), s') \<Longrightarrow> I s' \<and> (\<forall>x \<in> set xs. Q x s')"
  using assms
proof (induction xs arbitrary: s)
  case (Cons x xs)
  from Cons.prems(2) obtain s1 where fx: "f x s = (Inr (), s1)" and rest: "each_st f xs s1 = (Inr (), s')"
    unfolding each_st_Cons_ok by blast
  from Cons.prems(3) [OF _ Cons.prems(1) fx] have s1: "I s1 \<and> Q x s1" by simp
  have "I s' \<and> Q x s'"
    by (rule each_st_keeps_ok [where P = "\<lambda>s. I s \<and> Q x s", OF _ s1 rest])
      (use Cons.prems(3,4) in \<open>meson list.set_intros\<close>)
  moreover have "I s' \<and> (\<forall>y \<in> set xs. Q y s')"
    by (rule Cons.IH [OF conjunct1 [OF s1] rest]) (use Cons.prems(3,4) in \<open>meson list.set_intros\<close>)+
  ultimately show ?case by simp
next
  case Nil
  from Nil.prems(1,2) show ?case by simp
qed

corollary each_st_does:
  assumes "\<And>x s s'. f x s = (Inr (), s') \<Longrightarrow> Q x s'"
    and "\<And>x y s s'. Q x s \<Longrightarrow> f y s = (Inr (), s') \<Longrightarrow> Q x s'"
    and "each_st f xs s = (Inr (), s')" "x \<in> set xs"
  shows "Q x s'"
proof -
  have "True \<and> (\<forall>x \<in> set xs. Q x s')"
    by (rule each_st_achieves [OF _ _ TrueI assms(3)]) (use assms(1,2) in blast)+
  with assms(4) show ?thesis by blast
qed

section \<open>Go maps\<close>

text \<open>
  A Go map with string keys is an association list whose keys are distinct. The list order is
  the model's representation only: a \<open>range\<close> loop visits the keys in an order that the Go
  run-time chooses, given by a parameter \<open>ord\<close> that permutes the key list.
\<close>

type_synonym 'v gmap = "(string \<times> 'v) list"

type_synonym range_order = "string list \<Rightarrow> string list"

definition range_order_ok :: "range_order \<Rightarrow> bool" where
  "range_order_ok ord \<longleftrightarrow> (\<forall>ks. mset (ord ks) = mset ks)"

definition gkeys :: "'v gmap \<Rightarrow> string list" where
  "gkeys m = map fst m"

definition gget :: "'v gmap \<Rightarrow> string \<Rightarrow> 'v option" where
  "gget m k = map_of m k"

fun gset :: "'v gmap \<Rightarrow> string \<Rightarrow> 'v \<Rightarrow> 'v gmap" where
  "gset [] k v = [(k, v)]"
| "gset ((k', v') # m) k v = (if k' = k then (k, v) # m else (k', v') # gset m k v)"

definition wf_gmap :: "'v gmap \<Rightarrow> bool" where
  "wf_gmap m \<longleftrightarrow> distinct (gkeys m)"

text \<open>\<open>range_gmap ord m\<close>: the (key, value) pairs a \<open>for k, v := range m\<close> loop sees, in order.\<close>

definition range_gmap :: "range_order \<Rightarrow> 'v gmap \<Rightarrow> (string \<times> 'v) list" where
  "range_gmap ord m = List.map_filter (\<lambda>k. map_option (\<lambda>v. (k, v)) (gget m k)) (ord (gkeys m))"

text \<open>Reading a missing key of a string map gives the zero value.\<close>

definition gget_str :: "string gmap \<Rightarrow> string \<Rightarrow> string" where
  "gget_str m k = (case gget m k of None \<Rightarrow> '''' | Some v \<Rightarrow> v)"

text \<open>\<open>for k, v := range n { m[k] = v }\<close>\<close>

definition gset_all :: "'v gmap \<Rightarrow> (string \<times> 'v) list \<Rightarrow> 'v gmap" where
  "gset_all m n = foldl (\<lambda>m (k, v). gset m k v) m n"

lemma gget_Nil [simp, gmap_simps]: "gget [] k = None"
  by (simp add: gget_def)

lemma gget_Cons [gmap_simps]: "gget ((k', v) # m) k = (if k' = k then Some v else gget m k)"
  by (simp add: gget_def)

lemma gget_gset [simp, gmap_simps]: "gget (gset m k v) k' = (if k' = k then Some v else gget m k')"
  by (induction m k v rule: gset.induct) (auto simp: gget_def)

lemma gset_fresh: "k \<notin> set (gkeys m) \<Longrightarrow> gset m k v = m @ [(k, v)]"
  by (induction m k v rule: gset.induct) (auto simp: gkeys_def)

lemma gkeys_gset: "set (gkeys (gset m k v)) = insert k (set (gkeys m))"
  by (induction m k v rule: gset.induct) (auto simp: gkeys_def)

lemma wf_gmap_Nil [simp]: "wf_gmap []"
  by (simp add: wf_gmap_def gkeys_def)

lemma wf_gmap_gset [simp]: "wf_gmap m \<Longrightarrow> wf_gmap (gset m k v)"
proof (induction m k v rule: gset.induct)
  case (2 k' v' m k v)
  then show ?case
    using gkeys_gset [of m k v] by (auto simp: wf_gmap_def gkeys_def)
qed (simp add: wf_gmap_def gkeys_def)

lemma gget_eq_None_iff: "gget m k = None \<longleftrightarrow> k \<notin> set (gkeys m)"
  by (simp add: gget_def gkeys_def map_of_eq_None_iff)

lemma gget_Some_key: "gget m k = Some v \<Longrightarrow> k \<in> set (gkeys m)"
  by (auto simp: gget_def gkeys_def dest!: map_of_SomeD intro: rev_image_eqI)

lemma gget_Some_iff: "wf_gmap m \<Longrightarrow> gget m k = Some v \<longleftrightarrow> (k, v) \<in> set m"
  by (simp add: wf_gmap_def gget_def gkeys_def)

lemma range_order_ok_set: "range_order_ok ord \<Longrightarrow> set (ord ks) = set ks"
  by (metis mset_eq_setD range_order_ok_def)

lemma range_order_ok_id [simp]: "range_order_ok (\<lambda>ks. ks)" and range_order_ok_rev [simp]: "range_order_ok rev"
  by (simp_all add: range_order_ok_def)

lemma set_map_filter: "set (List.map_filter f xs) = {y. \<exists>x \<in> set xs. f x = Some y}"
  by (induction xs) (auto simp: List.map_filter_def split: option.splits)

lemma set_range_gmap:
  "range_order_ok ord \<Longrightarrow> set (range_gmap ord m) = {(k, v). gget m k = Some v}"
  by (auto simp: range_gmap_def set_map_filter range_order_ok_set gget_Some_key)

lemma gkeys_range_gmap:
  assumes "range_order_ok ord"
  shows "map fst (range_gmap ord m) = ord (gkeys m)"
proof -
  have "\<And>ks. set ks \<subseteq> set (gkeys m) \<Longrightarrow>
      map fst (List.map_filter (\<lambda>k. map_option (\<lambda>v. (k, v)) (gget m k)) ks) = ks"
  proof -
    fix ks assume "set ks \<subseteq> set (gkeys m)"
    then show "map fst (List.map_filter (\<lambda>k. map_option (\<lambda>v. (k, v)) (gget m k)) ks) = ks"
    proof (induction ks)
      case (Cons k ks)
      then obtain v where "gget m k = Some v" using gget_eq_None_iff [of m k] by fastforce
      with Cons show ?case by (simp add: List.map_filter_def)
    qed (simp add: List.map_filter_def)
  qed
  with assms show ?thesis by (simp add: range_gmap_def range_order_ok_set)
qed

lemma distinct_range_gmap:
  "range_order_ok ord \<Longrightarrow> wf_gmap m \<Longrightarrow> distinct (map fst (range_gmap ord m))"
  by (metis gkeys_range_gmap mset_eq_imp_distinct_iff range_order_ok_def wf_gmap_def)

lemma wf_gmap_gset_all: "wf_gmap m \<Longrightarrow> wf_gmap (gset_all m n)"
  by (induction n arbitrary: m) (auto simp: gset_all_def)

lemma gset_all_simps [simp]:
  "gset_all m [] = m"
  "gset_all m ((k, v) # n) = gset_all (gset m k v) n"
  by (simp_all add: gset_all_def)

text \<open>Copying a map into another: the copied entries win.\<close>

lemma gget_gset_all:
  "distinct (map fst n) \<Longrightarrow>
     gget (gset_all m n) k = (case map_of n k of None \<Rightarrow> gget m k | Some v \<Rightarrow> Some v)"
  by (induction n arbitrary: m) (auto split: option.splits dest: map_of_SomeD simp: rev_image_eqI)

lemma map_of_range_gmap:
  assumes "range_order_ok ord" "wf_gmap m"
  shows "map_of (range_gmap ord m) k = gget m k"
proof -
  have d: "distinct (map fst (range_gmap ord m))" by (rule distinct_range_gmap [OF assms])
  show ?thesis
  proof (cases "gget m k")
    case (Some v)
    with assms have "(k, v) \<in> set (range_gmap ord m)" by (simp add: set_range_gmap)
    with d Some show ?thesis by simp
  next
    case None
    with assms have "k \<notin> fst ` set (range_gmap ord m)" by (auto simp: set_range_gmap)
    with None show ?thesis by (simp add: map_of_eq_None_iff)
  qed
qed

section \<open>The contract of a key-value map\<close>

text \<open>
  What the components rely on when they read and write maps, independent of the representation:
  a lookup returns the last value stored under its key.
\<close>

locale kv_map =
  fixes emp :: "'m"
    and lookup :: "'m \<Rightarrow> 'k \<Rightarrow> 'v option"
    and store :: "'m \<Rightarrow> 'k \<Rightarrow> 'v \<Rightarrow> 'm"
    and ok :: "'m \<Rightarrow> bool"
  assumes lookup_emp: "lookup emp k = None"
    and lookup_store: "ok m \<Longrightarrow> lookup (store m k v) k' = (if k' = k then Some v else lookup m k')"
    and ok_emp: "ok emp"
    and ok_store: "ok m \<Longrightarrow> ok (store m k v)"
begin

text \<open>A first-wins loop: \<open>if _, exists := m[k]; !exists { m[k] = v }\<close>.\<close>

definition store_new :: "'m \<Rightarrow> 'k \<times> 'v \<Rightarrow> 'm" where
  "store_new m kv = (case lookup m (fst kv) of None \<Rightarrow> store m (fst kv) (snd kv) | Some _ \<Rightarrow> m)"

lemma ok_store_new_loop: "ok m \<Longrightarrow> ok (foldl store_new m kvs)"
  by (induction kvs arbitrary: m) (auto simp: store_new_def ok_store split: option.splits)

lemma lookup_store_new_loop:
  "ok m \<Longrightarrow> lookup (foldl store_new m kvs) k =
     (case lookup m k of Some v \<Rightarrow> Some v | None \<Rightarrow> map_of kvs k)"
proof (induction kvs arbitrary: m)
  case (Cons kv kvs)
  have "ok (store_new m kv)"
    using Cons.prems by (simp add: store_new_def ok_store split: option.splits)
  from Cons.IH [OF this] show ?case
    using Cons.prems
    by (cases kv) (auto simp: store_new_def lookup_store split: option.splits)
qed (simp split: option.splits)

end

interpretation gm: kv_map "[] :: 'v gmap" gget gset wf_gmap
  by unfold_locales simp_all

section \<open>Lists\<close>

lemma set_mset_eq: "mset xs = mset ys \<Longrightarrow> set xs = set ys"
  by (rule mset_eq_setD)

lemma filter_partition_mset:
  "mset (filter P xs @ filter (\<lambda>x. \<not> P x) xs) = mset xs"
  by (induction xs) auto

text \<open>\<open>slices.Compact\<close>: runs of equal elements become one.\<close>

fun compact :: "'a list \<Rightarrow> 'a list" where
  "compact [] = []"
| "compact [x] = [x]"
| "compact (x # y # xs) = (if x = y then compact (y # xs) else x # compact (y # xs))"

lemma set_compact [simp]: "set (compact xs) = set xs"
  by (induction xs rule: compact.induct) auto

lemma sorted_distinct_compact:
  "sorted xs \<Longrightarrow> sorted (compact xs) \<and> distinct (compact xs)"
  by (induction xs rule: compact.induct) (auto simp: less_le)

end
