(* ===== verification/Go_Strings.thy ===== *)
theory Go_Strings
  imports Prelude "HOL-Library.Char_ord" "HOL-Library.List_Lexorder" "HOL-Library.Sublist"
begin

text \<open>
  The functions of Go's \<open>strings\<close> and \<open>strconv\<close> packages that the operator calls. A Go string is
  a sequence of bytes, and so is a HOL \<open>string\<close>, so lengths and indices agree. White space is
  Unicode white space in its UTF-8 encoding, as in \<open>unicode.IsSpace\<close>. The order on strings is
  the lexicographic order on bytes, which is the order of \<open>sort.Strings\<close>.
\<close>

named_theorems str_simps \<open>evaluation of the string functions\<close>

section \<open>Prefixes, substrings and separators\<close>

definition HasPrefix :: "string \<Rightarrow> string \<Rightarrow> bool" where
  "HasPrefix s p \<longleftrightarrow> take (length p) s = p"

definition HasSuffix :: "string \<Rightarrow> string \<Rightarrow> bool" where
  "HasSuffix s p \<longleftrightarrow> length p \<le> length s \<and> drop (length s - length p) s = p"

definition TrimPrefix :: "string \<Rightarrow> string \<Rightarrow> string" where
  "TrimPrefix s p = (if HasPrefix s p then drop (length p) s else s)"

text \<open>\<open>strings.Index\<close>: the first position of a substring, \<open>-1\<close> when there is none.\<close>

fun find_sub :: "string \<Rightarrow> string \<Rightarrow> nat option" where
  "find_sub [] p = (if p = [] then Some 0 else None)"
| "find_sub (c # s) p =
     (if HasPrefix (c # s) p then Some 0 else map_option Suc (find_sub s p))"

definition Index :: "string \<Rightarrow> string \<Rightarrow> int" where
  "Index s p = (case find_sub s p of None \<Rightarrow> -1 | Some i \<Rightarrow> int i)"

definition Contains :: "string \<Rightarrow> string \<Rightarrow> bool" where
  "Contains s p \<longleftrightarrow> 0 \<le> Index s p"

text \<open>\<open>s[:i]\<close> and \<open>s[i:]\<close> panic outside \<open>0..len(s)\<close>.\<close>

definition slice_to :: "string \<Rightarrow> int \<Rightarrow> ('e, string) go" where
  "slice_to s i = (if 0 \<le> i \<and> i \<le> int (length s) then Inr (take (nat i) s) else panic SliceBounds)"

definition slice_from :: "string \<Rightarrow> int \<Rightarrow> ('e, string) go" where
  "slice_from s i = (if 0 \<le> i \<and> i \<le> int (length s) then Inr (drop (nat i) s) else panic SliceBounds)"

lemma find_sub_bound: "find_sub s p = Some i \<Longrightarrow> i + length p \<le> length s"
proof (induction s p arbitrary: i rule: find_sub.induct)
  case (2 c s p)
  show ?case
  proof (cases "HasPrefix (c # s) p")
    case True
    have "length (take (length p) (c # s)) = length p"
      using True by (simp only: HasPrefix_def)
    with True 2 show ?thesis by (simp add: min_def split: if_splits)
  next
    case False
    with 2 show ?thesis by fastforce
  qed
qed (simp split: if_splits)

text \<open>\<open>strings.Split(s, sep)\<close> for a non-empty separator.\<close>

function Split :: "string \<Rightarrow> string \<Rightarrow> string list" where
  "Split s sep =
     (case find_sub s sep of
        None \<Rightarrow> [s]
      | Some i \<Rightarrow> if sep = [] then [s] else take i s # Split (drop (i + length sep) s) sep)"
  by pat_completeness auto
termination
proof (relation "measure (\<lambda>(s, _). length s)", simp)
  fix s sep :: string and i
  assume "find_sub s sep = Some i" "sep \<noteq> []"
  then show "((drop (i + length sep) s, sep), s, sep) \<in> measure (\<lambda>(s, _). length s)"
    using find_sub_bound [of s sep i] by (cases sep) auto
qed

declare Split.simps [simp del]

text \<open>\<open>strings.SplitN(s, sep, 2)\<close>: at most one cut, at the first separator.\<close>

definition SplitN2 :: "string \<Rightarrow> string \<Rightarrow> string list" where
  "SplitN2 s sep =
     (case find_sub s sep of None \<Rightarrow> [s] | Some i \<Rightarrow> [take i s, drop (i + length sep) s])"

fun Join :: "string list \<Rightarrow> string \<Rightarrow> string" where
  "Join [] sep = []"
| "Join [x] sep = x"
| "Join (x # y # xs) sep = x @ sep @ Join (y # xs) sep"

definition ReplaceAll :: "string \<Rightarrow> string \<Rightarrow> string \<Rightarrow> string" where
  "ReplaceAll s old new = Join (Split s old) new"

section \<open>White space\<close>

text \<open>The UTF-8 encodings of the code points for which \<open>unicode.IsSpace\<close> holds.\<close>

definition unicode_spaces :: "string list" where
  "unicode_spaces =
     [[CHR 0x09], [CHR 0x0A], [CHR 0x0B], [CHR 0x0C], [CHR 0x0D], [CHR 0x20],
      [CHR 0xC2, CHR 0x85], [CHR 0xC2, CHR 0xA0],
      [CHR 0xE1, CHR 0x9A, CHR 0x80],
      [CHR 0xE2, CHR 0x80, CHR 0x80], [CHR 0xE2, CHR 0x80, CHR 0x81], [CHR 0xE2, CHR 0x80, CHR 0x82],
      [CHR 0xE2, CHR 0x80, CHR 0x83], [CHR 0xE2, CHR 0x80, CHR 0x84], [CHR 0xE2, CHR 0x80, CHR 0x85],
      [CHR 0xE2, CHR 0x80, CHR 0x86], [CHR 0xE2, CHR 0x80, CHR 0x87], [CHR 0xE2, CHR 0x80, CHR 0x88],
      [CHR 0xE2, CHR 0x80, CHR 0x89], [CHR 0xE2, CHR 0x80, CHR 0x8A], [CHR 0xE2, CHR 0x80, CHR 0xA8],
      [CHR 0xE2, CHR 0x80, CHR 0xA9], [CHR 0xE2, CHR 0x80, CHR 0xAF],
      [CHR 0xE2, CHR 0x81, CHR 0x9F], [CHR 0xE3, CHR 0x80, CHR 0x80]]"

definition space_prefix :: "string \<Rightarrow> nat" where
  "space_prefix s = (case find (HasPrefix s) unicode_spaces of None \<Rightarrow> 0 | Some w \<Rightarrow> length w)"

definition space_suffix :: "string \<Rightarrow> nat" where
  "space_suffix s = (case find (HasSuffix s) unicode_spaces of None \<Rightarrow> 0 | Some w \<Rightarrow> length w)"

lemma unicode_spaces_nonempty: "w \<in> set unicode_spaces \<Longrightarrow> 0 < length w"
  by (auto simp: unicode_spaces_def)

lemma space_prefix_le: "space_prefix s \<le> length s"
  by (fastforce simp: space_prefix_def HasPrefix_def find_Some_iff split: option.splits
      dest!: arg_cong [of "take _ _" _ length])

lemma space_suffix_le: "space_suffix s \<le> length s"
  by (auto simp: space_suffix_def HasSuffix_def find_Some_iff split: option.splits)

function trim_left :: "string \<Rightarrow> string" where
  "trim_left s = (if space_prefix s = 0 then s else trim_left (drop (space_prefix s) s))"
  by pat_completeness auto
termination
proof (relation "measure length", simp)
  fix s assume "space_prefix s \<noteq> 0"
  then show "(drop (space_prefix s) s, s) \<in> measure length"
    using space_prefix_le [of s] by simp
qed

function trim_right :: "string \<Rightarrow> string" where
  "trim_right s = (if space_suffix s = 0 then s else trim_right (take (length s - space_suffix s) s))"
  by pat_completeness auto
termination
proof (relation "measure length", simp)
  fix s assume "space_suffix s \<noteq> 0"
  then show "(take (length s - space_suffix s) s, s) \<in> measure length"
    using space_suffix_le [of s] by simp
qed

declare trim_left.simps [simp del] trim_right.simps [simp del]

definition TrimSpace :: "string \<Rightarrow> string" where
  "TrimSpace s = trim_right (trim_left s)"

text \<open>\<open>strings.Fields\<close>: the maximal runs without white space.\<close>

function fields_from :: "string \<Rightarrow> string \<Rightarrow> string list" where
  "fields_from w s =
     (case s of
        [] \<Rightarrow> if w = [] then [] else [w]
      | c # s' \<Rightarrow>
          if space_prefix s = 0 then fields_from (w @ [c]) s'
          else (if w = [] then [] else [w]) @ fields_from [] (drop (space_prefix s) s))"
  by pat_completeness auto
termination
proof (relation "measure (\<lambda>(_, s). length s)", simp, simp)
  fix w s c and s' :: string
  assume "s = c # s'" "space_prefix s \<noteq> 0"
  then show "(([], drop (space_prefix s) s), w, s) \<in> measure (\<lambda>(_, s). length s)"
    using space_prefix_le [of s] by simp
qed

declare fields_from.simps [simp del]

definition Fields :: "string \<Rightarrow> string list" where
  "Fields s = fields_from [] s"

section \<open>Case\<close>

text \<open>
  \<open>strings.ToLower\<close>: ASCII strings are lowered byte by byte; the Unicode tables that apply to
  other strings are the parameter \<open>ulower\<close>.
\<close>

definition lower_ascii :: "char \<Rightarrow> char" where
  "lower_ascii c = (if 65 \<le> (of_char c :: nat) \<and> (of_char c :: nat) \<le> 90 then char_of ((of_char c :: nat) + 32) else c)"

definition ToLower :: "(string \<Rightarrow> string) \<Rightarrow> string \<Rightarrow> string" where
  "ToLower ulower s = (if list_all (\<lambda>c. (of_char c :: nat) < 128) s then map lower_ascii s else ulower s)"

section \<open>Numbers\<close>

definition digit_val :: "char \<Rightarrow> nat option" where
  "digit_val c =
     (let n = of_char c :: nat in
      if 48 \<le> n \<and> n \<le> 57 then Some (n - 48)
      else if 97 \<le> n \<and> n \<le> 122 then Some (n - 97 + 10)
      else if 65 \<le> n \<and> n \<le> 90 then Some (n - 65 + 10)
      else None)"

fun digits_val :: "nat \<Rightarrow> nat \<Rightarrow> string \<Rightarrow> nat option" where
  "digits_val base acc [] = Some acc"
| "digits_val base acc (c # s) =
     (case digit_val c of
        None \<Rightarrow> None
      | Some d \<Rightarrow> if d < base then digits_val base (acc * base + d) s else None)"

text \<open>\<open>strconv.ParseUint(s, base, bits)\<close> for an explicit base: no sign, no prefix, no underscore.\<close>

definition ParseUint :: "string \<Rightarrow> nat \<Rightarrow> nat \<Rightarrow> nat option" where
  "ParseUint s base bits =
     (if s = [] then None
      else case digits_val base 0 s of
             None \<Rightarrow> None
           | Some n \<Rightarrow> if n < 2 ^ bits then Some n else None)"

text \<open>\<open>strconv.Atoi\<close>: an optional sign, decimal digits, the range of a 64-bit int.\<close>

definition Atoi :: "string \<Rightarrow> int option" where
  "Atoi s =
     (let neg = HasPrefix s ''-'';
          body = (if neg \<or> HasPrefix s ''+'' then drop 1 s else s)
      in if body = [] then None
         else case digits_val 10 0 body of
                None \<Rightarrow> None
              | Some n \<Rightarrow>
                  if neg then (if int n \<le> 2 ^ 63 then Some (- int n) else None)
                  else (if int n < 2 ^ 63 then Some (int n) else None))"

fun nat_digits :: "nat \<Rightarrow> string" where
  "nat_digits n = (if n < 10 then [char_of (48 + n)] else nat_digits (n div 10) @ [char_of (48 + n mod 10)])"

declare nat_digits.simps [simp del]

text \<open>\<open>strconv.Itoa\<close>\<close>

definition Itoa :: "int \<Rightarrow> string" where
  "Itoa i = (if i < 0 then ''-'' @ nat_digits (nat (- i)) else nat_digits (nat i))"


section \<open>Durations\<close>

text \<open>
  Whether \<open>time.ParseDuration\<close> accepts a string: signed sequences of a decimal number and a
  unit, kept below \<open>2^63\<close> nanoseconds. The conversion of a fraction \<open>f / scale\<close> of a unit is
  64-bit floating point and is the parameter \<open>frac\<close> (\<open>uint64(float64(f) * (float64(unit) / scale))\<close>).
\<close>

definition is_dec :: "char \<Rightarrow> bool" where
  "is_dec c \<longleftrightarrow> 48 \<le> (of_char c :: nat) \<and> (of_char c :: nat) \<le> 57"

fun leadingInt :: "nat \<Rightarrow> string \<Rightarrow> (nat \<times> string) option" where
  "leadingInt x [] = Some (x, [])"
| "leadingInt x (c # s) =
     (if \<not> is_dec c then Some (x, c # s)
      else if 2 ^ 63 div 10 < x then None
      else let y = x * 10 + (of_char c - 48) in if 2 ^ 63 < y then None else leadingInt y s)"

fun leadingFraction :: "nat \<Rightarrow> nat \<Rightarrow> bool \<Rightarrow> string \<Rightarrow> nat \<times> nat \<times> string" where
  "leadingFraction x scale overflow [] = (x, scale, [])"
| "leadingFraction x scale overflow (c # s) =
     (if \<not> is_dec c then (x, scale, c # s)
      else if overflow \<or> (2 ^ 63 - 1) div 10 < x then leadingFraction x scale True s
      else let y = x * 10 + (of_char c - 48) in
        if 2 ^ 63 < y then leadingFraction x scale True s else leadingFraction y (scale * 10) False s)"

definition unit_ns :: "string \<Rightarrow> nat option" where
  "unit_ns u =
     map_of [(''ns'', 1), (''us'', 1000), ([CHR 0xC2, CHR 0xB5, CHR ''s''], 1000),
       ([CHR 0xCE, CHR 0xBC, CHR ''s''], 1000), (''ms'', 1000000), (''s'', 1000000000),
       (''m'', 60000000000), (''h'', 3600000000000)] u"

text \<open>One number with its unit: the nanoseconds it stands for and the rest of the string.\<close>

definition duration_step :: "(nat \<Rightarrow> nat \<Rightarrow> nat \<Rightarrow> nat) \<Rightarrow> string \<Rightarrow> (nat \<times> string) option" where
  "duration_step frac s =
     (if s = [] \<or> \<not> (hd s = CHR ''.'' \<or> is_dec (hd s)) then None
      else case leadingInt 0 s of
        None \<Rightarrow> None
      | Some (v, s1) \<Rightarrow>
          (let pre = length s1 \<noteq> length s;
               dot = HasPrefix s1 ''.'';
               (f, scale, s2) = (if dot then leadingFraction 0 1 False (drop 1 s1) else (0, 1, s1));
               post = dot \<and> length s2 \<noteq> length (drop 1 s1);
               u = takeWhile (\<lambda>c. \<not> (c = CHR ''.'' \<or> is_dec c)) s2
           in if \<not> pre \<and> \<not> post \<or> u = [] then None
              else case unit_ns u of
                None \<Rightarrow> None
              | Some unit \<Rightarrow>
                  if 2 ^ 63 div unit < v then None
                  else (let w = (if 0 < f then v * unit + frac f unit scale else v * unit) in
                    if 2 ^ 63 < w then None else Some (w, drop (length u) s2))))"

text \<open>Each step consumes at least a unit letter, so the length of the text bounds the loop.\<close>

fun duration_loop :: "(nat \<Rightarrow> nat \<Rightarrow> nat \<Rightarrow> nat) \<Rightarrow> nat \<Rightarrow> nat \<Rightarrow> string \<Rightarrow> nat option" where
  "duration_loop frac 0 d s = (if s = [] then Some d else None)"
| "duration_loop frac (Suc n) d s =
     (if s = [] then Some d
      else case duration_step frac s of
        None \<Rightarrow> None
      | Some (w, s') \<Rightarrow> if 2 ^ 63 < d + w then None else duration_loop frac n (d + w) s')"

definition ParseDuration_ok :: "(nat \<Rightarrow> nat \<Rightarrow> nat \<Rightarrow> nat) \<Rightarrow> string \<Rightarrow> bool" where
  "ParseDuration_ok frac s =
     (let neg = HasPrefix s ''-'';
          body = (if neg \<or> HasPrefix s ''+'' then drop 1 s else s)
      in if body = ''0'' then True
         else if body = [] then False
         else case duration_loop frac (length body) 0 body of
           None \<Rightarrow> False
         | Some d \<Rightarrow> neg \<or> d < 2 ^ 63)"

section \<open>Laws\<close>

lemma HasPrefix_iff: "HasPrefix s p \<longleftrightarrow> (\<exists>t. s = p @ t)"
proof
  assume "HasPrefix s p"
  then have "s = p @ drop (length p) s" by (metis HasPrefix_def append_take_drop_id)
  then show "\<exists>t. s = p @ t" ..
qed (auto simp: HasPrefix_def)

lemma HasPrefix_append [simp]: "HasPrefix (p @ t) p"
  by (simp add: HasPrefix_def)

lemma TrimPrefix_append [simp]: "TrimPrefix (p @ t) p = t"
  by (simp add: TrimPrefix_def)

lemma HasPrefix_TrimPrefix: "HasPrefix s p \<Longrightarrow> s = p @ TrimPrefix s p"
  by (auto simp: HasPrefix_iff)

lemma HasPrefix_single [simp]: "HasPrefix s [c] \<longleftrightarrow> s \<noteq> [] \<and> hd s = c"
  by (cases s) (auto simp: HasPrefix_def)

lemma HasPrefix_trans: "HasPrefix s t \<Longrightarrow> HasPrefix t p \<Longrightarrow> HasPrefix s p"
  by (auto simp: HasPrefix_iff)

lemma HasSuffix_iff: "HasSuffix s p \<longleftrightarrow> (\<exists>t. s = t @ p)"
proof
  assume h: "HasSuffix s p"
  then have "s = take (length s - length p) s @ p"
    by (metis HasSuffix_def append_take_drop_id)
  then show "\<exists>t. s = t @ p" ..
qed (auto simp: HasSuffix_def)

subsection \<open>Separators\<close>

lemma find_sub_None_single: "find_sub s [c] = None \<longleftrightarrow> c \<notin> set s"
  by (induction s) auto

lemma find_sub_single: "c \<notin> set a \<Longrightarrow> find_sub (a @ c # b) [c] = Some (length a)"
  by (induction a) auto

lemma find_sub_Some_single: "find_sub s [c] = Some i \<Longrightarrow> c \<notin> set (take i s) \<and> s = take i s @ c # drop (Suc i) s"
proof (induction s arbitrary: i)
  case (Cons d s)
  show ?case
  proof (cases "d = c")
    case False
    with Cons.prems obtain j where "find_sub s [c] = Some j" "i = Suc j" by auto
    with Cons.IH False show ?thesis by auto
  qed (use Cons.prems in auto)
qed simp

lemma find_sub_split: "find_sub s p = Some i \<Longrightarrow> s = take i s @ p @ drop (i + length p) s"
proof (induction s p arbitrary: i rule: find_sub.induct)
  case (2 c s p)
  show ?case
  proof (cases "HasPrefix (c # s) p")
    case True
    with 2 have "i = 0" by simp
    with True show ?thesis using HasPrefix_TrimPrefix [OF True] by (simp add: TrimPrefix_def)
  next
    case False
    with 2 obtain j where "find_sub s p = Some j" "i = Suc j" by auto
    with 2(1) [OF False] show ?thesis by auto
  qed
qed (auto split: if_splits)

lemma SplitN2_append: "c \<notin> set a \<Longrightarrow> SplitN2 (a @ c # b) [c] = [a, b]"
  by (simp add: SplitN2_def find_sub_single)

lemma SplitN2_no_sep: "c \<notin> set s \<Longrightarrow> SplitN2 s [c] = [s]"
  using find_sub_None_single [of s c] by (simp add: SplitN2_def)

lemma SplitN2_two: "SplitN2 s [c] = [a, b] \<Longrightarrow> s = a @ c # b \<and> c \<notin> set a"
  by (auto simp: SplitN2_def dest: find_sub_Some_single split: option.splits)

lemma SplitN2_length: "length (SplitN2 s p) = 2 \<longleftrightarrow> find_sub s p \<noteq> None"
  by (auto simp: SplitN2_def split: option.splits)

lemma Split_nonempty [simp]: "Split s sep \<noteq> []"
  by (subst Split.simps) (auto split: option.splits)

lemma Split_no_sep: "c \<notin> set s \<Longrightarrow> Split s [c] = [s]"
  using find_sub_None_single [of s c] by (subst Split.simps) simp

lemma Split_append: "c \<notin> set a \<Longrightarrow> Split (a @ c # b) [c] = a # Split b [c]"
  by (subst Split.simps) (simp add: find_sub_single)

text \<open>Joining what \<open>Split\<close> cut gives the string back.\<close>

lemma Join_Cons: "xs \<noteq> [] \<Longrightarrow> Join (x # xs) sep = x @ sep @ Join xs sep"
  by (cases xs) auto

lemma Join_Split: "Join (Split s sep) sep = s"
proof (induction s sep rule: Split.induct)
  case (1 s sep)
  show ?case
  proof (cases "find_sub s sep")
    case None
    then show ?thesis by (subst Split.simps) simp
  next
    case (Some i)
    show ?thesis
    proof (cases "sep = []")
      case False
      with Some have "Join (Split s sep) sep = take i s @ sep @ drop (i + length sep) s"
        using 1 by (subst Split.simps) (simp add: Join_Cons)
      with find_sub_split [OF Some] show ?thesis by simp
    qed (use Some in \<open>subst Split.simps, simp\<close>)
  qed
qed

text \<open>Splitting a join gives the parts back when no part holds the separator.\<close>

lemma Split_Join:
  "xs \<noteq> [] \<Longrightarrow> \<forall>x \<in> set xs. c \<notin> set x \<Longrightarrow> Split (Join xs [c]) [c] = xs"
proof (induction xs)
  case (Cons x xs)
  show ?case
  proof (cases "xs = []")
    case True
    with Cons.prems show ?thesis by (simp add: Split_no_sep)
  next
    case False
    with Cons show ?thesis by (simp add: Join_Cons Split_append)
  qed
qed simp

lemma Split_parts: "x \<in> set (Split s [c]) \<Longrightarrow> c \<notin> set x"
proof (induction s "[c]" rule: Split.induct)
  case (1 s)
  show ?case
  proof (cases "find_sub s [c]")
    case None
    with 1 show ?thesis using find_sub_None_single [of s c] by (subst (asm) (2) Split.simps) simp
  next
    case (Some i)
    with 1(2) have "x = take i s \<or> x \<in> set (Split (drop (i + 1) s) [c])"
      by (subst (asm) Split.simps) simp
    with Some 1(1) [OF Some] find_sub_Some_single [OF Some] show ?thesis by auto
  qed
qed

lemma Split_chars: "x \<in> set (Split s [c]) \<Longrightarrow> set x \<subseteq> set s"
proof (induction s "[c]" rule: Split.induct)
  case (1 s)
  show ?case
  proof (cases "find_sub s [c]")
    case None
    with 1 show ?thesis by (subst (asm) (2) Split.simps) simp
  next
    case (Some i)
    with 1(2) have "x = take i s \<or> x \<in> set (Split (drop (i + 1) s) [c])"
      by (subst (asm) Split.simps) simp
    with Some 1(1) [OF Some] show ?thesis
      using set_take_subset [of i s] set_drop_subset [of "i + 1" s] by auto
  qed
qed

subsection \<open>White space\<close>

text \<open>Printable ASCII other than the blank: never part of a white-space encoding.\<close>

definition graphic :: "char \<Rightarrow> bool" where
  "graphic c \<longleftrightarrow> 33 \<le> (of_char c :: nat) \<and> (of_char c :: nat) \<le> 126"

lemma spaces_not_graphic: "w \<in> set unicode_spaces \<Longrightarrow> \<not> graphic (hd w) \<and> \<not> graphic (last w)"
  by (auto simp: unicode_spaces_def graphic_def)

lemma space_prefix_graphic: "graphic c \<Longrightarrow> space_prefix (c # s) = 0"
proof (rule ccontr)
  assume c: "graphic c" and "space_prefix (c # s) \<noteq> 0"
  then obtain w where w: "w \<in> set unicode_spaces" "HasPrefix (c # s) w"
    by (auto simp: space_prefix_def find_Some_iff split: option.splits dest: nth_mem)
  then have "w \<noteq> []" using unicode_spaces_nonempty by blast
  with w have "hd w = c" "\<not> graphic (hd w)"
    using spaces_not_graphic by (auto simp: HasPrefix_iff) (metis hd_append2 list.sel(1))
  with c show False by simp
qed

lemma space_suffix_graphic: "graphic c \<Longrightarrow> space_suffix (s @ [c]) = 0"
proof (rule ccontr)
  assume c: "graphic c" and "space_suffix (s @ [c]) \<noteq> 0"
  then obtain w where "w \<in> set unicode_spaces" "HasSuffix (s @ [c]) w"
    by (auto simp: space_suffix_def find_Some_iff split: option.splits dest: nth_mem)
  moreover then have "w \<noteq> []" using unicode_spaces_nonempty by blast
  ultimately have "last w = c" "\<not> graphic (last w)"
    using spaces_not_graphic by (auto simp: HasSuffix_iff) (metis last_appendR last_snoc)
  with c show False by simp
qed

lemma space_prefix_Nil [simp]: "space_prefix [] = 0" and space_suffix_Nil [simp]: "space_suffix [] = 0"
  using space_prefix_le [of "[]"] space_suffix_le [of "[]"] by simp_all

lemma trim_left_graphic: "s = [] \<or> graphic (hd s) \<Longrightarrow> trim_left s = s"
  by (subst trim_left.simps) (cases s, auto simp: space_prefix_graphic)

lemma trim_right_graphic: "s = [] \<or> graphic (last s) \<Longrightarrow> trim_right s = s"
  by (subst trim_right.simps) (cases s rule: rev_cases, auto simp: space_suffix_graphic)

text \<open>Trimming leaves a string alone whose first and last bytes are graphic.\<close>

lemma TrimSpace_graphic: "s = [] \<or> graphic (hd s) \<and> graphic (last s) \<Longrightarrow> TrimSpace s = s"
  by (auto simp: TrimSpace_def trim_left_graphic trim_right_graphic)

lemma TrimSpace_blank: "graphic (hd s) \<Longrightarrow> s \<noteq> [] \<Longrightarrow> graphic (last s) \<Longrightarrow> TrimSpace (CHR '' '' # s) = s"
proof -
  assume s: "graphic (hd s)" "s \<noteq> []" "graphic (last s)"
  have "space_prefix (CHR '' '' # s) = 1"
    by (simp add: space_prefix_def unicode_spaces_def)
  then have "trim_left (CHR '' '' # s) = s"
    using s by (subst trim_left.simps) (simp add: trim_left_graphic)
  with s show ?thesis by (simp add: TrimSpace_def trim_right_graphic)
qed

lemma trim_left_suffix: "\<exists>w. s = w @ trim_left s"
proof (induction s rule: trim_left.induct)
  case (1 s)
  show ?case
  proof (cases "space_prefix s = 0")
    case True
    then show ?thesis by (subst trim_left.simps) simp
  next
    case False
    with 1 obtain w where "drop (space_prefix s) s = w @ trim_left (drop (space_prefix s) s)" by blast
    then have "s = (take (space_prefix s) s @ w) @ trim_left (drop (space_prefix s) s)"
      by (metis append.assoc append_take_drop_id)
    then have "\<exists>w. s = w @ trim_left (drop (space_prefix s) s)" ..
    with False show ?thesis by (subst trim_left.simps) simp
  qed
qed

lemma trim_right_prefix: "\<exists>w. s = trim_right s @ w"
proof (induction s rule: trim_right.induct)
  case (1 s)
  show ?case
  proof (cases "space_suffix s = 0")
    case True
    then show ?thesis by (subst trim_right.simps) simp
  next
    case False
    let ?n = "length s - space_suffix s"
    from False 1 obtain w where "take ?n s = trim_right (take ?n s) @ w" by blast
    then have "s = trim_right (take ?n s) @ w @ drop ?n s"
      by (metis append.assoc append_take_drop_id)
    then have "\<exists>w. s = trim_right (take ?n s) @ w" by blast
    with False show ?thesis by (subst trim_right.simps) simp
  qed
qed

lemma set_TrimSpace: "set (TrimSpace s) \<subseteq> set s"
  using trim_left_suffix [of s] trim_right_prefix [of "trim_left s"]
  by (metis TrimSpace_def le_sup_iff set_append subset_trans sup_ge1 sup_ge2)

lemma space_prefix_trim_left: "space_prefix (trim_left s) = 0"
proof (induction s rule: trim_left.induct)
  case (1 s)
  then show ?case by (subst trim_left.simps) simp
qed

lemma space_suffix_trim_right: "space_suffix (trim_right s) = 0"
proof (induction s rule: trim_right.induct)
  case (1 s)
  then show ?case by (subst trim_right.simps) simp
qed

lemma space_prefix_0_iff: "space_prefix s = 0 \<longleftrightarrow> (\<forall>w \<in> set unicode_spaces. \<not> HasPrefix s w)"
  using unicode_spaces_nonempty
  by (auto simp: space_prefix_def find_None_iff find_Some_iff split: option.splits dest: nth_mem)

lemma TrimSpace_idem: "TrimSpace (TrimSpace s) = TrimSpace s"
proof -
  obtain w where "trim_left s = TrimSpace s @ w"
    using trim_right_prefix [of "trim_left s"] by (auto simp: TrimSpace_def)
  then have "space_prefix (TrimSpace s) = 0"
    using space_prefix_trim_left [of s] by (auto simp: space_prefix_0_iff HasPrefix_iff)
  then have "trim_left (TrimSpace s) = TrimSpace s" by (subst trim_left.simps) simp
  moreover have "trim_right (TrimSpace s) = TrimSpace s"
    by (subst trim_right.simps) (simp add: TrimSpace_def space_suffix_trim_right)
  ultimately show ?thesis by (simp add: TrimSpace_def)
qed

subsection \<open>Numbers\<close>

lemma digit_val_digit: "d < 10 \<Longrightarrow> digit_val (char_of (48 + d)) = Some d"
  by (simp add: digit_val_def)

lemma digits_val_append:
  "digits_val base acc (s @ t) =
     (case digits_val base acc s of None \<Rightarrow> None | Some a \<Rightarrow> digits_val base a t)"
  by (induction base acc s rule: digits_val.induct) (auto split: option.splits)

lemma digits_val_nat_digits: "digits_val 10 0 (nat_digits n) = Some n"
proof (induction n rule: nat_digits.induct)
  case (1 n)
  show ?case
  proof (cases "n < 10")
    case True
    then show ?thesis by (subst nat_digits.simps) (simp add: digit_val_digit)
  next
    case False
    with 1 show ?thesis
      by (subst nat_digits.simps) (simp add: digits_val_append digit_val_digit)
  qed
qed

lemma nat_digits_chars: "c \<in> set (nat_digits n) \<Longrightarrow> 48 \<le> (of_char c :: nat) \<and> (of_char c :: nat) \<le> 57"
proof (induction n rule: nat_digits.induct)
  case (1 n)
  then show ?case
    by (cases "n < 10") (subst (asm) nat_digits.simps, auto)+
qed

lemma nat_digits_nonempty [simp]: "nat_digits n \<noteq> []"
  by (subst nat_digits.simps) simp

lemma nat_digits_no_sign: "\<not> HasPrefix (nat_digits n) ''-'' \<and> \<not> HasPrefix (nat_digits n) ''+''"
  using nat_digits_chars [of "hd (nat_digits n)" n] by (auto simp: hd_in_set)

lemma Atoi_Itoa: "- (2 ^ 63) \<le> i \<Longrightarrow> i < 2 ^ 63 \<Longrightarrow> Atoi (Itoa i) = Some i"
  using nat_digits_no_sign
  by (auto simp: Atoi_def Itoa_def Let_def digits_val_nat_digits)

lemma Atoi_range: "Atoi s = Some i \<Longrightarrow> - (2 ^ 63) \<le> i \<and> i < 2 ^ 63"
  by (auto simp: Atoi_def Let_def split: if_splits option.splits)

end
