(* ===== verification/Ptp_Types.thy ===== *)
theory Ptp_Types
  imports Go_Strings
begin

text \<open>
  The custom resources of API group \<open>ptp.openshift.io/v1\<close> (\<open>api/v1\<close>): PtpConfig, NodePtpDevice
  and PtpOperatorConfig, with the Kubernetes metadata the operator reads. A pointer is an
  option; an optional slice is a list, since the code treats a nil and an empty slice alike; a
  map that may be nil is an optional Go map. Integers of these types are only compared and
  stored, so they are unbounded \<open>int\<close>.
\<close>

section \<open>Kubernetes metadata\<close>

record OwnerReference =
  ref_APIVersion :: string
  ref_Kind :: string
  ref_Name :: string
  ref_UID :: string
  ref_Controller :: "bool option"
  ref_BlockOwnerDeletion :: "bool option"

record ObjectMeta =
  om_Name :: string
  om_Namespace :: string
  om_Generation :: int
  om_UID :: string
  om_ResourceVersion :: string
  om_OwnerReferences :: "OwnerReference list"

record NamespacedName =
  nn_Namespace :: string
  nn_Name :: string

text \<open>\<open>metav1.Condition\<close>; a time is a number of seconds, \<open>0\<close> being the zero time.\<close>

datatype ConditionStatus = ConditionTrue | ConditionFalse | ConditionUnknown

record Condition =
  cond_Type :: string
  cond_Status :: ConditionStatus
  cond_ObservedGeneration :: int
  cond_LastTransitionTime :: int
  cond_Reason :: string
  cond_Message :: string

section \<open>PtpConfig\<close>

record MatchRule =
  mr_NodeLabel :: "string option"
  mr_NodeName :: "string option"

record PtpRecommend =
  rec_Profile :: "string option"
  rec_Priority :: "int option"
  rec_Match :: "MatchRule list"

record NodeMatchList =
  nml_NodeName :: "string option"
  nml_Profile :: "string option"

record ProcessDowntimeThresholds =
  pdt_Ptp4l :: "int option"
  pdt_Phc2sys :: "int option"
  pdt_Ts2phc :: "int option"
  pdt_Synce4l :: "int option"
  pdt_Chronyd :: "int option"
  pdt_Gpsd :: "int option"
  pdt_Gpspipe :: "int option"

record PtpClockThreshold =
  ct_HoldOverTimeout :: int
  ct_MaxOffsetThreshold :: int
  ct_MinOffsetThreshold :: int
  ct_SysOffsetInSyncThreshold :: "int option"
  ct_SysOffsetOutOfSyncThreshold :: "int option"
  ct_SysOffsetSamples :: "int option"
  ct_ProcessDowntimeThresholds :: "ProcessDowntimeThresholds option"
  ct_PtpSourceQualifiedThreshold :: "int option"
  ct_PtpSourceDisqualifiedThreshold :: "int option"
  ct_PtpSourceQualifiedSamples :: "int option"
  ct_PtpSourceDisqualifiedSamples :: "int option"
  ct_PtpSourceUseS3 :: bool

text \<open>A plugin value is raw JSON, kept as its bytes.\<close>

record PtpProfile =
  pf_Name :: "string option"
  pf_Interface :: "string option"
  pf_Ptp4lOpts :: "string option"
  pf_Phc2sysOpts :: "string option"
  pf_Ts2PhcOpts :: "string option"
  pf_Synce4lOpts :: "string option"
  pf_ChronydOpts :: "string option"
  pf_Ptp4lConf :: "string option"
  pf_Phc2sysConf :: "string option"
  pf_Ts2PhcConf :: "string option"
  pf_Synce4lConf :: "string option"
  pf_ChronydConf :: "string option"
  pf_PtpSchedulingPolicy :: "string option"
  pf_PtpSchedulingPriority :: "int option"
  pf_PtpClockThreshold :: "PtpClockThreshold option"
  pf_PtpSettings :: "string gmap option"
  pf_Plugins :: "string option gmap option"

record PtpConfigSpec =
  spec_Profile :: "PtpProfile list"
  spec_Recommend :: "PtpRecommend list"

record ProfileStatus =
  ps_Name :: string
  ps_ControlledBy :: string
  ps_Controls :: "string list"
  ps_HaMembers :: "string list"
  ps_PartOfHa :: string
  ps_HasPhc2sys :: bool
  ps_ClockType :: string
  ps_AppliedOnNodes :: "string list"
  ps_HardwareConfigs :: "string list"

record PtpConfigStatus =
  st_MatchList :: "NodeMatchList list"
  st_ObservedGeneration :: int
  st_ProfileStatuses :: "ProfileStatus list"
  st_Warnings :: "string list"
  st_Conditions :: "Condition list"

record PtpConfig =
  cfg_Meta :: ObjectMeta
  cfg_Spec :: PtpConfigSpec
  cfg_Status :: PtpConfigStatus

abbreviation cfg_Name :: "PtpConfig \<Rightarrow> string" where
  "cfg_Name c \<equiv> om_Name (cfg_Meta c)"

abbreviation cfg_Namespace :: "PtpConfig \<Rightarrow> string" where
  "cfg_Namespace c \<equiv> om_Namespace (cfg_Meta c)"

abbreviation cfg_Profile :: "PtpConfig \<Rightarrow> PtpProfile list" where
  "cfg_Profile c \<equiv> spec_Profile (cfg_Spec c)"

abbreviation cfg_Recommend :: "PtpConfig \<Rightarrow> PtpRecommend list" where
  "cfg_Recommend c \<equiv> spec_Recommend (cfg_Spec c)"

type_synonym PtpConfigList = "PtpConfig list"

section \<open>NodePtpDevice\<close>

record HardwareInfo =
  hwi_PCIAddress :: string
  hwi_VendorID :: string
  hwi_DeviceID :: string
  hwi_SubsystemVendorID :: string
  hwi_SubsystemDeviceID :: string
  hwi_FirmwareVersion :: string
  hwi_DriverVersion :: string
  hwi_LinkStatus :: string
  hwi_LinkSpeed :: string
  hwi_FEC :: string
  hwi_VPDIdentifierString :: string
  hwi_VPDPartNumber :: string
  hwi_VPDSerialNumber :: string
  hwi_VPDManufacturerID :: string
  hwi_VPDProductName :: string
  hwi_VPDVendorSpecific1 :: string
  hwi_VPDVendorSpecific2 :: string

record PtpDevice =
  dev_Name :: string
  dev_Profile :: string
  dev_HardwareInfo :: "HardwareInfo option"

record HwConfig =
  hwc_DeviceID :: string
  hwc_VendorID :: string
  hwc_Failed :: bool
  hwc_Status :: string
  hwc_Config :: "string option"

record SystemInfo =
  sys_Manufacturer :: string
  sys_ProductName :: string
  sys_Version :: string
  sys_SerialNumber :: string
  sys_SKUNumber :: string
  sys_Family :: string

record BaseBoardInfo =
  bb_Manufacturer :: string
  bb_ProductName :: string
  bb_Version :: string
  bb_SerialNumber :: string

record NodeProfileStatus =
  nps_Name :: string
  nps_ClockType :: string

record SyncStatus =
  sync_Profiles :: "NodeProfileStatus list"

record NodePtpDeviceStatus =
  nds_Devices :: "PtpDevice list"
  nds_Hwconfig :: "HwConfig list"
  nds_SystemInfo :: "SystemInfo option"
  nds_BaseBoardInfo :: "BaseBoardInfo option"
  nds_Sync :: "SyncStatus option"
  nds_Conditions :: "Condition list"

record NodePtpDevice =
  npd_Meta :: ObjectMeta
  npd_Status :: NodePtpDeviceStatus

section \<open>PtpOperatorConfig\<close>

record PtpEventConfig =
  ev_EnableEventPublisher :: bool
  ev_TransportHost :: string
  ev_StorageType :: string
  ev_ApiVersion :: string

record PtpOperatorConfigSpec =
  op_DaemonNodeSelector :: "string gmap"
  op_EventConfig :: "PtpEventConfig option"
  op_EnabledPlugins :: "string option gmap option"

record PtpOperatorConfig =
  oc_Meta :: ObjectMeta
  oc_Spec :: PtpOperatorConfigSpec

section \<open>Cluster nodes\<close>

text \<open>The parts of \<open>corev1.Node\<close> the operator reads: the name and the labels.\<close>

record Node =
  node_Name :: string
  node_Labels :: "string gmap"

section \<open>Values used to write concrete objects\<close>

definition empty_meta :: ObjectMeta where
  "empty_meta = \<lparr>om_Name = '''', om_Namespace = '''', om_Generation = 0, om_UID = '''',
     om_ResourceVersion = '''', om_OwnerReferences = []\<rparr>"

definition empty_profile :: PtpProfile where
  "empty_profile = \<lparr>pf_Name = None, pf_Interface = None, pf_Ptp4lOpts = None, pf_Phc2sysOpts = None,
     pf_Ts2PhcOpts = None, pf_Synce4lOpts = None, pf_ChronydOpts = None, pf_Ptp4lConf = None,
     pf_Phc2sysConf = None, pf_Ts2PhcConf = None, pf_Synce4lConf = None, pf_ChronydConf = None,
     pf_PtpSchedulingPolicy = None, pf_PtpSchedulingPriority = None, pf_PtpClockThreshold = None,
     pf_PtpSettings = None, pf_Plugins = None\<rparr>"

definition empty_status :: PtpConfigStatus where
  "empty_status = \<lparr>st_MatchList = [], st_ObservedGeneration = 0, st_ProfileStatuses = [],
     st_Warnings = [], st_Conditions = []\<rparr>"

definition mk_config :: "string \<Rightarrow> PtpProfile list \<Rightarrow> PtpRecommend list \<Rightarrow> PtpConfig" where
  "mk_config n ps rs = \<lparr>cfg_Meta = empty_meta\<lparr>om_Name := n\<rparr>,
     cfg_Spec = \<lparr>spec_Profile = ps, spec_Recommend = rs\<rparr>, cfg_Status = empty_status\<rparr>"

lemmas sample_defs = empty_meta_def empty_profile_def empty_status_def mk_config_def

section \<open>Schema rules carried by the types\<close>

text \<open>
  The kubebuilder markers on \<open>PtpClockThreshold\<close> become checks of the API server: the minima of
  the fields, and the rule that a disqualification threshold is not below the qualification one.
\<close>

definition at_least :: "int \<Rightarrow> int option \<Rightarrow> bool" where
  "at_least lo v = (case v of None \<Rightarrow> True | Some n \<Rightarrow> lo \<le> n)"

definition in_day :: "int option \<Rightarrow> bool" where
  "in_day v = (case v of None \<Rightarrow> True | Some n \<Rightarrow> 0 \<le> n \<and> n \<le> 86400)"

definition downtime_schema_ok :: "ProcessDowntimeThresholds \<Rightarrow> bool" where
  "downtime_schema_ok t \<longleftrightarrow>
     in_day (pdt_Ptp4l t) \<and> in_day (pdt_Phc2sys t) \<and> in_day (pdt_Ts2phc t) \<and> in_day (pdt_Synce4l t)
     \<and> in_day (pdt_Chronyd t) \<and> in_day (pdt_Gpsd t) \<and> in_day (pdt_Gpspipe t)"

definition threshold_schema_ok :: "PtpClockThreshold \<Rightarrow> bool" where
  "threshold_schema_ok t \<longleftrightarrow>
     at_least 0 (ct_SysOffsetInSyncThreshold t) \<and> at_least 0 (ct_SysOffsetOutOfSyncThreshold t)
     \<and> at_least 1 (ct_SysOffsetSamples t)
     \<and> at_least 1 (ct_PtpSourceQualifiedThreshold t) \<and> at_least 1 (ct_PtpSourceDisqualifiedThreshold t)
     \<and> at_least 1 (ct_PtpSourceQualifiedSamples t) \<and> at_least 1 (ct_PtpSourceDisqualifiedSamples t)
     \<and> (case ct_ProcessDowntimeThresholds t of None \<Rightarrow> True | Some d \<Rightarrow> downtime_schema_ok d)
     \<and> (ct_PtpSourceQualifiedThreshold t = None \<or> ct_PtpSourceDisqualifiedThreshold t = None
        \<or> the (ct_PtpSourceDisqualifiedThreshold t) \<ge> the (ct_PtpSourceQualifiedThreshold t))"

end
