(* ===== verification/Ptp4l_Conf.thy ===== *)
theory Ptp4l_Conf
  imports Ptp_Types
begin

text \<open>
  The ptp4l configuration text of a profile (\<open>api/v1/ptpconfig_webhook.go\<close>): the parser
  \<open>PopulatePtp4lConf\<close>, the option lookup, and the extraction of the interfaces that act as
  time transmitter or time receiver. The parser fills its receiver in place and returns an
  error, so its result is the receiver as it is at the return together with the error, if any:
  the webhook ignores the error and goes on with what was filled in.
\<close>

section \<open>State\<close>

text \<open>A section is its map of options.\<close>

type_synonym Ptp4lConfSection = "string gmap"

record Ptp4lConf =
  sections :: "Ptp4lConfSection gmap"
  sectionOrder :: "string list"

datatype conf_error = SectionMissingBracket | OptionNotInSection

datatype PtpRole = Master | Slave

fun role_int :: "PtpRole \<Rightarrow> int" where
  "role_int Master = 1"
| "role_int Slave = 0"

section \<open>Operations\<close>

definition GetOption :: "Ptp4lConf \<Rightarrow> string \<Rightarrow> string \<Rightarrow> string" where
  "GetOption p sect key =
     (case gget (sections p) sect of
        Some options \<Rightarrow> (case gget options key of Some val \<Rightarrow> val | None \<Rightarrow> '''')
      | None \<Rightarrow> '''')"

text \<open>One line of the text, with the section the parser is in (empty before the first header).\<close>

definition parse_line :: "string \<Rightarrow> Ptp4lConf \<Rightarrow> string \<Rightarrow> conf_error + string \<times> Ptp4lConf" where
  "parse_line currentSection out line =
     (if HasPrefix line ''['' then
        (let currentLine = Split line '']'' in
         if length currentLine < 2 then Inl SectionMissingBracket
         else
           (let cur = hd currentLine @ '']'';
                order' = (if gget (sections out) cur = None then sectionOrder out @ [cur]
                          else sectionOrder out)
            in Inr (cur, out\<lparr>sections := gset (sections out) cur [], sectionOrder := order'\<rparr>)))
      else if currentSection \<noteq> '''' then
        (case find_sub line '' '' of
           Some (Suc n) \<Rightarrow>
             (let options = (case gget (sections out) currentSection of Some m \<Rightarrow> m | None \<Rightarrow> []);
                  options' = gset options (take (Suc n) line) (TrimSpace (drop (Suc (Suc n)) line))
              in Inr (currentSection, out\<lparr>sections := gset (sections out) currentSection options'\<rparr>))
         | _ \<Rightarrow> Inr (currentSection, out))
      else Inl OptionNotInSection)"

fun parse_lines :: "string \<Rightarrow> Ptp4lConf \<Rightarrow> string list \<Rightarrow> Ptp4lConf \<times> conf_error option" where
  "parse_lines currentSection out [] = (out, None)"
| "parse_lines currentSection out (line # lines) =
     (case parse_line currentSection out line of
        Inl e \<Rightarrow> (out, Some e)
      | Inr (cur, out') \<Rightarrow> parse_lines cur out' lines)"

definition newline :: string where
  "newline = [CHR 0x0A]"

definition empty_conf :: Ptp4lConf where
  "empty_conf = \<lparr>sections = [], sectionOrder = []\<rparr>"

definition PopulatePtp4lConf :: "string option \<Rightarrow> string option \<Rightarrow> Ptp4lConf \<times> conf_error option" where
  "PopulatePtp4lConf config ptp4lopts =
     (let string_config = (case config of Some c \<Rightarrow> c | None \<Rightarrow> '''');
          lines = Split string_config newline
      in case parse_lines '''' empty_conf lines of
           (out, Some e) \<Rightarrow> (out, Some e)
         | (out, None) \<Rightarrow>
             (if gget (sections out) ''[global]'' = None
              then (out\<lparr>sections := gset (sections out) ''[global]'' []\<rparr>, None)
              else (out, None)))"

definition strip_brackets :: "string \<Rightarrow> string" where
  "strip_brackets s = TrimSpace (ReplaceAll (ReplaceAll s ''['' '''') '']'' '''')"

definition getInterfaces :: "Ptp4lConf \<Rightarrow> PtpRole \<Rightarrow> string list" where
  "getInterfaces input mode =
     map (\<lambda>index. strip_brackets (strip_brackets index))
       (filter (\<lambda>index.
          TrimSpace (gget_str (case gget (sections input) index of Some s \<Rightarrow> s | None \<Rightarrow> []) ''masterOnly'')
            = Itoa (role_int mode)) (sectionOrder input))"

definition GetInterfaces :: "PtpConfig \<Rightarrow> PtpRole \<Rightarrow> string list" where
  "GetInterfaces config mode =
     (case cfg_Profile config of
        [] \<Rightarrow> []
      | p0 # _ \<Rightarrow>
          (let conf = fst (PopulatePtp4lConf (pf_Ptp4lConf p0) None);
               interfaces = getInterfaces conf mode;
               finalInterfaces =
                 concat (map (\<lambda>aIf.
                   if aIf = ''global'' then (case pf_Interface p0 of Some i \<Rightarrow> [i] | None \<Rightarrow> [])
                   else [aIf]) interfaces)
           in if interfaces = [] \<and> mode = Slave \<and> pf_Interface p0 \<noteq> None
              then finalInterfaces @ [the (pf_Interface p0)]
              else finalInterfaces))"

section \<open>The invariant of a parsed configuration\<close>

text \<open>A section key: an opening bracket, no closing bracket inside, a closing bracket.\<close>

definition section_key :: "string \<Rightarrow> bool" where
  "section_key k \<longleftrightarrow> (\<exists>b. k = CHR ''['' # b @ '']'' \<and> CHR '']'' \<notin> set b)"

definition conf_inv :: "Ptp4lConf \<Rightarrow> bool" where
  "conf_inv c \<longleftrightarrow>
     wf_gmap (sections c) \<and> (\<forall>k m. gget (sections c) k = Some m \<longrightarrow> wf_gmap m)
     \<and> distinct (sectionOrder c) \<and> set (sectionOrder c) \<subseteq> set (gkeys (sections c))
     \<and> set (gkeys (sections c)) \<subseteq> insert ''[global]'' (set (sectionOrder c))
     \<and> (\<forall>k \<in> set (gkeys (sections c)). section_key k)"

lemma header_section_key:
  assumes "HasPrefix line ''[''" "\<not> length (Split line '']'') < 2"
  shows "section_key (hd (Split line '']'') @ '']'')"
proof -
  have h: "hd (Split line '']'') \<in> set (Split line '']'')" by simp
  then have nb: "CHR '']'' \<notin> set (hd (Split line '']''))" by (rule Split_parts)
  obtain x y zs where s: "Split line '']'' = x # y # zs"
    using assms(2) by (cases "Split line '']''" rule: remdups_adj.cases) auto
  then have "line = x @ '']'' @ Join (y # zs) '']''" using Join_Split [of line "'']''"] by simp
  with assms(1) s nb have "\<exists>b. x = CHR ''['' # b" by (cases x) auto
  with s nb show ?thesis by (auto simp: section_key_def)
qed

lemma conf_inv_empty: "conf_inv empty_conf"
  by (simp add: conf_inv_def empty_conf_def gkeys_def)

lemma conf_inv_set_section:
  "conf_inv out \<Longrightarrow> gget (sections out) cur \<noteq> None \<Longrightarrow> wf_gmap m \<Longrightarrow>
     conf_inv (out\<lparr>sections := gset (sections out) cur m\<rparr>)"
  by (auto simp: conf_inv_def gkeys_gset gget_eq_None_iff insert_absorb)

lemma conf_inv_new_section:
  "conf_inv out \<Longrightarrow> section_key c \<Longrightarrow>
     conf_inv (out\<lparr>sections := gset (sections out) c [],
       sectionOrder := (if gget (sections out) c = None then sectionOrder out @ [c] else sectionOrder out)\<rparr>)"
  by (auto simp: conf_inv_def gkeys_gset gget_eq_None_iff)

text \<open>What a line does: a header opens its section, an option line sets one option of it.\<close>

lemma parse_line_header:
  "HasPrefix line ''['' \<Longrightarrow> \<not> length (Split line '']'') < 2 \<Longrightarrow> c = hd (Split line '']'') @ '']'' \<Longrightarrow>
   parse_line cur out line = Inr (c, out\<lparr>sections := gset (sections out) c [],
       sectionOrder := (if gget (sections out) c = None then sectionOrder out @ [c] else sectionOrder out)\<rparr>)"
  by (simp add: parse_line_def Let_def)

lemma parse_line_option:
  "\<not> HasPrefix line ''['' \<Longrightarrow> cur \<noteq> '''' \<Longrightarrow> gget (sections out) cur = Some m \<Longrightarrow>
   find_sub line '' '' = Some (Suc n) \<Longrightarrow>
   parse_line cur out line =
     Inr (cur, out\<lparr>sections := gset (sections out) cur (gset m (take (Suc n) line) (TrimSpace (drop (Suc (Suc n)) line)))\<rparr>)"
  by (simp add: parse_line_def Let_def del: HasPrefix_single)

lemma parse_line_inv:
  assumes "conf_inv out" "cur = '''' \<or> gget (sections out) cur \<noteq> None"
    and "parse_line cur out line = Inr (cur', out')"
  shows "conf_inv out' \<and> gget (sections out') cur' \<noteq> None \<and> cur' \<noteq> ''''"
proof (cases "HasPrefix line ''[''")
  case True
  let ?c = "hd (Split line '']'') @ '']''"
  from True assms(3) have l: "\<not> length (Split line '']'') < 2"
    by (auto simp: parse_line_def Let_def split: if_splits)
  have "conf_inv (out\<lparr>sections := gset (sections out) ?c [],
       sectionOrder := (if gget (sections out) ?c = None then sectionOrder out @ [?c] else sectionOrder out)\<rparr>)"
    by (rule conf_inv_new_section [OF assms(1) header_section_key [OF True l]])
  with parse_line_header [OF True l refl, of cur out] assms(3) show ?thesis by auto
next
  case False
  with assms(3) have ne: "cur \<noteq> ''''" by (auto simp: parse_line_def split: if_splits)
  with assms(2) obtain m where m: "gget (sections out) cur = Some m" by blast
  with assms(1) have wm: "wf_gmap m" by (auto simp: conf_inv_def)
  show ?thesis
  proof (cases "\<exists>n. find_sub line '' '' = Some (Suc n)")
    case True
    then obtain n where n: "find_sub line '' '' = Some (Suc n)" ..
    from parse_line_option [OF False ne m n] assms(3) conf_inv_set_section [OF assms(1), of cur] m wm ne
    show ?thesis by auto
  next
    case nf: False
    have "parse_line cur out line = Inr (cur, out)"
      using False ne nf by (auto simp: parse_line_def split: option.splits nat.splits)
    with assms(1,3) m ne show ?thesis by auto
  qed
qed

lemma parse_lines_inv:
  "conf_inv out \<Longrightarrow> cur = '''' \<or> gget (sections out) cur \<noteq> None \<Longrightarrow> conf_inv (fst (parse_lines cur out lines))"
proof (induction lines arbitrary: cur out)
  case (Cons line lines)
  show ?case
  proof (cases "parse_line cur out line")
    case (Inr p)
    obtain cur' out' where p: "p = (cur', out')" by (cases p)
    with parse_line_inv [OF Cons.prems] Inr have "conf_inv out'" "gget (sections out') cur' \<noteq> None" by auto
    with Cons.IH [of out' cur'] Inr p show ?thesis by simp
  qed (use Cons.prems in simp)
qed simp

lemma section_key_global: "section_key ''[global]''"
proof -
  have "''[global]'' = CHR ''['' # ''global'' @ '']'' \<and> CHR '']'' \<notin> set ''global''" by simp
  then show ?thesis unfolding section_key_def by blast
qed

lemma conf_inv_add_global:
  "conf_inv out \<Longrightarrow> conf_inv (out\<lparr>sections := gset (sections out) ''[global]'' []\<rparr>)"
  using section_key_global by (auto simp: conf_inv_def gkeys_gset)

lemma populate_inv: "conf_inv (fst (PopulatePtp4lConf config opts))"
proof -
  let ?r = "parse_lines '''' empty_conf (Split (case config of Some c \<Rightarrow> c | None \<Rightarrow> '''') newline)"
  have "conf_inv (fst ?r)" by (rule parse_lines_inv [OF conf_inv_empty]) simp
  then show ?thesis
    using conf_inv_add_global by (cases ?r) (auto simp: PopulatePtp4lConf_def Let_def split: option.splits)
qed

lemma populate_ok_global:
  "snd (PopulatePtp4lConf config opts) = None \<Longrightarrow>
     gget (sections (fst (PopulatePtp4lConf config opts))) ''[global]'' \<noteq> None"
  by (auto simp: PopulatePtp4lConf_def Let_def split: prod.splits option.splits if_splits)

section \<open>When parsing fails\<close>

lemma Split_bracket: "length (Split line [c]) < 2 \<longleftrightarrow> c \<notin> set line"
proof
  assume "c \<notin> set line"
  then show "length (Split line [c]) < 2" by (simp add: Split_no_sep)
next
  assume l: "length (Split line [c]) < 2"
  show "c \<notin> set line"
  proof
    assume "c \<in> set line"
    then obtain a b where "line = a @ c # b" "c \<notin> set a" by (meson split_list_first)
    with l show False by (cases "Split b [c]") (auto simp: Split_append)
  qed
qed

definition header_ok :: "string \<Rightarrow> bool" where
  "header_ok line \<longleftrightarrow> (HasPrefix line ''['' \<longrightarrow> CHR '']'' \<in> set line)"

lemma parse_line_ok_iff:
  "(\<exists>p. parse_line cur out line = Inr p) \<longleftrightarrow> header_ok line \<and> (HasPrefix line ''['' \<or> cur \<noteq> '''')"
  by (auto simp: parse_line_def Let_def header_ok_def Split_bracket split: option.splits nat.splits)

lemma parse_line_cur: "parse_line cur out line = Inr (cur', out') \<Longrightarrow> cur' \<noteq> ''''"
  by (auto simp: parse_line_def Let_def split: option.splits nat.splits if_splits)

lemma parse_lines_ok_iff:
  "snd (parse_lines cur out lines) = None \<longleftrightarrow>
     list_all header_ok lines \<and> (lines = [] \<or> HasPrefix (hd lines) ''['' \<or> cur \<noteq> '''')"
proof (induction lines arbitrary: cur out)
  case (Cons line lines)
  show ?case
  proof (cases "parse_line cur out line")
    case (Inl e)
    with parse_line_ok_iff [of cur out line] show ?thesis by auto
  next
    case (Inr p)
    obtain cur' out' where p: "p = (cur', out')" by (cases p)
    with Inr have "cur' \<noteq> ''''" using parse_line_cur by blast
    with Cons.IH [of cur' out'] Inr p parse_line_ok_iff [of cur out line] show ?thesis by auto
  qed
qed simp

section \<open>Printing\<close>

text \<open>A configuration written as text: a header per section, then \<open>key value\<close> lines.\<close>

definition print_option :: "string \<times> string \<Rightarrow> string" where
  "print_option kv = fst kv @ CHR '' '' # snd kv"

definition print_section :: "string \<times> string gmap \<Rightarrow> string list" where
  "print_section s = fst s # map print_option (snd s)"

definition print_conf :: "Ptp4lConfSection gmap \<Rightarrow> string" where
  "print_conf cs = Join (concat (map print_section cs)) newline"

definition option_ok :: "string \<times> string \<Rightarrow> bool" where
  "option_ok kv \<longleftrightarrow> fst kv \<noteq> '''' \<and> hd (fst kv) \<noteq> CHR ''['' \<and> CHR '' '' \<notin> set (fst kv)
     \<and> TrimSpace (snd kv) = snd kv \<and> CHR 0x0A \<notin> set (fst kv) \<and> CHR 0x0A \<notin> set (snd kv)"

definition source_ok :: "Ptp4lConfSection gmap \<Rightarrow> bool" where
  "source_ok cs \<longleftrightarrow> wf_gmap cs \<and>
     list_all (\<lambda>(n, os). section_key n \<and> CHR 0x0A \<notin> set n \<and> wf_gmap os \<and> list_all option_ok os) cs"

lemma gset_last: "k \<notin> set (gkeys m) \<Longrightarrow> gset (m @ [(k, w)]) k v = m @ [(k, v)]"
  by (induction m k v rule: gset.induct) (auto simp: gkeys_def)

lemma gget_append: "gget (m @ n) k = (case gget m k of Some v \<Rightarrow> Some v | None \<Rightarrow> gget n k)"
  by (induction m) (auto simp: gget_def split: option.splits)

lemma gkeys_append: "gkeys (m @ n) = gkeys m @ gkeys n"
  by (simp add: gkeys_def)

lemma gget_last: "k \<notin> set (gkeys m) \<Longrightarrow> gget (m @ [(k, w)]) k = Some w"
  by (simp add: gget_append gget_eq_None_iff [THEN iffD2] gget_Cons)

lemma parse_print_option:
  assumes "option_ok (k, v)" "cur \<noteq> ''''" "gget (sections out) cur = Some m"
  shows "parse_line cur out (print_option (k, v)) =
     Inr (cur, out\<lparr>sections := gset (sections out) cur (gset m k v)\<rparr>)"
proof -
  from assms(1) have "\<not> HasPrefix (print_option (k, v)) ''[''"
    and f: "find_sub (print_option (k, v)) '' '' = Some (length k)" and k: "k \<noteq> ''''"
    by (auto simp: option_ok_def print_option_def find_sub_single)
  with parse_line_option [OF this(1) assms(2,3), of "length k - 1"] assms(1) show ?thesis
    by (auto simp: print_option_def option_ok_def)
qed

lemma parse_print_header:
  assumes "section_key n"
  shows "parse_line cur out n = Inr (n, out\<lparr>sections := gset (sections out) n [],
     sectionOrder := (if gget (sections out) n = None then sectionOrder out @ [n] else sectionOrder out)\<rparr>)"
proof -
  from assms obtain b where n: "n = CHR ''['' # b @ '']''" "CHR '']'' \<notin> set b"
    by (auto simp: section_key_def)
  then have "Split n '']'' = (CHR ''['' # b) # Split [] '']''"
    using Split_append [of "CHR '']''" "CHR ''['' # b" "[]"] by simp
  then have "Split n '']'' = [CHR ''['' # b, []]" by (simp add: Split_no_sep)
  with n show ?thesis by (intro parse_line_header) auto
qed

lemma parse_print_options:
  assumes "n \<noteq> ''''" "n \<notin> set (gkeys pre)" "list_all option_ok os" "distinct (gkeys (os0 @ os))"
  shows "parse_lines n \<lparr>sections = pre @ [(n, os0)], sectionOrder = ord\<rparr> (map print_option os @ rest) =
         parse_lines n \<lparr>sections = pre @ [(n, os0 @ os)], sectionOrder = ord\<rparr> rest"
  using assms(3,4)
proof (induction os arbitrary: os0)
  case (Cons kv os)
  obtain k v where kv: "kv = (k, v)" by (cases kv)
  let ?out = "\<lparr>sections = pre @ [(n, os0)], sectionOrder = ord\<rparr>"
  have m: "gget (sections ?out) n = Some os0" using assms(2) by (simp add: gget_last)
  have "k \<notin> set (gkeys os0)" using Cons.prems kv by (simp add: gkeys_append) (simp add: gkeys_def)
  then have "gset (sections ?out) n (gset os0 k v) = pre @ [(n, os0 @ [(k, v)])]"
    using assms(2) by (simp add: gset_fresh gset_last)
  with parse_print_option [of k v n ?out os0] m Cons.prems kv assms(1)
  have "parse_line n ?out (print_option kv) = Inr (n, \<lparr>sections = pre @ [(n, os0 @ [kv])], sectionOrder = ord\<rparr>)"
    by simp
  with Cons.IH [of "os0 @ [kv]"] Cons.prems show ?case by simp
qed simp

lemma parse_print_sections:
  assumes "source_ok (pre @ cs)"
  shows "parse_lines cur \<lparr>sections = pre, sectionOrder = map fst pre\<rparr> (concat (map print_section cs)) =
     (\<lparr>sections = pre @ cs, sectionOrder = map fst (pre @ cs)\<rparr>, None)"
  using assms
proof (induction cs arbitrary: pre cur)
  case (Cons s cs)
  obtain n os where s: "s = (n, os)" by (cases s)
  from Cons.prems s have sec: "section_key n" and os: "list_all option_ok os" "distinct (gkeys ([] @ os))"
    and nd: "n \<notin> set (gkeys pre)"
    by (auto simp: source_ok_def wf_gmap_def gkeys_def)
  then have ne: "n \<noteq> ''''" by (auto simp: section_key_def)
  have g: "gget pre n = None" using nd by (simp add: gget_eq_None_iff)
  have "parse_line cur \<lparr>sections = pre, sectionOrder = map fst pre\<rparr> n =
      Inr (n, \<lparr>sections = pre @ [(n, [])], sectionOrder = map fst pre @ [n]\<rparr>)"
    using parse_print_header [OF sec] g nd by (simp add: gset_fresh)
  then have "parse_lines cur \<lparr>sections = pre, sectionOrder = map fst pre\<rparr> (concat (map print_section (s # cs))) =
      parse_lines n \<lparr>sections = pre @ [s], sectionOrder = map fst (pre @ [s])\<rparr> (concat (map print_section cs))"
    using parse_print_options [OF ne nd os] s by (simp add: print_section_def)
  with Cons.IH [of "pre @ [s]"] Cons.prems show ?case by simp
qed simp

lemma print_section_no_newline:
  "source_ok cs \<Longrightarrow> l \<in> set (concat (map print_section cs)) \<Longrightarrow> CHR 0x0A \<notin> set l"
  by (fastforce simp: source_ok_def print_section_def print_option_def option_ok_def list_all_iff)

lemma populate_print:
  assumes "source_ok cs" "cs \<noteq> []"
  shows "PopulatePtp4lConf (Some (print_conf cs)) opts =
     (\<lparr>sections = (if gget cs ''[global]'' = None then cs @ [(''[global]'', [])] else cs),
       sectionOrder = map fst cs\<rparr>, None)"
proof -
  have "concat (map print_section cs) \<noteq> []" using assms(2) by (cases cs) (auto simp: print_section_def)
  then have "Split (print_conf cs) newline = concat (map print_section cs)"
    unfolding print_conf_def newline_def
    using print_section_no_newline [OF assms(1)] by (intro Split_Join) blast+
  moreover have "parse_lines '''' empty_conf (concat (map print_section cs)) =
      (\<lparr>sections = cs, sectionOrder = map fst cs\<rparr>, None)"
    using parse_print_sections [of "[]" cs] assms(1) by (simp add: empty_conf_def)
  ultimately show ?thesis
    by (auto simp: PopulatePtp4lConf_def gset_fresh gget_eq_None_iff)
qed

section \<open>Properties\<close>

text \<open>C34: Whatever text it is given, and also when it stops at an error, the parser leaves a
  well-formed configuration: section and option keys are unique, every section key is a bracketed
  name, and the section order lists each parsed section once (only the added \<open>[global]\<close> may be
  missing from it).\<close>

theorem populate_keeps_invariant: "conf_inv (fst (PopulatePtp4lConf config opts))"
  by (rule populate_inv)

text \<open>C35: Parsing succeeds exactly when the first line opens a section and every line that starts
  with an opening bracket also has a closing one; in particular a missing or empty text is an
  error.\<close>

theorem populate_succeeds_iff:
  "snd (PopulatePtp4lConf config opts) = None \<longleftrightarrow>
     (let lines = Split (case config of Some c \<Rightarrow> c | None \<Rightarrow> '''') newline
      in HasPrefix (hd lines) ''['' \<and> list_all header_ok lines)"
proof -
  let ?lines = "Split (case config of Some c \<Rightarrow> c | None \<Rightarrow> '''') newline"
  have "?lines \<noteq> []" by (simp add: newline_def)
  moreover have "snd (PopulatePtp4lConf config opts) = snd (parse_lines '''' empty_conf ?lines)"
    by (simp add: PopulatePtp4lConf_def Let_def split: prod.splits option.splits if_splits)
  ultimately show ?thesis
    using parse_lines_ok_iff [of "''''" empty_conf ?lines] by (auto simp only: Let_def)
qed

text \<open>C29: Round trip. A configuration written as text, one header per section and one line per
  option, is parsed back to the same sections, options and section order; a missing \<open>[global]\<close>
  section is added, empty.\<close>

theorem populate_roundtrip:
  assumes "source_ok cs" "cs \<noteq> []"
  shows "PopulatePtp4lConf (Some (print_conf cs)) opts =
     (\<lparr>sections = (if gget cs ''[global]'' = None then cs @ [(''[global]'', [])] else cs),
       sectionOrder = map fst cs\<rparr>, None)"
  by (rule populate_print [OF assms])

definition wit_sections :: "Ptp4lConfSection gmap" where
  "wit_sections = [(''[ens1]'', [(''masterOnly'', ''1''), (''spp'', ''3'')]), (''[ens2]'', [])]"

lemma wit_sections_ok: "source_ok wit_sections"
proof -
  have "section_key ''[ens1]''" "section_key ''[ens2]''"
    unfolding section_key_def by (rule exI [of _ "''ens1''"], simp) (rule exI [of _ "''ens2''"], simp)
  moreover have "TrimSpace ''1'' = ''1''" "TrimSpace ''3'' = ''3''" by code_simp+
  ultimately show ?thesis
    by (simp add: source_ok_def wit_sections_def wf_gmap_def gkeys_def option_ok_def)
qed

theorem populate_roundtrip_witness:
  "sectionOrder (fst (PopulatePtp4lConf (Some (print_conf wit_sections)) None)) = [''[ens1]'', ''[ens2]'']
   \<and> GetOption (fst (PopulatePtp4lConf (Some (print_conf wit_sections)) None)) ''[ens1]'' ''spp'' = ''3''"
proof -
  have "wit_sections \<noteq> []" by (simp add: wit_sections_def)
  from populate_roundtrip [OF wit_sections_ok this, of None] show ?thesis
    by (simp add: GetOption_def wit_sections_def gget_def)
qed

end
