(* ===== verification/Go_Regexp.thy ===== *)
theory Go_Regexp
  imports Go_Strings
begin

text \<open>
  The fixed regular expressions of the operator. All of them are anchored (\<open>^...$\<close>) and use only
  ASCII classes, so a match is membership of the byte string in a regular language. The language
  is the inductive predicate \<open>rx_lang\<close>; \<open>rx_match\<close> decides it by derivatives.
\<close>

datatype rx =
    RNone
  | REmpty
  | RClass "char \<Rightarrow> bool"
  | RAlt rx rx
  | RSeq rx rx
  | RStar rx

inductive rx_lang :: "rx \<Rightarrow> string \<Rightarrow> bool" where
  l_empty: "rx_lang REmpty []"
| l_class: "p c \<Longrightarrow> rx_lang (RClass p) [c]"
| l_left: "rx_lang r s \<Longrightarrow> rx_lang (RAlt r q) s"
| l_right: "rx_lang q s \<Longrightarrow> rx_lang (RAlt r q) s"
| l_seq: "rx_lang r s \<Longrightarrow> rx_lang q t \<Longrightarrow> rx_lang (RSeq r q) (s @ t)"
| l_star0: "rx_lang (RStar r) []"
| l_star1: "rx_lang r s \<Longrightarrow> s \<noteq> [] \<Longrightarrow> rx_lang (RStar r) t \<Longrightarrow> rx_lang (RStar r) (s @ t)"

inductive_simps rx_lang_simps [simp]:
  "rx_lang RNone s" "rx_lang REmpty s" "rx_lang (RClass p) s" "rx_lang (RAlt r q) s"

inductive_cases rx_seqE: "rx_lang (RSeq r q) s"
inductive_cases rx_starE: "rx_lang (RStar r) s"

fun rx_null :: "rx \<Rightarrow> bool" where
  "rx_null RNone = False"
| "rx_null REmpty = True"
| "rx_null (RClass p) = False"
| "rx_null (RAlt r q) = (rx_null r \<or> rx_null q)"
| "rx_null (RSeq r q) = (rx_null r \<and> rx_null q)"
| "rx_null (RStar r) = True"

text \<open>Constructors that drop impossible branches, so that derivatives stay small.\<close>

fun mk_alt :: "rx \<Rightarrow> rx \<Rightarrow> rx" where
  "mk_alt RNone q = q"
| "mk_alt r RNone = r"
| "mk_alt r q = RAlt r q"

fun mk_seq :: "rx \<Rightarrow> rx \<Rightarrow> rx" where
  "mk_seq RNone q = RNone"
| "mk_seq REmpty q = q"
| "mk_seq r q = RSeq r q"

fun rx_deriv :: "char \<Rightarrow> rx \<Rightarrow> rx" where
  "rx_deriv c RNone = RNone"
| "rx_deriv c REmpty = RNone"
| "rx_deriv c (RClass p) = (if p c then REmpty else RNone)"
| "rx_deriv c (RAlt r q) = mk_alt (rx_deriv c r) (rx_deriv c q)"
| "rx_deriv c (RSeq r q) =
     (if rx_null r then mk_alt (mk_seq (rx_deriv c r) q) (rx_deriv c q) else mk_seq (rx_deriv c r) q)"
| "rx_deriv c (RStar r) = mk_seq (rx_deriv c r) (RStar r)"

fun rx_match :: "rx \<Rightarrow> string \<Rightarrow> bool" where
  "rx_match r [] = rx_null r"
| "rx_match r (c # s) = rx_match (rx_deriv c r) s"

section \<open>The matcher decides the language\<close>

lemma rx_seq_iff: "rx_lang (RSeq r q) u \<longleftrightarrow> (\<exists>s t. u = s @ t \<and> rx_lang r s \<and> rx_lang q t)"
  by (blast elim: rx_seqE intro: l_seq)

lemma rx_star_iff:
  "rx_lang (RStar r) u \<longleftrightarrow> u = [] \<or> (\<exists>s t. u = s @ t \<and> s \<noteq> [] \<and> rx_lang r s \<and> rx_lang (RStar r) t)"
  by (blast elim: rx_starE intro: l_star0 l_star1)

lemma rx_null_iff: "rx_null r \<longleftrightarrow> rx_lang r []"
  by (induction r) (auto simp: rx_seq_iff intro: l_star0)

lemma rx_lang_mk_alt [simp]: "rx_lang (mk_alt r q) s \<longleftrightarrow> rx_lang r s \<or> rx_lang q s"
  by (induction r q rule: mk_alt.induct) auto

lemma rx_lang_mk_seq [simp]: "rx_lang (mk_seq r q) s \<longleftrightarrow> rx_lang (RSeq r q) s"
  by (induction r q rule: mk_seq.induct) (auto simp: rx_seq_iff)

lemma append_eq_Cons_cases:
  "(\<exists>s t. c # u = s @ t \<and> P s t) \<longleftrightarrow> P [] (c # u) \<or> (\<exists>s t. u = s @ t \<and> P (c # s) t)"
proof
  assume "\<exists>s t. c # u = s @ t \<and> P s t"
  then obtain s t where "c # u = s @ t" "P s t" by blast
  then show "P [] (c # u) \<or> (\<exists>s t. u = s @ t \<and> P (c # s) t)" by (cases s) auto
next
  assume "P [] (c # u) \<or> (\<exists>s t. u = s @ t \<and> P (c # s) t)"
  then show "\<exists>s t. c # u = s @ t \<and> P s t" by (metis append_Cons append_Nil)
qed

lemma rx_seq_Cons:
  "rx_lang (RSeq r q) (c # u) \<longleftrightarrow>
     rx_lang r [] \<and> rx_lang q (c # u) \<or> (\<exists>s t. u = s @ t \<and> rx_lang r (c # s) \<and> rx_lang q t)"
  by (simp only: rx_seq_iff append_eq_Cons_cases)

lemma rx_star_Cons:
  "rx_lang (RStar r) (c # u) \<longleftrightarrow> (\<exists>s t. u = s @ t \<and> rx_lang r (c # s) \<and> rx_lang (RStar r) t)"
  by (subst rx_star_iff, subst append_eq_Cons_cases) simp

lemma rx_deriv_iff: "rx_lang (rx_deriv c r) s \<longleftrightarrow> rx_lang r (c # s)"
proof (induction r arbitrary: s)
  case (RSeq r q)
  then show ?case by (simp add: rx_seq_Cons rx_seq_iff [of "rx_deriv c r"] rx_null_iff) blast
next
  case (RStar r)
  then show ?case by (simp add: rx_seq_iff rx_star_Cons)
qed auto

theorem rx_match_iff: "rx_match r s \<longleftrightarrow> rx_lang r s"
  by (induction s arbitrary: r) (simp_all add: rx_null_iff rx_deriv_iff)

section \<open>Derived forms\<close>

definition RPlus :: "rx \<Rightarrow> rx" where
  "RPlus r = RSeq r (RStar r)"

definition ROpt :: "rx \<Rightarrow> rx" where
  "ROpt r = RAlt r REmpty"

fun RRep :: "nat \<Rightarrow> rx \<Rightarrow> rx" where
  "RRep 0 r = REmpty"
| "RRep (Suc n) r = RSeq r (RRep n r)"

definition RChar :: "char \<Rightarrow> rx" where
  "RChar c = RClass (\<lambda>d. d = c)"

lemma rx_star_class: "rx_lang (RStar (RClass p)) s \<longleftrightarrow> list_all p s"
proof (induction s)
  case Nil
  then show ?case by (simp add: l_star0)
next
  case (Cons c s)
  then show ?case by (simp add: rx_star_Cons)
qed

lemma rx_plus_class: "rx_lang (RPlus (RClass p)) s \<longleftrightarrow> s \<noteq> [] \<and> list_all p s"
  by (cases s) (simp_all add: RPlus_def rx_seq_Cons rx_seq_iff [of _ _ "[]"] rx_star_class)

lemma rx_rep_class: "rx_lang (RRep n (RClass p)) s \<longleftrightarrow> length s = n \<and> list_all p s"
proof (induction n arbitrary: s)
  case (Suc n)
  then show ?case by (cases s) (auto simp: rx_seq_Cons rx_seq_iff [of _ _ "[]"])
qed auto

definition is_digit :: "char \<Rightarrow> bool" where
  "is_digit c \<longleftrightarrow> 48 \<le> (of_char c :: nat) \<and> (of_char c :: nat) \<le> 57"

definition is_alpha :: "char \<Rightarrow> bool" where
  "is_alpha c \<longleftrightarrow> (let n = of_char c :: nat in 65 \<le> n \<and> n \<le> 90 \<or> 97 \<le> n \<and> n \<le> 122)"

definition is_hex :: "char \<Rightarrow> bool" where
  "is_hex c \<longleftrightarrow> is_digit c \<or> (let n = of_char c :: nat in 65 \<le> n \<and> n \<le> 70 \<or> 97 \<le> n \<and> n \<le> 102)"

text \<open>\<open>[\w\-_]\<close>, which is also \<open>[a-zA-Z0-9_-]\<close>, and \<open>\s\<close>.\<close>

definition word_dash :: "char \<Rightarrow> bool" where
  "word_dash c \<longleftrightarrow> is_alpha c \<or> is_digit c \<or> c = CHR ''_'' \<or> c = CHR ''-''"

definition re_space :: "char \<Rightarrow> bool" where
  "re_space c \<longleftrightarrow> c \<in> {CHR 0x09, CHR 0x0A, CHR 0x0C, CHR 0x0D, CHR 0x20}"

lemma word_dash_graphic: "word_dash c \<Longrightarrow> graphic c"
  by (auto simp: word_dash_def graphic_def is_alpha_def is_digit_def Let_def)

lemma re_space_not_comma: "re_space c \<Longrightarrow> c \<noteq> CHR '',''" and word_dash_not_comma: "word_dash c \<Longrightarrow> c \<noteq> CHR '',''"
  by (auto simp: re_space_def word_dash_def is_alpha_def is_digit_def)

lemma word_dash_not_space: "word_dash c \<Longrightarrow> \<not> re_space c"
  by (auto simp: re_space_def word_dash_def is_alpha_def is_digit_def)

end
