(* ===== verification/Ptp_Webhook.thy ===== *)
theory Ptp_Webhook
  imports Ptp4l_Conf Go_Regexp
begin

text \<open>
  The admission webhooks of PtpConfig and PtpOperatorConfig (\<open>api/v1/ptpconfig_webhook.go\<close>,
  \<open>api/v1/ptpoperatorconfig_webhook.go\<close>). Everything the validators take from outside their
  code is in \<open>webhook_env\<close>: the cached client that reads secrets, the order of the \<open>range\<close>
  loops, and the standard library's regexp compiler, Unicode case tables and float conversion.
\<close>

section \<open>Environment and errors\<close>

record Secret =
  sec_Name :: string
  sec_Data :: "string gmap"

text \<open>\<open>Get\<close> of a secret by namespace and name; \<open>None\<close> stands for any error. A secret is read once for the \<open>sa_file\<close> of a profile and
  once more for every interface section; each of these reads has its own outcome, since the secret may change in between. Profiles
  are counted from 0.\<close>

datatype secret_read = SaFileRead nat | SppRead nat string

type_synonym secret_client = "string \<Rightarrow> string \<Rightarrow> Secret option"

record webhook_env =
  we_client :: "(secret_read \<Rightarrow> secret_client) option"   \<comment> \<open>\<open>webhookClient\<close>; \<open>None\<close> when not initialised\<close>
  we_order :: range_order
  we_regexp_ok :: "string \<Rightarrow> bool"
  we_ulower :: "string \<Rightarrow> string"
  we_frac :: "nat \<Rightarrow> nat \<Rightarrow> nat \<Rightarrow> nat"

datatype webhook_error =
    InterfaceSectionNotAllowed string
  | SppGlobalNotMinusOne
  | SppOutOfRange string string
  | PriorityNotSet
  | StdoutFilterInvalid string
  | LogReduceModeInvalid string
  | LogReduceTimeInvalid string
  | LogReduceThresholdInvalid string
  | HaProfilesInvalid string
  | ClockTypeInvalid string
  | InSyncTimesInvalid string
  | InSyncThresholdInvalid string
  | ClockIdInvalid string
  | SettingNotConfigurable string
  | SaFileNotSet
  | SaFileBadPrefix string
  | SaFileIncomplete string
  | SaFileNoSecretName string
  | SaFileBadSecret string string
  | KeyNotInSecret string
  | KeyNotFound string string
  | SppNotInSecret string string string
  | InterfaceWithoutSpp string

type_synonym 'a wres = "(webhook_error, 'a) go"

definition PTP_SEC_FOLDER :: string where
  "PTP_SEC_FOLDER = ''/etc/ptp-secret-mount/''"

definition clockTypes :: "string list" where
  "clockTypes = [''T-GM'', ''T-BC'']"

text \<open>\<open>^([\w\-_]+)(,\s*([\w\-_]+))*$\<close>\<close>

definition profileRegEx :: rx where
  "profileRegEx =
     RSeq (RPlus (RClass word_dash))
       (RStar (RSeq (RChar CHR '','') (RSeq (RStar (RClass re_space)) (RPlus (RClass word_dash)))))"

section \<open>Secrets and sa\_file paths\<close>

definition getSecret :: "webhook_env \<Rightarrow> secret_read \<Rightarrow> string \<Rightarrow> Secret option" where
  "getSecret env rd secretName =
     (case we_client env of None \<Rightarrow> None | Some get \<Rightarrow> get rd ''openshift-ptp'' secretName)"

definition GetSecretNameFromSaFilePath :: "string \<Rightarrow> ('e, string) go" where
  "GetSecretNameFromSaFilePath sa_file =
     (let path = TrimPrefix sa_file PTP_SEC_FOLDER in slice_to path (Index path ''/''))"

definition GetSecretKeyFromSaFilePath :: "string \<Rightarrow> ('e, string) go" where
  "GetSecretKeyFromSaFilePath sa_file =
     (let path = TrimPrefix sa_file PTP_SEC_FOLDER in slice_from path (Index path ''/'' + 1))"

definition validateSppPerSection :: "webhook_env \<Rightarrow> Ptp4lConf \<Rightarrow> unit wres" where
  "validateSppPerSection env conf =
     each (\<lambda>(sectionName, options).
       case gget options ''spp'' of
         None \<Rightarrow> Inr ()
       | Some sppValue \<Rightarrow>
           if sectionName = ''[global]'' then
             (if sppValue \<noteq> ''-1'' then err SppGlobalNotMinusOne else Inr ())
           else
             (case Atoi sppValue of
                None \<Rightarrow> err (SppOutOfRange sectionName sppValue)
              | Some sppInt \<Rightarrow>
                  if sppInt < 0 \<or> sppInt > 255 then err (SppOutOfRange sectionName sppValue) else Inr ()))
       (range_gmap (we_order env) (sections conf))"

definition getSaFileFromPtp4lConf :: "Ptp4lConf \<Rightarrow> string wres" where
  "getSaFileFromPtp4lConf conf =
     (case gget (sections conf) ''[global]'' of
        None \<Rightarrow> Inr ''''
      | Some options \<Rightarrow>
          (case gget options ''sa_file'' of
             None \<Rightarrow> Inr ''''
           | Some v \<Rightarrow> if v = '''' then err SaFileNotSet else Inr v))"

definition validateKeyInSecret :: "Secret \<Rightarrow> string \<Rightarrow> unit wres" where
  "validateKeyInSecret secret keyCandidate =
     (if gget (sec_Data secret) keyCandidate = None then err (KeyNotInSecret keyCandidate) else Inr ())"

definition validateSaFile :: "webhook_env \<Rightarrow> nat \<Rightarrow> string \<Rightarrow> unit wres" where
  "validateSaFile env i saFilePath =
     (if \<not> HasPrefix saFilePath PTP_SEC_FOLDER then err (SaFileBadPrefix saFilePath)
      else
        (let path = TrimPrefix saFilePath PTP_SEC_FOLDER;
             index = Index path ''/''
         in if index = -1 \<or> index = int (length path) - 1 then err (SaFileIncomplete saFilePath)
            else bind_go (slice_to path index) (\<lambda>secretName.
              if secretName = '''' then err (SaFileNoSecretName saFilePath)
              else case getSecret env (SaFileRead i) secretName of
                None \<Rightarrow> err (SaFileBadSecret saFilePath secretName)
              | Some secret \<Rightarrow>
                  bind_go (slice_from path (index + 1)) (validateKeyInSecret secret))))"

text \<open>A line of the secret names security parameter \<open>spp\<close>: its second field is the value.\<close>

definition spp_line_matches :: "webhook_env \<Rightarrow> string \<Rightarrow> string \<Rightarrow> bool" where
  "spp_line_matches env sppValue rawline =
     (let line = TrimSpace rawline in
      \<not> (line = '''' \<or> HasPrefix line ''#'')
      \<and> HasPrefix (ToLower (we_ulower env) line) ''spp ''
      \<and> 2 \<le> length (Fields line) \<and> Fields line ! 1 = sppValue)"

definition validateSppInSecretKey :: "webhook_env \<Rightarrow> secret_read \<Rightarrow> string \<Rightarrow> string \<Rightarrow> string \<Rightarrow> unit wres" where
  "validateSppInSecretKey env rd sppValue secretName secretKey =
     (case getSecret env rd secretName of
        None \<Rightarrow> panic NilDeref
      | Some secret \<Rightarrow>
          (case gget (sec_Data secret) secretKey of
             None \<Rightarrow> err (KeyNotFound secretKey (sec_Name secret))
           | Some content \<Rightarrow>
               if list_ex (spp_line_matches env sppValue) (Split content newline) then Inr ()
               else err (SppNotInSecret sppValue secretKey (sec_Name secret))))"

definition validateInterfaceSppInSecret ::
  "webhook_env \<Rightarrow> nat \<Rightarrow> Ptp4lConf \<Rightarrow> string \<Rightarrow> string \<Rightarrow> unit wres" where
  "validateInterfaceSppInSecret env i conf secretName secretKey =
     each (\<lambda>(sectionName, options).
       if sectionName = ''[global]'' then Inr ()
       else case gget options ''spp'' of
         None \<Rightarrow> err (InterfaceWithoutSpp sectionName)
       | Some sppValue \<Rightarrow>
           if sppValue = '''' then err (InterfaceWithoutSpp sectionName)
           else validateSppInSecretKey env (SppRead i sectionName) sppValue secretName secretKey)
       (range_gmap (we_order env) (sections conf))"

section \<open>PtpConfig\<close>

definition validate_logReduce :: "webhook_env \<Rightarrow> string \<Rightarrow> unit wres" where
  "validate_logReduce env v =
     (let logReduceSettings = Fields v;
          logReduceMode = (if 1 \<le> length logReduceSettings
            then ToLower (we_ulower env) (logReduceSettings ! 0) else ''false'')
      in if logReduceMode \<notin> {''true'', ''false'', ''basic'', ''enhanced''}
         then err (LogReduceModeInvalid logReduceMode)
         else if logReduceMode = ''enhanced'' then
           (if 2 \<le> length logReduceSettings \<and> \<not> ParseDuration_ok (we_frac env) (logReduceSettings ! 1)
            then err (LogReduceTimeInvalid (logReduceSettings ! 1))
            else if 3 \<le> length logReduceSettings
                 \<and> (case Atoi (logReduceSettings ! 2) of None \<Rightarrow> True | Some threshold \<Rightarrow> threshold < 0)
            then err (LogReduceThresholdInvalid (logReduceSettings ! 2))
            else Inr ())
         else Inr ())"

text \<open>One entry of \<open>PtpSettings\<close>: the switch on the key, in the order of its cases.\<close>

definition validate_setting :: "webhook_env \<Rightarrow> string \<times> string \<Rightarrow> unit wres" where
  "validate_setting env kv =
     (let k = fst kv; v = snd kv in
      if k = ''stdoutFilter'' then
        (if we_regexp_ok env v then Inr () else err (StdoutFilterInvalid v))
      else if k = ''logReduce'' then validate_logReduce env v
      else if k = ''haProfiles'' then
        (if rx_match profileRegEx v then Inr () else err (HaProfilesInvalid v))
      else if k = ''clockType'' then
        (if v \<in> set clockTypes then Inr () else err (ClockTypeInvalid v))
      else if k = ''inSyncConditionTimes'' then
        (if ParseUint v 10 32 \<noteq> None then Inr () else err (InSyncTimesInvalid v))
      else if k = ''inSyncConditionThreshold'' then
        (if ParseUint v 10 32 \<noteq> None then Inr () else err (InSyncThresholdInvalid v))
      else if Contains k ''clockId'' then
        (if ParseUint v 10 64 \<noteq> None \<or> ParseUint v 16 64 \<noteq> None then Inr () else err (ClockIdInvalid v))
      else if k = ''controllingProfile'' then Inr ()
      else if k = ''upstreamPort'' then Inr ()
      else if k = ''leadingInterface'' then Inr ()
      else err (SettingNotConfigurable k))"

text \<open>The interface field is only allowed in an ordinary clock.\<close>

definition validate_interface :: "webhook_env \<Rightarrow> PtpProfile \<Rightarrow> Ptp4lConf \<Rightarrow> unit wres" where
  "validate_interface env profile conf =
     (case pf_Interface profile of
        None \<Rightarrow> Inr ()
      | Some i \<Rightarrow>
          if i = '''' then Inr ()
          else each (\<lambda>(sect, _).
            if sect \<noteq> ''[global]'' \<and> sect \<noteq> ''['' @ i @ '']'' then err (InterfaceSectionNotAllowed sect)
            else Inr ()) (range_gmap (we_order env) (sections conf)))"

text \<open>The part of \<open>validate\<close> that runs when \<open>sa_file\<close> is configured.\<close>

definition validate_auth :: "webhook_env \<Rightarrow> nat \<Rightarrow> Ptp4lConf \<Rightarrow> unit wres" where
  "validate_auth env i conf =
     bind_go (getSaFileFromPtp4lConf conf) (\<lambda>saFilePath.
       if saFilePath = '''' then Inr ()
       else bind_go (validateSaFile env i saFilePath) (\<lambda>_.
         bind_go (GetSecretNameFromSaFilePath saFilePath) (\<lambda>secretName.
           bind_go (GetSecretKeyFromSaFilePath saFilePath) (\<lambda>secretKey.
             validateInterfaceSppInSecret env i conf secretName secretKey))))"

definition validate_profile :: "webhook_env \<Rightarrow> nat \<Rightarrow> PtpProfile \<Rightarrow> unit wres" where
  "validate_profile env i profile =
     (let conf = fst (PopulatePtp4lConf (pf_Ptp4lConf profile) (pf_Ptp4lOpts profile)) in
      bind_go (validate_interface env profile conf) (\<lambda>_.
      bind_go (validateSppPerSection env conf) (\<lambda>_.
      bind_go (if pf_PtpSchedulingPolicy profile = Some ''SCHED_FIFO'' \<and> pf_PtpSchedulingPriority profile = None
               then err PriorityNotSet else Inr ()) (\<lambda>_.
      bind_go (case pf_PtpSettings profile of
                 None \<Rightarrow> Inr ()
               | Some settings \<Rightarrow> each (validate_setting env) (range_gmap (we_order env) settings)) (\<lambda>_.
      validate_auth env i conf)))))"

definition PtpConfig_validate :: "webhook_env \<Rightarrow> PtpConfig \<Rightarrow> unit wres" where
  "PtpConfig_validate env r = each (\<lambda>(i, profile). validate_profile env i profile) (enumerate 0 (cfg_Profile r))"

definition PtpConfig_ValidateCreate :: "webhook_env \<Rightarrow> PtpConfig \<Rightarrow> unit wres" where
  "PtpConfig_ValidateCreate env r = PtpConfig_validate env r"

definition PtpConfig_ValidateUpdate :: "webhook_env \<Rightarrow> PtpConfig \<Rightarrow> PtpConfig \<Rightarrow> unit wres" where
  "PtpConfig_ValidateUpdate env oldObj newObj = PtpConfig_validate env newObj"

definition PtpConfig_ValidateDelete :: "webhook_env \<Rightarrow> PtpConfig \<Rightarrow> unit wres" where
  "PtpConfig_ValidateDelete env r = Inr ()"

section \<open>PtpOperatorConfig\<close>

datatype opconfig_error =
    NameNotDefault
  | ApiVersionInvalid string
  | ApiVersionEol

text \<open>\<open>semver_ok\<close> is \<open>semver.NewVersion\<close> succeeding.\<close>

definition isValidVersion :: "(string \<Rightarrow> bool) \<Rightarrow> string \<Rightarrow> bool" where
  "isValidVersion semver_ok version = semver_ok version"

definition PtpOperatorConfig_validate ::
  "(string \<Rightarrow> bool) \<Rightarrow> PtpOperatorConfig \<Rightarrow> (opconfig_error, unit) go" where
  "PtpOperatorConfig_validate semver_ok r =
     (if om_Name (oc_Meta r) \<noteq> ''default'' then err NameNotDefault
      else case op_EventConfig (oc_Spec r) of
        None \<Rightarrow> Inr ()
      | Some ev \<Rightarrow>
          if ev_EnableEventPublisher ev \<and> ev_ApiVersion ev \<noteq> '''' then
            (if \<not> isValidVersion semver_ok (ev_ApiVersion ev) then err (ApiVersionInvalid (ev_ApiVersion ev))
             else if ev_ApiVersion ev = ''1.0'' then err ApiVersionEol
             else Inr ())
          else Inr ())"

definition PtpOperatorConfig_ValidateCreate :: "(string \<Rightarrow> bool) \<Rightarrow> PtpOperatorConfig \<Rightarrow> (opconfig_error, unit) go" where
  "PtpOperatorConfig_ValidateCreate semver_ok r = PtpOperatorConfig_validate semver_ok r"

definition PtpOperatorConfig_ValidateUpdate ::
  "(string \<Rightarrow> bool) \<Rightarrow> PtpOperatorConfig \<Rightarrow> PtpOperatorConfig \<Rightarrow> (opconfig_error, unit) go" where
  "PtpOperatorConfig_ValidateUpdate semver_ok oldObj newObj = PtpOperatorConfig_validate semver_ok newObj"

definition PtpOperatorConfig_ValidateDelete :: "(string \<Rightarrow> bool) \<Rightarrow> PtpOperatorConfig \<Rightarrow> (opconfig_error, unit) go" where
  "PtpOperatorConfig_ValidateDelete semver_ok r = Inr ()"

section \<open>sa\_file paths\<close>

definition sa_path :: "string \<Rightarrow> string \<Rightarrow> string" where
  "sa_path name key = PTP_SEC_FOLDER @ name @ CHR ''/'' # key"

lemma Index_slash: "CHR ''/'' \<notin> set name \<Longrightarrow> Index (name @ CHR ''/'' # key) ''/'' = int (length name)"
  by (simp add: Index_def find_sub_single)

lemma Index_slash_none: "CHR ''/'' \<notin> set s \<Longrightarrow> Index s ''/'' = -1"
  using find_sub_None_single [of s "CHR ''/''"] by (simp add: Index_def)

lemma GetSecretName_path [simp]:
  "CHR ''/'' \<notin> set name \<Longrightarrow> GetSecretNameFromSaFilePath (sa_path name key) = Inr name"
  by (simp add: GetSecretNameFromSaFilePath_def sa_path_def Index_slash slice_to_def)

lemma GetSecretKey_path [simp]:
  "CHR ''/'' \<notin> set name \<Longrightarrow> GetSecretKeyFromSaFilePath (sa_path name key) = Inr key"
  by (simp add: GetSecretKeyFromSaFilePath_def sa_path_def Index_slash slice_from_def nat_add_distrib)

lemma sa_path_cases:
  assumes "HasPrefix p PTP_SEC_FOLDER"
  obtains (no_slash) s where "p = PTP_SEC_FOLDER @ s" "CHR ''/'' \<notin> set s"
    | (path) name key where "p = sa_path name key" "CHR ''/'' \<notin> set name"
proof -
  from assms obtain s where s: "p = PTP_SEC_FOLDER @ s" by (auto simp: HasPrefix_iff)
  show ?thesis
  proof (cases "CHR ''/'' \<in> set s")
    case True
    then obtain a b where "s = a @ CHR ''/'' # b" "CHR ''/'' \<notin> set a" by (meson split_list_first)
    with s show ?thesis by (intro path) (auto simp: sa_path_def)
  qed (use s no_slash in blast)
qed

lemma validateSaFile_path:
  assumes "CHR ''/'' \<notin> set name"
  shows "validateSaFile env i (sa_path name key) =
    (if key = '''' then err (SaFileIncomplete (sa_path name key))
     else if name = '''' then err (SaFileNoSecretName (sa_path name key))
     else case getSecret env (SaFileRead i) name of
       None \<Rightarrow> err (SaFileBadSecret (sa_path name key) name)
     | Some secret \<Rightarrow> validateKeyInSecret secret key)"
  using assms
  by (simp add: validateSaFile_def sa_path_def Index_slash slice_to_def slice_from_def nat_add_distrib
      split: option.splits)

lemma validateSaFile_no_slash:
  "CHR ''/'' \<notin> set s \<Longrightarrow> validateSaFile env i (PTP_SEC_FOLDER @ s) = err (SaFileIncomplete (PTP_SEC_FOLDER @ s))"
  by (simp add: validateSaFile_def Index_slash_none)

lemma validateSaFile_ok_iff:
  "validateSaFile env i p = Inr () \<longleftrightarrow>
     (\<exists>name key secret. p = sa_path name key \<and> CHR ''/'' \<notin> set name \<and> name \<noteq> '''' \<and> key \<noteq> ''''
        \<and> getSecret env (SaFileRead i) name = Some secret \<and> gget (sec_Data secret) key \<noteq> None)"
proof
  assume ok: "validateSaFile env i p = Inr ()"
  then have "HasPrefix p PTP_SEC_FOLDER" by (auto simp: validateSaFile_def split: if_splits)
  then show "\<exists>name key secret. p = sa_path name key \<and> CHR ''/'' \<notin> set name \<and> name \<noteq> '''' \<and> key \<noteq> ''''
        \<and> getSecret env (SaFileRead i) name = Some secret \<and> gget (sec_Data secret) key \<noteq> None"
  proof (cases rule: sa_path_cases)
    case (no_slash s)
    with ok show ?thesis by (simp add: validateSaFile_no_slash)
  next
    case (path name key)
    with ok show ?thesis
      by (auto simp: validateSaFile_path validateKeyInSecret_def split: if_splits option.splits)
  qed
qed (auto simp: validateSaFile_path validateKeyInSecret_def)

section \<open>The policy the webhook enforces\<close>

text \<open>The admission policy of a profile, stated without reference to loops or their order.\<close>

definition interface_policy :: "PtpProfile \<Rightarrow> Ptp4lConf \<Rightarrow> bool" where
  "interface_policy p conf \<longleftrightarrow>
     (\<forall>i. pf_Interface p = Some i \<longrightarrow> i \<noteq> '''' \<longrightarrow>
        set (gkeys (sections conf)) \<subseteq> {''[global]'', ''['' @ i @ '']''})"

definition spp_policy :: "Ptp4lConf \<Rightarrow> bool" where
  "spp_policy conf \<longleftrightarrow>
     (\<forall>sect options v. gget (sections conf) sect = Some options \<longrightarrow> gget options ''spp'' = Some v \<longrightarrow>
        (if sect = ''[global]'' then v = ''-1'' else \<exists>n. Atoi v = Some n \<and> 0 \<le> n \<and> n \<le> 255))"

definition auth_policy :: "webhook_env \<Rightarrow> nat \<Rightarrow> Ptp4lConf \<Rightarrow> bool" where
  "auth_policy env i conf \<longleftrightarrow>
     (\<forall>options sa. gget (sections conf) ''[global]'' = Some options \<longrightarrow> gget options ''sa_file'' = Some sa \<longrightarrow>
        (\<exists>name key secret.
           sa = sa_path name key \<and> CHR ''/'' \<notin> set name \<and> name \<noteq> '''' \<and> key \<noteq> ''''
           \<and> getSecret env (SaFileRead i) name = Some secret \<and> gget (sec_Data secret) key \<noteq> None
           \<and> (\<forall>sect opts. gget (sections conf) sect = Some opts \<longrightarrow> sect \<noteq> ''[global]'' \<longrightarrow>
                (\<exists>v again content. gget opts ''spp'' = Some v \<and> v \<noteq> ''''
                   \<and> getSecret env (SppRead i sect) name = Some again \<and> gget (sec_Data again) key = Some content
                   \<and> list_ex (spp_line_matches env v) (Split content newline)))))"

text \<open>A number of the given base below \<open>2 ^ bits\<close>.\<close>

definition number_policy :: "nat \<Rightarrow> nat \<Rightarrow> string \<Rightarrow> bool" where
  "number_policy base bits v \<longleftrightarrow> v \<noteq> '''' \<and> (\<exists>n. digits_val base 0 v = Some n \<and> n < 2 ^ bits)"

text \<open>No mode at all is the mode \<open>false\<close>; only \<open>enhanced\<close> reads a duration and a threshold.\<close>

definition log_policy :: "webhook_env \<Rightarrow> string \<Rightarrow> bool" where
  "log_policy env v \<longleftrightarrow>
     (case Fields v of
        [] \<Rightarrow> True
      | mode # args \<Rightarrow>
          (let m = ToLower (we_ulower env) mode in
           m \<in> {''true'', ''false'', ''basic''}
           \<or> (m = ''enhanced'' \<and> (\<forall>d ds. args = d # ds \<longrightarrow> ParseDuration_ok (we_frac env) d)
               \<and> (\<forall>d t ts. args = d # t # ts \<longrightarrow> (\<exists>n \<ge> 0. Atoi t = Some n)))))"

definition free_settings :: "string set" where
  "free_settings = {''controllingProfile'', ''upstreamPort'', ''leadingInterface''}"

definition checked_settings :: "string set" where
  "checked_settings = {''stdoutFilter'', ''logReduce'', ''haProfiles'', ''clockType'', ''inSyncConditionTimes'', ''inSyncConditionThreshold''}"

definition setting_policy :: "webhook_env \<Rightarrow> string \<Rightarrow> string \<Rightarrow> bool" where
  "setting_policy env k v \<longleftrightarrow>
     (k \<in> checked_settings \<union> free_settings \<or> Contains k ''clockId'')
     \<and> (k = ''stdoutFilter'' \<longrightarrow> we_regexp_ok env v)
     \<and> (k = ''logReduce'' \<longrightarrow> log_policy env v)
     \<and> (k = ''haProfiles'' \<longrightarrow> rx_lang profileRegEx v)
     \<and> (k = ''clockType'' \<longrightarrow> v \<in> {''T-GM'', ''T-BC''})
     \<and> (k \<in> {''inSyncConditionTimes'', ''inSyncConditionThreshold''} \<longrightarrow> number_policy 10 32 v)
     \<and> (Contains k ''clockId'' \<longrightarrow> number_policy 10 64 v \<or> number_policy 16 64 v)"

definition profile_policy :: "webhook_env \<Rightarrow> nat \<Rightarrow> PtpProfile \<Rightarrow> bool" where
  "profile_policy env i p \<longleftrightarrow>
     (let conf = fst (PopulatePtp4lConf (pf_Ptp4lConf p) (pf_Ptp4lOpts p)) in
      interface_policy p conf \<and> spp_policy conf
      \<and> (pf_PtpSchedulingPolicy p = Some ''SCHED_FIFO'' \<longrightarrow> pf_PtpSchedulingPriority p \<noteq> None)
      \<and> (\<forall>settings k v. pf_PtpSettings p = Some settings \<longrightarrow> gget settings k = Some v \<longrightarrow>
           setting_policy env k v)
      \<and> auth_policy env i conf)"

lemma ParseUint_iff: "ParseUint v base bits = None \<longleftrightarrow> \<not> number_policy base bits v"
  by (auto simp: ParseUint_def number_policy_def split: option.splits)

lemma validate_logReduce_iff: "validate_logReduce env v = Inr () \<longleftrightarrow> log_policy env v"
proof (cases "Fields v" rule: remdups_adj.cases)
  case 1
  then show ?thesis by (simp add: validate_logReduce_def log_policy_def)
next
  case (2 mode)
  then show ?thesis by (simp add: validate_logReduce_def log_policy_def Let_def)
next
  case (3 mode d ts)
  have "(case Atoi t of None \<Rightarrow> True | Some n \<Rightarrow> n < 0) \<longleftrightarrow> \<not> (\<exists>n \<ge> 0. Atoi t = Some n)" for t
    by (cases "Atoi t") (auto simp: not_le)
  with 3 show ?thesis
    by (cases ts) (auto simp: validate_logReduce_def log_policy_def Let_def)
qed

lemma clockId_free: "k \<in> checked_settings \<union> free_settings \<Longrightarrow> \<not> Contains k ''clockId''"
proof -
  have "list_all (\<lambda>k. \<not> Contains k ''clockId'') [''stdoutFilter'', ''logReduce'', ''haProfiles'', ''clockType'',
    ''inSyncConditionTimes'', ''inSyncConditionThreshold'', ''controllingProfile'', ''upstreamPort'', ''leadingInterface'']"
    by code_simp
  then show "k \<in> checked_settings \<union> free_settings \<Longrightarrow> \<not> Contains k ''clockId''"
    unfolding checked_settings_def free_settings_def by auto
qed

lemma validate_setting_iff: "validate_setting env (k, v) = Inr () \<longleftrightarrow> setting_policy env k v"
proof (cases "k \<in> checked_settings \<union> free_settings")
  case True
  note clockId_free [OF True]
  with True show ?thesis
    unfolding checked_settings_def free_settings_def setting_policy_def
    by (elim UnE insertE emptyE)
      (simp_all add: validate_setting_def validate_logReduce_iff rx_match_iff clockTypes_def ParseUint_iff)
next
  case False
  then show ?thesis
    by (auto simp: setting_policy_def validate_setting_def checked_settings_def free_settings_def ParseUint_iff)
qed

lemma each_range_ok:
  "range_order_ok ord \<Longrightarrow>
     each f (range_gmap ord m) = Inr () \<longleftrightarrow> (\<forall>k v. gget m k = Some v \<longrightarrow> f (k, v) = Inr ())"
  by (auto simp: each_ok_iff set_range_gmap)

lemma gkeys_ball: "(\<forall>k v. gget m k = Some v \<longrightarrow> P k) \<longleftrightarrow> (\<forall>k \<in> set (gkeys m). P k)"
  using gget_eq_None_iff [of m] gget_Some_key [of m] by (metis not_None_eq)

lemma validate_interface_iff:
  "range_order_ok (we_order env) \<Longrightarrow> validate_interface env p conf = Inr () \<longleftrightarrow> interface_policy p conf"
proof (cases "pf_Interface p")
  case (Some i)
  assume ord: "range_order_ok (we_order env)"
  show ?thesis
  proof (cases "i = ''''")
    case False
    have entry: "(if k \<noteq> g \<and> k \<noteq> h then err (e k) else Inr ()) = Inr () \<longleftrightarrow> k = g \<or> k = h"
      for k g h :: string and e :: "string \<Rightarrow> webhook_error" by simp
    from False Some have "validate_interface env p conf = Inr () \<longleftrightarrow>
        (\<forall>k v. gget (sections conf) k = Some v \<longrightarrow> k = ''[global]'' \<or> k = ''['' @ i @ '']'')"
      using ord by (simp only: validate_interface_def each_range_ok entry prod.case option.case if_False)
    also have "\<dots> \<longleftrightarrow> set (gkeys (sections conf)) \<subseteq> {''[global]'', ''['' @ i @ '']''}"
      unfolding gkeys_ball by auto
    finally show ?thesis using Some False by (simp add: interface_policy_def)
  qed (use Some in \<open>simp add: validate_interface_def interface_policy_def\<close>)
qed (simp add: validate_interface_def interface_policy_def)

lemma validateSppPerSection_iff:
  assumes "range_order_ok (we_order env)"
  shows "validateSppPerSection env conf = Inr () \<longleftrightarrow> spp_policy conf"
proof -
  have "(case gget options ''spp'' of
         None \<Rightarrow> Inr ()
       | Some sppValue \<Rightarrow>
           if sect = ''[global]'' then (if sppValue \<noteq> ''-1'' then err SppGlobalNotMinusOne else Inr ())
           else (case Atoi sppValue of
                None \<Rightarrow> err (SppOutOfRange sect sppValue)
              | Some sppInt \<Rightarrow>
                  if sppInt < 0 \<or> sppInt > 255 then err (SppOutOfRange sect sppValue) else Inr ())) = Inr () \<longleftrightarrow>
     (\<forall>v. gget options ''spp'' = Some v \<longrightarrow>
        (if sect = ''[global]'' then v = ''-1'' else \<exists>n. Atoi v = Some n \<and> 0 \<le> n \<and> n \<le> 255))"
    for sect and options :: Ptp4lConfSection
    by (auto split: option.splits)
  with assms show ?thesis
    by (simp add: validateSppPerSection_def spp_policy_def each_range_ok)
qed

lemma validateInterfaceSppInSecret_iff:
  assumes "range_order_ok (we_order env)"
  shows "validateInterfaceSppInSecret env i conf name key = Inr () \<longleftrightarrow>
     (\<forall>sect opts. gget (sections conf) sect = Some opts \<longrightarrow> sect \<noteq> ''[global]'' \<longrightarrow>
        (\<exists>v again content. gget opts ''spp'' = Some v \<and> v \<noteq> ''''
           \<and> getSecret env (SppRead i sect) name = Some again \<and> gget (sec_Data again) key = Some content
           \<and> list_ex (spp_line_matches env v) (Split content newline)))"
proof -
  have "(case gget opts ''spp'' of
       None \<Rightarrow> err (InterfaceWithoutSpp sect)
     | Some v \<Rightarrow> if v = '''' then err (InterfaceWithoutSpp sect) else validateSppInSecretKey env (SppRead i sect) v name key) = Inr () \<longleftrightarrow>
     (\<exists>v again content. gget opts ''spp'' = Some v \<and> v \<noteq> ''''
        \<and> getSecret env (SppRead i sect) name = Some again \<and> gget (sec_Data again) key = Some content
        \<and> list_ex (spp_line_matches env v) (Split content newline))" for sect and opts :: Ptp4lConfSection
    by (auto simp: validateSppInSecretKey_def split: option.splits)
  then show ?thesis unfolding validateInterfaceSppInSecret_def each_range_ok [OF assms] prod.case by auto
qed

lemma validate_auth_iff:
  assumes "range_order_ok (we_order env)"
  shows "validate_auth env i conf = Inr () \<longleftrightarrow> auth_policy env i conf"
proof (cases "gget (sections conf) ''[global]''")
  case None
  then show ?thesis by (simp add: validate_auth_def getSaFileFromPtp4lConf_def auth_policy_def)
next
  case (Some options)
  show ?thesis
  proof (cases "gget options ''sa_file''")
    case None
    with Some show ?thesis by (simp add: validate_auth_def getSaFileFromPtp4lConf_def auth_policy_def)
  next
    case sa: (Some v)
    have "validate_auth env i conf = Inr () \<longleftrightarrow>
      (\<exists>name key secret. v = sa_path name key \<and> CHR ''/'' \<notin> set name \<and> name \<noteq> '''' \<and> key \<noteq> ''''
        \<and> getSecret env (SaFileRead i) name = Some secret \<and> gget (sec_Data secret) key \<noteq> None
        \<and> validateInterfaceSppInSecret env i conf name key = Inr ())"
      using Some sa
      by (auto simp: validate_auth_def getSaFileFromPtp4lConf_def bind_go_eq_Inr validateSaFile_ok_iff)
        (auto simp: sa_path_def PTP_SEC_FOLDER_def)
    also have "\<dots> \<longleftrightarrow> auth_policy env i conf"
      using Some sa unfolding auth_policy_def validateInterfaceSppInSecret_iff [OF assms] by simp
    finally show ?thesis .
  qed
qed

lemma validate_profile_iff:
  "range_order_ok (we_order env) \<Longrightarrow> validate_profile env i p = Inr () \<longleftrightarrow> profile_policy env i p"
  by (auto simp: validate_profile_def profile_policy_def Let_def bind_go_eq_Inr validate_interface_iff
      validateSppPerSection_iff validate_auth_iff each_range_ok validate_setting_iff split: if_splits option.splits)

lemma validate_iff:
  assumes "range_order_ok (we_order env)"
  shows "PtpConfig_validate env r = Inr () \<longleftrightarrow> (\<forall>i < length (cfg_Profile r). profile_policy env i (cfg_Profile r ! i))"
proof -
  have "PtpConfig_validate env r = Inr () \<longleftrightarrow> (\<forall>x \<in> set (enumerate 0 (cfg_Profile r)). profile_policy env (fst x) (snd x))"
    unfolding PtpConfig_validate_def each_ok_iff by (auto simp: validate_profile_iff [OF assms])
  also have "\<dots> \<longleftrightarrow> (\<forall>i < length (cfg_Profile r). profile_policy env i (cfg_Profile r ! i))"
    by (simp add: Ball_def in_set_enumerate_eq)
  finally show ?thesis .
qed

text \<open>The policy does not mention the order of the \<open>range\<close> loops.\<close>

lemma env_order_irrelevant [simp]:
  "getSecret (env\<lparr>we_order := ord\<rparr>) = getSecret env"
  "spp_line_matches (env\<lparr>we_order := ord\<rparr>) = spp_line_matches env"
  "log_policy (env\<lparr>we_order := ord\<rparr>) = log_policy env"
  "setting_policy (env\<lparr>we_order := ord\<rparr>) = setting_policy env"
  by (simp_all add: fun_eq_iff getSecret_def spp_line_matches_def log_policy_def setting_policy_def Let_def split: list.split)

lemma profile_policy_order [simp]: "profile_policy (env\<lparr>we_order := ord\<rparr>) = profile_policy env"
  by (simp add: fun_eq_iff profile_policy_def auth_policy_def)

section \<open>Run-time panics\<close>












section \<open>Lists of profile names\<close>

lemma space_prefix_re_space: "re_space c \<Longrightarrow> space_prefix (c # s) = 1"
  by (auto simp: re_space_def space_prefix_def unicode_spaces_def)

lemma trim_left_re_spaces: "list_all re_space sp \<Longrightarrow> trim_left (sp @ w) = trim_left w"
proof (induction sp)
  case (Cons c sp)
  then show ?case
    by (subst trim_left.simps) (simp add: space_prefix_re_space)
qed simp

lemma TrimSpace_spaced_name:
  assumes "list_all re_space sp" "w \<noteq> ''''" "list_all word_dash w"
  shows "TrimSpace (sp @ w) = w"
proof -
  from assms(2,3) have "graphic (hd w)" "graphic (last w)"
    by (auto simp: list_all_iff intro!: word_dash_graphic)
  with assms(1) show ?thesis
    by (simp add: TrimSpace_def trim_left_re_spaces trim_left_graphic trim_right_graphic)
qed

definition spaced_name :: "string \<Rightarrow> bool" where
  "spaced_name s \<longleftrightarrow> (\<exists>sp w. s = sp @ w \<and> list_all re_space sp \<and> w \<noteq> '''' \<and> list_all word_dash w)"

lemma spaced_name_no_comma: "spaced_name s \<Longrightarrow> CHR '','' \<notin> set s"
  using re_space_not_comma word_dash_not_comma by (fastforce simp: spaced_name_def list_all_iff)

abbreviation more_names :: rx where
  "more_names \<equiv> RSeq (RChar CHR '','') (RSeq (RStar (RClass re_space)) (RPlus (RClass word_dash)))"

lemma more_names_iff: "rx_lang more_names s \<longleftrightarrow> (\<exists>t. s = CHR '','' # t \<and> spaced_name t)"
  by (auto simp: rx_seq_iff RChar_def rx_star_class rx_plus_class spaced_name_def)

lemma Split_more_names:
  "rx_lang (RStar more_names) t \<Longrightarrow> CHR '','' \<notin> set pre \<Longrightarrow>
     \<forall>x \<in> set (Split (pre @ t) '',''). x = pre \<or> spaced_name x"
proof (induction "RStar more_names" t arbitrary: pre rule: rx_lang.induct)
  case l_star0
  then show ?case by (simp add: Split_no_sep)
next
  case (l_star1 s t)
  then obtain n where n: "s = CHR '','' # n" "spaced_name n" by (auto simp: more_names_iff)
  with l_star1.prems have "Split (pre @ s @ t) '','' = pre # Split (n @ t) '',''"
    by (simp add: Split_append)
  with l_star1.hyps(4) [of n] n spaced_name_no_comma show ?case by auto
qed

lemma profileRegEx_members:
  assumes "rx_match profileRegEx v" "x \<in> set (Split v '','')"
  shows "TrimSpace x \<noteq> '''' \<and> list_all word_dash (TrimSpace x)"
proof -
  from assms(1) obtain w t where v: "v = w @ t" "w \<noteq> ''''" "list_all word_dash w" "rx_lang (RStar more_names) t"
    by (auto simp: rx_match_iff profileRegEx_def rx_seq_iff [of "RPlus _"] rx_plus_class)
  have w: "spaced_name w" unfolding spaced_name_def
    using v(2,3) by (intro exI [of _ "''''"] exI [of _ w]) simp
  with v Split_more_names [OF v(4), of w] assms(2) spaced_name_no_comma have "spaced_name x" by auto
  then show ?thesis by (auto simp: spaced_name_def TrimSpace_spaced_name)
qed

section \<open>Properties\<close>

text \<open>C1: The PtpConfig webhook accepts a resource exactly when every profile satisfies the
  declarative admission policy (interface field only in an ordinary clock, \<open>spp\<close> of \<open>[global]\<close>
  is \<open>-1\<close> and of an interface between 0 and 255, a priority for \<open>SCHED_FIFO\<close>, every setting
  valid, and an \<open>sa_file\<close> that names an existing key of an existing secret which lists the
  \<open>spp\<close> of every interface section, whenever the secret is read), whatever order Go visits its maps in.\<close>

theorem webhook_accepts_iff_policy:
  assumes "range_order_ok (we_order env)"
  shows "PtpConfig_ValidateCreate env r = Inr () \<longleftrightarrow> (\<forall>i < length (cfg_Profile r). profile_policy env i (cfg_Profile r ! i))"
  unfolding PtpConfig_ValidateCreate_def by (rule validate_iff [OF assms])

text \<open>The verdict of the PtpConfig webhook does not depend on the order in which Go visits
  maps; only which of several errors is reported may.\<close>

lemma webhook_verdict_order_independent:
  assumes "range_order_ok o1" "range_order_ok o2"
  shows "PtpConfig_ValidateUpdate (env\<lparr>we_order := o1\<rparr>) old r = Inr () \<longleftrightarrow>
         PtpConfig_ValidateUpdate (env\<lparr>we_order := o2\<rparr>) old r = Inr ()"
  using assms by (simp add: PtpConfig_ValidateUpdate_def validate_iff)


text \<open>When the webhook accepts a profile with an \<open>haProfiles\<close> setting, every member that the
  controllers get by splitting at commas and trimming is a non-empty name of letters, digits,
  dashes and underscores.\<close>

lemma accepted_haProfiles_members:
  assumes "range_order_ok (we_order env)" "PtpConfig_validate env r = Inr ()"
    and "p \<in> set (cfg_Profile r)" "pf_PtpSettings p = Some settings"
    and "gget settings ''haProfiles'' = Some ha" "member \<in> set (Split ha '','')"
  shows "TrimSpace member \<noteq> '''' \<and> list_all word_dash (TrimSpace member)"
proof -
  from assms(3) obtain i where "i < length (cfg_Profile r)" "p = cfg_Profile r ! i" by (auto simp: in_set_conv_nth)
  with assms(2) have "profile_policy env i p" by (auto simp: validate_iff [OF assms(1)])
  with assms(4,5) have "setting_policy env ''haProfiles'' ha"
    by (auto simp: profile_policy_def Let_def)
  then have "rx_match profileRegEx ha" by (simp add: setting_policy_def rx_match_iff)
  then show ?thesis by (rule profileRegEx_members [OF _ assms(6)])
qed

section \<open>Witnesses\<close>

text \<open>A boundary clock with authentication whose \<open>spp\<close> numbers are in the secret.\<close>

definition wit_secret :: Secret where
  "wit_secret = \<lparr>sec_Name = ''sec'', sec_Data = [(''key'', ''spp 1'')]\<rparr>"

definition wit_env :: webhook_env where
  "wit_env = \<lparr>we_client = Some (\<lambda>rd ns n. if n = ''sec'' then Some wit_secret else None),
     we_order = rev, we_regexp_ok = (\<lambda>_. True), we_ulower = (\<lambda>s. s), we_frac = (\<lambda>a b c. 0)\<rparr>"

definition wit_conf :: string where
  "wit_conf = Join [''[global]'', ''sa_file /etc/ptp-secret-mount/sec/key'', ''[ens1]'', ''spp 1''] newline"

definition wit_config :: PtpConfig where
  "wit_config = mk_config ''cfg''
     [empty_profile\<lparr>pf_Name := Some ''bc'', pf_Ptp4lConf := Some wit_conf,
        pf_PtpSettings := Some [(''haProfiles'', ''p-1, p_2''), (''clockType'', ''T-BC'')]\<rparr>] []"

lemma wit_env_order [simp]: "range_order_ok (we_order wit_env)"
  by (simp add: wit_env_def)

lemma wit_accepted:
  "PtpConfig_ValidateCreate wit_env wit_config = Inr ()" "PtpConfig_validate wit_env wit_config = Inr ()"
  by code_simp+

theorem webhook_accepts_iff_policy_witness:
  "range_order_ok (we_order wit_env) \<and> PtpConfig_ValidateCreate wit_env wit_config = Inr ()
   \<and> profile_policy wit_env 0 (hd (cfg_Profile wit_config))"
proof -
  have "0 < length (cfg_Profile wit_config)" "cfg_Profile wit_config ! 0 = hd (cfg_Profile wit_config)"
    by (simp_all add: wit_config_def sample_defs)
  then show ?thesis using webhook_accepts_iff_policy [of wit_env wit_config] wit_accepted(1) by (metis wit_env_order)
qed



lemma webhook_verdict_order_independent_witness:
  "PtpConfig_ValidateUpdate (wit_env\<lparr>we_order := rev\<rparr>) wit_config wit_config = Inr () \<longleftrightarrow>
   PtpConfig_ValidateUpdate (wit_env\<lparr>we_order := (\<lambda>ks. ks)\<rparr>) wit_config wit_config = Inr ()"
  by (rule webhook_verdict_order_independent) simp_all

lemma accepted_haProfiles_members_witness:
  "TrimSpace '' p_2'' \<noteq> '''' \<and> list_all word_dash (TrimSpace '' p_2'')"
proof -
  have "hd (cfg_Profile wit_config) \<in> set (cfg_Profile wit_config)"
    "pf_PtpSettings (hd (cfg_Profile wit_config)) = Some [(''haProfiles'', ''p-1, p_2''), (''clockType'', ''T-BC'')]"
    by (simp_all add: wit_config_def sample_defs)
  moreover have "gget [(''haProfiles'', ''p-1, p_2''), (''clockType'', ''T-BC'')] ''haProfiles'' = Some ''p-1, p_2''"
    by (simp add: gget_def)
  moreover have "'' p_2'' \<in> set (Split ''p-1, p_2'' '','')" by code_simp
  ultimately show ?thesis by (rule accepted_haProfiles_members [OF wit_env_order wit_accepted(2)])
qed

end
