(* ===== verification/Hardware_Types.thy ===== *)
theory Hardware_Types
  imports Ptp_Types Go_Regexp
begin

text \<open>
  The HardwareConfig resource of API group \<open>ptp.openshift.io/v2alpha1\<close>
  (\<open>api/v2alpha1/hardwareconfig_types.go\<close>): clock chains made of subsystems with DPLL pins, the
  behaviour rules over time sources, GNSS receivers and their selection, and the schema rules on
  them. Maps keyed by board label are Go maps. Integers are only compared and stored.
\<close>

section \<open>Common definitions\<close>

record ESyncConfig =
  esc_TransferFrequency :: int
  esc_EmbeddedSyncFrequency :: int
  esc_DutyCyclePct :: int

record ESyncDefinition =
  esd_Name :: string
  esd_ESyncConfig :: ESyncConfig

record RefSyncDefinition =
  rsd_Name :: string
  rsd_RelatedPinBoardLabel :: string

record CommonDefinitions =
  cd_ESyncDefinitions :: "ESyncDefinition list"
  cd_RefSyncDefinitions :: "RefSyncDefinition list"

section \<open>GNSS receivers\<close>

record ACPIDevice =
  acpi_HID :: string
  acpi_UID :: string

record SerialDevice =
  ser_ACPI :: "ACPIDevice option"

record EthernetDevice =
  eth_Name :: string
  eth_PCIAddress :: string
  eth_PermanentMACAddress :: string
  eth_Slot :: string
  eth_VendorID :: string
  eth_DeviceID :: string

record USBDevice =
  usb_Vendor :: string
  usb_Product :: string
  usb_Path :: string

record GNSSMatcher =
  gm_TTYDevice :: string
  gm_SerialDevice :: "SerialDevice option"
  gm_EthernetInterface :: string
  gm_EthernetDevice :: "EthernetDevice option"
  gm_USBDevice :: "USBDevice option"

record GNSSSurveyParameters =
  sv_ObservationTime :: int
  sv_Accuracy :: int

record UBLXCommand =
  ublx_Args :: "string list"
  ublx_Record :: bool

datatype ConstellationID =
  ConstellationGPS | ConstellationGalileo | ConstellationGLONASS | ConstellationBeiDou | ConstellationSBAS

record GNSSInit =
  gi_AntennaVoltage :: bool
  gi_Constellations :: "ConstellationID list"
  gi_SurveyIn :: GNSSSurveyParameters
  gi_ExtraCommands :: "UBLXCommand list"

record GNSSConfig =
  gc_Init :: GNSSInit
  gc_Match :: "GNSSMatcher option"

section \<open>Sources and behaviour\<close>

text \<open>\<open>SourceTypeID\<close> is a Go string: besides the three constants it may hold any other text, which
  only the schema's enumeration excludes.\<close>

datatype SourceTypeID = SourceTypePTP | SourceTypeGNSS | SourceTypeDPLL | SourceTypeOther string

record SourceConfig =
  sc_Name :: string
  sc_Subsystem :: string
  sc_SourceType :: SourceTypeID
  sc_BoardLabel :: string
  sc_PTPTimeReceivers :: "string list"
  sc_GNSSConfig :: "GNSSConfig option"

record SourceState =
  ss_SourceName :: string
  ss_ConditionType :: string

record PinState =
  pst_Priority :: "int option"
  pst_State :: string

record DPLLDesiredState =
  dds_Subsystem :: string
  dds_BoardLabel :: string
  dds_EEC :: "PinState option"
  dds_PPS :: "PinState option"

record PTPTimeSpec =
  ts_Sec :: int
  ts_Nsec :: int

text \<open>\<open>PTPPinFunction\<close> is an \<open>int64\<close> of which four values are named.\<close>

type_synonym PTPPinFunction = int

definition PTPPinFunctionDisabled :: PTPPinFunction where "PTPPinFunctionDisabled = 0"
definition PTPPinFunctionRX :: PTPPinFunction where "PTPPinFunctionRX = 1"
definition PTPPinFunctionTX :: PTPPinFunction where "PTPPinFunctionTX = 2"
definition PTPPinFunctionSync :: PTPPinFunction where "PTPPinFunctionSync = 3"

lemmas pin_functions = PTPPinFunctionDisabled_def PTPPinFunctionRX_def PTPPinFunctionTX_def PTPPinFunctionSync_def

record PTPPinDesiredState =
  pds_Name :: string
  pds_Func :: PTPPinFunction
  pds_Chan :: int
  pds_SourceName :: string
  pds_Description :: string

record PTPPeriodDesiredState =
  ppd_Index :: int
  ppd_Start :: "PTPTimeSpec option"
  ppd_Period :: "PTPTimeSpec option"
  ppd_SourceName :: string
  ppd_Description :: string

record DesiredState =
  ds_DPLL :: "DPLLDesiredState option"
  ds_PTPPin :: "PTPPinDesiredState option"
  ds_PTPPeriod :: "PTPPeriodDesiredState option"

record HwCondition =
  hc_Name :: string
  hc_Triggers :: "SourceState list"
  hc_DesiredStates :: "DesiredState list"

record Behavior =
  bh_Sources :: "SourceConfig list"
  bh_Conditions :: "HwCondition list"

section \<open>Structure\<close>

record HoldoverParameters =
  hp_MaxInSpecOffset :: nat
  hp_LocalMaxHoldoverOffset :: nat
  hp_LocalHoldoverTimeout :: nat

record PinConfig =
  pc_Connector :: string
  pc_PhaseAdjustment :: "int option"
  pc_Frequency :: "int option"
  pc_ESyncConfigName :: string
  pc_Description :: string
  pc_ReferenceSync :: string

record DPLL =
  dpll_NetworkInterface :: string
  dpll_HoldoverParameters :: "HoldoverParameters option"
  dpll_PhaseInputs :: "PinConfig gmap"
  dpll_PhaseOutputs :: "PinConfig gmap"
  dpll_FrequencyInputs :: "PinConfig gmap"
  dpll_FrequencyOutputs :: "PinConfig gmap"

record Ethernet =
  en_Ports :: "string list"

record Subsystem =
  sub_Name :: string
  sub_HardwareSpecificDefinitions :: string
  sub_DPLL :: DPLL
  sub_Ethernet :: "Ethernet list"

record ClockChain =
  cc_CommonDefinitions :: "CommonDefinitions option"
  cc_Structure :: "Subsystem list"
  cc_Behavior :: "Behavior option"

section \<open>The resource\<close>

record HardwareProfile =
  hpr_Name :: "string option"
  hpr_ClockType :: "string option"
  hpr_ClockChain :: "ClockChain option"
  hpr_Description :: "string option"

record HardwareConfigSpec =
  hs_Profile :: HardwareProfile
  hs_RelatedPtpProfileName :: string

record MatchedNode =
  mn_NodeName :: string
  mn_PtpProfile :: string

record GNSSStatus =
  gs_TTYDevice :: string
  gs_MatchResult :: string

record SourceStatus =
  sst_Name :: string
  sst_Gnss :: "GNSSStatus option"

record HardwareConfigStatus =
  hst_MatchedNodes :: "MatchedNode list"
  hst_Sources :: "SourceStatus list"

record HardwareConfig =
  hw_Meta :: ObjectMeta
  hw_Spec :: HardwareConfigSpec
  hw_Status :: HardwareConfigStatus

abbreviation hw_Name :: "HardwareConfig \<Rightarrow> string" where
  "hw_Name h \<equiv> om_Name (hw_Meta h)"

abbreviation hw_Related :: "HardwareConfig \<Rightarrow> string" where
  "hw_Related h \<equiv> hs_RelatedPtpProfileName (hw_Spec h)"

record PluginInfo =
  pli_Name :: string
  pli_Description :: string
  pli_Version :: string
  pli_Vendor :: string

record PluginPinDefaults =
  ppn_Priority :: "int option"
  ppn_State :: string

record PinOverrides =
  po_EEC :: "PluginPinDefaults option"
  po_PPS :: "PluginPinDefaults option"

type_synonym PluginSpecificDefaults = "PinOverrides option gmap"

record HardwareOptionsConfig =
  hoc_PluginInfo :: PluginInfo
  hoc_SpecificDefaults :: PluginSpecificDefaults
  hoc_BehaviorNotes :: string

section \<open>Schema rules\<close>

text \<open>
  The validation rules carried by the kubebuilder markers. \<open>has(self.f)\<close> of an optional string
  field holds when the serialised object carries it, that is when it is not empty; a pattern on
  an optional field constrains it only when present.
\<close>

abbreviation has :: "string \<Rightarrow> bool" where
  "has s \<equiv> s \<noteq> ''''"

definition GNSSMatcher_rule :: "GNSSMatcher \<Rightarrow> bool" where
  "GNSSMatcher_rule m =
     (if has (gm_TTYDevice m)
      then \<not> (gm_SerialDevice m \<noteq> None \<or> has (gm_EthernetInterface m) \<or> gm_EthernetDevice m \<noteq> None \<or> gm_USBDevice m \<noteq> None)
      else if gm_SerialDevice m \<noteq> None
      then \<not> (has (gm_EthernetInterface m) \<or> gm_EthernetDevice m \<noteq> None \<or> gm_USBDevice m \<noteq> None)
      else if has (gm_EthernetInterface m)
      then \<not> (gm_EthernetDevice m \<noteq> None \<or> gm_USBDevice m \<noteq> None)
      else (gm_EthernetDevice m \<noteq> None) \<noteq> (gm_USBDevice m \<noteq> None))"

definition hid_char :: "char \<Rightarrow> bool" where
  "hid_char c \<longleftrightarrow> is_alpha c \<or> is_digit c \<or> c \<in> {CHR ''.'', CHR ''_'', CHR ''-''}"

definition ACPIDevice_rule :: "ACPIDevice \<Rightarrow> bool" where
  "ACPIDevice_rule d \<longleftrightarrow> has (acpi_HID d) \<and> rx_match (RPlus (RClass hid_char)) (acpi_HID d)"

definition SerialDevice_rule :: "SerialDevice \<Rightarrow> bool" where
  "SerialDevice_rule d = (case ser_ACPI d of None \<Rightarrow> False | Some a \<Rightarrow> ACPIDevice_rule a)"

definition hex4 :: rx where
  "hex4 = RRep 4 (RClass is_hex)"

text \<open>\<open>^([0-9a-fA-F]{4}:)?[0-9a-fA-F]{2}:[0-9a-fA-F]{2}\.[0-7]$\<close>\<close>

definition pci_pattern :: rx where
  "pci_pattern =
     RSeq (ROpt (RSeq hex4 (RChar CHR '':'')))
       (RSeq (RRep 2 (RClass is_hex)) (RSeq (RChar CHR '':'')
         (RSeq (RRep 2 (RClass is_hex)) (RSeq (RChar CHR ''.'')
           (RClass (\<lambda>c. 48 \<le> (of_char c :: nat) \<and> (of_char c :: nat) \<le> 55))))))"

text \<open>\<open>^([0-9a-fA-F]{2}:){5}[0-9a-fA-F]{2}$\<close>\<close>

definition mac_pattern :: rx where
  "mac_pattern =
     RSeq (RRep 5 (RSeq (RRep 2 (RClass is_hex)) (RChar CHR '':''))) (RRep 2 (RClass is_hex))"

definition digits_pattern :: rx where
  "digits_pattern = RPlus (RClass is_digit)"

text \<open>\<open>^[0-9]+-[0-9]+(\.[0-9]+)*$\<close>\<close>

definition usb_path_pattern :: rx where
  "usb_path_pattern =
     RSeq digits_pattern (RSeq (RChar CHR ''-'')
       (RSeq digits_pattern (RStar (RSeq (RChar CHR ''.'') digits_pattern))))"

definition opt_match :: "rx \<Rightarrow> string \<Rightarrow> bool" where
  "opt_match r s \<longleftrightarrow> s = '''' \<or> rx_match r s"

definition EthernetDevice_rule :: "EthernetDevice \<Rightarrow> bool" where
  "EthernetDevice_rule d \<longleftrightarrow>
     (has (eth_Name d) \<or> has (eth_PCIAddress d) \<or> has (eth_PermanentMACAddress d) \<or> has (eth_Slot d)
      \<or> has (eth_VendorID d) \<or> has (eth_DeviceID d))
     \<and> opt_match pci_pattern (eth_PCIAddress d) \<and> opt_match mac_pattern (eth_PermanentMACAddress d)
     \<and> opt_match digits_pattern (eth_Slot d) \<and> opt_match hex4 (eth_VendorID d)
     \<and> opt_match hex4 (eth_DeviceID d)"

definition USBDevice_rule :: "USBDevice \<Rightarrow> bool" where
  "USBDevice_rule d \<longleftrightarrow>
     rx_match hex4 (usb_Vendor d) \<and> rx_match hex4 (usb_Product d) \<and> opt_match usb_path_pattern (usb_Path d)"

definition GNSSSurveyParameters_rule :: "GNSSSurveyParameters \<Rightarrow> bool" where
  "GNSSSurveyParameters_rule p \<longleftrightarrow> 0 \<le> sv_ObservationTime p \<and> 0 \<le> sv_Accuracy p"

text \<open>The selectors of a matcher that are present.\<close>

definition selectors :: "GNSSMatcher \<Rightarrow> bool list" where
  "selectors m = [has (gm_TTYDevice m), gm_SerialDevice m \<noteq> None, has (gm_EthernetInterface m),
     gm_EthernetDevice m \<noteq> None, gm_USBDevice m \<noteq> None]"

text \<open>The nested conditional rule on \<open>GNSSMatcher\<close> says what its message says: exactly one of
  the five ways to find the device is given.\<close>

lemma gnss_matcher_exactly_one:
  "GNSSMatcher_rule m \<longleftrightarrow> length (filter id (selectors m)) = 1"
  by (auto simp: GNSSMatcher_rule_def selectors_def)

end
