(* ===== verification/Go_Sort.thy ===== *)
theory Go_Sort
  imports Prelude
begin

text \<open>
  Sorting slices by a \<open>less\<close> function, as the operator uses it: \<open>sort.Slice\<close>, which promises a
  sorted permutation and nothing about equal elements, and \<open>sort.SliceStable\<close>, which keeps equal
  elements in their order. The first is a parameter with its documented contract; the second is
  a function, since its result is determined by its contract.
\<close>

type_synonym 'a less_fun = "'a \<Rightarrow> 'a \<Rightarrow> bool"

type_synonym 'a slice_sort = "'a list \<Rightarrow> 'a list"

definition sorted_by :: "'a less_fun \<Rightarrow> 'a list \<Rightarrow> bool" where
  "sorted_by lt xs = sorted_wrt (\<lambda>a b. \<not> lt b a) xs"

text \<open>The contract of \<open>sort.Slice\<close> for one comparison.\<close>

definition sort_slice_ok :: "'a less_fun \<Rightarrow> 'a slice_sort \<Rightarrow> bool" where
  "sort_slice_ok lt srt \<longleftrightarrow> (\<forall>xs. mset (srt xs) = mset xs \<and> sorted_by lt (srt xs))"

lemma sort_slice_ok_set: "sort_slice_ok lt srt \<Longrightarrow> set (srt xs) = set xs"
  by (rule mset_eq_setD) (simp add: sort_slice_ok_def)

lemma sort_slice_ok_sorted: "sort_slice_ok lt srt \<Longrightarrow> sorted_by lt (srt xs)"
  by (simp add: sort_slice_ok_def)

fun insert_stable :: "'a less_fun \<Rightarrow> 'a \<Rightarrow> 'a list \<Rightarrow> 'a list" where
  "insert_stable lt x [] = [x]"
| "insert_stable lt x (y # ys) = (if lt y x then y # insert_stable lt x ys else x # y # ys)"

definition slice_stable :: "'a less_fun \<Rightarrow> 'a slice_sort" where
  "slice_stable lt xs = foldr (insert_stable lt) xs []"

lemma mset_insert_stable [simp]: "mset (insert_stable lt x ys) = add_mset x (mset ys)"
  by (induction ys) auto

lemma set_insert_stable [simp]: "set (insert_stable lt x ys) = insert x (set ys)"
  by (metis mset_insert_stable set_mset_add_mset_insert set_mset_mset)

lemma mset_slice_stable [simp]: "mset (slice_stable lt xs) = mset xs"
  by (induction xs) (auto simp: slice_stable_def)

lemma set_slice_stable [simp]: "set (slice_stable lt xs) = set xs"
  by (metis mset_eq_setD mset_slice_stable)

lemma length_slice_stable [simp]: "length (slice_stable lt xs) = length xs"
  by (metis mset_slice_stable size_mset)

text \<open>
  A comparison that Go's sort functions accept: a strict weak order. Its laws give that the
  stable sort sorts, and that it keeps the elements of each equivalence class in their order.
\<close>

locale weak_order =
  fixes lt :: "'a less_fun"
  assumes irrefl: "\<not> lt a a"
    and trans: "lt a b \<Longrightarrow> lt b c \<Longrightarrow> lt a c"
    and negatively_trans: "lt a c \<Longrightarrow> lt a b \<or> lt b c"
begin

lemma asym: "lt a b \<Longrightarrow> \<not> lt b a"
  using irrefl trans by blast

lemma sorted_insert_stable: "sorted_by lt ys \<Longrightarrow> sorted_by lt (insert_stable lt x ys)"
proof (induction ys)
  case (Cons y ys)
  then show ?case
    by (auto simp: sorted_by_def dest: asym negatively_trans [of _ x y])
qed (simp add: sorted_by_def)

lemma sorted_slice_stable: "sorted_by lt (slice_stable lt xs)"
  by (induction xs) (auto simp: slice_stable_def sorted_by_def [of lt "[]"] intro: sorted_insert_stable)

lemma slice_stable_ok: "sort_slice_ok lt (slice_stable lt)"
  by (simp add: sort_slice_ok_def sorted_slice_stable)

definition same :: "'a \<Rightarrow> 'a \<Rightarrow> bool" where
  "same a b \<longleftrightarrow> \<not> lt a b \<and> \<not> lt b a"

lemma filter_insert_stable:
  "filter (same a) (insert_stable lt x ys) = filter (same a) (x # ys)"
proof (induction ys)
  case (Cons y ys)
  have "same a x \<Longrightarrow> same a y \<Longrightarrow> \<not> lt y x"
    using negatively_trans by (auto simp: same_def)
  with Cons show ?case by auto
qed simp

lemma slice_stable_stable: "filter (same a) (slice_stable lt xs) = filter (same a) xs"
  by (induction xs) (auto simp: slice_stable_def filter_insert_stable)

text \<open>The first element of a sorted list that satisfies a test is minimal among those that do.\<close>

lemma sorted_first_minimal:
  "sorted_by lt xs \<Longrightarrow> filter P xs = x # ys \<Longrightarrow> y \<in> set xs \<Longrightarrow> P y \<Longrightarrow> \<not> lt y x"
proof (induction xs)
  case (Cons z zs)
  then show ?case using irrefl by (auto simp: sorted_by_def split: if_splits)
qed simp

end

text \<open>A sorted slice whose comparison is that of a linearly ordered key without ties is unique.\<close>

lemma sorted_by_key_unique:
  fixes key :: "'a \<Rightarrow> 'k::linorder"
  assumes "mset xs = mset ys" "distinct (map key xs)"
    and "sorted_by (\<lambda>a b. key a < key b) xs" "sorted_by (\<lambda>a b. key a < key b) ys"
  shows "xs = ys"
proof -
  have k: "sorted_by (\<lambda>a b. key a < key b) zs = sorted (map key zs)" for zs
    by (induction zs) (auto simp: sorted_by_def not_less)
  have "set xs = set ys" using assms(1) by (rule mset_eq_setD)
  moreover have "mset (map key xs) = mset (map key ys)" using assms(1) by simp
  then have m: "map key xs = map key ys"
    using assms(3,4) k by (metis properties_for_sort sort_key_id_if_sorted)
  ultimately show ?thesis
    using assms(2) by (metis distinct_map map_inj_on sup.idem)
qed

lemma weak_order_key: "weak_order (\<lambda>a b. (key a :: 'k::linorder) < key b)"
  by unfold_locales auto

end
