(* ===== verification/Unstructured.thy ===== *)
theory Unstructured
  imports Go_Strings "HOL-Library.Finite_Map"
begin

text \<open>
  Unstructured Kubernetes objects (\<open>k8s.io/apimachinery/.../unstructured\<close>, vendored): JSON values
  with objects as finite maps, the nested accessors and setters, and the metadata getters and
  setters the operator calls. Setters change the object in place; here they return it. A float is
  kept as its text.
\<close>

section \<open>JSON values\<close>

datatype json =
    JNull
  | JBool bool
  | JInt int
  | JFloat string
  | JStr string
  | JArr "json list"
  | JObj "(string, json) fmap"

type_synonym obj = "(string, json) fmap"

type_synonym strmap = "(string, string) fmap"

datatype uns_error = AccessorError | CannotSet

section \<open>Nested fields\<close>

fun nested :: "json \<Rightarrow> string list \<Rightarrow> uns_error + json option" where
  "nested v [] = Inr (Some v)"
| "nested JNull (f # fs) = Inr None"
| "nested (JObj m) (f # fs) = (case fmlookup m f of None \<Rightarrow> Inr None | Some v \<Rightarrow> nested v fs)"
| "nested _ (f # fs) = Inl AccessorError"

definition NestedFieldNoCopy :: "obj \<Rightarrow> string list \<Rightarrow> uns_error + json option" where
  "NestedFieldNoCopy o1 fields = nested (JObj o1) fields"

definition NestedString :: "obj \<Rightarrow> string list \<Rightarrow> uns_error + string option" where
  "NestedString o1 fields =
     (case NestedFieldNoCopy o1 fields of
        Inl e \<Rightarrow> Inl e
      | Inr None \<Rightarrow> Inr None
      | Inr (Some (JStr s)) \<Rightarrow> Inr (Some s)
      | Inr (Some _) \<Rightarrow> Inl AccessorError)"

definition NestedInt64 :: "obj \<Rightarrow> string list \<Rightarrow> uns_error + int option" where
  "NestedInt64 o1 fields =
     (case NestedFieldNoCopy o1 fields of
        Inl e \<Rightarrow> Inl e
      | Inr None \<Rightarrow> Inr None
      | Inr (Some (JInt i)) \<Rightarrow> Inr (Some i)
      | Inr (Some _) \<Rightarrow> Inl AccessorError)"

definition NestedSlice :: "obj \<Rightarrow> string list \<Rightarrow> uns_error + json list option" where
  "NestedSlice o1 fields =
     (case NestedFieldNoCopy o1 fields of
        Inl e \<Rightarrow> Inl e
      | Inr None \<Rightarrow> Inr None
      | Inr (Some (JArr xs)) \<Rightarrow> Inr (Some xs)
      | Inr (Some _) \<Rightarrow> Inl AccessorError)"

fun json_str :: "json \<Rightarrow> string" where
  "json_str (JStr s) = s"
| "json_str _ = ''''"

fun is_JStr :: "json \<Rightarrow> bool" where
  "is_JStr (JStr s) = True"
| "is_JStr _ = False"

definition NestedStringMap :: "obj \<Rightarrow> string list \<Rightarrow> uns_error + strmap option" where
  "NestedStringMap o1 fields =
     (case NestedFieldNoCopy o1 fields of
        Inl e \<Rightarrow> Inl e
      | Inr None \<Rightarrow> Inr None
      | Inr (Some (JObj m)) \<Rightarrow>
          if fmpred (\<lambda>_ v. is_JStr v) m then Inr (Some (fmmap json_str m)) else Inl AccessorError
      | Inr (Some _) \<Rightarrow> Inl AccessorError)"

text \<open>The result without the \<open>found\<close> and error components, which its callers drop: \<open>None\<close> is the
  nil map.\<close>

definition NestedNullCoercingStringMap :: "obj \<Rightarrow> string list \<Rightarrow> strmap option" where
  "NestedNullCoercingStringMap o1 fields =
     (case NestedFieldNoCopy o1 fields of
        Inr (Some (JObj m)) \<Rightarrow>
          if fmpred (\<lambda>_ v. is_JStr v \<or> v = JNull) m then Some (fmmap json_str m) else None
      | _ \<Rightarrow> None)"

text \<open>\<open>setNestedFieldNoCopy\<close>: \<open>None\<close> is the error, which leaves the object unchanged.\<close>

fun SetNestedField :: "obj \<Rightarrow> string list \<Rightarrow> json \<Rightarrow> obj option" where
  "SetNestedField m [] v = Some m"
| "SetNestedField m [f] v = Some (fmupd f v m)"
| "SetNestedField m (f # g # fs) v =
     (case fmlookup m f of
        Some (JObj m') \<Rightarrow> map_option (\<lambda>x. fmupd f (JObj x) m) (SetNestedField m' (g # fs) v)
      | Some _ \<Rightarrow> None
      | None \<Rightarrow> map_option (\<lambda>x. fmupd f (JObj x) m) (SetNestedField fmempty (g # fs) v))"

definition SetNestedStringMap :: "obj \<Rightarrow> string list \<Rightarrow> strmap \<Rightarrow> obj option" where
  "SetNestedStringMap o1 fields m = SetNestedField o1 fields (JObj (fmmap JStr m))"

fun RemoveNestedField :: "obj \<Rightarrow> string list \<Rightarrow> obj" where
  "RemoveNestedField m [] = m"
| "RemoveNestedField m [f] = fmdrop f m"
| "RemoveNestedField m (f # g # fs) =
     (case fmlookup m f of
        Some (JObj m') \<Rightarrow> fmupd f (JObj (RemoveNestedField m' (g # fs))) m
      | _ \<Rightarrow> m)"

section \<open>Methods of an unstructured object\<close>

definition setNestedField :: "obj \<Rightarrow> string list \<Rightarrow> json \<Rightarrow> obj" where
  "setNestedField o1 fields v = (case SetNestedField o1 fields v of Some o2 \<Rightarrow> o2 | None \<Rightarrow> o1)"

definition getNestedString :: "obj \<Rightarrow> string list \<Rightarrow> string" where
  "getNestedString o1 fields = (case NestedString o1 fields of Inr (Some s) \<Rightarrow> s | _ \<Rightarrow> '''')"

text \<open>A string field of the metadata: the empty string removes it.\<close>

definition set_meta_string :: "obj \<Rightarrow> string \<Rightarrow> string \<Rightarrow> obj" where
  "set_meta_string o1 field v =
     (if v = '''' then RemoveNestedField o1 [''metadata'', field]
      else setNestedField o1 [''metadata'', field] (JStr v))"

definition GetName :: "obj \<Rightarrow> string" where "GetName o1 = getNestedString o1 [''metadata'', ''name'']"
definition GetNamespace :: "obj \<Rightarrow> string" where "GetNamespace o1 = getNestedString o1 [''metadata'', ''namespace'']"
definition GetAPIVersion :: "obj \<Rightarrow> string" where "GetAPIVersion o1 = getNestedString o1 [''apiVersion'']"
definition GetKind :: "obj \<Rightarrow> string" where "GetKind o1 = getNestedString o1 [''kind'']"
definition GetUID :: "obj \<Rightarrow> string" where "GetUID o1 = getNestedString o1 [''metadata'', ''uid'']"
definition GetSelfLink :: "obj \<Rightarrow> string" where "GetSelfLink o1 = getNestedString o1 [''metadata'', ''selfLink'']"
definition GetResourceVersion :: "obj \<Rightarrow> string" where
  "GetResourceVersion o1 = getNestedString o1 [''metadata'', ''resourceVersion'']"

definition SetUID :: "obj \<Rightarrow> string \<Rightarrow> obj" where "SetUID o1 v = set_meta_string o1 ''uid'' v"
definition SetSelfLink :: "obj \<Rightarrow> string \<Rightarrow> obj" where "SetSelfLink o1 v = set_meta_string o1 ''selfLink'' v"
definition SetResourceVersion :: "obj \<Rightarrow> string \<Rightarrow> obj" where
  "SetResourceVersion o1 v = set_meta_string o1 ''resourceVersion'' v"

definition GetGeneration :: "obj \<Rightarrow> int" where
  "GetGeneration o1 = (case NestedInt64 o1 [''metadata'', ''generation''] of Inr (Some i) \<Rightarrow> i | _ \<Rightarrow> 0)"

definition SetGeneration :: "obj \<Rightarrow> int \<Rightarrow> obj" where
  "SetGeneration o1 g =
     (if g = 0 then RemoveNestedField o1 [''metadata'', ''generation'']
      else setNestedField o1 [''metadata'', ''generation''] (JInt g))"

text \<open>A timestamp is read by parsing and written by printing: \<open>norm\<close> is the text printed for the
  time parsed, empty for a zero or unreadable time.\<close>

definition GetCreationTimestamp :: "obj \<Rightarrow> string" where
  "GetCreationTimestamp o1 = getNestedString o1 [''metadata'', ''creationTimestamp'']"

definition SetCreationTimestamp :: "(string \<Rightarrow> string) \<Rightarrow> obj \<Rightarrow> string \<Rightarrow> obj" where
  "SetCreationTimestamp norm o1 ts = set_meta_string o1 ''creationTimestamp'' (norm ts)"

definition GetLabels :: "obj \<Rightarrow> strmap option" where
  "GetLabels o1 = NestedNullCoercingStringMap o1 [''metadata'', ''labels'']"

definition GetAnnotations :: "obj \<Rightarrow> strmap option" where
  "GetAnnotations o1 = NestedNullCoercingStringMap o1 [''metadata'', ''annotations'']"

definition set_meta_map :: "obj \<Rightarrow> string \<Rightarrow> strmap option \<Rightarrow> obj" where
  "set_meta_map o1 field v =
     (case v of
        None \<Rightarrow> RemoveNestedField o1 [''metadata'', field]
      | Some m \<Rightarrow> (case SetNestedStringMap o1 [''metadata'', field] m of Some o2 \<Rightarrow> o2 | None \<Rightarrow> o1))"

definition SetLabels :: "obj \<Rightarrow> strmap option \<Rightarrow> obj" where
  "SetLabels o1 labels = set_meta_map o1 ''labels'' labels"

definition SetAnnotations :: "obj \<Rightarrow> strmap option \<Rightarrow> obj" where
  "SetAnnotations o1 annotations = set_meta_map o1 ''annotations'' annotations"

record GroupVersionKind =
  gvk_Group :: string
  gvk_Version :: string
  gvk_Kind :: string

text \<open>\<open>schema.ParseGroupVersion\<close>\<close>

definition ParseGroupVersion :: "string \<Rightarrow> (string \<times> string) option" where
  "ParseGroupVersion gv =
     (if gv = '''' \<or> gv = ''/'' then Some ('''', '''')
      else case Split gv ''/'' of
        [v] \<Rightarrow> Some ('''', v)
      | [g, v] \<Rightarrow> Some (g, v)
      | _ \<Rightarrow> None)"

definition gvk_of :: "obj \<Rightarrow> GroupVersionKind" where
  "gvk_of o1 =
     (case ParseGroupVersion (GetAPIVersion o1) of
        None \<Rightarrow> \<lparr>gvk_Group = '''', gvk_Version = '''', gvk_Kind = ''''\<rparr>
      | Some (g, v) \<Rightarrow> \<lparr>gvk_Group = g, gvk_Version = v, gvk_Kind = GetKind o1\<rparr>)"

section \<open>Laws of paths\<close>

text \<open>Two paths are apart when they part ways at some field.\<close>

fun apart :: "string list \<Rightarrow> string list \<Rightarrow> bool" where
  "apart (f # fs) (g # gs) = (f \<noteq> g \<or> apart fs gs)"
| "apart _ _ = False"

locale path_store =
  fixes get :: "'o \<Rightarrow> 'p \<Rightarrow> 'r"
    and put :: "'o \<Rightarrow> 'p \<Rightarrow> 'v \<Rightarrow> 'o option"
    and val :: "'v \<Rightarrow> 'r"
    and path :: "'p \<Rightarrow> bool"
    and parted :: "'p \<Rightarrow> 'p \<Rightarrow> bool"
  assumes get_put: "path p \<Longrightarrow> put o1 p v = Some o2 \<Longrightarrow> get o2 p = val v"
    and get_put_apart: "put o1 p v = Some o2 \<Longrightarrow> parted p q \<Longrightarrow> get o2 q = get o1 q"
begin

fun put_all :: "'o \<Rightarrow> ('p \<times> 'v) list \<Rightarrow> 'o option" where
  "put_all o1 [] = Some o1"
| "put_all o1 ((p, v) # us) = (case put o1 p v of None \<Rightarrow> None | Some o2 \<Rightarrow> put_all o2 us)"

lemma put_all_frame:
  "put_all o1 us = Some o2 \<Longrightarrow> (\<And>p v. (p, v) \<in> set us \<Longrightarrow> parted p q) \<Longrightarrow> get o2 q = get o1 q"
proof (induction us arbitrary: o1)
  case (Cons u us)
  obtain p v where u: "u = (p, v)" by (cases u)
  with Cons.prems obtain o' where "put o1 p v = Some o'" "put_all o' us = Some o2"
    by (auto split: option.splits)
  with Cons.IH [of o'] Cons.prems(2) get_put_apart u show ?case by (metis list.set_intros)
qed simp

text \<open>A sequence of updates at pairwise parted paths leaves every value where it was put.\<close>

lemma put_all_get:
  "put_all o1 us = Some o2 \<Longrightarrow> (\<And>p v. (p, v) \<in> set us \<Longrightarrow> path p) \<Longrightarrow>
     sorted_wrt (\<lambda>a b. parted (fst b) (fst a)) us \<Longrightarrow> (p, v) \<in> set us \<Longrightarrow> get o2 p = val v"
proof (induction us arbitrary: o1)
  case (Cons u us)
  obtain p0 v0 where u: "u = (p0, v0)" by (cases u)
  with Cons.prems obtain o' where put: "put o1 p0 v0 = Some o'" and rest: "put_all o' us = Some o2"
    by (auto split: option.splits)
  show ?case
  proof (cases "(p, v) = (p0, v0)")
    case True
    have "get o2 p0 = get o' p0"
      using Cons.prems(3) u by (intro put_all_frame [OF rest]) auto
    with get_put [OF _ put] Cons.prems(2) True u show ?thesis by auto
  next
    case False
    with Cons.IH [OF rest] Cons.prems(2-) u show ?thesis by auto
  qed
qed simp

end

lemma nested_SetNestedField:
  "fs \<noteq> [] \<Longrightarrow> SetNestedField m fs v = Some m' \<Longrightarrow> nested (JObj m') fs = Inr (Some v)"
  by (induction m fs v arbitrary: m' rule: SetNestedField.induct) (auto split: option.splits json.splits)

lemma nested_SetNestedField_apart:
  "SetNestedField m fs v = Some m' \<Longrightarrow> apart fs gs \<Longrightarrow> nested (JObj m') gs = nested (JObj m) gs"
proof (induction m fs v arbitrary: m' gs rule: SetNestedField.induct)
  case (2 m f v)
  then show ?case by (cases gs) auto
next
  case (3 m f g fs v)
  from "3.prems"(2) obtain h hs where gs: "gs = h # hs" by (cases gs) auto
  show ?case
  proof (cases "h = f")
    case False
    with "3.prems" gs show ?thesis by (auto split: option.splits json.splits)
  next
    case True
    with "3.prems" gs have a: "apart (g # fs) hs" by simp
    then have hs: "nested (JObj fmempty) hs = Inr None" by (cases hs) auto
    show ?thesis using "3.prems"(1) "3.IH" a gs True hs
      by (auto split: option.splits json.splits)
  qed
qed simp

interpretation fields: path_store NestedFieldNoCopy SetNestedField "\<lambda>v. Inr (Some v)" "\<lambda>p. p \<noteq> []" apart
  by unfold_locales
    (simp_all add: NestedFieldNoCopy_def nested_SetNestedField nested_SetNestedField_apart)

interpretation fm: kv_map fmempty fmlookup "\<lambda>m k v. fmupd k v m" "\<lambda>_. True"
  by unfold_locales auto

lemma nested_RemoveNestedField_apart:
  "apart fs gs \<Longrightarrow> nested (JObj (RemoveNestedField m fs)) gs = nested (JObj m) gs"
proof (induction m fs arbitrary: gs rule: RemoveNestedField.induct)
  case (2 m f)
  then show ?case by (cases gs) auto
next
  case (3 m f g fs)
  then show ?case by (cases gs) (auto split: option.splits json.splits)
qed simp

declare SetNestedField.simps [simp del] RemoveNestedField.simps [simp del]

end
