(* ===== verification/Merge.thy ===== *)
theory Merge
  imports Unstructured
begin

text \<open>
  Merging a desired object with the one in the cluster (\<open>pkg/apply/merge.go\<close>). The two
  controllers that write the linuxptp-daemon DaemonSet own different parts of it: the security
  volumes, mounts and secret-hash annotations belong to the PtpConfig controller, the rest to the
  PtpOperatorConfig controller; which one is writing comes with the context. A merge changes
  \<open>updated\<close> in place; here it returns it, or the error.
\<close>

section \<open>Security items\<close>

definition TLV_AUTH_SUFFIX :: string where
  "TLV_AUTH_SUFFIX = ''-tlv-auth''"

definition isSecurityItem :: "string \<Rightarrow> bool" where
  "isSecurityItem name \<longleftrightarrow> 9 \<le> length name \<and> drop (length name - 9) name = TLV_AUTH_SUFFIX"

text \<open>The name of a volume, mount or container: \<open>m["name"].(string)\<close>.\<close>

definition item_name :: "json \<Rightarrow> string option" where
  "item_name j =
     (case j of
        JObj m \<Rightarrow> (case fmlookup m ''name'' of Some (JStr s) \<Rightarrow> Some s | _ \<Rightarrow> None)
      | _ \<Rightarrow> None)"

definition security :: "json \<Rightarrow> bool" where
  "security j = (case item_name j of None \<Rightarrow> False | Some n \<Rightarrow> isSecurityItem n)"

definition filterNonSecurityVolumes :: "json list \<Rightarrow> json list" where
  "filterNonSecurityVolumes volumes = filter (\<lambda>v. \<not> security v) volumes"

definition extractSecurityVolumes :: "json list \<Rightarrow> json list" where
  "extractSecurityVolumes volumes = filter security volumes"

definition filterNonSecurityMounts :: "json list \<Rightarrow> json list" where
  "filterNonSecurityMounts mounts = filter (\<lambda>m. \<not> security m) mounts"

definition extractSecurityMounts :: "json list \<Rightarrow> json list" where
  "extractSecurityMounts mounts = filter security mounts"

definition securityPrefix :: string where
  "securityPrefix = ''ptp.openshift.io/secret-hash-''"

definition isSecurityAnnotation :: "string \<Rightarrow> bool" where
  "isSecurityAnnotation key \<longleftrightarrow>
     length securityPrefix < length key \<and> take (length securityPrefix) key = securityPrefix"

definition filterNonSecurityAnnotations :: "strmap \<Rightarrow> strmap" where
  "filterNonSecurityAnnotations annotations = fmfilter (\<lambda>k. \<not> isSecurityAnnotation k) annotations"

definition extractSecurityAnnotations :: "strmap \<Rightarrow> strmap" where
  "extractSecurityAnnotations annotations = fmfilter isSecurityAnnotation annotations"

section \<open>Parts of the DaemonSet\<close>

abbreviation volumes_path :: "string list" where
  "volumes_path \<equiv> [''spec'', ''template'', ''spec'', ''volumes'']"

abbreviation containers_path :: "string list" where
  "containers_path \<equiv> [''spec'', ''template'', ''spec'', ''containers'']"

abbreviation annotations_path :: "string list" where
  "annotations_path \<equiv> [''spec'', ''template'', ''metadata'', ''annotations'']"

abbreviation daemon_container :: string where
  "daemon_container \<equiv> ''linuxptp-daemon-container''"

definition getVolumesFromCurrent :: "obj \<Rightarrow> json list" where
  "getVolumesFromCurrent current = (case NestedSlice current volumes_path of Inr (Some v) \<Rightarrow> v | _ \<Rightarrow> [])"

definition getVolumesFromUpdated :: "obj \<Rightarrow> uns_error + json list" where
  "getVolumesFromUpdated updated =
     (case NestedSlice updated volumes_path of Inl e \<Rightarrow> Inl e | Inr None \<Rightarrow> Inr [] | Inr (Some v) \<Rightarrow> Inr v)"

definition preserveSecurityFromCurrentVolumes :: "json list \<Rightarrow> json list" where
  "preserveSecurityFromCurrentVolumes currentVolumes = extractSecurityVolumes currentVolumes"

definition useSecurityFromUpdatedVolumes :: "json list \<Rightarrow> json list" where
  "useSecurityFromUpdatedVolumes updatedVolumes = extractSecurityVolumes updatedVolumes"

definition getAnnotationsFromCurrent :: "obj \<Rightarrow> strmap" where
  "getAnnotationsFromCurrent current =
     (case NestedStringMap current annotations_path of Inr (Some m) \<Rightarrow> m | _ \<Rightarrow> fmempty)"

definition getAnnotationsFromUpdated :: "obj \<Rightarrow> uns_error + strmap" where
  "getAnnotationsFromUpdated updated =
     (case NestedStringMap updated annotations_path of
        Inl e \<Rightarrow> Inl e | Inr None \<Rightarrow> Inr fmempty | Inr (Some m) \<Rightarrow> Inr m)"

definition preserveSecurityFromCurrentAnnotations :: "strmap \<Rightarrow> strmap" where
  "preserveSecurityFromCurrentAnnotations currentAnnotations = extractSecurityAnnotations currentAnnotations"

definition useSecurityFromUpdatedAnnotations :: "strmap \<Rightarrow> strmap" where
  "useSecurityFromUpdatedAnnotations updatedAnnotations = extractSecurityAnnotations updatedAnnotations"

fun getMountsFromContainer :: "json list \<Rightarrow> string \<Rightarrow> json list" where
  "getMountsFromContainer [] containerName = []"
| "getMountsFromContainer (cont # containers) containerName =
     (case cont of
        JObj contMap \<Rightarrow>
          if item_name cont = Some containerName
          then (case NestedSlice contMap [''volumeMounts''] of Inr (Some mounts) \<Rightarrow> mounts | _ \<Rightarrow> [])
          else getMountsFromContainer containers containerName
      | _ \<Rightarrow> getMountsFromContainer containers containerName)"

definition getMountsFromCurrent :: "obj \<Rightarrow> json list" where
  "getMountsFromCurrent current =
     (case NestedSlice current containers_path of
        Inr (Some cs) \<Rightarrow> getMountsFromContainer cs daemon_container
      | _ \<Rightarrow> [])"

definition getMountsFromUpdated :: "obj \<Rightarrow> uns_error + json list" where
  "getMountsFromUpdated updated =
     (case NestedSlice updated containers_path of
        Inl e \<Rightarrow> Inl e
      | Inr None \<Rightarrow> Inr []
      | Inr (Some cs) \<Rightarrow> Inr (getMountsFromContainer cs daemon_container))"

definition preserveSecurityFromCurrentMounts :: "json list \<Rightarrow> json list" where
  "preserveSecurityFromCurrentMounts currentMounts = extractSecurityMounts currentMounts"

definition useSecurityFromUpdatedMounts :: "json list \<Rightarrow> json list" where
  "useSecurityFromUpdatedMounts updatedMounts = extractSecurityMounts updatedMounts"

definition set_or_error :: "obj \<Rightarrow> string list \<Rightarrow> json \<Rightarrow> uns_error + obj" where
  "set_or_error o1 path v = (case SetNestedField o1 path v of None \<Rightarrow> Inl CannotSet | Some o2 \<Rightarrow> Inr o2)"

definition mergeSecurityVolumes :: "obj \<Rightarrow> obj \<Rightarrow> bool \<Rightarrow> uns_error + obj" where
  "mergeSecurityVolumes current updated preserve =
     (let currentVolumes = getVolumesFromCurrent current in
      case getVolumesFromUpdated updated of
        Inl e \<Rightarrow> Inl e
      | Inr updatedVolumes \<Rightarrow>
          (let securityVolumesToUse =
             (if preserve then preserveSecurityFromCurrentVolumes currentVolumes
              else useSecurityFromUpdatedVolumes updatedVolumes)
           in set_or_error updated volumes_path
                (JArr (filterNonSecurityVolumes updatedVolumes @ securityVolumesToUse))))"

definition mergeSecurityAnnotations :: "obj \<Rightarrow> obj \<Rightarrow> bool \<Rightarrow> uns_error + obj" where
  "mergeSecurityAnnotations current updated preserve =
     (let currentAnnotations = getAnnotationsFromCurrent current in
      case getAnnotationsFromUpdated updated of
        Inl e \<Rightarrow> Inl e
      | Inr updatedAnnotations \<Rightarrow>
          (let securityAnnotationsToUse =
             (if preserve then preserveSecurityFromCurrentAnnotations currentAnnotations
              else useSecurityFromUpdatedAnnotations updatedAnnotations)
           in set_or_error updated annotations_path
                (JObj (fmmap JStr (filterNonSecurityAnnotations updatedAnnotations ++\<^sub>f securityAnnotationsToUse)))))"

text \<open>The loop that stores the mounts in the first container with the daemon's name.\<close>

fun set_mounts :: "json list \<Rightarrow> json list \<Rightarrow> json list" where
  "set_mounts mounts [] = []"
| "set_mounts mounts (cont # containers) =
     (case cont of
        JObj contMap \<Rightarrow>
          if item_name cont = Some daemon_container
          then JObj (fmupd ''volumeMounts'' (JArr mounts) contMap) # containers
          else cont # set_mounts mounts containers
      | _ \<Rightarrow> cont # set_mounts mounts containers)"

definition mergeSecurityVolumeMounts :: "obj \<Rightarrow> obj \<Rightarrow> bool \<Rightarrow> uns_error + obj" where
  "mergeSecurityVolumeMounts current updated preserve =
     (let currentMounts = getMountsFromCurrent current in
      case getMountsFromUpdated updated of
        Inl e \<Rightarrow> Inl e
      | Inr updatedMounts \<Rightarrow>
          (let securityMountsToUse =
             (if preserve then preserveSecurityFromCurrentMounts currentMounts
              else useSecurityFromUpdatedMounts updatedMounts);
             mergedMounts = filterNonSecurityMounts updatedMounts @ securityMountsToUse;
             updatedContainers = (case NestedSlice updated containers_path of Inr (Some cs) \<Rightarrow> cs | _ \<Rightarrow> [])
           in set_or_error updated containers_path (JArr (set_mounts mergedMounts updatedContainers))))"

section \<open>Merging by kind\<close>

definition SourcePtpConfig :: string where "SourcePtpConfig = ''ptpconfig''"
definition SourcePtpOperatorConfig :: string where "SourcePtpOperatorConfig = ''ptpoperatorconfig''"

definition is_kind :: "obj \<Rightarrow> string \<Rightarrow> string \<Rightarrow> bool" where
  "is_kind o1 grp kind \<longleftrightarrow> gvk_Group (gvk_of o1) = grp \<and> gvk_Kind (gvk_of o1) = kind"

definition deploymentRevisionAnnotation :: string where
  "deploymentRevisionAnnotation = ''deployment.kubernetes.io/revision''"

definition MergeDeploymentForUpdate :: "obj \<Rightarrow> obj \<Rightarrow> uns_error + obj" where
  "MergeDeploymentForUpdate current updated =
     (if is_kind updated ''apps'' ''Deployment'' then
        (let updatedAnnotations = (case GetAnnotations updated of None \<Rightarrow> fmempty | Some m \<Rightarrow> m);
             anno = (case GetAnnotations current of None \<Rightarrow> None
                     | Some m \<Rightarrow> fmlookup m deploymentRevisionAnnotation)
         in Inr (SetAnnotations updated (Some
              (case anno of None \<Rightarrow> updatedAnnotations
               | Some a \<Rightarrow> fmupd deploymentRevisionAnnotation a updatedAnnotations))))
      else Inr updated)"

text \<open>\<open>source\<close> is the controller named by the context, empty when the context names none.\<close>

definition MergeDaemonSetForUpdate :: "string \<Rightarrow> obj \<Rightarrow> obj \<Rightarrow> uns_error + obj" where
  "MergeDaemonSetForUpdate source current updated =
     (if is_kind updated ''apps'' ''DaemonSet'' then
        (if GetName updated \<noteq> ''linuxptp-daemon'' then Inr updated
         else
           (let preserve = (source = SourcePtpOperatorConfig) in
            case mergeSecurityVolumes current updated preserve of
              Inl e \<Rightarrow> Inl e
            | Inr updated1 \<Rightarrow>
                (case mergeSecurityAnnotations current updated1 preserve of
                   Inl e \<Rightarrow> Inl e
                 | Inr updated2 \<Rightarrow> mergeSecurityVolumeMounts current updated2 preserve)))
      else Inr updated)"

definition MergeServiceForUpdate :: "obj \<Rightarrow> obj \<Rightarrow> uns_error + obj" where
  "MergeServiceForUpdate current updated =
     (if is_kind updated '''' ''Service'' then
        (case NestedString current [''spec'', ''clusterIP''] of
           Inl e \<Rightarrow> Inl e
         | Inr None \<Rightarrow> Inr updated
         | Inr (Some clusterIP) \<Rightarrow> set_or_error updated [''spec'', ''clusterIP''] (JStr clusterIP))
      else Inr updated)"

text \<open>The errors of the two \<open>SetNestedField\<close> calls are dropped.\<close>

definition MergeServiceAccountForUpdate :: "obj \<Rightarrow> obj \<Rightarrow> uns_error + obj" where
  "MergeServiceAccountForUpdate current updated =
     (if is_kind updated '''' ''ServiceAccount'' then
        (case NestedSlice current [''secrets''] of
           Inl e \<Rightarrow> Inl e
         | Inr curSecrets \<Rightarrow>
             (let updated1 = (case curSecrets of None \<Rightarrow> updated
                | Some xs \<Rightarrow> setNestedField updated [''secrets''] (JArr xs))
              in case NestedSlice current [''imagePullSecrets''] of
                   Inl e \<Rightarrow> Inl e
                 | Inr None \<Rightarrow> Inr updated1
                 | Inr (Some xs) \<Rightarrow> Inr (setNestedField updated1 [''imagePullSecrets''] (JArr xs))))
      else Inr updated)"

text \<open>Entries of \<open>updated\<close> are copied over those of \<open>current\<close>.\<close>

definition copied_over :: "strmap option \<Rightarrow> strmap option \<Rightarrow> strmap" where
  "copied_over cur upd =
     (case cur of None \<Rightarrow> fmempty | Some m \<Rightarrow> m) ++\<^sub>f (case upd of None \<Rightarrow> fmempty | Some m \<Rightarrow> m)"

definition mergeAnnotations :: "obj \<Rightarrow> obj \<Rightarrow> obj" where
  "mergeAnnotations current updated =
     SetAnnotations updated (Some (copied_over (GetAnnotations current) (GetAnnotations updated)))"

definition mergeLabels :: "obj \<Rightarrow> obj \<Rightarrow> obj" where
  "mergeLabels current updated =
     SetLabels updated (Some (copied_over (GetLabels current) (GetLabels updated)))"

definition MergeMetadataForUpdate :: "(string \<Rightarrow> string) \<Rightarrow> obj \<Rightarrow> obj \<Rightarrow> obj" where
  "MergeMetadataForUpdate norm current updated =
     (let u1 = SetCreationTimestamp norm updated (GetCreationTimestamp current);
          u2 = SetSelfLink u1 (GetSelfLink current);
          u3 = SetGeneration u2 (GetGeneration current);
          u4 = SetUID u3 (GetUID current);
          u5 = SetResourceVersion u4 (GetResourceVersion current)
      in mergeLabels current (mergeAnnotations current u5))"

definition MergeObjectForUpdate :: "(string \<Rightarrow> string) \<Rightarrow> string \<Rightarrow> obj \<Rightarrow> obj \<Rightarrow> uns_error + obj" where
  "MergeObjectForUpdate norm source current updated =
     (case MergeDeploymentForUpdate current updated of
        Inl e \<Rightarrow> Inl e
      | Inr u1 \<Rightarrow>
          (case MergeDaemonSetForUpdate source current u1 of
             Inl e \<Rightarrow> Inl e
           | Inr u2 \<Rightarrow>
               (case MergeServiceForUpdate current u2 of
                  Inl e \<Rightarrow> Inl e
                | Inr u3 \<Rightarrow>
                    (case MergeServiceAccountForUpdate current u3 of
                       Inl e \<Rightarrow> Inl e
                     | Inr u4 \<Rightarrow> Inr (MergeMetadataForUpdate norm current u4)))))"

datatype unsupported = SupportAccessor uns_error | ServiceAccountWithSecrets

definition IsObjectSupported :: "obj \<Rightarrow> unsupported option" where
  "IsObjectSupported o1 =
     (if is_kind o1 '''' ''ServiceAccount'' then
        (case NestedSlice o1 [''secrets''] of
           Inl e \<Rightarrow> Some (SupportAccessor e)
         | Inr None \<Rightarrow> None
         | Inr (Some secrets) \<Rightarrow> if secrets \<noteq> [] then Some ServiceAccountWithSecrets else None)
      else None)"

section \<open>Reading after writing\<close>

lemma NestedSlice_put:
  "p \<noteq> [] \<Longrightarrow> SetNestedField o1 p (JArr xs) = Some o2 \<Longrightarrow> NestedSlice o2 p = Inr (Some xs)"
  by (simp add: NestedSlice_def fields.get_put)

lemma NestedStringMap_put:
  "p \<noteq> [] \<Longrightarrow> SetNestedField o1 p (JObj (fmmap JStr m)) = Some o2 \<Longrightarrow> NestedStringMap o2 p = Inr (Some m)"
proof -
  have "fmpred (\<lambda>_. is_JStr) (fmmap JStr m)" by (auto simp: fmpred_iff)
  moreover have "fmmap json_str (fmmap JStr m) = m" by (rule fmap_ext) (simp add: option.map_comp comp_def option.map_ident)
  moreover assume "p \<noteq> []" "SetNestedField o1 p (JObj (fmmap JStr m)) = Some o2"
  ultimately show ?thesis by (simp add: NestedStringMap_def fields.get_put)
qed

lemma set_or_error_Inr: "set_or_error o1 p v = Inr o2 \<longleftrightarrow> SetNestedField o1 p v = Some o2"
  by (auto simp: set_or_error_def split: option.splits)

text \<open>Every reader depends only on the field at its path.\<close>

lemma readers_frame:
  assumes "NestedFieldNoCopy o2 p = NestedFieldNoCopy o1 p"
  shows "NestedSlice o2 p = NestedSlice o1 p" "NestedStringMap o2 p = NestedStringMap o1 p"
    "NestedString o2 p = NestedString o1 p" "NestedInt64 o2 p = NestedInt64 o1 p"
    "NestedNullCoercingStringMap o2 p = NestedNullCoercingStringMap o1 p"
    "getNestedString o2 p = getNestedString o1 p"
  using assms
  by (simp_all add: NestedSlice_def NestedStringMap_def NestedString_def NestedInt64_def
      NestedNullCoercingStringMap_def getNestedString_def)

section \<open>Security items of lists\<close>

lemma isSecurityItem_iff: "isSecurityItem name \<longleftrightarrow> HasSuffix name TLV_AUTH_SUFFIX"
  by (auto simp: isSecurityItem_def TLV_AUTH_SUFFIX_def HasSuffix_iff intro: exI [of _ "take (length name - 9) name"])
    (metis append_take_drop_id)+

lemma split_security [simp]:
  "filterNonSecurityVolumes (filterNonSecurityVolumes u @ extractSecurityVolumes c) = filterNonSecurityVolumes u"
  "extractSecurityVolumes (filterNonSecurityVolumes u @ extractSecurityVolumes c) = extractSecurityVolumes c"
  "filterNonSecurityMounts (filterNonSecurityMounts u @ extractSecurityMounts c) = filterNonSecurityMounts u"
  "extractSecurityMounts (filterNonSecurityMounts u @ extractSecurityMounts c) = extractSecurityMounts c"
  by (simp_all add: filterNonSecurityVolumes_def extractSecurityVolumes_def filterNonSecurityMounts_def
      extractSecurityMounts_def)

lemma split_security_annotations [simp]:
  "filterNonSecurityAnnotations (filterNonSecurityAnnotations u ++\<^sub>f extractSecurityAnnotations c) = filterNonSecurityAnnotations u"
  "extractSecurityAnnotations (filterNonSecurityAnnotations u ++\<^sub>f extractSecurityAnnotations c) = extractSecurityAnnotations c"
  by (rule fmap_ext; auto simp: filterNonSecurityAnnotations_def extractSecurityAnnotations_def)+

definition has_daemon :: "json list \<Rightarrow> bool" where
  "has_daemon cs = list_ex (\<lambda>c. item_name c = Some daemon_container) cs"

lemma item_name_set_mounts:
  "item_name (JObj (fmupd ''volumeMounts'' v m)) = item_name (JObj m)"
  by (simp add: item_name_def)

lemma item_name_obj: "item_name c = Some n \<Longrightarrow> \<exists>m. c = JObj m"
  by (auto simp: item_name_def split: json.splits)

lemma getMounts_set_mounts:
  "getMountsFromContainer (set_mounts ms cs) daemon_container = (if has_daemon cs then ms else [])"
proof (induction cs)
  case (Cons c cs)
  have "getMountsFromContainer (JObj (fmupd ''volumeMounts'' (JArr ms) m) # cs) daemon_container = ms"
    if "item_name (JObj m) = Some daemon_container" for m
    using that by (simp add: item_name_set_mounts NestedSlice_def NestedFieldNoCopy_def)
  with Cons show ?case
    by (cases c) (auto simp: has_daemon_def dest: item_name_obj)
qed (simp add: has_daemon_def)

lemma has_daemon_set_mounts: "has_daemon (set_mounts ms cs) = has_daemon cs"
proof (induction cs)
  case (Cons c cs)
  then show ?case by (cases c) (auto simp: has_daemon_def item_name_set_mounts dest: item_name_obj)
qed simp

section \<open>The merged DaemonSet\<close>

definition is_daemon :: "obj \<Rightarrow> bool" where
  "is_daemon u \<longleftrightarrow> is_kind u ''apps'' ''DaemonSet'' \<and> GetName u = ''linuxptp-daemon''"

lemma mergeVolumes_Inr:
  assumes "mergeSecurityVolumes c u pres = Inr r"
  obtains uv where "getVolumesFromUpdated u = Inr uv"
    "SetNestedField u volumes_path (JArr (filterNonSecurityVolumes uv
       @ extractSecurityVolumes (if pres then getVolumesFromCurrent c else uv))) = Some r"
  using assms that
  by (cases pres) (auto simp: mergeSecurityVolumes_def Let_def set_or_error_Inr preserveSecurityFromCurrentVolumes_def
      useSecurityFromUpdatedVolumes_def split: sum.splits)

lemma mergeAnnotations_Inr:
  assumes "mergeSecurityAnnotations c u pres = Inr r"
  obtains ua where "getAnnotationsFromUpdated u = Inr ua"
    "SetNestedField u annotations_path (JObj (fmmap JStr (filterNonSecurityAnnotations ua
       ++\<^sub>f extractSecurityAnnotations (if pres then getAnnotationsFromCurrent c else ua)))) = Some r"
  using assms that
  by (cases pres) (auto simp: mergeSecurityAnnotations_def Let_def set_or_error_Inr preserveSecurityFromCurrentAnnotations_def
      useSecurityFromUpdatedAnnotations_def split: sum.splits)

definition containers_of :: "obj \<Rightarrow> json list" where
  "containers_of o1 = (case NestedSlice o1 containers_path of Inr (Some cs) \<Rightarrow> cs | _ \<Rightarrow> [])"

lemma mergeMounts_Inr:
  assumes "mergeSecurityVolumeMounts c u pres = Inr r"
  obtains um where "getMountsFromUpdated u = Inr um"
    "SetNestedField u containers_path (JArr (set_mounts (filterNonSecurityMounts um
       @ extractSecurityMounts (if pres then getMountsFromCurrent c else um)) (containers_of u))) = Some r"
  using assms that
  by (cases pres) (auto simp: mergeSecurityVolumeMounts_def Let_def set_or_error_Inr preserveSecurityFromCurrentMounts_def
      useSecurityFromUpdatedMounts_def containers_of_def split: sum.splits)

text \<open>The three updates of a successful merge, as one sequence of writes at parted paths.\<close>

definition daemon_writes :: "bool \<Rightarrow> obj \<Rightarrow> obj \<Rightarrow> json list \<Rightarrow> strmap \<Rightarrow> json list \<Rightarrow> (string list \<times> json) list" where
  "daemon_writes pres c u uv ua um =
     [(volumes_path, JArr (filterNonSecurityVolumes uv
         @ extractSecurityVolumes (if pres then getVolumesFromCurrent c else uv))),
      (annotations_path, JObj (fmmap JStr (filterNonSecurityAnnotations ua
         ++\<^sub>f extractSecurityAnnotations (if pres then getAnnotationsFromCurrent c else ua)))),
      (containers_path, JArr (set_mounts (filterNonSecurityMounts um
         @ extractSecurityMounts (if pres then getMountsFromCurrent c else um)) (containers_of u)))]"

lemma daemon_writes_parted: "sorted_wrt (\<lambda>a b. apart (fst b) (fst a)) (daemon_writes pres c u uv ua um)"
  by (simp add: daemon_writes_def)

lemma merge_daemon_writes:
  assumes "is_daemon u" "MergeDaemonSetForUpdate source c u = Inr r"
  obtains uv ua um where "getVolumesFromUpdated u = Inr uv" "getAnnotationsFromUpdated u = Inr ua"
    "getMountsFromUpdated u = Inr um"
    "fields.put_all u (daemon_writes (source = SourcePtpOperatorConfig) c u uv ua um) = Some r"
proof -
  let ?p = "source = SourcePtpOperatorConfig"
  from assms obtain u1 u2 where m: "mergeSecurityVolumes c u ?p = Inr u1" "mergeSecurityAnnotations c u1 ?p = Inr u2"
    "mergeSecurityVolumeMounts c u2 ?p = Inr r"
    by (auto simp: MergeDaemonSetForUpdate_def is_daemon_def Let_def split: sum.splits)
  obtain uv where v: "getVolumesFromUpdated u = Inr uv"
    "SetNestedField u volumes_path (JArr (filterNonSecurityVolumes uv
       @ extractSecurityVolumes (if ?p then getVolumesFromCurrent c else uv))) = Some u1"
    by (rule mergeVolumes_Inr [OF m(1)])
  obtain ua where a: "getAnnotationsFromUpdated u1 = Inr ua"
    "SetNestedField u1 annotations_path (JObj (fmmap JStr (filterNonSecurityAnnotations ua
       ++\<^sub>f extractSecurityAnnotations (if ?p then getAnnotationsFromCurrent c else ua)))) = Some u2"
    by (rule mergeAnnotations_Inr [OF m(2)])
  obtain um where s: "getMountsFromUpdated u2 = Inr um"
    "SetNestedField u2 containers_path (JArr (set_mounts (filterNonSecurityMounts um
       @ extractSecurityMounts (if ?p then getMountsFromCurrent c else um)) (containers_of u2))) = Some r"
    by (rule mergeMounts_Inr [OF m(3)])
  have a1: "NestedFieldNoCopy u1 annotations_path = NestedFieldNoCopy u annotations_path"
    by (rule fields.get_put_apart [OF v(2)]) simp
  with a(1) have a': "getAnnotationsFromUpdated u = Inr ua"
    by (simp add: getAnnotationsFromUpdated_def readers_frame(2) [OF a1])
  have c1: "NestedFieldNoCopy u1 containers_path = NestedFieldNoCopy u containers_path"
    by (rule fields.get_put_apart [OF v(2)]) simp
  have c2: "NestedFieldNoCopy u2 containers_path = NestedFieldNoCopy u1 containers_path"
    by (rule fields.get_put_apart [OF a(2)]) simp
  have sl: "NestedSlice u2 containers_path = NestedSlice u containers_path"
    using readers_frame(1) [OF c1] readers_frame(1) [OF c2] by simp
  then have "getMountsFromUpdated u = Inr um" "containers_of u2 = containers_of u"
    using s(1) by (simp_all add: getMountsFromUpdated_def containers_of_def)
  with v a(2) a' s(2) that [of uv ua um] show ?thesis by (simp add: daemon_writes_def)
qed

lemma merged_daemon:
  assumes d: "is_daemon u" and r: "MergeDaemonSetForUpdate source c u = Inr r"
  defines "pres \<equiv> source = SourcePtpOperatorConfig"
  obtains uv ua um where "getVolumesFromUpdated u = Inr uv" "getAnnotationsFromUpdated u = Inr ua"
    "getMountsFromUpdated u = Inr um"
    "getVolumesFromCurrent r = filterNonSecurityVolumes uv
       @ extractSecurityVolumes (if pres then getVolumesFromCurrent c else uv)"
    "getAnnotationsFromCurrent r = filterNonSecurityAnnotations ua
       ++\<^sub>f extractSecurityAnnotations (if pres then getAnnotationsFromCurrent c else ua)"
    "getMountsFromCurrent r = (if has_daemon (containers_of u) then filterNonSecurityMounts um
       @ extractSecurityMounts (if pres then getMountsFromCurrent c else um) else [])"
    "\<And>q. apart volumes_path q \<Longrightarrow> apart annotations_path q \<Longrightarrow> apart containers_path q \<Longrightarrow>
       NestedFieldNoCopy r q = NestedFieldNoCopy u q"
proof -
  obtain uv ua um where u: "getVolumesFromUpdated u = Inr uv" "getAnnotationsFromUpdated u = Inr ua"
    "getMountsFromUpdated u = Inr um" and w: "fields.put_all u (daemon_writes pres c u uv ua um) = Some r"
    using merge_daemon_writes [OF d r] unfolding pres_def by blast
  have paths: "p \<noteq> []" if "(p, v) \<in> set (daemon_writes pres c u uv ua um)" for p v
    using that by (auto simp: daemon_writes_def)
  note get = fields.put_all_get [OF w paths daemon_writes_parted]
  let ?vol = "filterNonSecurityVolumes uv @ extractSecurityVolumes (if pres then getVolumesFromCurrent c else uv)"
    and ?ann = "filterNonSecurityAnnotations ua ++\<^sub>f extractSecurityAnnotations (if pres then getAnnotationsFromCurrent c else ua)"
    and ?mnt = "filterNonSecurityMounts um @ extractSecurityMounts (if pres then getMountsFromCurrent c else um)"
  have "NestedFieldNoCopy r volumes_path = Inr (Some (JArr ?vol))"
    "NestedFieldNoCopy r annotations_path = Inr (Some (JObj (fmmap JStr ?ann)))"
    "NestedFieldNoCopy r containers_path = Inr (Some (JArr (set_mounts ?mnt (containers_of u))))"
    by (rule get; simp add: daemon_writes_def)+
  moreover have "fmpred (\<lambda>_. is_JStr) (fmmap JStr ?ann)" by (auto simp: fmpred_iff)
  moreover have "fmmap json_str (fmmap JStr ?ann) = ?ann" by (rule fmap_ext) (simp add: option.map_comp comp_def option.map_ident)
  ultimately have "getVolumesFromCurrent r = ?vol" "getAnnotationsFromCurrent r = ?ann"
    "getMountsFromCurrent r = (if has_daemon (containers_of u) then ?mnt else [])"
    by (simp_all add: getVolumesFromCurrent_def getAnnotationsFromCurrent_def getMountsFromCurrent_def
        NestedSlice_def NestedStringMap_def getMounts_set_mounts)
  moreover have "NestedFieldNoCopy r q = NestedFieldNoCopy u q"
    if "apart volumes_path q" "apart annotations_path q" "apart containers_path q" for q
    using fields.put_all_frame [OF w] that by (auto simp: daemon_writes_def)
  ultimately show ?thesis using that u by blast
qed

text \<open>The containers of the merged DaemonSet: the mounts of the first container with the daemon's name are set, every other
  container and every other field of it is the template's.\<close>

lemma set_mounts_at:
  "\<not> has_daemon pre \<Longrightarrow> item_name (JObj m) = Some daemon_container \<Longrightarrow>
     set_mounts ms (pre @ JObj m # post) = pre @ JObj (fmupd ''volumeMounts'' (JArr ms) m) # post"
  by (induction pre) (auto simp: has_daemon_def split: json.splits)

lemma set_mounts_none: "\<not> has_daemon cs \<Longrightarrow> set_mounts ms cs = cs"
  by (induction cs) (auto simp: has_daemon_def split: json.split)

lemma merged_containers:
  assumes "is_daemon u" "MergeDaemonSetForUpdate source c u = Inr r"
  shows "\<exists>um. getMountsFromUpdated u = Inr um \<and> containers_of r = set_mounts (filterNonSecurityMounts um
    @ extractSecurityMounts (if source = SourcePtpOperatorConfig then getMountsFromCurrent c else um)) (containers_of u)"
proof -
  let ?p = "source = SourcePtpOperatorConfig"
  obtain uv ua um where u: "getMountsFromUpdated u = Inr um" and w: "fields.put_all u (daemon_writes ?p c u uv ua um) = Some r"
    by (rule merge_daemon_writes [OF assms])
  have paths: "p \<noteq> []" if "(p, v) \<in> set (daemon_writes ?p c u uv ua um)" for p v
    using that by (auto simp: daemon_writes_def)
  have "(containers_path, JArr (set_mounts (filterNonSecurityMounts um
      @ extractSecurityMounts (if pres then getMountsFromCurrent c else um)) (containers_of u)))
      \<in> set (daemon_writes pres c u uv ua um)" for pres by (simp add: daemon_writes_def)
  from fields.put_all_get [OF w paths daemon_writes_parted this]
  have "NestedFieldNoCopy r containers_path = Inr (Some (JArr (set_mounts (filterNonSecurityMounts um
      @ extractSecurityMounts (if ?p then getMountsFromCurrent c else um)) (containers_of u))))" .
  with u show ?thesis by (simp add: containers_of_def NestedSlice_def)
qed

section \<open>Metadata\<close>

abbreviation meta :: "string \<Rightarrow> string list" where
  "meta f \<equiv> [''metadata'', f]"

text \<open>The metadata of an object is missing or an object, so that its fields can be set.\<close>

definition meta_ok :: "obj \<Rightarrow> bool" where
  "meta_ok o1 = (case fmlookup o1 ''metadata'' of None \<Rightarrow> True | Some (JObj _) \<Rightarrow> True | _ \<Rightarrow> False)"

lemma setNestedField_frame:
  "apart p q \<Longrightarrow> NestedFieldNoCopy (setNestedField o1 p v) q = NestedFieldNoCopy o1 q"
  using fields.get_put_apart by (auto simp: setNestedField_def split: option.splits)

lemma RemoveNestedField_frame:
  "apart p q \<Longrightarrow> NestedFieldNoCopy (RemoveNestedField o1 p) q = NestedFieldNoCopy o1 q"
  by (simp add: NestedFieldNoCopy_def nested_RemoveNestedField_apart)

text \<open>The three ways a metadata field is written: a string, the generation, a map of strings.\<close>

lemma set_meta_frame:
  assumes "apart (meta f) q"
  shows "NestedFieldNoCopy (set_meta_string o1 f v) q = NestedFieldNoCopy o1 q"
    "NestedFieldNoCopy (set_meta_map o1 f m) q = NestedFieldNoCopy o1 q"
  using assms
  by (auto simp: set_meta_string_def set_meta_map_def RemoveNestedField_frame setNestedField_frame
      SetNestedStringMap_def fields.get_put_apart split: option.splits)

lemma SetGeneration_frame:
  "apart (meta ''generation'') q \<Longrightarrow> NestedFieldNoCopy (SetGeneration o1 g) q = NestedFieldNoCopy o1 q"
  by (simp add: SetGeneration_def RemoveNestedField_frame setNestedField_frame)

lemma meta_set_ok:
  "meta_ok o1 \<Longrightarrow> \<exists>o2. SetNestedField o1 (meta f) v = Some o2 \<and> meta_ok o2"
  by (auto simp: meta_ok_def SetNestedField.simps split: option.splits json.splits)

lemma meta_ok_remove: "meta_ok o1 \<Longrightarrow> meta_ok (RemoveNestedField o1 (meta f))"
  by (auto simp: meta_ok_def RemoveNestedField.simps split: option.splits json.splits)

lemma nested_remove: "meta_ok o1 \<Longrightarrow> NestedFieldNoCopy (RemoveNestedField o1 (meta f)) (meta f) = Inr None"
  by (auto simp: meta_ok_def NestedFieldNoCopy_def RemoveNestedField.simps split: option.splits json.splits)

lemma meta_ok_set:
  assumes "meta_ok o1"
  shows "meta_ok (setNestedField o1 (meta f) v)" "meta_ok (set_meta_string o1 f s)"
    "meta_ok (set_meta_map o1 f m)" "meta_ok (SetGeneration o1 g)"
proof -
  show f: "meta_ok (setNestedField o1 (meta f) v)" for f v
    using meta_set_ok [OF assms, of f v] assms by (auto simp: setNestedField_def)
  show "meta_ok (set_meta_string o1 f s)" "meta_ok (SetGeneration o1 g)"
    using f meta_ok_remove [OF assms] by (simp_all add: set_meta_string_def SetGeneration_def)
  show "meta_ok (set_meta_map o1 f m)"
    using f meta_ok_remove [OF assms]
    by (auto simp: set_meta_map_def SetNestedStringMap_def setNestedField_def split: option.splits)
qed

lemma get_set_field:
  assumes "meta_ok o1"
  shows "NestedFieldNoCopy (setNestedField o1 (meta f) v) (meta f) = Inr (Some v)"
  using meta_set_ok [OF assms, of f v] fields.get_put [of "meta f" o1 v] by (auto simp: setNestedField_def)

lemma get_set_string:
  assumes "meta_ok o1"
  shows "getNestedString (set_meta_string o1 f v) (meta f) = v"
  using get_set_field [OF assms, of f] nested_remove [OF assms, of f]
  by (simp add: getNestedString_def NestedString_def set_meta_string_def)

lemma get_set_generation: "meta_ok o1 \<Longrightarrow> GetGeneration (SetGeneration o1 g) = g"
  using get_set_field [of o1 "''generation''"] nested_remove [of o1 "''generation''"]
  by (simp add: GetGeneration_def NestedInt64_def SetGeneration_def)

lemma get_set_map:
  assumes "meta_ok o1"
  shows "NestedNullCoercingStringMap (set_meta_map o1 f (Some m)) (meta f) = Some m"
proof -
  from meta_set_ok [OF assms, of f "JObj (fmmap JStr m)"] obtain o2
    where s: "SetNestedField o1 (meta f) (JObj (fmmap JStr m)) = Some o2" by blast
  then have "NestedFieldNoCopy o2 (meta f) = Inr (Some (JObj (fmmap JStr m)))" by (simp add: fields.get_put)
  moreover have "fmpred (\<lambda>_ v. is_JStr v \<or> v = JNull) (fmmap JStr m)" by (auto simp: fmpred_iff)
  moreover have "fmmap json_str (fmmap JStr m) = m" by (rule fmap_ext) (simp add: option.map_comp comp_def option.map_ident)
  ultimately show ?thesis
    using s by (simp add: set_meta_map_def SetNestedStringMap_def NestedNullCoercingStringMap_def)
qed

lemmas metadata_defs = MergeMetadataForUpdate_def Let_def mergeLabels_def mergeAnnotations_def SetLabels_def
  SetAnnotations_def SetUID_def SetSelfLink_def SetResourceVersion_def SetCreationTimestamp_def
  GetUID_def GetSelfLink_def GetResourceVersion_def GetCreationTimestamp_def GetLabels_def GetAnnotations_def

lemma MergeMetadata_frame:
  "hd q \<noteq> ''metadata'' \<Longrightarrow> q \<noteq> [] \<Longrightarrow>
     NestedFieldNoCopy (MergeMetadataForUpdate norm c u) q = NestedFieldNoCopy u q"
  by (cases q) (simp_all add: metadata_defs set_meta_frame SetGeneration_frame)

text \<open>What the merged metadata reads as.\<close>

lemma frame_string:
  "apart (meta f) q \<Longrightarrow> getNestedString (set_meta_string o1 f v) q = getNestedString o1 q"
  "apart (meta f) q \<Longrightarrow> getNestedString (set_meta_map o1 f m) q = getNestedString o1 q"
  "apart (meta ''generation'') q \<Longrightarrow> getNestedString (SetGeneration o1 g) q = getNestedString o1 q"
  "apart (meta f) q \<Longrightarrow> NestedNullCoercingStringMap (set_meta_string o1 f v) q = NestedNullCoercingStringMap o1 q"
  "apart (meta f) q \<Longrightarrow> NestedNullCoercingStringMap (set_meta_map o1 f m) q = NestedNullCoercingStringMap o1 q"
  "apart (meta ''generation'') q \<Longrightarrow> NestedNullCoercingStringMap (SetGeneration o1 g) q = NestedNullCoercingStringMap o1 q"
  using readers_frame(5,6) set_meta_frame SetGeneration_frame by metis+

lemma frame_generation:
  "apart (meta f) (meta ''generation'') \<Longrightarrow> GetGeneration (set_meta_string o1 f v) = GetGeneration o1"
  "apart (meta f) (meta ''generation'') \<Longrightarrow> GetGeneration (set_meta_map o1 f m) = GetGeneration o1"
  unfolding GetGeneration_def using readers_frame(4) set_meta_frame by metis+

lemma MergeMetadata_reads:
  assumes "meta_ok u"
  shows "GetUID (MergeMetadataForUpdate norm c u) = GetUID c"
    "GetResourceVersion (MergeMetadataForUpdate norm c u) = GetResourceVersion c"
    "GetSelfLink (MergeMetadataForUpdate norm c u) = GetSelfLink c"
    "GetCreationTimestamp (MergeMetadataForUpdate norm c u) = norm (GetCreationTimestamp c)"
    "GetGeneration (MergeMetadataForUpdate norm c u) = GetGeneration c"
    "GetLabels (MergeMetadataForUpdate norm c u) = Some (copied_over (GetLabels c) (GetLabels u))"
    "GetAnnotations (MergeMetadataForUpdate norm c u) = Some (copied_over (GetAnnotations c) (GetAnnotations u))"
  using assms
  by (simp_all add: metadata_defs frame_string frame_generation get_set_string get_set_map meta_ok_set
      get_set_generation)

lemma copied_over_idem: "copied_over (Some (copied_over a b)) b = copied_over a b"
  by (rule fmap_ext) (auto simp: copied_over_def)

text \<open>The merge of metadata depends on \<open>current\<close> only through these readings.\<close>

lemma MergeMetadata_idem:
  assumes "meta_ok u" "\<And>t. norm (norm t) = norm t"
  shows "MergeMetadataForUpdate norm (MergeMetadataForUpdate norm c u) u = MergeMetadataForUpdate norm c u"
proof -
  let ?r = "MergeMetadataForUpdate norm c u"
  have cong: "MergeMetadataForUpdate norm c1 u = MergeMetadataForUpdate norm c2 u"
    if "norm (GetCreationTimestamp c1) = norm (GetCreationTimestamp c2)" "GetSelfLink c1 = GetSelfLink c2"
      "GetGeneration c1 = GetGeneration c2" "GetUID c1 = GetUID c2" "GetResourceVersion c1 = GetResourceVersion c2"
      "copied_over (GetAnnotations c1) (GetAnnotations u) = copied_over (GetAnnotations c2) (GetAnnotations u)"
      "copied_over (GetLabels c1) (GetLabels u) = copied_over (GetLabels c2) (GetLabels u)" for c1 c2
    using that by (simp add: metadata_defs frame_string)
  show ?thesis
    by (rule cong) (simp_all add: MergeMetadata_reads [OF assms(1)] assms(2) copied_over_idem)
qed

section \<open>The whole merge\<close>

lemma gvk_frame:
  assumes "NestedFieldNoCopy o2 [''apiVersion''] = NestedFieldNoCopy o1 [''apiVersion'']"
    and "NestedFieldNoCopy o2 [''kind''] = NestedFieldNoCopy o1 [''kind'']"
  shows "gvk_of o2 = gvk_of o1"
proof -
  have k: "GetAPIVersion o2 = GetAPIVersion o1" "GetKind o2 = GetKind o1"
    using readers_frame(6) [OF assms(1)] readers_frame(6) [OF assms(2)]
    by (simp_all add: GetAPIVersion_def GetKind_def)
  show ?thesis unfolding gvk_of_def k ..
qed

definition plain :: "obj \<Rightarrow> bool" where
  "plain u \<longleftrightarrow> \<not> is_kind u ''apps'' ''Deployment'' \<and> \<not> is_kind u '''' ''Service'' \<and> \<not> is_kind u '''' ''ServiceAccount''"

lemma plain_daemon: "is_daemon u \<Longrightarrow> plain u"
  by (simp add: plain_def is_daemon_def is_kind_def)

lemma daemon_frame:
  assumes "MergeDaemonSetForUpdate source c u = Inr r"
    and "apart volumes_path q" "apart annotations_path q" "apart containers_path q"
  shows "NestedFieldNoCopy r q = NestedFieldNoCopy u q"
proof (cases "is_daemon u")
  case True
  show ?thesis by (rule merged_daemon [OF True assms(1)]) (use assms(2-) in blast)
next
  case False
  with assms(1) show ?thesis by (auto simp: MergeDaemonSetForUpdate_def is_daemon_def split: if_splits)
qed

lemma daemon_gvk: "MergeDaemonSetForUpdate source c u = Inr r \<Longrightarrow> gvk_of r = gvk_of u"
  by (intro gvk_frame daemon_frame) auto

lemma merge_plain:
  assumes "plain u"
  shows "MergeObjectForUpdate norm source c u =
    (case MergeDaemonSetForUpdate source c u of Inl e \<Rightarrow> Inl e | Inr r \<Rightarrow> Inr (MergeMetadataForUpdate norm c r))"
proof (cases "MergeDaemonSetForUpdate source c u")
  case (Inr r)
  have "is_kind r g k = is_kind u g k" for g k
    using daemon_gvk [OF Inr] by (simp add: is_kind_def)
  then have "MergeServiceForUpdate c r = Inr r" "MergeServiceAccountForUpdate c r = Inr r"
    "MergeDeploymentForUpdate c u = Inr u"
    using assms
    by (simp_all add: MergeServiceForUpdate_def MergeServiceAccountForUpdate_def MergeDeploymentForUpdate_def plain_def)
  with Inr show ?thesis by (simp add: MergeObjectForUpdate_def)
qed (use assms in \<open>simp add: MergeObjectForUpdate_def MergeDeploymentForUpdate_def plain_def\<close>)

lemma merge_plain_Inr:
  assumes "plain u" "MergeObjectForUpdate norm source c u = Inr r"
  obtains r0 where "MergeDaemonSetForUpdate source c u = Inr r0" "r = MergeMetadataForUpdate norm c r0"
  using assms by (auto simp: merge_plain split: sum.splits)

lemma metadata_template:
  "getVolumesFromCurrent (MergeMetadataForUpdate norm c u) = getVolumesFromCurrent u"
  "getAnnotationsFromCurrent (MergeMetadataForUpdate norm c u) = getAnnotationsFromCurrent u"
  "getMountsFromCurrent (MergeMetadataForUpdate norm c u) = getMountsFromCurrent u"
proof -
  have f: "NestedFieldNoCopy (MergeMetadataForUpdate norm c u) (''spec'' # q) = NestedFieldNoCopy u (''spec'' # q)" for q
    by (rule MergeMetadata_frame) simp_all
  show "getVolumesFromCurrent (MergeMetadataForUpdate norm c u) = getVolumesFromCurrent u"
    "getMountsFromCurrent (MergeMetadataForUpdate norm c u) = getMountsFromCurrent u"
    by (simp_all add: getVolumesFromCurrent_def getMountsFromCurrent_def NestedSlice_def f)
  show "getAnnotationsFromCurrent (MergeMetadataForUpdate norm c u) = getAnnotationsFromCurrent u"
    by (simp add: getAnnotationsFromCurrent_def NestedStringMap_def f)
qed

lemma current_of_updated:
  "getVolumesFromUpdated u = Inr uv \<Longrightarrow> getVolumesFromCurrent u = uv"
  "getAnnotationsFromUpdated u = Inr ua \<Longrightarrow> getAnnotationsFromCurrent u = ua"
  "getMountsFromUpdated u = Inr um \<Longrightarrow> getMountsFromCurrent u = um"
  by (auto simp: getVolumesFromUpdated_def getVolumesFromCurrent_def getAnnotationsFromUpdated_def
      getAnnotationsFromCurrent_def getMountsFromUpdated_def getMountsFromCurrent_def split: sum.splits option.splits)

lemma containers_daemon_steps:
  assumes "mergeSecurityVolumes c u p = Inr u1" "mergeSecurityAnnotations c u1 p = Inr u2"
  shows "containers_of u2 = containers_of u"
proof -
  have "NestedFieldNoCopy u1 containers_path = NestedFieldNoCopy u containers_path"
    by (rule mergeVolumes_Inr [OF assms(1)]) (erule fields.get_put_apart, simp)
  moreover have "NestedFieldNoCopy u2 containers_path = NestedFieldNoCopy u1 containers_path"
    by (rule mergeAnnotations_Inr [OF assms(2)]) (erule fields.get_put_apart, simp)
  ultimately show ?thesis by (simp add: containers_of_def NestedSlice_def)
qed

text \<open>The merge of the DaemonSet depends on \<open>current\<close> only through its security items.\<close>

lemma daemon_cong:
  assumes "extractSecurityVolumes (getVolumesFromCurrent c1) = extractSecurityVolumes (getVolumesFromCurrent c2)"
    and "extractSecurityAnnotations (getAnnotationsFromCurrent c1) = extractSecurityAnnotations (getAnnotationsFromCurrent c2)"
    and "has_daemon (containers_of u) \<Longrightarrow>
      extractSecurityMounts (getMountsFromCurrent c1) = extractSecurityMounts (getMountsFromCurrent c2)"
  shows "MergeDaemonSetForUpdate source c1 u = MergeDaemonSetForUpdate source c2 u"
proof -
  have v: "mergeSecurityVolumes c1 u p = mergeSecurityVolumes c2 u p"
    and a: "mergeSecurityAnnotations c1 u' p = mergeSecurityAnnotations c2 u' p" for p u'
    unfolding mergeSecurityVolumes_def mergeSecurityAnnotations_def Let_def
      preserveSecurityFromCurrentVolumes_def preserveSecurityFromCurrentAnnotations_def assms(1,2)
    by (rule refl)+
  have m: "mergeSecurityVolumeMounts c1 u2 p = mergeSecurityVolumeMounts c2 u2 p"
    if "mergeSecurityVolumes c2 u p = Inr u1" "mergeSecurityAnnotations c2 u1 p = Inr u2" for u1 u2 p
    using assms(3) containers_daemon_steps [OF that] set_mounts_none [of "containers_of u"]
    by (cases "has_daemon (containers_of u)")
      (auto simp: mergeSecurityVolumeMounts_def Let_def preserveSecurityFromCurrentMounts_def
        simp flip: containers_of_def split: sum.splits)
  show ?thesis
    unfolding MergeDaemonSetForUpdate_def Let_def v a using m by (auto split: sum.splits)
qed

lemma daemon_ignores_current:
  assumes "\<not> (is_daemon u \<and> source = SourcePtpOperatorConfig)"
  shows "MergeDaemonSetForUpdate source c1 u = MergeDaemonSetForUpdate source c2 u"
proof (cases "is_daemon u")
  case True
  have "mergeSecurityVolumes c1 v False = mergeSecurityVolumes c2 v False"
    "mergeSecurityAnnotations c1 v False = mergeSecurityAnnotations c2 v False"
    "mergeSecurityVolumeMounts c1 v False = mergeSecurityVolumeMounts c2 v False" for v
    unfolding mergeSecurityVolumes_def mergeSecurityAnnotations_def mergeSecurityVolumeMounts_def Let_def if_False
    by (rule refl)+
  with True assms show ?thesis by (simp add: MergeDaemonSetForUpdate_def split: sum.split)
next
  case False
  then show ?thesis by (auto simp: MergeDaemonSetForUpdate_def is_daemon_def)
qed

lemma merge_idem:
  assumes "plain u" "meta_ok u" "\<forall>t. norm (norm t) = norm t"
    and "MergeObjectForUpdate norm source c u = Inr r"
  shows "MergeObjectForUpdate norm source r u = Inr r"
proof -
  obtain r0 where r0: "MergeDaemonSetForUpdate source c u = Inr r0" and r: "r = MergeMetadataForUpdate norm c r0"
    by (rule merge_plain_Inr [OF assms(1,4)])
  have "NestedFieldNoCopy r0 [''metadata''] = NestedFieldNoCopy u [''metadata'']"
    by (rule daemon_frame [OF r0]) simp_all
  then have ok: "meta_ok r0"
    using assms(2) by (simp add: meta_ok_def NestedFieldNoCopy_def split: option.splits)
  have "MergeDaemonSetForUpdate source r u = Inr r0"
  proof (cases "is_daemon u \<and> source = SourcePtpOperatorConfig")
    case True
    then have d: "is_daemon u" and s: "source = SourcePtpOperatorConfig" by auto
    have "MergeDaemonSetForUpdate source r u = MergeDaemonSetForUpdate source c u"
      unfolding r by (rule daemon_cong; unfold metadata_template; rule merged_daemon [OF d r0]) (auto simp: s)
    with r0 show ?thesis by simp
  next
    case False
    with r0 daemon_ignores_current [of u source r c] show ?thesis by auto
  qed
  with MergeMetadata_idem [OF ok] assms(1,3) r show ?thesis by (simp add: merge_plain)
qed

lemma merge_key:
  assumes "plain u" "MergeObjectForUpdate norm source c u = Inr r"
  shows "gvk_of r = gvk_of u" "GetName r = GetName u" "GetNamespace r = GetNamespace u"
proof -
  obtain r0 where r0: "MergeDaemonSetForUpdate source c u = Inr r0" and r: "r = MergeMetadataForUpdate norm c r0"
    by (rule merge_plain_Inr [OF assms])
  have "gvk_of r = gvk_of r0" unfolding r by (rule gvk_frame; rule MergeMetadata_frame) simp_all
  with daemon_gvk [OF r0] show "gvk_of r = gvk_of u" by simp
  have n0: "NestedFieldNoCopy r0 (meta f) = NestedFieldNoCopy u (meta f)" for f
    by (rule daemon_frame [OF r0]) simp_all
  have "getNestedString r (meta f) = getNestedString r0 (meta f)" if "f \<in> {''name'', ''namespace''}" for f
    using that unfolding r by (auto simp: metadata_defs frame_string)
  then show "GetName r = GetName u" "GetNamespace r = GetNamespace u"
    using readers_frame(6) [OF n0] by (simp_all add: GetName_def GetNamespace_def)
qed

section \<open>Properties\<close>

text \<open>C3: When the PtpOperatorConfig controller updates the linuxptp-daemon DaemonSet, the result has
  exactly the security volumes, secret-hash annotations and security mounts that the cluster has,
  and everything else of these lists and maps as the template has it. Its containers are the template's, in their order, except
  that the first one with the daemon's name has, as its mounts, the template's other mounts followed by the cluster's
  security mounts. Every field outside the
  metadata of the DaemonSet and these three places is as in the template (the metadata is the subject of the property on merged metadata).\<close>

theorem operator_update_preserves_security:
  assumes "is_daemon u" "MergeObjectForUpdate norm SourcePtpOperatorConfig c u = Inr r"
  shows "extractSecurityVolumes (getVolumesFromCurrent r) = extractSecurityVolumes (getVolumesFromCurrent c)
    \<and> filterNonSecurityVolumes (getVolumesFromCurrent r) = filterNonSecurityVolumes (getVolumesFromCurrent u)
    \<and> extractSecurityAnnotations (getAnnotationsFromCurrent r) = extractSecurityAnnotations (getAnnotationsFromCurrent c)
    \<and> filterNonSecurityAnnotations (getAnnotationsFromCurrent r) = filterNonSecurityAnnotations (getAnnotationsFromCurrent u)
    \<and> (has_daemon (containers_of u) \<longrightarrow>
         extractSecurityMounts (getMountsFromCurrent r) = extractSecurityMounts (getMountsFromCurrent c)
         \<and> filterNonSecurityMounts (getMountsFromCurrent r) = filterNonSecurityMounts (getMountsFromCurrent u))
    \<and> (\<forall>pre m post. containers_of u = pre @ JObj m # post \<and> \<not> has_daemon pre \<and> item_name (JObj m) = Some daemon_container \<longrightarrow>
         containers_of r = pre @ JObj (fmupd ''volumeMounts'' (JArr (filterNonSecurityMounts (getMountsFromCurrent u)
           @ extractSecurityMounts (getMountsFromCurrent c))) m) # post)
    \<and> (\<not> has_daemon (containers_of u) \<longrightarrow> containers_of r = containers_of u)
    \<and> (apart volumes_path q \<and> apart annotations_path q \<and> apart containers_path q \<and> apart [''metadata''] q \<longrightarrow>
         NestedFieldNoCopy r q = NestedFieldNoCopy u q)"
proof -
  obtain r0 where r0: "MergeDaemonSetForUpdate SourcePtpOperatorConfig c u = Inr r0"
    and r: "r = MergeMetadataForUpdate norm c r0"
    by (rule merge_plain_Inr [OF plain_daemon [OF assms(1)] assms(2)])
  have "NestedFieldNoCopy r q = NestedFieldNoCopy u q"
    if "apart volumes_path q" "apart annotations_path q" "apart containers_path q" "apart [''metadata''] q"
    using daemon_frame [OF r0 that(1-3)] MergeMetadata_frame [of q norm c r0] that(4) r by (cases q) auto
  then have frame: "apart volumes_path q \<and> apart annotations_path q \<and> apart containers_path q \<and> apart [''metadata''] q \<longrightarrow>
      NestedFieldNoCopy (MergeMetadataForUpdate norm c r0) q = NestedFieldNoCopy u q"
    unfolding r by blast
  have "NestedFieldNoCopy (MergeMetadataForUpdate norm c r0) containers_path = NestedFieldNoCopy r0 containers_path"
    by (rule MergeMetadata_frame) simp_all
  from readers_frame(1) [OF this] have "containers_of (MergeMetadataForUpdate norm c r0) = containers_of r0"
    by (simp add: containers_of_def)
  then have cs: "containers_of (MergeMetadataForUpdate norm c r0) = set_mounts
      (filterNonSecurityMounts (getMountsFromCurrent u) @ extractSecurityMounts (getMountsFromCurrent c)) (containers_of u)"
    using merged_containers [OF assms(1) r0] unfolding if_True simp_thms by (metis current_of_updated(3))
  have cont: "\<forall>pre m post. containers_of u = pre @ JObj m # post \<and> \<not> has_daemon pre \<and> item_name (JObj m) = Some daemon_container \<longrightarrow>
      containers_of (MergeMetadataForUpdate norm c r0) = pre @ JObj (fmupd ''volumeMounts''
        (JArr (filterNonSecurityMounts (getMountsFromCurrent u) @ extractSecurityMounts (getMountsFromCurrent c))) m) # post"
    unfolding cs using set_mounts_at by metis
  have none: "\<not> has_daemon (containers_of u) \<longrightarrow> containers_of (MergeMetadataForUpdate norm c r0) = containers_of u"
    unfolding cs using set_mounts_none by blast
  show ?thesis
    unfolding r metadata_template
    by (rule merged_daemon [OF assms(1) r0], intro conjI frame cont) (simp_all add: current_of_updated none)
qed

text \<open>C14: When the PtpConfig controller updates the DaemonSet, what counts is the object it prepared:
  the volumes are a permutation of the prepared ones, the template annotations are the prepared
  ones, and the mounts of the daemon container a permutation of the prepared ones, so that
  security items it dropped are removed from the cluster.\<close>

theorem ptpconfig_update_takes_prepared:
  assumes "is_daemon u" "MergeObjectForUpdate norm SourcePtpConfig c u = Inr r"
  shows "mset (getVolumesFromCurrent r) = mset (getVolumesFromCurrent u)
    \<and> getAnnotationsFromCurrent r = getAnnotationsFromCurrent u
    \<and> (has_daemon (containers_of u) \<longrightarrow> mset (getMountsFromCurrent r) = mset (getMountsFromCurrent u))"
proof -
  obtain r0 where r0: "MergeDaemonSetForUpdate SourcePtpConfig c u = Inr r0"
    and r: "r = MergeMetadataForUpdate norm c r0"
    by (rule merge_plain_Inr [OF plain_daemon [OF assms(1)] assms(2)])
  have ne: "SourcePtpConfig \<noteq> SourcePtpOperatorConfig" by (simp add: SourcePtpConfig_def SourcePtpOperatorConfig_def)
  have parts: "mset (filterNonSecurityVolumes xs @ extractSecurityVolumes xs) = mset xs"
    "mset (filterNonSecurityMounts xs @ extractSecurityMounts xs) = mset xs" for xs
    using filter_partition_mset [of security xs]
    by (simp_all add: filterNonSecurityVolumes_def extractSecurityVolumes_def filterNonSecurityMounts_def
        extractSecurityMounts_def add.commute)
  have ann: "filterNonSecurityAnnotations m ++\<^sub>f extractSecurityAnnotations m = m" for m
    by (rule fmap_ext) (auto simp: filterNonSecurityAnnotations_def extractSecurityAnnotations_def)
  show ?thesis
    unfolding r metadata_template
    by (rule merged_daemon [OF assms(1) r0]) (use ne parts ann in \<open>auto simp: current_of_updated simp del: mset_append\<close>)
qed

text \<open>C31: Merging is idempotent for every kind but Deployments, Services and ServiceAccounts, the DaemonSet included, when the
  metadata of the desired object, if present, is an object and normalising a timestamp twice is normalising it once: merging
  the same desired object with the result of its merge gives that result again.\<close>

theorem merge_idempotent:
  assumes "plain u" "meta_ok u" "\<forall>t. norm (norm t) = norm t"
    and "MergeObjectForUpdate norm source c u = Inr r"
  shows "MergeObjectForUpdate norm source r u = Inr r"
  by (rule merge_idem [OF assms])

text \<open>C30: Metadata after a merge: the identity and version fields are those of the cluster, labels and
  annotations are those of the desired object with the cluster's added where the desired object
  has none under the key.\<close>

theorem merge_metadata_correct:
  assumes "meta_ok u" "r = MergeMetadataForUpdate norm c u"
  shows "GetUID r = GetUID c \<and> GetResourceVersion r = GetResourceVersion c \<and> GetGeneration r = GetGeneration c
    \<and> (\<forall>k. \<exists>m. GetLabels r = Some m \<and> fmlookup m k =
         (case Option.bind (GetLabels u) (\<lambda>l. fmlookup l k) of
            Some v \<Rightarrow> Some v | None \<Rightarrow> Option.bind (GetLabels c) (\<lambda>l. fmlookup l k)))
    \<and> (\<forall>k. \<exists>m. GetAnnotations r = Some m \<and> fmlookup m k =
         (case Option.bind (GetAnnotations u) (\<lambda>l. fmlookup l k) of
            Some v \<Rightarrow> Some v | None \<Rightarrow> Option.bind (GetAnnotations c) (\<lambda>l. fmlookup l k)))"
proof -
  have "fmlookup (copied_over a b) k = (case Option.bind b (\<lambda>l. fmlookup l k) of
      Some v \<Rightarrow> Some v | None \<Rightarrow> Option.bind a (\<lambda>l. fmlookup l k))" for a b k
    by (cases a; cases b) (auto simp: copied_over_def fmlookup_dom_iff split: option.splits)
  then show ?thesis unfolding assms(2) by (simp add: MergeMetadata_reads [OF assms(1)])
qed

section \<open>Witnesses\<close>

abbreviation named :: "string \<Rightarrow> json" where
  "named n \<equiv> JObj (fmap_of_list [(''name'', JStr n)])"

definition wit_daemon :: "string list \<Rightarrow> obj" where
  "wit_daemon vols = fmap_of_list
     [(''apiVersion'', JStr ''apps/v1''), (''kind'', JStr ''DaemonSet''),
      (''metadata'', named ''linuxptp-daemon''),
      (''spec'', JObj (fmap_of_list [(''template'', JObj (fmap_of_list
        [(''spec'', JObj (fmap_of_list [(''volumes'', JArr (map named vols)),
            (''containers'', JArr [named ''linuxptp-daemon-container''])]))]))]))]"

definition wit_current :: obj where
  "wit_current = wit_daemon [''config'', ''sec-tlv-auth'']"

definition wit_updated :: obj where
  "wit_updated = wit_daemon [''config'', ''new'']"

lemma wit_is_daemon: "is_daemon wit_updated" "plain wit_updated" "meta_ok wit_updated"
  by code_simp+

lemma wit_merge_ok:
  "\<not> isl (MergeObjectForUpdate (\<lambda>t. t) SourcePtpOperatorConfig wit_current wit_updated)"
  "\<not> isl (MergeObjectForUpdate (\<lambda>t. t) SourcePtpConfig wit_current wit_updated)"
  by code_simp+

lemma not_isl: "\<not> isl x \<Longrightarrow> \<exists>y. x = Inr y"
  by (cases x) auto

theorem operator_update_preserves_security_witness:
  "\<exists>r. MergeObjectForUpdate (\<lambda>t. t) SourcePtpOperatorConfig wit_current wit_updated = Inr r
     \<and> extractSecurityVolumes (getVolumesFromCurrent r) = [named ''sec-tlv-auth'']"
proof -
  obtain r where r: "MergeObjectForUpdate (\<lambda>t. t) SourcePtpOperatorConfig wit_current wit_updated = Inr r"
    using not_isl [OF wit_merge_ok(1)] by blast
  have "extractSecurityVolumes (getVolumesFromCurrent wit_current) = [named ''sec-tlv-auth'']" by code_simp
  with operator_update_preserves_security [OF wit_is_daemon(1) r, of "[''kind'']"]
  have "extractSecurityVolumes (getVolumesFromCurrent r) = [named ''sec-tlv-auth'']" by metis
  with r show ?thesis by blast
qed

theorem ptpconfig_update_takes_prepared_witness:
  "\<exists>r. MergeObjectForUpdate (\<lambda>t. t) SourcePtpConfig wit_current wit_updated = Inr r
     \<and> mset (getVolumesFromCurrent r) = mset (getVolumesFromCurrent wit_updated)"
proof -
  obtain r where r: "MergeObjectForUpdate (\<lambda>t. t) SourcePtpConfig wit_current wit_updated = Inr r"
    using not_isl [OF wit_merge_ok(2)] by blast
  with ptpconfig_update_takes_prepared [OF wit_is_daemon(1) r] show ?thesis by blast
qed

theorem merge_idempotent_witness:
  "\<exists>r. MergeObjectForUpdate (\<lambda>t. t) SourcePtpOperatorConfig wit_current wit_updated = Inr r
     \<and> MergeObjectForUpdate (\<lambda>t. t) SourcePtpOperatorConfig r wit_updated = Inr r"
proof -
  obtain r where r: "MergeObjectForUpdate (\<lambda>t. t) SourcePtpOperatorConfig wit_current wit_updated = Inr r"
    using not_isl [OF wit_merge_ok(1)] by blast
  with merge_idempotent [OF wit_is_daemon(2,3) _ r] show ?thesis by blast
qed

theorem merge_metadata_correct_witness:
  "GetUID (MergeMetadataForUpdate (\<lambda>t. t) wit_current wit_updated) = GetUID wit_current"
  using merge_metadata_correct [OF wit_is_daemon(3) refl, of "\<lambda>t. t" wit_current] by blast

end
