(* ===== verification/Apply.thy ===== *)
theory Apply
  imports Merge
begin

text \<open>
  Applying a desired object to the cluster (\<open>pkg/apply/apply.go\<close>). The API server is a parameter:
  a client whose calls read and change an abstract cluster state. The laws the operator relies on
  are those of \<open>object_store\<close>; an in-memory store satisfies them.
\<close>

section \<open>The client\<close>

datatype api_error = NotFound | OtherError string

record 's kclient =
  kc_Get :: "GroupVersionKind \<Rightarrow> string \<Rightarrow> string \<Rightarrow> 's \<Rightarrow> (api_error + obj) \<times> 's"
  kc_Create :: "obj \<Rightarrow> 's \<Rightarrow> api_error option \<times> 's"
  kc_Update :: "obj \<Rightarrow> 's \<Rightarrow> api_error option \<times> 's"

datatype apply_error =
    ObjectHasNoName
  | ObjectUnsupported unsupported
  | CouldNotCreate api_error
  | CouldNotRetrieve api_error
  | CouldNotMerge uns_error
  | CouldNotUpdate api_error

section \<open>ApplyObject\<close>

text \<open>\<open>norm\<close> normalises timestamps, \<open>source\<close> is the controller named by the context. The result is
  the error, if any, and the state of the cluster after the calls.\<close>

definition ApplyObject ::
  "(string \<Rightarrow> string) \<Rightarrow> string \<Rightarrow> 's kclient \<Rightarrow> obj \<Rightarrow> 's \<Rightarrow> apply_error option \<times> 's" where
  "ApplyObject norm source client o1 s =
     (if GetName o1 = '''' then (Some ObjectHasNoName, s)
      else case IsObjectSupported o1 of
        Some e \<Rightarrow> (Some (ObjectUnsupported e), s)
      | None \<Rightarrow>
          (case kc_Get client (gvk_of o1) (GetNamespace o1) (GetName o1) s of
             (Inl NotFound, s1) \<Rightarrow>
               (case kc_Create client o1 s1 of
                  (Some e, s2) \<Rightarrow> (Some (CouldNotCreate e), s2)
                | (None, s2) \<Rightarrow> (None, s2))
           | (Inl e, s1) \<Rightarrow> (Some (CouldNotRetrieve e), s1)
           | (Inr existing, s1) \<Rightarrow>
               (case MergeObjectForUpdate norm source existing o1 of
                  Inl e \<Rightarrow> (Some (CouldNotMerge e), s1)
                | Inr merged \<Rightarrow>
                    if existing \<noteq> merged then
                      (case kc_Update client merged s1 of
                         (Some e, s2) \<Rightarrow> (Some (CouldNotUpdate e), s2)
                       | (None, s2) \<Rightarrow> (None, s2))
                    else (None, s1))))"

text \<open>The key of an object is kept by a merge, whatever its kind.\<close>

type_synonym objkey = "GroupVersionKind \<times> string \<times> string"

definition key_of :: "obj \<Rightarrow> objkey" where
  "key_of o1 = (gvk_of o1, GetNamespace o1, GetName o1)"

lemma merge_keeps_field:
  assumes "MergeObjectForUpdate norm source c u = Inr r" "p \<in> {[''kind''], [''apiVersion''], meta ''name'', meta ''namespace''}"
  shows "NestedFieldNoCopy r p = NestedFieldNoCopy u p"
proof -
  let ?f = "\<lambda>x. NestedFieldNoCopy x p"
  from assms(1) obtain u1 u2 u3 u4 where m: "MergeDeploymentForUpdate c u = Inr u1" "MergeDaemonSetForUpdate source c u1 = Inr u2"
    "MergeServiceForUpdate c u2 = Inr u3" "MergeServiceAccountForUpdate c u3 = Inr u4" "r = MergeMetadataForUpdate norm c u4"
    by (auto simp: MergeObjectForUpdate_def split: sum.splits)
  have "?f u1 = ?f u" using m(1) assms(2)
    by (auto simp: MergeDeploymentForUpdate_def Let_def SetAnnotations_def set_meta_frame split: if_splits)
  moreover have "?f u2 = ?f u1" by (rule daemon_frame [OF m(2)]) (use assms(2) in auto)
  moreover have "?f u3 = ?f u2" using m(3) assms(2)
    by (auto simp: MergeServiceForUpdate_def set_or_error_Inr fields.get_put_apart split: if_splits sum.splits option.splits)
  moreover have "?f u4 = ?f u3" using m(4) assms(2)
    by (auto simp: MergeServiceAccountForUpdate_def Let_def setNestedField_frame split: if_splits sum.splits option.splits)
  moreover have "?f r = ?f u4" unfolding m(5) using assms(2)
    by (auto simp: metadata_defs set_meta_frame SetGeneration_frame)
  ultimately show "?f r = ?f u" by simp
qed

lemma merge_keeps_key:
  assumes "MergeObjectForUpdate norm source c u = Inr r"
  shows "key_of r = key_of u"
proof -
  have "gvk_of r = gvk_of u" by (rule gvk_frame; rule merge_keeps_field [OF assms]) simp_all
  moreover have "GetName r = GetName u" unfolding GetName_def by (rule readers_frame, rule merge_keeps_field [OF assms]) simp
  moreover have "GetNamespace r = GetNamespace u"
    unfolding GetNamespace_def by (rule readers_frame, rule merge_keeps_field [OF assms]) simp
  ultimately show ?thesis by (simp add: key_of_def)
qed

section \<open>The contract of the API server\<close>

text \<open>
  Objects are addressed by kind, namespace and name. A call may fail, and then the objects are as before. A read gives the
  object; a create or an update that succeeds stores what the server makes of the object that was sent, \<open>admits\<close>: it sets
  versions, defaults and the like, under the same key. Writing one object leaves the others alone.
\<close>

locale object_store =
  fixes client :: "'s kclient"
    and stored :: "'s \<Rightarrow> objkey \<Rightarrow> obj option"
    and admits :: "obj \<Rightarrow> obj \<Rightarrow> bool"
  assumes get: "kc_Get client g ns n s = (r, s') \<Longrightarrow> stored s' = stored s
      \<and> (r = Inl NotFound \<longrightarrow> stored s (g, ns, n) = None) \<and> (\<forall>x. r = Inr x \<longrightarrow> stored s (g, ns, n) = Some x)"
    and create: "kc_Create client x s = (None, s') \<Longrightarrow>
      stored s (key_of x) = None \<and> (\<exists>y. admits x y \<and> stored s' = (stored s) (key_of x \<mapsto> y))"
    and create_failed: "kc_Create client x s = (Some e, s') \<Longrightarrow> stored s' = stored s"
    and update: "kc_Update client x s = (None, s') \<Longrightarrow>
      stored s (key_of x) \<noteq> None \<and> (\<exists>y. admits x y \<and> stored s' = (stored s) (key_of x \<mapsto> y))"
    and update_failed: "kc_Update client x s = (Some e, s') \<Longrightarrow> stored s' = stored s"
    and admits_key: "admits x y \<Longrightarrow> key_of y = key_of x"

text \<open>What a store holds for \<open>x\<close> once it was applied over \<open>old\<close>: what the server makes of \<open>x\<close> or of its merge with the object
  that was there; when the merge is that object, it is left as it is.\<close>

definition applied_over ::
  "(string \<Rightarrow> string) \<Rightarrow> string \<Rightarrow> (obj \<Rightarrow> obj \<Rightarrow> bool) \<Rightarrow> obj option \<Rightarrow> obj \<Rightarrow> obj \<Rightarrow> bool" where
  "applied_over norm source admits old x z \<longleftrightarrow>
     (case old of
        None \<Rightarrow> admits x z
      | Some c \<Rightarrow> \<exists>r. MergeObjectForUpdate norm source c x = Inr r \<and> (if r = c then z = c else admits r z))"

text \<open>The objects after a list of objects, each with its controller, was applied in order.\<close>

fun applied_all ::
  "(string \<Rightarrow> string) \<Rightarrow> (obj \<Rightarrow> obj \<Rightarrow> bool) \<Rightarrow> (string \<times> obj) list \<Rightarrow> (objkey \<rightharpoonup> obj) \<Rightarrow> (objkey \<rightharpoonup> obj) \<Rightarrow> bool" where
  "applied_all norm admits [] m m' \<longleftrightarrow> m' = m"
| "applied_all norm admits ((source, x) # xs) m m' \<longleftrightarrow>
     (\<exists>z. applied_over norm source admits (m (key_of x)) x z \<and> applied_all norm admits xs (m(key_of x \<mapsto> z)) m')"

lemma applied_all_append:
  "applied_all norm admits (xs @ ys) m m' \<longleftrightarrow> (\<exists>m1. applied_all norm admits xs m m1 \<and> applied_all norm admits ys m1 m')"
proof (induction xs arbitrary: m)
  case (Cons x xs)
  obtain source y where x: "x = (source, y)" by fastforce
  show ?case unfolding x append_Cons applied_all.simps Cons.IH by blast
qed simp

context object_store
begin

lemma apply_applied:
  assumes "ApplyObject norm source client x s = (None, s')"
  shows "\<exists>z. applied_over norm source admits (stored s (key_of x)) x z \<and> stored s' = (stored s) (key_of x \<mapsto> z)"
proof -
  obtain r s1 where g: "kc_Get client (gvk_of x) (GetNamespace x) (GetName x) s = (r, s1)" by fastforce
  note got = get [OF g]
  consider "r = Inl NotFound" "kc_Create client x s1 = (None, s')"
    | c m where "r = Inr c" "MergeObjectForUpdate norm source c x = Inr m"
        "if c = m then s' = s1 else kc_Update client m s1 = (None, s')"
    using assms g by (auto simp: ApplyObject_def split: if_splits option.splits sum.splits prod.splits api_error.splits)
  then show ?thesis
  proof cases
    case 1
    with got create [OF 1(2)] show ?thesis by (auto simp: applied_over_def key_of_def)
  next
    case (2 c m)
    have k: "key_of m = key_of x" by (rule merge_keeps_key [OF 2(2)])
    have c: "stored s (key_of x) = Some c" using got 2(1) by (simp add: key_of_def)
    show ?thesis
    proof (cases "c = m")
      case True
      with 2 got c show ?thesis by (intro exI [of _ c]) (auto simp: applied_over_def)
    next
      case False
      with 2(3) update [of m s1 s'] obtain y where "admits m y" "stored s' = (stored s1) (key_of m \<mapsto> y)" by auto
      with got c 2(2) False k show ?thesis by (auto simp: applied_over_def)
    qed
  qed
qed

lemma apply_failed:
  assumes "ApplyObject norm source client x s = (Some e, s')"
  shows "stored s' = stored s"
proof -
  obtain r s1 where g: "kc_Get client (gvk_of x) (GetNamespace x) (GetName x) s = (r, s1)" by fastforce
  have "s' = s \<or> s' = s1 \<or> (\<exists>e. kc_Create client x s1 = (Some e, s')) \<or> (\<exists>m e. kc_Update client m s1 = (Some e, s'))"
    using assms g by (auto simp: ApplyObject_def split: if_splits option.splits sum.splits prod.splits api_error.splits)
  with get [OF g] create_failed [of x s1] update_failed [of _ s1] show ?thesis by metis
qed

end

text \<open>A store in memory, of a server that keeps what it is sent.\<close>

type_synonym memory = "objkey \<rightharpoonup> obj"

definition mem_client :: "memory kclient" where
  "mem_client = \<lparr>kc_Get = \<lambda>g ns n s. (case s (g, ns, n) of None \<Rightarrow> Inl NotFound | Some x \<Rightarrow> Inr x, s),
     kc_Create = \<lambda>x s. if s (key_of x) = None then (None, s(key_of x \<mapsto> x)) else (Some (OtherError ''exists''), s),
     kc_Update = \<lambda>x s. if s (key_of x) = None then (Some NotFound, s) else (None, s(key_of x \<mapsto> x))\<rparr>"

interpretation mem: object_store mem_client "\<lambda>s. s" "(=)"
  by unfold_locales (auto simp: mem_client_def split: if_splits option.splits)

section \<open>Property\<close>

text \<open>C10: \<open>ApplyObject\<close> refines applying an object in one step. An object without a name, and a ServiceAccount that
  carries secrets, are refused with the same outcome for every client and every state, so before any call. Otherwise, over
  every API server that meets the contract, a run that succeeds puts in place, under the object's key and
  nowhere else, what the server makes of the object if there was none, and of its merge with the
  existing object if there was one, which is not written when the merge changes nothing. A run that fails changes no object.\<close>

theorem apply_object_refines:
  assumes "object_store client stored admits"
  shows "(GetName x = '''' \<longrightarrow> ApplyObject norm source any x t = (Some ObjectHasNoName, t))
    \<and> (GetName x \<noteq> '''' \<and> is_kind x '''' ''ServiceAccount'' \<and> NestedFieldNoCopy x [''secrets''] = Inr (Some (JArr (y # ys))) \<longrightarrow>
         ApplyObject norm source any x t = (Some (ObjectUnsupported ServiceAccountWithSecrets), t))
    \<and> (\<forall>s'. ApplyObject norm source client x s = (None, s') \<longrightarrow>
         (\<exists>z. applied_over norm source admits (stored s (key_of x)) x z \<and> stored s' = (stored s) (key_of x \<mapsto> z)))
    \<and> (\<forall>e s'. ApplyObject norm source client x s = (Some e, s') \<longrightarrow> stored s' = stored s)"
proof -
  have "IsObjectSupported x = Some ServiceAccountWithSecrets"
    if "is_kind x '''' ''ServiceAccount''" "NestedFieldNoCopy x [''secrets''] = Inr (Some (JArr (y # ys)))"
    using that by (simp add: IsObjectSupported_def NestedSlice_def)
  then show ?thesis using object_store.apply_applied [OF assms] object_store.apply_failed [OF assms]
    by (auto simp: ApplyObject_def)
qed

theorem apply_object_refines_witness:
  "\<exists>s' z. ApplyObject (\<lambda>t. t) SourcePtpOperatorConfig mem_client wit_updated [key_of wit_updated \<mapsto> wit_current] = (None, s')
     \<and> MergeObjectForUpdate (\<lambda>t. t) SourcePtpOperatorConfig wit_current wit_updated = Inr z \<and> z \<noteq> wit_current
     \<and> s' = [key_of wit_updated \<mapsto> z]"
proof -
  have name: "GetName wit_updated \<noteq> ''''" by code_simp
  obtain r where r: "MergeObjectForUpdate (\<lambda>t. t) SourcePtpOperatorConfig wit_current wit_updated = Inr r"
    using not_isl [OF wit_merge_ok(1)] by blast
  have "MergeObjectForUpdate (\<lambda>t. t) SourcePtpOperatorConfig wit_current wit_updated \<noteq> Inr wit_current" by code_simp
  with r have ne: "r \<noteq> wit_current" by auto
  have sup: "IsObjectSupported wit_updated = None"
    using wit_is_daemon(2) by (simp add: IsObjectSupported_def plain_def)
  let ?s = "[key_of wit_updated \<mapsto> wit_current]"
  have "\<exists>s'. ApplyObject (\<lambda>t. t) SourcePtpOperatorConfig mem_client wit_updated ?s = (None, s')"
    using name sup r ne merge_keeps_key [OF r] by (auto simp: ApplyObject_def mem_client_def key_of_def)
  then obtain s' where "ApplyObject (\<lambda>t. t) SourcePtpOperatorConfig mem_client wit_updated ?s = (None, s')" ..
  with apply_object_refines [OF mem.object_store_axioms, of wit_updated "\<lambda>t. t" SourcePtpOperatorConfig mem_client ?s JNull "[]" ?s]
    r ne show ?thesis by (fastforce simp: applied_over_def)
qed

end
