(* ===== verification/Owner_References.thy ===== *)
theory Owner_References
  imports Ptp_Types Unstructured
begin

text \<open>
  Controller references (vendored \<open>controllerutil\<close> and \<open>metav1\<close>): the owner an object is
  garbage collected with, on typed metadata and on unstructured objects. The scheme is a
  parameter: the kind it has registered for the owner's type, or none.
\<close>

section \<open>References\<close>

definition referSameObject :: "OwnerReference \<Rightarrow> OwnerReference \<Rightarrow> bool" where
  "referSameObject a b =
     (case (ParseGroupVersion (ref_APIVersion a), ParseGroupVersion (ref_APIVersion b)) of
        (Some (ga, _), Some (gb, _)) \<Rightarrow> ga = gb \<and> ref_Kind a = ref_Kind b \<and> ref_Name a = ref_Name b
      | _ \<Rightarrow> False)"

definition GetControllerOf :: "OwnerReference list \<Rightarrow> OwnerReference option" where
  "GetControllerOf refs = find (\<lambda>r. ref_Controller r = Some True) refs"

definition IsControlledBy :: "ObjectMeta \<Rightarrow> ObjectMeta \<Rightarrow> bool" where
  "IsControlledBy m owner =
     (case GetControllerOf (om_OwnerReferences m) of None \<Rightarrow> False | Some r \<Rightarrow> ref_UID r = om_UID owner)"

text \<open>The first reference to the same object is replaced; without one the new one is appended.\<close>

fun upsertOwnerRef :: "OwnerReference \<Rightarrow> OwnerReference list \<Rightarrow> OwnerReference list" where
  "upsertOwnerRef ref [] = [ref]"
| "upsertOwnerRef ref (r # refs) = (if referSameObject r ref then ref # refs else r # upsertOwnerRef ref refs)"

datatype owner_error = CrossNamespaceOwner | UnknownOwnerKind | AlreadyOwned

definition validateOwner :: "string \<Rightarrow> string \<Rightarrow> (owner_error, unit) go" where
  "validateOwner ownerNs objNs =
     (if ownerNs \<noteq> '''' \<and> (objNs = '''' \<or> ownerNs \<noteq> objNs) then err CrossNamespaceOwner else Inr ())"

definition gv_string :: "GroupVersionKind \<Rightarrow> string" where
  "gv_string g = (if gvk_Group g \<noteq> '''' then gvk_Group g @ ''/'' @ gvk_Version g else gvk_Version g)"

definition owner_ref :: "GroupVersionKind \<Rightarrow> ObjectMeta \<Rightarrow> OwnerReference" where
  "owner_ref gvk owner = \<lparr>ref_APIVersion = gv_string gvk, ref_Kind = gvk_Kind gvk, ref_Name = om_Name owner,
     ref_UID = om_UID owner, ref_Controller = Some True, ref_BlockOwnerDeletion = Some True\<rparr>"

text \<open>The new references of an object in namespace \<open>ns\<close> that has the references \<open>refs\<close>.\<close>

definition controller_refs ::
  "GroupVersionKind option \<Rightarrow> ObjectMeta \<Rightarrow> string \<Rightarrow> OwnerReference list \<Rightarrow> (owner_error, OwnerReference list) go" where
  "controller_refs scheme owner ns refs =
     bind_go (validateOwner (om_Namespace owner) ns) (\<lambda>_.
       case scheme of
         None \<Rightarrow> err UnknownOwnerKind
       | Some gvk \<Rightarrow>
           (let ref = owner_ref gvk owner in
            case GetControllerOf refs of
              Some existing \<Rightarrow>
                if \<not> referSameObject existing ref then err AlreadyOwned else Inr (upsertOwnerRef ref refs)
            | None \<Rightarrow> Inr (upsertOwnerRef ref refs)))"

definition SetControllerReference ::
  "GroupVersionKind option \<Rightarrow> ObjectMeta \<Rightarrow> ObjectMeta \<Rightarrow> (owner_error, ObjectMeta) go" where
  "SetControllerReference scheme owner m =
     bind_go (controller_refs scheme owner (om_Namespace m) (om_OwnerReferences m)) (\<lambda>refs.
       Inr (m\<lparr>om_OwnerReferences := refs\<rparr>))"

section \<open>Unstructured objects\<close>

definition NestedBool :: "obj \<Rightarrow> string list \<Rightarrow> uns_error + bool option" where
  "NestedBool o1 path =
     (case NestedFieldNoCopy o1 path of
        Inl e \<Rightarrow> Inl e
      | Inr None \<Rightarrow> Inr None
      | Inr (Some (JBool b)) \<Rightarrow> Inr (Some b)
      | Inr (Some _) \<Rightarrow> Inl AccessorError)"

definition bool_field :: "obj \<Rightarrow> string \<Rightarrow> bool option" where
  "bool_field v f = (case NestedBool v [f] of Inr b \<Rightarrow> b | Inl e \<Rightarrow> None)"

definition extractOwnerReference :: "obj \<Rightarrow> OwnerReference" where
  "extractOwnerReference v = \<lparr>ref_APIVersion = getNestedString v [''apiVersion''], ref_Kind = getNestedString v [''kind''],
     ref_Name = getNestedString v [''name''], ref_UID = getNestedString v [''uid''],
     ref_Controller = bool_field v ''controller'', ref_BlockOwnerDeletion = bool_field v ''blockOwnerDeletion''\<rparr>"

fun json_obj :: "json \<Rightarrow> obj option" where
  "json_obj (JObj m) = Some m"
| "json_obj _ = None"

definition GetOwnerReferences :: "obj \<Rightarrow> OwnerReference list" where
  "GetOwnerReferences o1 =
     (case NestedFieldNoCopy o1 [''metadata'', ''ownerReferences''] of
        Inr (Some (JArr original)) \<Rightarrow>
          if list_all (\<lambda>x. json_obj x \<noteq> None) original
          then map (\<lambda>x. extractOwnerReference (the (json_obj x))) original else []
      | _ \<Rightarrow> [])"

text \<open>The JSON of a reference; the two pointers are left out when nil.\<close>

definition set_bool :: "string \<Rightarrow> bool option \<Rightarrow> obj \<Rightarrow> obj" where
  "set_bool f b m = (case b of None \<Rightarrow> m | Some v \<Rightarrow> fmupd f (JBool v) m)"

definition reference_json :: "OwnerReference \<Rightarrow> json" where
  "reference_json r =
     JObj (set_bool ''blockOwnerDeletion'' (ref_BlockOwnerDeletion r) (set_bool ''controller'' (ref_Controller r)
       (fmap_of_list [(''apiVersion'', JStr (ref_APIVersion r)), (''kind'', JStr (ref_Kind r)),
          (''name'', JStr (ref_Name r)), (''uid'', JStr (ref_UID r))])))"

text \<open>Called with a list that is not nil.\<close>

definition SetOwnerReferences :: "obj \<Rightarrow> OwnerReference list \<Rightarrow> obj" where
  "SetOwnerReferences o1 refs = setNestedField o1 [''metadata'', ''ownerReferences''] (JArr (map reference_json refs))"

definition SetControllerReference_obj ::
  "GroupVersionKind option \<Rightarrow> ObjectMeta \<Rightarrow> obj \<Rightarrow> (owner_error, obj) go" where
  "SetControllerReference_obj scheme owner o1 =
     bind_go (controller_refs scheme owner (GetNamespace o1) (GetOwnerReferences o1)) (\<lambda>refs.
       Inr (SetOwnerReferences o1 refs))"

section \<open>Lemmas\<close>

text \<open>A GroupVersion prints to a text that parses back to its group.\<close>

definition gvk_ok :: "GroupVersionKind \<Rightarrow> bool" where
  "gvk_ok g \<longleftrightarrow> CHR ''/'' \<notin> set (gvk_Group g) \<and> CHR ''/'' \<notin> set (gvk_Version g)"

lemma ParseGroupVersion_gv_string: "gvk_ok g \<Longrightarrow> ParseGroupVersion (gv_string g) = Some (gvk_Group g, gvk_Version g)"
  by (auto simp: gvk_ok_def gv_string_def ParseGroupVersion_def Split_append Split_no_sep append_eq_Cons_conv)

lemma owner_ref_same: "gvk_ok g \<Longrightarrow> referSameObject (owner_ref g o1) (owner_ref g o1)"
  using ParseGroupVersion_gv_string [of g] by (auto simp: referSameObject_def owner_ref_def)

lemma controller_of_upsert:
  "ref_Controller ref = Some True \<Longrightarrow>
     (\<And>e. GetControllerOf refs = Some e \<Longrightarrow> referSameObject e ref) \<Longrightarrow> GetControllerOf (upsertOwnerRef ref refs) = Some ref"
  by (induction refs) (auto simp: GetControllerOf_def split: if_splits)

lemma upsert_idem: "referSameObject ref ref \<Longrightarrow> upsertOwnerRef ref (upsertOwnerRef ref refs) = upsertOwnerRef ref refs"
  by (induction refs) auto

lemma controller_refs_result:
  assumes "controller_refs scheme owner ns refs = Inr refs'"
  obtains gvk where "scheme = Some gvk" "refs' = upsertOwnerRef (owner_ref gvk owner) refs"
    "GetControllerOf refs' = Some (owner_ref gvk owner)"
proof -
  from assms obtain gvk where "scheme = Some gvk" "refs' = upsertOwnerRef (owner_ref gvk owner) refs"
    "\<And>e. GetControllerOf refs = Some e \<Longrightarrow> referSameObject e (owner_ref gvk owner)"
    by (auto simp: controller_refs_def bind_go_eq_Inr Let_def split: option.splits if_splits)
  moreover have "ref_Controller (owner_ref gvk owner) = Some True" by (simp add: owner_ref_def)
  ultimately show thesis using controller_of_upsert that by metis
qed

lemma SetControllerReference_result:
  assumes "SetControllerReference scheme owner m = Inr m'"
  shows "IsControlledBy m' owner" "\<exists>refs. m' = m\<lparr>om_OwnerReferences := refs\<rparr>"
  using assms by (auto simp: SetControllerReference_def bind_go_eq_Inr IsControlledBy_def owner_ref_def
      elim!: controller_refs_result)

text \<open>A new object of the owner's namespace can always be given its owner.\<close>

lemma SetControllerReference_new:
  "om_Namespace m = om_Namespace owner \<Longrightarrow> om_OwnerReferences m = [] \<Longrightarrow>
     SetControllerReference (Some gvk) owner m = Inr (m\<lparr>om_OwnerReferences := [owner_ref gvk owner]\<rparr>)"
  by (simp add: SetControllerReference_def controller_refs_def validateOwner_def GetControllerOf_def Let_def)

end
