(* ===== verification/Cluster.thy ===== *)
theory Cluster
  imports Ptp_Webhook Hardware_Types Go_Sort Apply Owner_References
begin

text \<open>
  What the controllers see of the cluster: the fixed names (\<open>pkg/names\<close>), the typed objects
  they read and write, and their client, a parameter whose calls read and change an abstract
  cluster state. Within one reconcile the cluster changes only by the reconcile's own writes.
\<close>

section \<open>Names\<close>

text \<open>The package variable after \<open>init\<close>, from the value of \<open>OPERATOR_NAMESPACE\<close>.\<close>

definition names_Namespace :: "string \<Rightarrow> string" where
  "names_Namespace env = (if env \<noteq> '''' then env else ''openshift-ptp'')"

definition DefaultPTPConfigMapName :: string where "DefaultPTPConfigMapName = ''ptp-configmap''"
definition DefaultLeapConfigMapName :: string where "DefaultLeapConfigMapName = ''leap-configmap''"
definition DefaultOperatorConfigName :: string where "DefaultOperatorConfigName = ''default''"
definition ManifestDir :: string where "ManifestDir = ''./bindata''"

section \<open>Typed objects\<close>

record ConfigMap =
  cm_Name :: string
  cm_Namespace :: string
  cm_OwnerReferences :: "OwnerReference list"
  cm_Data :: "string gmap"

datatype VolumeSource = SecretVolume string | OtherVolume string

record Volume =
  vol_Name :: string
  vol_Source :: VolumeSource

record VolumeMount =
  vm_Name :: string
  vm_MountPath :: string
  vm_ReadOnly :: bool

text \<open>The fields of containers and DaemonSets that are not read are kept as text.\<close>

record Container =
  con_Name :: string
  con_VolumeMounts :: "VolumeMount list"
  con_Rest :: string

record DaemonSet =
  ds_Meta :: ObjectMeta
  ds_NodeSelector :: "string gmap"
  ds_Volumes :: "Volume list"
  ds_Containers :: "Container list"
  ds_Rest :: string

section \<open>The client\<close>

text \<open>A status update returns the object as the server sends it back.\<close>

record 's ptp_client =
  cl_ListConfigs :: "'s \<Rightarrow> api_error + PtpConfigList"
  cl_ListNodes :: "'s \<Rightarrow> api_error + Node list"
  cl_ListDevices :: "'s \<Rightarrow> api_error + NodePtpDevice list"
  cl_ListHardware :: "'s \<Rightarrow> api_error + HardwareConfig list"
  cl_UpdateConfigStatus :: "PtpConfig \<Rightarrow> 's \<Rightarrow> api_error option \<times> PtpConfig \<times> 's"
  cl_GetHardware :: "NamespacedName \<Rightarrow> 's \<Rightarrow> api_error + HardwareConfig"
  cl_UpdateHardwareStatus :: "HardwareConfig \<Rightarrow> 's \<Rightarrow> api_error option \<times> 's"
  cl_GetConfigMap :: "NamespacedName \<Rightarrow> 's \<Rightarrow> api_error + ConfigMap"
  cl_UpdateConfigMap :: "ConfigMap \<Rightarrow> 's \<Rightarrow> api_error option \<times> 's"
  cl_GetSecret :: "NamespacedName \<Rightarrow> 's \<Rightarrow> api_error + Secret"
  cl_GetDaemonSet :: "NamespacedName \<Rightarrow> 's \<Rightarrow> api_error + DaemonSet"
  cl_objects :: "'s kclient"

text \<open>Everything else a controller takes from outside: the operator's namespace, the order of map
  loops, the unstable sort, the time, and the serialisers.\<close>

record 's ctl_env =
  ce_client :: "'s ptp_client"
  ce_ns :: string
  ce_order :: range_order
  ce_sort :: "PtpRecommend slice_sort"
  ce_now :: int
  ce_marshal :: "PtpProfile list \<Rightarrow> string option"
  ce_convert :: "DaemonSet \<Rightarrow> obj option"
  ce_norm :: "string \<Rightarrow> string"

end
