(* ===== verification/Recommend.thy ===== *)
theory Recommend
  imports Ptp4l_Conf Go_Sort
begin

text \<open>
  The choice of the profiles of a node (\<open>controllers/recommend.go\<close> and the single-resource
  variants in \<open>controllers/ptpconfig_controller.go\<close>): matching nodes against recommend
  sections, picking the profiles of the best priority, qualifying their names with the name of
  their PtpConfig and resolving references between profiles. Logging is left out.
\<close>

section \<open>Names and references\<close>

definition ProfileNameSeperator :: string where
  "ProfileNameSeperator = ''_''"

definition qualifyProfileName :: "string \<Rightarrow> string \<Rightarrow> string" where
  "qualifyProfileName crName profileName = crName @ ProfileNameSeperator @ profileName"

definition profileExistsInCR :: "string \<Rightarrow> string \<Rightarrow> PtpConfigList \<Rightarrow> bool" where
  "profileExistsInCR crName profileName items =
     list_ex (\<lambda>cfg. cfg_Name cfg = crName \<and> list_ex (\<lambda>p. pf_Name p = Some profileName) (cfg_Profile cfg)) items"

text \<open>The name of the first resource with such a profile, empty when there is none.\<close>

fun owning_config :: "string \<Rightarrow> PtpConfigList \<Rightarrow> string" where
  "owning_config profileName [] = ''''"
| "owning_config profileName (cfg # items) =
     (if list_ex (\<lambda>p. pf_Name p = Some profileName) (cfg_Profile cfg) then cfg_Name cfg
      else owning_config profileName items)"

definition owningConfigName :: "string \<Rightarrow> PtpConfigList option \<Rightarrow> string" where
  "owningConfigName profileName ptpConfigList =
     (case ptpConfigList of None \<Rightarrow> '''' | Some items \<Rightarrow> owning_config profileName items)"

text \<open>\<open>parts := strings.SplitN(value, "_", 2); len(parts) == 2 && profileExistsInCR(...)\<close>\<close>

definition prefix_names_profile :: "string \<Rightarrow> PtpConfigList \<Rightarrow> bool" where
  "prefix_names_profile value items =
     (case SplitN2 value ''_'' of [cr, name] \<Rightarrow> profileExistsInCR cr name items | _ \<Rightarrow> False)"

definition resolveProfileReference :: "string \<Rightarrow> PtpConfigList \<Rightarrow> string" where
  "resolveProfileReference value items =
     (if prefix_names_profile value items then value
      else if owningConfigName value (Some items) \<noteq> ''''
      then qualifyProfileName (owningConfigName value (Some items)) value
      else value)"

definition profileReferenceExists :: "string \<Rightarrow> PtpConfigList option \<Rightarrow> bool" where
  "profileReferenceExists value ptpConfigList =
     (case ptpConfigList of
        None \<Rightarrow> False
      | Some items \<Rightarrow>
          value \<noteq> '''' \<and> (prefix_names_profile value items \<or> owningConfigName value (Some items) \<noteq> ''''))"

text \<open>Updates of the settings map: both references become qualified names.\<close>

definition qualify_ha :: "PtpConfigList \<Rightarrow> string \<Rightarrow> string" where
  "qualify_ha items ha =
     Join (map (\<lambda>p. resolveProfileReference (TrimSpace p) items) (Split ha '','')) '',''"

definition qualifyCrossProfileReferences :: "string gmap \<Rightarrow> PtpConfigList \<Rightarrow> string gmap" where
  "qualifyCrossProfileReferences settings items =
     (let settings1 =
        (case gget settings ''controllingProfile'' of
           None \<Rightarrow> settings
         | Some cp \<Rightarrow> if cp = '''' then settings
             else gset settings ''controllingProfile'' (resolveProfileReference cp items))
      in case gget settings1 ''haProfiles'' of
           None \<Rightarrow> settings1
         | Some ha \<Rightarrow> if ha = '''' then settings1 else gset settings1 ''haProfiles'' (qualify_ha items ha))"

section \<open>Recommended profiles\<close>

text \<open>The inner loop returns at the first label that matches, so the order of the labels is
  irrelevant.\<close>

definition nodeMatches :: "Node \<Rightarrow> MatchRule list \<Rightarrow> bool" where
  "nodeMatches node rules =
     list_ex (\<lambda>m. mr_NodeName m = Some (node_Name node)
                \<or> list_ex (\<lambda>k. mr_NodeLabel m = Some k) (gkeys (node_Labels node))) rules"

text \<open>The comparison passed to \<open>sort.Slice\<close>: a missing priority comes last.\<close>

definition priority_less :: "PtpRecommend less_fun" where
  "priority_less a b =
     (case (rec_Priority a, rec_Priority b) of
        (Some x, Some y) \<Rightarrow> x < y
      | _ \<Rightarrow> rec_Priority a \<noteq> None)"

type_synonym name_set = "unit gmap"

datatype recommend_error = NotAllProfilesFound

text \<open>One iteration of the selection loop over the sorted recommend sections; the state is the
  set of names and the priority of the first match (\<open>None\<close> until there is one). Reading a
  missing priority of a matching section dereferences a nil pointer.\<close>

definition recommend_step ::
  "Node \<Rightarrow> name_set \<times> int option \<Rightarrow> PtpRecommend \<Rightarrow> (recommend_error, name_set \<times> int option) go" where
  "recommend_step node s r =
     (case rec_Profile r of
        None \<Rightarrow> Inr s
      | Some profile \<Rightarrow>
          if rec_Match r = [] \<or> \<not> nodeMatches node (rec_Match r) then Inr s
          else case rec_Priority r of
            None \<Rightarrow> panic NilDeref
          | Some q \<Rightarrow>
              (case s of
                 (profilesNames, None) \<Rightarrow> Inr (gset profilesNames profile (), Some q)
               | (profilesNames, Some priority) \<Rightarrow>
                   Inr (if q = priority then gset profilesNames profile () else profilesNames, Some priority)))"

definition getRecommendProfilesNames ::
  "PtpRecommend slice_sort \<Rightarrow> PtpConfigList \<Rightarrow> Node \<Rightarrow> (recommend_error, name_set) go" where
  "getRecommendProfilesNames srt items node =
     bind_go (fold_go (recommend_step node) ([], None) (srt (concat (map cfg_Recommend items))))
       (\<lambda>s. Inr (fst s))"

definition qualify_profile :: "PtpConfigList \<Rightarrow> PtpConfig \<Rightarrow> string \<Rightarrow> PtpProfile \<Rightarrow> PtpProfile" where
  "qualify_profile items cfg name profile =
     profile\<lparr>pf_Name := Some (qualifyProfileName (cfg_Name cfg) name),
       pf_PtpSettings := map_option (\<lambda>s. qualifyCrossProfileReferences s items) (pf_PtpSettings profile)\<rparr>"

definition collect_profile ::
  "PtpConfigList \<Rightarrow> name_set \<Rightarrow> PtpProfile list \<times> name_set \<Rightarrow> PtpConfig \<times> PtpProfile \<Rightarrow>
     PtpProfile list \<times> name_set" where
  "collect_profile items profilesNames acc cp =
     (case pf_Name (snd cp) of
        None \<Rightarrow> acc
      | Some name \<Rightarrow>
          if gget profilesNames name = None then acc
          else (fst acc @ [qualify_profile items (fst cp) name (snd cp)], gset (snd acc) name ()))"

definition all_profiles :: "PtpConfigList \<Rightarrow> (PtpConfig \<times> PtpProfile) list" where
  "all_profiles items = concat (map (\<lambda>cfg. map (\<lambda>p. (cfg, p)) (cfg_Profile cfg)) items)"

definition profile_name_less :: "PtpProfile less_fun" where
  "profile_name_less a b = (the (pf_Name a) < the (pf_Name b))"

definition getRecommendProfiles ::
  "PtpRecommend slice_sort \<Rightarrow> PtpConfigList \<Rightarrow> Node \<Rightarrow> (recommend_error, PtpProfile list) go" where
  "getRecommendProfiles srt items node =
     bind_go (getRecommendProfilesNames srt items node) (\<lambda>profilesNames.
       let r = foldl (collect_profile items profilesNames) ([], []) (all_profiles items) in
       if length (snd r) \<noteq> length profilesNames then err NotAllProfilesFound
       else Inr (slice_stable profile_name_less (fst r)))"

definition getRecommendNodePtpProfiles ::
  "PtpRecommend slice_sort \<Rightarrow> PtpConfigList \<Rightarrow> Node \<Rightarrow> (recommend_error, PtpProfile list) go" where
  "getRecommendNodePtpProfiles srt items node = getRecommendProfiles srt items node"

section \<open>Recommended profiles of one resource\<close>

definition nilPriority :: int where
  "nilPriority = -1"

definition recommend_step_config ::
  "Node \<Rightarrow> name_set \<times> int option \<Rightarrow> PtpRecommend \<Rightarrow> name_set \<times> int option" where
  "recommend_step_config node s r =
     (case rec_Profile r of
        None \<Rightarrow> s
      | Some profile \<Rightarrow>
          if rec_Match r = [] then s
          else
            (let currentPriority = (case rec_Priority r of None \<Rightarrow> nilPriority | Some q \<Rightarrow> q) in
             if \<not> nodeMatches node (rec_Match r) then s
             else case s of
               (profilesNames, None) \<Rightarrow> (gset profilesNames profile (), Some currentPriority)
             | (profilesNames, Some priority) \<Rightarrow>
                 (if currentPriority = priority then gset profilesNames profile () else profilesNames,
                  Some priority)))"

definition getRecommendProfilesNamesForConfig ::
  "PtpRecommend slice_sort \<Rightarrow> PtpConfig \<Rightarrow> Node \<Rightarrow> name_set" where
  "getRecommendProfilesNamesForConfig srt cfg node =
     fst (foldl (recommend_step_config node) ([], None) (srt (cfg_Recommend cfg)))"

definition collect_for_config ::
  "name_set \<Rightarrow> PtpProfile list \<Rightarrow> PtpProfile \<Rightarrow> ('e, PtpProfile list) go" where
  "collect_for_config names acc profile =
     (case pf_Name profile of
        None \<Rightarrow> panic NilDeref
      | Some name \<Rightarrow> Inr (if gget names name = None then acc else acc @ [profile]))"

definition getRecommendNodePtpProfilesForConfig ::
  "PtpRecommend slice_sort \<Rightarrow> PtpConfig \<Rightarrow> Node \<Rightarrow> ('e, PtpProfile list) go" where
  "getRecommendNodePtpProfilesForConfig srt cfg node =
     (let names = getRecommendProfilesNamesForConfig srt cfg node in
      if names = [] then Inr []
      else fold_go (collect_for_config names) [] (cfg_Profile cfg))"

definition returnMapKeys :: "range_order \<Rightarrow> name_set \<Rightarrow> string list" where
  "returnMapKeys ord profiles = map fst (range_gmap ord profiles)"

section \<open>The selection of recommend sections\<close>

interpretation prio: weak_order priority_less
  by unfold_locales (auto simp: priority_less_def split: option.splits)

interpretation pname: weak_order profile_name_less
  unfolding profile_name_less_def by (rule weak_order_key)

definition eligible :: "Node \<Rightarrow> PtpRecommend \<Rightarrow> bool" where
  "eligible node r \<longleftrightarrow> rec_Profile r \<noteq> None \<and> rec_Match r \<noteq> [] \<and> nodeMatches node (rec_Match r)"

text \<open>The profiles that sections of the best priority among the eligible ones recommend.\<close>

definition recommended :: "PtpRecommend list \<Rightarrow> Node \<Rightarrow> string set" where
  "recommended rs node =
     {p. \<exists>r \<in> set rs. eligible node r \<and> rec_Profile r = Some p
          \<and> (\<forall>r' \<in> set rs. eligible node r' \<longrightarrow> \<not> priority_less r' r)}"

abbreviation add_profile :: "name_set \<Rightarrow> PtpRecommend \<Rightarrow> name_set" where
  "add_profile ns r \<equiv> gset ns (the (rec_Profile r)) ()"

lemma recommend_step_skip: "\<not> eligible node r \<Longrightarrow> recommend_step node s r = Inr s"
  by (auto simp: recommend_step_def eligible_def split: option.splits)

lemma recommend_step_nil: "eligible node r \<Longrightarrow> rec_Priority r = None \<Longrightarrow> recommend_step node s r = panic NilDeref"
  by (auto simp: recommend_step_def eligible_def split: option.splits)

lemma recommend_step_first:
  "eligible node r \<Longrightarrow> rec_Priority r = Some q \<Longrightarrow>
     recommend_step node (ns, None) r = Inr (add_profile ns r, Some q)"
  by (auto simp: recommend_step_def eligible_def)

lemma recommend_step_next:
  "eligible node r \<Longrightarrow> rec_Priority r = Some q \<Longrightarrow>
     recommend_step node (ns, Some p) r = Inr (if q = p then add_profile ns r else ns, Some p)"
  by (auto simp: recommend_step_def eligible_def)

lemma fold_recommend_eligible:
  "fold_go (recommend_step node) s xs = fold_go (recommend_step node) s (filter (eligible node) xs)"
  by (induction xs arbitrary: s) (auto simp: recommend_step_skip)

lemma fold_recommend_next:
  "\<forall>r \<in> set xs. eligible node r \<and> rec_Priority r \<noteq> None \<Longrightarrow>
   fold_go (recommend_step node) (ns, Some q) xs =
     Inr (foldl add_profile ns (filter (\<lambda>r. rec_Priority r = Some q) xs), Some q)"
  by (induction xs arbitrary: ns) (auto simp: recommend_step_next)

lemma recommend_step_defined:
  "eligible node r \<Longrightarrow> rec_Priority r \<noteq> None \<Longrightarrow> \<exists>s'. recommend_step node s r = Inr s'"
  by (cases s; cases "snd s") (auto simp: recommend_step_first recommend_step_next)

lemma fold_recommend_nil:
  "\<forall>r \<in> set xs. eligible node r \<Longrightarrow> \<exists>r \<in> set xs. rec_Priority r = None \<Longrightarrow>
   fold_go (recommend_step node) s xs = panic NilDeref"
proof (induction xs arbitrary: s)
  case (Cons r xs)
  show ?case
  proof (cases "rec_Priority r")
    case None
    with Cons.prems show ?thesis by (simp add: recommend_step_nil) (simp add: panic_def)
  next
    case (Some q)
    with Cons.prems recommend_step_defined [of node r s] obtain s' where "recommend_step node s r = Inr s'" by auto
    moreover have "fold_go (recommend_step node) s' xs = panic NilDeref"
      using Cons.prems Some by (intro Cons.IH) auto
    ultimately show ?thesis by simp
  qed
qed simp

lemma gkeys_add_profiles:
  "set (gkeys (foldl add_profile ns rs)) = set (gkeys ns) \<union> (the \<circ> rec_Profile) ` set rs"
  by (induction rs arbitrary: ns) (auto simp: gkeys_gset)

lemma wf_add_profiles: "wf_gmap ns \<Longrightarrow> wf_gmap (foldl add_profile ns rs)"
  by (induction rs arbitrary: ns) auto

lemma recommended_image:
  "recommended rs node =
     (the \<circ> rec_Profile) ` {x \<in> set rs. eligible node x \<and> (\<forall>y \<in> set rs. eligible node y \<longrightarrow> \<not> priority_less y x)}"
proof -
  have "eligible node r \<Longrightarrow> rec_Profile r = Some p \<longleftrightarrow> p = the (rec_Profile r)" for r p
    by (auto simp: eligible_def)
  then show ?thesis unfolding recommended_def by auto
qed

lemma names_ok:
  assumes srt: "sort_slice_ok priority_less srt"
    and prios: "\<forall>r \<in> set (concat (map cfg_Recommend items)). eligible node r \<longrightarrow> rec_Priority r \<noteq> None"
  obtains ns where "getRecommendProfilesNames srt items node = Inr ns" "wf_gmap ns"
    "set (gkeys ns) = recommended (concat (map cfg_Recommend items)) node"
proof -
  let ?rs = "concat (map cfg_Recommend items)" and ?xs = "srt (concat (map cfg_Recommend items))"
  note set = sort_slice_ok_set [OF srt, of ?rs] and sorted = sort_slice_ok_sorted [OF srt, of ?rs]
  show ?thesis
  proof (cases "filter (eligible node) ?xs")
    case Nil
    then have "\<forall>r \<in> set ?rs. \<not> eligible node r" using set by (auto simp: filter_empty_conv)
    with Nil that [of "[]"] show ?thesis
      by (simp add: getRecommendProfilesNames_def fold_recommend_eligible [of _ _ ?xs] recommended_def gkeys_def)
  next
    case (Cons r ys)
    have mem: "set (r # ys) = {x \<in> set ?rs. eligible node x}" using Cons set by (metis set_filter)
    then have el: "eligible node r" and pr: "\<forall>x \<in> set (r # ys). eligible node x \<and> rec_Priority x \<noteq> None"
      using prios by auto
    then obtain q where q: "rec_Priority r = Some q" by auto
    let ?ns = "foldl add_profile [] (r # filter (\<lambda>x. rec_Priority x = Some q) ys)"
    have "fold_go (recommend_step node) ([], None) ?xs = Inr (?ns, Some q)"
      using pr q by (simp add: fold_recommend_eligible [of _ _ ?xs] Cons recommend_step_first fold_recommend_next)
    then have ok: "getRecommendProfilesNames srt items node = Inr ?ns"
      by (simp add: getRecommendProfilesNames_def)
    have min: "\<not> priority_less x r" if "x \<in> set (r # ys)" for x
    proof -
      from that mem set have "x \<in> set ?xs" "eligible node x" by blast+
      then show ?thesis by (rule prio.sorted_first_minimal [OF sorted Cons])
    qed
    have best: "rec_Priority x = Some q \<longleftrightarrow> (\<forall>y \<in> set (r # ys). \<not> priority_less y x)"
      if "x \<in> set (r # ys)" for x
    proof -
      from that pr obtain qx where qx: "rec_Priority x = Some qx" by auto
      have le: "q \<le> qy" if "y \<in> set (r # ys)" "rec_Priority y = Some qy" for y qy
        using min [OF that(1)] that(2) q by (simp add: priority_less_def)
      show ?thesis
        using qx q le that pr by (fastforce simp: priority_less_def split: option.splits)
    qed
    have "set (r # filter (\<lambda>x. rec_Priority x = Some q) ys) = {x \<in> set (r # ys). rec_Priority x = Some q}"
      using q by auto
    also have "\<dots> = {x \<in> set ?rs. eligible node x \<and> (\<forall>y \<in> set ?rs. eligible node y \<longrightarrow> \<not> priority_less y x)}"
      using best unfolding mem by blast
    finally have "set (gkeys ?ns) = recommended ?rs node"
      unfolding gkeys_add_profiles recommended_image by (simp add: gkeys_def)
    with ok that wf_add_profiles show ?thesis by (metis wf_gmap_Nil)
  qed
qed

lemma names_panic:
  assumes "sort_slice_ok priority_less srt"
    and "r \<in> set (concat (map cfg_Recommend items))" "eligible node r" "rec_Priority r = None"
  shows "getRecommendProfilesNames srt items node = panic NilDeref"
proof -
  let ?xs = "srt (concat (map cfg_Recommend items))"
  from sort_slice_ok_set [OF assms(1)] assms(2-4) have "fold_go (recommend_step node) ([], None) (filter (eligible node) ?xs) = panic NilDeref"
    by (intro fold_recommend_nil) auto
  then show ?thesis
    by (simp add: getRecommendProfilesNames_def fold_recommend_eligible [of _ _ ?xs]) (simp add: panic_def)
qed

section \<open>The recommended profiles\<close>

definition available :: "PtpConfigList \<Rightarrow> string set" where
  "available items = {n. \<exists>cp \<in> set (all_profiles items). pf_Name (snd cp) = Some n}"

text \<open>The profiles with a name of \<open>S\<close>, in the order of the list, with qualified names.\<close>

definition qualified_profiles :: "PtpConfigList \<Rightarrow> string set \<Rightarrow> PtpProfile list" where
  "qualified_profiles items S =
     map (\<lambda>cp. qualify_profile items (fst cp) (the (pf_Name (snd cp))) (snd cp))
       (filter (\<lambda>cp. \<exists>n \<in> S. pf_Name (snd cp) = Some n) (all_profiles items))"

lemma collect_profiles:
  "fst (foldl (collect_profile items ns) acc cps) =
     fst acc @ map (\<lambda>cp. qualify_profile items (fst cp) (the (pf_Name (snd cp))) (snd cp))
       (filter (\<lambda>cp. \<exists>n \<in> set (gkeys ns). pf_Name (snd cp) = Some n) cps)"
  "set (gkeys (snd (foldl (collect_profile items ns) acc cps))) =
     set (gkeys (snd acc)) \<union> {n \<in> set (gkeys ns). \<exists>cp \<in> set cps. pf_Name (snd cp) = Some n}"
  "wf_gmap (snd acc) \<Longrightarrow> wf_gmap (snd (foldl (collect_profile items ns) acc cps))"
  by (induction cps arbitrary: acc)
    (auto simp: collect_profile_def gget_eq_None_iff gkeys_gset split: option.splits)

lemma length_gkeys: "length (gkeys m) = length m"
  by (simp add: gkeys_def)

lemma wf_gmap_length: "wf_gmap m \<Longrightarrow> length m = card (set (gkeys m))"
  by (metis distinct_card length_gkeys wf_gmap_def)

lemma getRecommendProfiles_names:
  assumes "getRecommendProfilesNames srt items node = Inr ns" "wf_gmap ns"
  shows "getRecommendProfiles srt items node =
    (if set (gkeys ns) \<subseteq> available items
     then Inr (slice_stable profile_name_less (qualified_profiles items (set (gkeys ns))))
     else err NotAllProfilesFound)"
proof -
  let ?r = "foldl (collect_profile items ns) ([], []) (all_profiles items)"
  have keys: "set (gkeys (snd ?r)) = set (gkeys ns) \<inter> available items"
    and wf: "wf_gmap (snd ?r)"
    and profiles: "fst ?r = qualified_profiles items (set (gkeys ns))"
    using collect_profiles [where items = items and acc = "([], [])"]
    by (auto simp: gkeys_def available_def qualified_profiles_def)
  have "length (snd ?r) = length ns \<longleftrightarrow> card (set (gkeys ns) \<inter> available items) = card (set (gkeys ns))"
    using wf assms(2) keys by (simp add: wf_gmap_length)
  also have "\<dots> \<longleftrightarrow> set (gkeys ns) \<subseteq> available items"
    by (metis card_subset_eq finite_set inf.orderE inf_le1 le_iff_inf)
  finally show ?thesis
    using assms(1) profiles by (simp add: getRecommendProfiles_def Let_def)
qed

lemma getRecommendProfiles_cases:
  fixes items :: PtpConfigList
  defines "rs \<equiv> concat (map cfg_Recommend items)"
  assumes "sort_slice_ok priority_less srt"
  shows "getRecommendProfiles srt items node =
    (if \<exists>r \<in> set rs. eligible node r \<and> rec_Priority r = None then panic NilDeref
     else if recommended rs node \<subseteq> available items
     then Inr (slice_stable profile_name_less (qualified_profiles items (recommended rs node)))
     else err NotAllProfilesFound)"
proof (cases "\<exists>r \<in> set rs. eligible node r \<and> rec_Priority r = None")
  case True
  then have "getRecommendProfilesNames srt items node = panic NilDeref"
    using names_panic [OF assms(2)] unfolding rs_def by blast
  with True show ?thesis by (simp add: getRecommendProfiles_def) (simp add: panic_def)
next
  case False
  then have "\<forall>r \<in> set (concat (map cfg_Recommend items)). eligible node r \<longrightarrow> rec_Priority r \<noteq> None"
    unfolding rs_def by auto
  from names_ok [OF assms(2) this] obtain ns where "getRecommendProfilesNames srt items node = Inr ns"
    "wf_gmap ns" "set (gkeys ns) = recommended rs node"
    unfolding rs_def .
  with getRecommendProfiles_names False show ?thesis by auto
qed

section \<open>Qualified names\<close>

text \<open>Kubernetes object names contain no underscore.\<close>

definition cr_name :: "string \<Rightarrow> bool" where
  "cr_name n \<longleftrightarrow> n \<noteq> '''' \<and> CHR ''_'' \<notin> set n"

lemma SplitN2_qualify: "cr_name c \<Longrightarrow> SplitN2 (qualifyProfileName c p) ''_'' = [c, p]"
  by (simp add: qualifyProfileName_def ProfileNameSeperator_def cr_name_def SplitN2_append)

lemma qualify_inject:
  assumes "cr_name c" "cr_name d"
  shows "qualifyProfileName c p = qualifyProfileName d q \<longleftrightarrow> c = d \<and> p = q"
  using SplitN2_qualify [OF assms(1), of p] SplitN2_qualify [OF assms(2), of q] by (metis list.inject)

definition refers :: "string \<Rightarrow> PtpConfigList \<Rightarrow> PtpConfig \<Rightarrow> PtpProfile \<Rightarrow> bool" where
  "refers q items cfg p \<longleftrightarrow> cfg \<in> set items \<and> p \<in> set (cfg_Profile cfg)
     \<and> (\<exists>n. pf_Name p = Some n \<and> q = qualifyProfileName (cfg_Name cfg) n)"

lemma profileExistsInCR_iff:
  "profileExistsInCR c n items \<longleftrightarrow>
     (\<exists>cfg \<in> set items. cfg_Name cfg = c \<and> (\<exists>p \<in> set (cfg_Profile cfg). pf_Name p = Some n))"
  by (auto simp: profileExistsInCR_def list_ex_iff)

lemma owning_config_cases:
  "(owning_config n items = '''' \<and> (\<forall>cfg \<in> set items. cfg_Name cfg \<noteq> '''' \<longrightarrow> (\<forall>p \<in> set (cfg_Profile cfg). pf_Name p \<noteq> Some n)))
   \<or> profileExistsInCR (owning_config n items) n items"
  if "\<forall>cfg \<in> set items. cfg_Name cfg \<noteq> ''''"
  using that by (induction items) (auto simp: profileExistsInCR_def list_ex_iff)

lemma prefix_names_profile_iff:
  "prefix_names_profile v items \<longleftrightarrow>
     (\<exists>c n. v = qualifyProfileName c n \<and> CHR ''_'' \<notin> set c \<and> profileExistsInCR c n items)"
proof
  assume "prefix_names_profile v items"
  then obtain c n where "SplitN2 v ''_'' = [c, n]" "profileExistsInCR c n items"
    by (auto simp: prefix_names_profile_def split: list.splits)
  with SplitN2_two [of v "CHR ''_''" c n]
  show "\<exists>c n. v = qualifyProfileName c n \<and> CHR ''_'' \<notin> set c \<and> profileExistsInCR c n items"
    by (auto simp: qualifyProfileName_def ProfileNameSeperator_def)
qed (auto simp: prefix_names_profile_def qualifyProfileName_def ProfileNameSeperator_def SplitN2_append)

text \<open>With proper resource names, a reference that exists resolves to the qualified name of a
  profile, which is then a fixed point; a reference that does not exist stays as it is.\<close>

lemma resolve_exists:
  assumes "\<forall>cfg \<in> set items. cr_name (cfg_Name cfg)" "v \<noteq> ''''"
  shows "profileReferenceExists v (Some items) \<longleftrightarrow> (\<exists>cfg p. refers (resolveProfileReference v items) items cfg p)"
    and "\<not> profileReferenceExists v (Some items) \<Longrightarrow> resolveProfileReference v items = v"
    and "profileReferenceExists v (Some items) \<Longrightarrow> prefix_names_profile (resolveProfileReference v items) items"
proof -
  have ne: "\<forall>cfg \<in> set items. cfg_Name cfg \<noteq> ''''" using assms(1) by (auto simp: cr_name_def)
  show "\<not> profileReferenceExists v (Some items) \<Longrightarrow> resolveProfileReference v items = v"
    using assms(2) by (auto simp: profileReferenceExists_def resolveProfileReference_def)
  show pre: "prefix_names_profile (resolveProfileReference v items) items"
    if e: "profileReferenceExists v (Some items)"
  proof (cases "prefix_names_profile v items")
    case False
    with e have o: "owning_config v items \<noteq> ''''" by (auto simp: profileReferenceExists_def owningConfigName_def)
    with owning_config_cases [OF ne, of v] have x: "profileExistsInCR (owning_config v items) v items" by auto
    then have "cr_name (owning_config v items)" using assms(1) by (auto simp: profileExistsInCR_iff)
    with x o False show ?thesis
      by (auto simp: resolveProfileReference_def owningConfigName_def prefix_names_profile_iff cr_name_def)
  qed (simp add: resolveProfileReference_def)
  show "profileReferenceExists v (Some items) \<longleftrightarrow> (\<exists>cfg p. refers (resolveProfileReference v items) items cfg p)"
  proof
    assume "profileReferenceExists v (Some items)"
    then show "\<exists>cfg p. refers (resolveProfileReference v items) items cfg p"
      using pre by (fastforce simp: prefix_names_profile_iff profileExistsInCR_iff refers_def)
  next
    assume r: "\<exists>cfg p. refers (resolveProfileReference v items) items cfg p"
    show "profileReferenceExists v (Some items)"
    proof (rule ccontr)
      assume n: "\<not> profileReferenceExists v (Some items)"
      then have "resolveProfileReference v items = v" and np: "\<not> prefix_names_profile v items"
        using assms(2) by (auto simp: profileReferenceExists_def resolveProfileReference_def)
      with r obtain cfg p where "refers v items cfg p" by auto
      then have "prefix_names_profile v items"
        using assms(1) by (fastforce simp: refers_def prefix_names_profile_iff profileExistsInCR_iff cr_name_def)
      with np show False ..
    qed
  qed
qed

lemma resolve_idem:
  "\<forall>cfg \<in> set items. cr_name (cfg_Name cfg) \<Longrightarrow> v \<noteq> '''' \<Longrightarrow>
     resolveProfileReference (resolveProfileReference v items) items = resolveProfileReference v items"
  using resolve_exists [of items v] by (cases "profileReferenceExists v (Some items)")
    (simp_all add: resolveProfileReference_def [of "resolveProfileReference v items"])

section \<open>Unique names, and the single-resource variant\<close>

text \<open>The names a list of resources gives: distinct resources, distinct named profiles in each.\<close>

definition names_unique :: "PtpConfigList \<Rightarrow> bool" where
  "names_unique items \<longleftrightarrow> distinct (map cfg_Name items) \<and> list_all (cr_name \<circ> cfg_Name) items
     \<and> list_all (\<lambda>cfg. distinct (map pf_Name (cfg_Profile cfg))) items"

abbreviation named_in :: "string set \<Rightarrow> PtpConfig \<times> PtpProfile \<Rightarrow> bool" where
  "named_in S cp \<equiv> \<exists>n \<in> S. pf_Name (snd cp) = Some n"

abbreviation qname_of :: "PtpConfig \<times> PtpProfile \<Rightarrow> string" where
  "qname_of cp \<equiv> qualifyProfileName (cfg_Name (fst cp)) (the (pf_Name (snd cp)))"

lemma names_qualified_profiles:
  "map (the \<circ> pf_Name) (qualified_profiles items S) = map qname_of (filter (named_in S) (all_profiles items))"
  by (simp add: qualified_profiles_def qualify_profile_def)

lemma all_profiles_Cons:
  "all_profiles (cfg # items) = map (\<lambda>p. (cfg, p)) (cfg_Profile cfg) @ all_profiles items"
  by (simp add: all_profiles_def)

lemma distinct_names_of_config:
  assumes "cr_name (cfg_Name cfg)" "distinct (map pf_Name ps)"
  shows "distinct (map qname_of (filter (named_in S) (map (\<lambda>p. (cfg, p)) ps)))"
proof -
  from assms(2) have "distinct ps" and inj: "inj_on pf_Name (set ps)" by (auto simp: distinct_map)
  moreover have "inj_on (\<lambda>p. qualifyProfileName (cfg_Name cfg) (the (pf_Name p)))
      {p \<in> set ps. \<exists>n \<in> S. pf_Name p = Some n}"
  proof (rule inj_onI)
    fix p q
    assume p: "p \<in> {p \<in> set ps. \<exists>n \<in> S. pf_Name p = Some n}" and q: "q \<in> {p \<in> set ps. \<exists>n \<in> S. pf_Name p = Some n}"
      and "qualifyProfileName (cfg_Name cfg) (the (pf_Name p)) = qualifyProfileName (cfg_Name cfg) (the (pf_Name q))"
    then have "the (pf_Name p) = the (pf_Name q)" by (simp only: qualify_inject [OF assms(1) assms(1)])
    with p q have "pf_Name p = pf_Name q" by auto
    with inj p q show "p = q" by (auto dest: inj_onD)
  qed
  ultimately show ?thesis by (simp add: filter_map comp_def distinct_map)
qed

lemma distinct_qualified_names:
  "names_unique items \<Longrightarrow> distinct (map qname_of (filter (named_in S) (all_profiles items)))"
proof (induction items)
  case (Cons cfg items)
  from Cons.prems have c: "cr_name (cfg_Name cfg)" and d: "distinct (map pf_Name (cfg_Profile cfg))"
    and rest: "names_unique items" "\<forall>d \<in> set items. cr_name (cfg_Name d) \<and> cfg_Name d \<noteq> cfg_Name cfg"
    by (auto simp: names_unique_def list_all_iff image_iff)
  have "qname_of (cfg, p) \<noteq> qname_of (d, q)" if "(d, q) \<in> set (all_profiles items)" for p d q
    using that rest(2) qualify_inject [OF c] by (force simp: all_profiles_def)
  with Cons.IH [OF rest(1)] distinct_names_of_config [OF c d, of S] show ?case
    by (fastforce simp: all_profiles_Cons)
qed (simp add: all_profiles_def)

lemma sorted_profile_names:
  "sorted_by profile_name_less ps \<Longrightarrow> sorted (map (the \<circ> pf_Name) ps)"
  by (induction ps) (auto simp: sorted_by_def profile_name_less_def not_less)

lemma recommend_step_agrees:
  "eligible node r \<longrightarrow> rec_Priority r \<noteq> None \<Longrightarrow> recommend_step node s r = Inr (recommend_step_config node s r)"
  by (auto simp: recommend_step_def recommend_step_config_def eligible_def Let_def split: option.splits prod.splits)

section \<open>Properties\<close>

text \<open>C2: The profiles recommended for a node, on every path. If some recommend section that
  matches the node has no priority, the code dereferences a nil pointer. Otherwise the names
  chosen are those recommended by matching sections of the smallest priority, over all
  resources; if one of them is not the name of any profile the call fails, and else it returns
  every profile with such a name, under its qualified name and with its references resolved,
  sorted by name.\<close>

theorem recommended_profiles:
  assumes "sort_slice_ok priority_less srt"
  shows "getRecommendNodePtpProfiles srt items node =
    (let rs = concat (map cfg_Recommend items) in
     if \<exists>r \<in> set rs. eligible node r \<and> rec_Priority r = None then panic NilDeref
     else if recommended rs node \<subseteq> available items
     then Inr (slice_stable profile_name_less (qualified_profiles items (recommended rs node)))
     else err NotAllProfilesFound)"
  unfolding getRecommendNodePtpProfiles_def Let_def by (rule getRecommendProfiles_cases [OF assms])

text \<open>The outcome does not depend on how the unstable sort places sections of equal
  priority.\<close>

lemma recommended_profiles_sort_independent:
  assumes "sort_slice_ok priority_less srt1" "sort_slice_ok priority_less srt2"
  shows "getRecommendNodePtpProfiles srt1 items node = getRecommendNodePtpProfiles srt2 items node"
  unfolding getRecommendNodePtpProfiles_def
  by (simp only: getRecommendProfiles_cases [OF assms(1)] getRecommendProfiles_cases [OF assms(2)])

text \<open>C32: Names are unique on a node: when resource names are distinct Kubernetes names and the
  profiles of one resource have distinct names, the profiles returned for a node have pairwise
  different names, in increasing order.\<close>

theorem recommended_names_unique:
  assumes "sort_slice_ok priority_less srt" "names_unique items"
    and "getRecommendNodePtpProfiles srt items node = Inr ps"
  shows "sorted (map (the \<circ> pf_Name) ps) \<and> distinct (map (the \<circ> pf_Name) ps)"
proof -
  let ?qs = "qualified_profiles items (recommended (concat (map cfg_Recommend items)) node)"
  from assms(3) have ps: "ps = slice_stable profile_name_less ?qs"
    by (auto simp: getRecommendNodePtpProfiles_def getRecommendProfiles_cases [OF assms(1)] split: if_splits)
  then have "mset (map (the \<circ> pf_Name) ps) = mset (map (the \<circ> pf_Name) ?qs)" by simp
  with distinct_qualified_names [OF assms(2)] have "distinct (map (the \<circ> pf_Name) ps)"
    by (metis mset_eq_imp_distinct_iff names_qualified_profiles)
  with ps sorted_profile_names pname.sorted_slice_stable show ?thesis by blast
qed

text \<open>C28: References between profiles. For Kubernetes resource names, a non-empty reference is
  reported as existing exactly when it resolves to the qualified name of a profile of some
  resource; a reference that does not exist is left as it is; and resolving is idempotent, so
  qualifying settings twice changes nothing.\<close>

theorem resolve_reference_correct:
  assumes "\<forall>cfg \<in> set items. cr_name (cfg_Name cfg)" "v \<noteq> ''''"
  shows "(profileReferenceExists v (Some items) \<longleftrightarrow> (\<exists>cfg p. refers (resolveProfileReference v items) items cfg p))
    \<and> (\<not> profileReferenceExists v (Some items) \<longrightarrow> resolveProfileReference v items = v)
    \<and> resolveProfileReference (resolveProfileReference v items) items = resolveProfileReference v items"
  using resolve_exists [OF assms] resolve_idem [OF assms] by blast

text \<open>C33: The variant for a single resource agrees with the selection over a list that holds only
  this resource, whenever every section that matches the node has a priority.\<close>

theorem names_for_config_agree:
  assumes "\<forall>r \<in> set (srt (cfg_Recommend cfg)). eligible node r \<longrightarrow> rec_Priority r \<noteq> None"
  shows "getRecommendProfilesNames srt [cfg] node = Inr (getRecommendProfilesNamesForConfig srt cfg node)"
proof -
  have "fold_go (recommend_step node) ([], None) (srt (cfg_Recommend cfg)) =
      Inr (foldl (recommend_step_config node) ([], None) (srt (cfg_Recommend cfg)))"
    using assms by (intro fold_go_Inr_foldl) (auto intro!: recommend_step_agrees)
  then show ?thesis by (simp add: getRecommendProfilesNames_def getRecommendProfilesNamesForConfig_def)
qed

section \<open>Witnesses\<close>

definition wit_node :: Node where
  "wit_node = \<lparr>node_Name = ''worker-0'', node_Labels = [(''ptp/role'', ''bc'')]\<rparr>"

definition wit_rec :: "string \<Rightarrow> int \<Rightarrow> PtpRecommend" where
  "wit_rec p q = \<lparr>rec_Profile = Some p, rec_Priority = Some q,
     rec_Match = [\<lparr>mr_NodeLabel = Some ''ptp/role'', mr_NodeName = None\<rparr>]\<rparr>"

definition wit_items :: PtpConfigList where
  "wit_items =
     [mk_config ''b'' [empty_profile\<lparr>pf_Name := Some ''slave'',
          pf_PtpSettings := Some [(''controllingProfile'', ''master'')]\<rparr>] [wit_rec ''slave'' 4, wit_rec ''none'' 9],
      mk_config ''a'' [empty_profile\<lparr>pf_Name := Some ''master''\<rparr>] [wit_rec ''master'' 4]]"

lemma chosen_branch:
  "Inr y = (if A then panic p else if B then Inr x else err e) \<Longrightarrow> B"
  by (simp split: if_splits)

lemma wit_sort: "sort_slice_ok priority_less (slice_stable priority_less)"
  by (rule prio.slice_stable_ok)

lemma wit_recommended:
  "getRecommendNodePtpProfiles (slice_stable priority_less) wit_items wit_node =
     Inr [empty_profile\<lparr>pf_Name := Some ''a_master''\<rparr>,
          empty_profile\<lparr>pf_Name := Some ''b_slave'', pf_PtpSettings := Some [(''controllingProfile'', ''a_master'')]\<rparr>]"
  by code_simp

lemma wit_names_unique: "names_unique wit_items"
  by code_simp

theorem recommended_profiles_witness:
  "recommended (concat (map cfg_Recommend wit_items)) wit_node \<subseteq> available wit_items"
  using recommended_profiles [OF wit_sort, of wit_items wit_node]
  unfolding Let_def wit_recommended by (rule chosen_branch)

lemma recommended_profiles_sort_independent_witness:
  "getRecommendNodePtpProfiles (slice_stable priority_less) wit_items wit_node =
   getRecommendNodePtpProfiles (slice_stable priority_less) wit_items wit_node
   \<and> sort_slice_ok priority_less (slice_stable priority_less)"
  using recommended_profiles_sort_independent [OF wit_sort wit_sort] wit_sort by blast

theorem recommended_names_unique_witness:
  "sorted [''a_master'', ''b_slave''] \<and> distinct [''a_master'', ''b_slave'']"
  using recommended_names_unique [OF wit_sort wit_names_unique wit_recommended]
  by (simp add: sample_defs)

theorem resolve_reference_correct_witness:
  "resolveProfileReference (resolveProfileReference ''master'' wit_items) wit_items = ''a_master''"
proof -
  have "\<forall>cfg \<in> set wit_items. cr_name (cfg_Name cfg)" by code_simp
  then have "resolveProfileReference (resolveProfileReference ''master'' wit_items) wit_items =
      resolveProfileReference ''master'' wit_items"
    using resolve_reference_correct [of wit_items "''master''"] by blast
  also have "resolveProfileReference ''master'' wit_items = ''a_master''" by code_simp
  finally show ?thesis .
qed

theorem names_for_config_agree_witness:
  "getRecommendProfilesNames (slice_stable priority_less) [hd wit_items] wit_node =
     Inr (getRecommendProfilesNamesForConfig (slice_stable priority_less) (hd wit_items) wit_node)"
proof (rule names_for_config_agree)
  show "\<forall>r \<in> set (slice_stable priority_less (cfg_Recommend (hd wit_items))).
      eligible wit_node r \<longrightarrow> rec_Priority r \<noteq> None"
    by (simp add: wit_items_def wit_rec_def mk_config_def)
qed

end
