(* ===== verification/Memory_Cluster.thy ===== *)
theory Memory_Cluster
  imports Cluster Recommend
begin

text \<open>
  A cluster held in memory, and the client that works on it: the concrete instance on which the
  contracts of the controllers' clients are interpreted and the properties are evaluated.
\<close>

record mem_cluster =
  mc_Configs :: PtpConfigList
  mc_Nodes :: "Node list"
  mc_Devices :: "NodePtpDevice list"
  mc_Hardware :: "HardwareConfig list"
  mc_ConfigMaps :: "ConfigMap list"
  mc_Secrets :: "Secret list"
  mc_Daemon :: "DaemonSet option"
  mc_Objects :: memory

text \<open>The generic client on the objects of the cluster.\<close>

definition mem_objects :: "mem_cluster kclient" where
  "mem_objects = \<lparr>kc_Get = \<lambda>g ns n s. (fst (kc_Get mem_client g ns n (mc_Objects s)), s),
     kc_Create = \<lambda>x s. map_prod (\<lambda>e. e) (\<lambda>m. s\<lparr>mc_Objects := m\<rparr>) (kc_Create mem_client x (mc_Objects s)),
     kc_Update = \<lambda>x s. map_prod (\<lambda>e. e) (\<lambda>m. s\<lparr>mc_Objects := m\<rparr>) (kc_Update mem_client x (mc_Objects s))\<rparr>"

interpretation memo: object_store mem_objects mc_Objects "(=)"
  by unfold_locales (auto simp: mem_objects_def mem_client_def split: if_splits option.splits)

definition found :: "'a option \<Rightarrow> api_error + 'a" where
  "found x = (case x of None \<Rightarrow> Inl NotFound | Some a \<Rightarrow> Inr a)"

definition cm_key :: "ConfigMap \<Rightarrow> NamespacedName" where
  "cm_key cm = \<lparr>nn_Namespace = cm_Namespace cm, nn_Name = cm_Name cm\<rparr>"

definition meta_key :: "ObjectMeta \<Rightarrow> NamespacedName" where
  "meta_key m = \<lparr>nn_Namespace = om_Namespace m, nn_Name = om_Name m\<rparr>"

text \<open>The entries with the key changed.\<close>

definition change_at :: "('a \<Rightarrow> 'k) \<Rightarrow> 'k \<Rightarrow> ('a \<Rightarrow> 'a) \<Rightarrow> 'a list \<Rightarrow> 'a list" where
  "change_at key k f xs = map (\<lambda>y. if key y = k then f y else y) xs"

lemma find_change_at:
  "(\<And>y. key (f y) = key y) \<Longrightarrow> find (\<lambda>y. key y = j) (change_at key k f xs) =
     map_option (if j = k then f else id) (find (\<lambda>y. key y = j) xs)"
  by (induction xs) (auto simp: change_at_def)

definition mem_ptp_client :: "string \<Rightarrow> mem_cluster ptp_client" where
  "mem_ptp_client ns = \<lparr>
     cl_ListConfigs = \<lambda>s. Inr (mc_Configs s),
     cl_ListNodes = \<lambda>s. Inr (mc_Nodes s),
     cl_ListDevices = \<lambda>s. Inr (mc_Devices s),
     cl_ListHardware = \<lambda>s. Inr (mc_Hardware s),
     cl_UpdateConfigStatus = \<lambda>cfg s. (None, cfg, s\<lparr>mc_Configs :=
       change_at (meta_key \<circ> cfg_Meta) (meta_key (cfg_Meta cfg)) (\<lambda>c. c\<lparr>cfg_Status := cfg_Status cfg\<rparr>) (mc_Configs s)\<rparr>),
     cl_GetHardware = \<lambda>k s. found (find (\<lambda>h. meta_key (hw_Meta h) = k) (mc_Hardware s)),
     cl_UpdateHardwareStatus = \<lambda>h s. (None, s\<lparr>mc_Hardware :=
       change_at (meta_key \<circ> hw_Meta) (meta_key (hw_Meta h)) (\<lambda>x. x\<lparr>hw_Status := hw_Status h\<rparr>) (mc_Hardware s)\<rparr>),
     cl_GetConfigMap = \<lambda>k s. found (find (\<lambda>cm. cm_key cm = k) (mc_ConfigMaps s)),
     cl_UpdateConfigMap = \<lambda>cm s. (None, s\<lparr>mc_ConfigMaps := change_at cm_key (cm_key cm) (\<lambda>_. cm) (mc_ConfigMaps s)\<rparr>),
     cl_GetSecret = \<lambda>k s. if nn_Namespace k = ns then found (find (\<lambda>x. sec_Name x = nn_Name k) (mc_Secrets s)) else Inl NotFound,
     cl_GetDaemonSet = \<lambda>k s. found (mc_Daemon s),
     cl_objects = mem_objects\<rparr>"

text \<open>An environment around the client, and a cluster with one resource that mounts a secret.\<close>

definition mem_env :: "mem_cluster ctl_env" where
  "mem_env = \<lparr>ce_client = mem_ptp_client ''openshift-ptp'', ce_ns = ''openshift-ptp'', ce_order = rev,
     ce_sort = slice_stable priority_less, ce_now = 100,
     ce_marshal = \<lambda>ps. Some (Join (map (\<lambda>p. case pf_Name p of None \<Rightarrow> ''?'' | Some n \<Rightarrow> n) ps) '';''),
     ce_convert = \<lambda>ds. Some wit_updated, ce_norm = \<lambda>t. t\<rparr>"

definition mem_daemon :: DaemonSet where
  "mem_daemon = \<lparr>ds_Meta = \<lparr>om_Name = ''linuxptp-daemon'', om_Namespace = ''openshift-ptp'', om_Generation = 1,
       om_UID = ''u'', om_ResourceVersion = ''1'', om_OwnerReferences = []\<rparr>,
     ds_NodeSelector = [], ds_Volumes = [\<lparr>vol_Name = ''config'', vol_Source = OtherVolume ''cm''\<rparr>,
       \<lparr>vol_Name = ''old-tlv-auth'', vol_Source = SecretVolume ''old''\<rparr>],
     ds_Containers = [\<lparr>con_Name = ''linuxptp-daemon-container'',
       con_VolumeMounts = [\<lparr>vm_Name = ''config'', vm_MountPath = ''/etc/cfg'', vm_ReadOnly = False\<rparr>], con_Rest = ''''\<rparr>],
     ds_Rest = ''''\<rparr>"

definition mem_state :: mem_cluster where
  "mem_state = \<lparr>mc_Configs = [wit_config], mc_Nodes = [wit_node], mc_Devices = [], mc_Hardware = [],
     mc_ConfigMaps = [\<lparr>cm_Name = ''ptp-configmap'', cm_Namespace = ''openshift-ptp'', cm_OwnerReferences = [], cm_Data = []\<rparr>],
     mc_Secrets = [wit_secret], mc_Daemon = Some mem_daemon, mc_Objects = Map.empty\<rparr>"

end
