(* ===== verification/Daemon_Secrets.thy ===== *)
theory Daemon_Secrets
  imports Memory_Cluster
begin

text \<open>
  The secrets of the daemon (\<open>controllers/ptpconfig_controller.go\<close>): which secrets the profiles
  refer to, the volumes of the DaemonSet that mount those that exist, and the events of secrets
  and watched resources that trigger a reconcile of the PtpConfig controller.
\<close>

section \<open>Errors of a sync\<close>

datatype sync_error =
    RecommendFailed recommend_error
  | MarshalFailed
  | GetConfigMapFailed api_error
  | UpdateConfigMapFailed api_error
  | ListFailed api_error
  | CheckSecretFailed string api_error
  | DaemonSetNotFoundYet
  | GetDaemonSetFailed api_error
  | ConvertFailed
  | ApplyFailed apply_error

section \<open>Secrets of the daemon\<close>

record secretMount =
  sm_secretName :: string
  sm_saFilePath :: string
  sm_secretKey :: string

text \<open>The \<open>sa_file\<close> a profile configures; empty when there is none or the text does not parse.\<close>

definition profile_sa_file :: "PtpProfile \<Rightarrow> string" where
  "profile_sa_file profile =
     (case pf_Ptp4lConf profile of
        None \<Rightarrow> ''''
      | Some _ \<Rightarrow>
          (case PopulatePtp4lConf (pf_Ptp4lConf profile) (pf_Ptp4lOpts profile) of
             (conf, Some e) \<Rightarrow> ''''
           | (conf, None) \<Rightarrow> GetOption conf ''[global]'' ''sa_file''))"

definition scan_profile :: "secretMount list \<Rightarrow> PtpProfile \<Rightarrow> (sync_error, secretMount list) go" where
  "scan_profile mounts profile =
     (let saFilePath = profile_sa_file profile in
      if saFilePath = '''' then Inr mounts
      else bind_go (GetSecretNameFromSaFilePath saFilePath) (\<lambda>secretName.
        bind_go (GetSecretKeyFromSaFilePath saFilePath) (\<lambda>secretKey.
          Inr (mounts @ [\<lparr>sm_secretName = secretName, sm_saFilePath = saFilePath, sm_secretKey = secretKey\<rparr>]))))"

definition scan_configs :: "PtpConfigList \<Rightarrow> (sync_error, secretMount list) go" where
  "scan_configs items = fold_go scan_profile [] (concat (map cfg_Profile items))"

definition add_unique :: "secretMount gmap \<Rightarrow> secretMount \<Rightarrow> secretMount gmap" where
  "add_unique uniqueSecrets mount =
     (case gget uniqueSecrets (sm_secretName mount) of
        None \<Rightarrow> gset uniqueSecrets (sm_secretName mount) mount
      | Some _ \<Rightarrow> uniqueSecrets)"

definition keep_existing ::
  "'s ctl_env \<Rightarrow> 's \<Rightarrow> secretMount gmap \<Rightarrow> string \<times> secretMount \<Rightarrow> (sync_error, secretMount gmap) go" where
  "keep_existing env s existingSecrets sm =
     (case cl_GetSecret (ce_client env) \<lparr>nn_Namespace = ce_ns env, nn_Name = fst sm\<rparr> s of
        Inl NotFound \<Rightarrow> Inr existingSecrets
      | Inl e \<Rightarrow> err (CheckSecretFailed (fst sm) e)
      | Inr _ \<Rightarrow> Inr (gset existingSecrets (fst sm) (snd sm)))"

definition daemon_container_name :: string where
  "daemon_container_name = ''linuxptp-daemon-container''"

text \<open>A change of the first container with the daemon's name.\<close>

fun on_daemon_container :: "(VolumeMount list \<Rightarrow> VolumeMount list) \<Rightarrow> Container list \<Rightarrow> Container list" where
  "on_daemon_container f [] = []"
| "on_daemon_container f (c # cs) =
     (if con_Name c = daemon_container_name then c\<lparr>con_VolumeMounts := f (con_VolumeMounts c)\<rparr> # cs
      else c # on_daemon_container f cs)"

definition removeSecurityVolumesFromDaemonSet :: "DaemonSet \<Rightarrow> DaemonSet" where
  "removeSecurityVolumesFromDaemonSet ds =
     ds\<lparr>ds_Volumes := filter (\<lambda>v. \<not> isSecurityItem (vol_Name v)) (ds_Volumes ds),
        ds_Containers := on_daemon_container (filter (\<lambda>m. \<not> isSecurityItem (vm_Name m))) (ds_Containers ds)\<rparr>"

definition injectPtpSecurityVolume :: "DaemonSet \<Rightarrow> string \<Rightarrow> DaemonSet" where
  "injectPtpSecurityVolume ds secretName =
     (let volumeName = secretName @ TLV_AUTH_SUFFIX;
          mountDir = PTP_SEC_FOLDER @ secretName
      in ds\<lparr>ds_Volumes := ds_Volumes ds @ [\<lparr>vol_Name = volumeName, vol_Source = SecretVolume secretName\<rparr>],
            ds_Containers := on_daemon_container
              (\<lambda>ms. ms @ [\<lparr>vm_Name = volumeName, vm_MountPath = mountDir, vm_ReadOnly = True\<rparr>]) (ds_Containers ds)\<rparr>)"

definition prepare_daemon :: "range_order \<Rightarrow> secretMount gmap \<Rightarrow> DaemonSet \<Rightarrow> DaemonSet" where
  "prepare_daemon ord existingSecrets ds =
     foldl (\<lambda>d sm. injectPtpSecurityVolume d (sm_secretName (snd sm)))
       (removeSecurityVolumesFromDaemonSet ds) (range_gmap ord existingSecrets)"

definition daemon_key :: "string \<Rightarrow> NamespacedName" where
  "daemon_key ns = \<lparr>nn_Namespace = ns, nn_Name = ''linuxptp-daemon''\<rparr>"

definition syncLinuxptpDaemonSecrets ::
  "'s ctl_env \<Rightarrow> PtpConfigList \<Rightarrow> 's \<Rightarrow> (sync_error, unit) go \<times> 's" where
  "syncLinuxptpDaemonSecrets env items s =
     (case bind_go (scan_configs items) (\<lambda>mounts.
        fold_go (keep_existing env s) [] (range_gmap (ce_order env) (foldl add_unique [] mounts))) of
        Inl f \<Rightarrow> (Inl f, s)
      | Inr existingSecrets \<Rightarrow>
          (case cl_GetDaemonSet (ce_client env) (daemon_key (ce_ns env)) s of
             Inl NotFound \<Rightarrow> (err DaemonSetNotFoundYet, s)
           | Inl e \<Rightarrow> (err (GetDaemonSetFailed e), s)
           | Inr daemonSet \<Rightarrow>
               (case ce_convert env (prepare_daemon (ce_order env) existingSecrets daemonSet) of
                  None \<Rightarrow> (err ConvertFailed, s)
                | Some updated \<Rightarrow>
                    (case ApplyObject (ce_norm env) SourcePtpConfig (cl_objects (ce_client env)) updated s of
                       (Some e, s1) \<Rightarrow> (err (ApplyFailed e), s1)
                     | (None, s1) \<Rightarrow> (Inr (), s1)))))"

section \<open>Events\<close>

type_synonym request = NamespacedName

definition request_of :: "ObjectMeta \<Rightarrow> request" where
  "request_of m = \<lparr>nn_Namespace = om_Namespace m, nn_Name = om_Name m\<rparr>"

text \<open>\<open>listed\<close> is the outcome of listing the resources of the operator's namespace.\<close>

definition enqueuePtpConfigs :: "api_error + PtpConfigList \<Rightarrow> request list" where
  "enqueuePtpConfigs listed =
     (case listed of Inl e \<Rightarrow> [] | Inr items \<Rightarrow> map (\<lambda>cfg. request_of (cfg_Meta cfg)) items)"

datatype secret_event = SecretCreated string | SecretUpdated string | SecretDeleted string | SecretGeneric string

text \<open>The scan stops at the first profile that refers to the secret.\<close>

fun find_reference :: "string \<Rightarrow> (PtpConfig \<times> PtpProfile) list \<Rightarrow> (sync_error, request list) go" where
  "find_reference secretName [] = Inr []"
| "find_reference secretName ((cfg, profile) # rest) =
     (let saFilePath = profile_sa_file profile in
      if saFilePath = '''' then find_reference secretName rest
      else bind_go (GetSecretNameFromSaFilePath saFilePath) (\<lambda>referenced.
        if referenced = secretName then Inr [request_of (cfg_Meta cfg)] else find_reference secretName rest))"

definition enqueuePtpConfigReconcile ::
  "api_error + PtpConfigList \<Rightarrow> string \<Rightarrow> (sync_error, request list) go" where
  "enqueuePtpConfigReconcile listed secretName =
     (case listed of Inl e \<Rightarrow> Inr [] | Inr items \<Rightarrow> find_reference secretName (all_profiles items))"

definition secretEventHandler :: "api_error + PtpConfigList \<Rightarrow> secret_event \<Rightarrow> (sync_error, request list) go" where
  "secretEventHandler listed evt =
     (case evt of
        SecretCreated n \<Rightarrow> enqueuePtpConfigReconcile listed n
      | SecretUpdated n \<Rightarrow> Inr []
      | SecretDeleted n \<Rightarrow> enqueuePtpConfigReconcile listed n
      | SecretGeneric n \<Rightarrow> Inr [])"

text \<open>The predicate on the watched objects.\<close>

definition inNamespace :: "string \<Rightarrow> ObjectMeta \<Rightarrow> bool" where
  "inNamespace ns m = (om_Namespace m = ns)"

section \<open>Paths of secrets\<close>

text \<open>What a path names, whether or not it starts with the mount directory.\<close>

definition path_ok :: "string \<Rightarrow> bool" where
  "path_ok p \<longleftrightarrow> CHR ''/'' \<in> set (TrimPrefix p PTP_SEC_FOLDER)"

definition secret_of :: "string \<Rightarrow> string" where
  "secret_of p = takeWhile (\<lambda>c. c \<noteq> CHR ''/'') (TrimPrefix p PTP_SEC_FOLDER)"

definition secret_key_of :: "string \<Rightarrow> string" where
  "secret_key_of p = tl (dropWhile (\<lambda>c. c \<noteq> CHR ''/'') (TrimPrefix p PTP_SEC_FOLDER))"

lemma split_first_slash:
  assumes "CHR ''/'' \<in> set s"
  shows "s = takeWhile (\<lambda>c. c \<noteq> CHR ''/'') s @ CHR ''/'' # tl (dropWhile (\<lambda>c. c \<noteq> CHR ''/'') s)"
proof -
  obtain a b where s: "s = a @ CHR ''/'' # b" and a: "CHR ''/'' \<notin> set a"
    using assms by (meson split_list_first)
  from a have "\<And>c. c \<in> set a \<Longrightarrow> c \<noteq> CHR ''/''" by auto
  then show ?thesis unfolding s by (simp add: takeWhile_append2 dropWhile_append2)
qed

lemma GetSecretName_cases:
  "GetSecretNameFromSaFilePath p = (if path_ok p then Inr (secret_of p) else panic SliceBounds)"
proof (cases "path_ok p")
  case True
  let ?s = "TrimPrefix p PTP_SEC_FOLDER" and ?a = "secret_of p" and ?b = "secret_key_of p"
  from True have s: "?s = ?a @ CHR ''/'' # ?b"
    unfolding path_ok_def secret_of_def secret_key_of_def by (rule split_first_slash)
  have "CHR ''/'' \<notin> set ?a" unfolding secret_of_def by (auto dest: set_takeWhileD)
  then show ?thesis using True unfolding GetSecretNameFromSaFilePath_def Let_def s
    by (simp add: Index_slash slice_to_def)
qed (simp add: GetSecretNameFromSaFilePath_def path_ok_def Index_slash_none slice_to_def Let_def)

lemma GetSecretKey_ok: "path_ok p \<Longrightarrow> GetSecretKeyFromSaFilePath p = Inr (secret_key_of p)"
proof -
  assume ok: "path_ok p"
  let ?s = "TrimPrefix p PTP_SEC_FOLDER" and ?a = "secret_of p" and ?b = "secret_key_of p"
  from ok have s: "?s = ?a @ CHR ''/'' # ?b"
    unfolding path_ok_def secret_of_def secret_key_of_def by (rule split_first_slash)
  have "CHR ''/'' \<notin> set ?a" unfolding secret_of_def by (auto dest: set_takeWhileD)
  then show ?thesis unfolding GetSecretKeyFromSaFilePath_def Let_def s
    by (simp add: Index_slash slice_from_def nat_add_distrib)
qed

lemma sa_path_ok:
  assumes "CHR ''/'' \<notin> set name"
  shows "path_ok (sa_path name key)" "secret_of (sa_path name key) = name" "secret_key_of (sa_path name key) = key"
  using assms by (auto simp: path_ok_def secret_of_def secret_key_of_def sa_path_def takeWhile_append dropWhile_append)

section \<open>Referenced secrets\<close>

definition sa_files :: "PtpConfigList \<Rightarrow> string list" where
  "sa_files items = filter (\<lambda>sa. sa \<noteq> '''') (map profile_sa_file (concat (map cfg_Profile items)))"

definition referenced :: "PtpConfigList \<Rightarrow> string set" where
  "referenced items = secret_of ` set (sa_files items)"

definition mount_of :: "string \<Rightarrow> secretMount" where
  "mount_of sa = \<lparr>sm_secretName = secret_of sa, sm_saFilePath = sa, sm_secretKey = secret_key_of sa\<rparr>"

lemma scan_profile_cases:
  "scan_profile mounts p =
     (let sa = profile_sa_file p in
      if sa = '''' then Inr mounts
      else if path_ok sa then Inr (mounts @ [mount_of sa]) else panic SliceBounds)"
  by (simp add: scan_profile_def Let_def GetSecretName_cases GetSecretKey_ok mount_of_def) (simp add: panic_def)

lemma scan_configs_cases:
  "scan_configs items =
     (if list_all path_ok (sa_files items) then Inr (map mount_of (sa_files items)) else panic SliceBounds)"
proof -
  have "fold_go scan_profile ms ps =
      (if list_all path_ok (filter (\<lambda>sa. sa \<noteq> '''') (map profile_sa_file ps))
       then Inr (ms @ map mount_of (filter (\<lambda>sa. sa \<noteq> '''') (map profile_sa_file ps))) else panic SliceBounds)" for ms ps
    by (induction ps arbitrary: ms) (auto simp: scan_profile_cases Let_def, auto simp: panic_def)
  then show ?thesis by (simp add: scan_configs_def sa_files_def)
qed

lemma find_reference_cases:
  assumes "\<forall>cp \<in> set cps. profile_sa_file (snd cp) \<noteq> '''' \<longrightarrow> path_ok (profile_sa_file (snd cp))"
  shows "find_reference n cps = Inr (case find (\<lambda>cp. profile_sa_file (snd cp) \<noteq> '''' \<and> secret_of (profile_sa_file (snd cp)) = n) cps of
     None \<Rightarrow> [] | Some cp \<Rightarrow> [request_of (cfg_Meta (fst cp))])"
  using assms by (induction n cps rule: find_reference.induct) (auto simp: Let_def GetSecretName_cases)

section \<open>The volumes of the DaemonSet\<close>

definition security_volume :: "string \<Rightarrow> Volume" where
  "security_volume n = \<lparr>vol_Name = n @ TLV_AUTH_SUFFIX, vol_Source = SecretVolume n\<rparr>"

definition security_mount :: "string \<Rightarrow> VolumeMount" where
  "security_mount n = \<lparr>vm_Name = n @ TLV_AUTH_SUFFIX, vm_MountPath = PTP_SEC_FOLDER @ n, vm_ReadOnly = True\<rparr>"

text \<open>The DaemonSet with exactly the given secrets mounted.\<close>

definition mounted :: "string list \<Rightarrow> DaemonSet \<Rightarrow> DaemonSet" where
  "mounted ns ds =
     ds\<lparr>ds_Volumes := filter (\<lambda>v. \<not> isSecurityItem (vol_Name v)) (ds_Volumes ds) @ map security_volume ns,
        ds_Containers := on_daemon_container
          (\<lambda>ms. filter (\<lambda>m. \<not> isSecurityItem (vm_Name m)) ms @ map security_mount ns) (ds_Containers ds)\<rparr>"

lemma on_daemon_container_comp:
  "on_daemon_container g (on_daemon_container f cs) = on_daemon_container (\<lambda>ms. g (f ms)) cs"
  by (induction cs) auto

lemma inject_mounted: "injectPtpSecurityVolume (mounted ns ds) n = mounted (ns @ [n]) ds"
  by (simp add: injectPtpSecurityVolume_def mounted_def on_daemon_container_comp security_volume_def
      security_mount_def Let_def)

lemma prepare_daemon_mounted:
  "prepare_daemon ord ex ds = mounted (map (sm_secretName \<circ> snd) (range_gmap ord ex)) ds"
proof -
  have "foldl (\<lambda>d sm. injectPtpSecurityVolume d (sm_secretName (snd sm))) (mounted ns ds) sms =
      mounted (ns @ map (sm_secretName \<circ> snd) sms) ds" for ns and sms :: "(string \<times> secretMount) list"
    by (induction sms arbitrary: ns) (simp_all add: inject_mounted)
  moreover have "removeSecurityVolumesFromDaemonSet ds = mounted [] ds"
    by (simp add: removeSecurityVolumesFromDaemonSet_def mounted_def)
  ultimately show ?thesis by (simp add: prepare_daemon_def)
qed

lemma security_item_suffix [simp]: "isSecurityItem (n @ TLV_AUTH_SUFFIX)"
  by (simp add: isSecurityItem_def TLV_AUTH_SUFFIX_def)

lemma mounted_again: "mounted ns (mounted ms ds) = mounted ns ds"
  by (simp add: mounted_def on_daemon_container_comp security_volume_def security_mount_def comp_def)

section \<open>The secrets that are mounted\<close>

definition secret_exists :: "'s ctl_env \<Rightarrow> 's \<Rightarrow> string \<Rightarrow> bool" where
  "secret_exists env s n =
     (case cl_GetSecret (ce_client env) \<lparr>nn_Namespace = ce_ns env, nn_Name = n\<rparr> s of Inl _ \<Rightarrow> False | Inr _ \<Rightarrow> True)"

lemma add_unique_store_new: "add_unique m mount = gm.store_new m (sm_secretName mount, mount)"
  by (simp add: add_unique_def gm.store_new_def split: option.splits)

lemma unique_secrets:
  "wf_gmap (foldl add_unique [] mounts)"
  "gget (foldl add_unique [] mounts) n = map_of (map (\<lambda>m. (sm_secretName m, m)) mounts) n"
proof -
  have loop: "foldl add_unique m ms = foldl gm.store_new m (map (\<lambda>x. (sm_secretName x, x)) ms)" for m ms
    by (induction ms arbitrary: m) (simp_all add: add_unique_store_new)
  show "wf_gmap (foldl add_unique [] mounts)" unfolding loop by (rule gm.ok_store_new_loop) simp
  show "gget (foldl add_unique [] mounts) n = map_of (map (\<lambda>m. (sm_secretName m, m)) mounts) n"
    unfolding loop by (simp add: gm.lookup_store_new_loop)
qed

lemma keep_existing_loop:
  "fold_go (keep_existing env s) ex kvs = Inr r \<Longrightarrow> r = gset_all ex (filter (\<lambda>kv. secret_exists env s (fst kv)) kvs)"
proof (induction kvs arbitrary: ex)
  case (Cons kv kvs)
  then obtain ex' where step: "keep_existing env s ex kv = Inr ex'" and rest: "fold_go (keep_existing env s) ex' kvs = Inr r"
    by (auto simp: bind_go_eq_Inr)
  from step have "ex' = (if secret_exists env s (fst kv) then gset ex (fst kv) (snd kv) else ex)"
    by (auto simp: keep_existing_def secret_exists_def split: sum.splits api_error.splits)
  with Cons.IH [OF rest] show ?case by (cases kv) simp
qed simp

text \<open>The secrets that reach the DaemonSet: each once, those referenced that exist.\<close>

lemma existing_secrets:
  assumes ord: "range_order_ok ord"
    and scan: "scan_configs items = Inr mounts"
    and keep: "fold_go (keep_existing env s) [] (range_gmap ord (foldl add_unique [] mounts)) = Inr ex"
  defines "ns \<equiv> map (sm_secretName \<circ> snd) (range_gmap ord ex)"
  shows "distinct ns" "set ns = {n \<in> referenced items. secret_exists env s n}"
proof -
  let ?u = "foldl add_unique [] mounts"
  let ?kvs = "filter (\<lambda>kv. secret_exists env s (fst kv)) (range_gmap ord ?u)"
  have mounts: "mounts = map mount_of (sa_files items)"
    using scan by (simp add: scan_configs_cases split: if_splits)
  note u = unique_secrets [of mounts]
  have d: "distinct (map fst ?kvs)" using distinct_range_gmap [OF ord u(1)] by (rule distinct_map_filter)
  have ex: "ex = gset_all [] ?kvs" by (rule keep_existing_loop [OF keep])
  then have wf: "wf_gmap ex" by (simp add: wf_gmap_gset_all)
  have get: "gget ex n = Some m \<longleftrightarrow> secret_exists env s n \<and> gget ?u n = Some m" for n m
  proof -
    have "gget ex n = Some m \<longleftrightarrow> (n, m) \<in> set ?kvs"
      unfolding ex gget_gset_all [OF d] map_of_eq_Some_iff [OF d, symmetric] by (simp split: option.splits)
    then show ?thesis by (auto simp: set_range_gmap [OF ord])
  qed
  have name: "gget ?u n = Some m \<Longrightarrow> sm_secretName m = n" for n m
    unfolding u(2) by (auto dest: map_of_SomeD)
  have "\<forall>kv \<in> set (range_gmap ord ex). sm_secretName (snd kv) = fst kv"
    using get name by (auto simp: set_range_gmap [OF ord])
  then have ns: "ns = map fst (range_gmap ord ex)" unfolding ns_def by (auto cong: map_cong)
  then show "distinct ns" using distinct_range_gmap [OF ord wf] by simp
  have "gget ?u n \<noteq> None \<longleftrightarrow> n \<in> referenced items" for n
    unfolding u(2) map_of_eq_None_iff by (auto simp: mounts referenced_def mount_of_def image_iff)
  then show "set ns = {n \<in> referenced items. secret_exists env s n}"
    unfolding ns using get by (fastforce simp: set_range_gmap [OF ord] image_iff)
qed

section \<open>Profiles the webhook accepts\<close>

lemma profile_sa_file_option:
  "profile_sa_file p \<noteq> '''' \<Longrightarrow>
     \<exists>options. gget (sections (fst (PopulatePtp4lConf (pf_Ptp4lConf p) (pf_Ptp4lOpts p)))) ''[global]'' = Some options
       \<and> gget options ''sa_file'' = Some (profile_sa_file p)"
  by (auto simp: profile_sa_file_def GetOption_def split: option.splits prod.splits)

lemma accepted_sa_files:
  assumes "\<forall>c. range_order_ok (we_order (wenv c))" "\<forall>c \<in> set items. PtpConfig_validate (wenv c) c = Inr ()" "sa \<in> set (sa_files items)"
  shows "\<exists>name key c i secret content. sa = sa_path name key \<and> CHR ''/'' \<notin> set name
     \<and> c \<in> set items \<and> getSecret (wenv c) (SaFileRead i) name = Some secret \<and> gget (sec_Data secret) key = Some content"
proof -
  from assms(3) obtain c p where c: "c \<in> set items" "p \<in> set (cfg_Profile c)" and sa: "sa = profile_sa_file p" "sa \<noteq> ''''"
    by (auto simp: sa_files_def)
  from c(2) obtain i where "i < length (cfg_Profile c)" "p = cfg_Profile c ! i" by (auto simp: in_set_conv_nth)
  with assms(1,2) c(1) have "profile_policy (wenv c) i p" by (simp add: validate_iff)
  then have "auth_policy (wenv c) i (fst (PopulatePtp4lConf (pf_Ptp4lConf p) (pf_Ptp4lOpts p)))"
    by (simp add: profile_policy_def Let_def)
  with profile_sa_file_option [of p] sa c(1) show ?thesis unfolding auth_policy_def by (metis option.exhaust)
qed

section \<open>Properties\<close>

text \<open>C7: After a successful sync of the secrets, the DaemonSet that was applied is the one read from the
  cluster with its security volumes replaced: every secret that some profile refers to and that
  exists is mounted exactly once, as a volume named after it and as a read-only mount in the
  daemon's container, no other security volume or mount is left, and everything else is as it
  was.\<close>

theorem daemon_secrets_exact:
  assumes "range_order_ok (ce_order env)" "syncLinuxptpDaemonSecrets env items s = (Inr (), s')"
  shows "\<exists>ds ns updated. cl_GetDaemonSet (ce_client env) (daemon_key (ce_ns env)) s = Inr ds
    \<and> distinct ns \<and> set ns = {n \<in> referenced items. secret_exists env s n}
    \<and> ce_convert env (mounted ns ds) = Some updated
    \<and> ApplyObject (ce_norm env) SourcePtpConfig (cl_objects (ce_client env)) updated s = (None, s')"
proof -
  let ?prep = "\<lambda>ex. prepare_daemon (ce_order env) ex"
  from assms(2) obtain mounts ex ds updated where scan: "scan_configs items = Inr mounts"
    and keep: "fold_go (keep_existing env s) [] (range_gmap (ce_order env) (foldl add_unique [] mounts)) = Inr ex"
    and ds: "cl_GetDaemonSet (ce_client env) (daemon_key (ce_ns env)) s = Inr ds"
    and conv: "ce_convert env (?prep ex ds) = Some updated"
    and app: "ApplyObject (ce_norm env) SourcePtpConfig (cl_objects (ce_client env)) updated s = (None, s')"
    unfolding syncLinuxptpDaemonSecrets_def
    by (auto simp: bind_go_eq_Inr split: sum.splits option.splits prod.splits api_error.splits)
  from existing_secrets [OF assms(1) scan keep] conv app ds show ?thesis
    unfolding prepare_daemon_mounted by blast
qed

theorem daemon_secrets_exact_witness:
  "\<exists>ns. distinct ns \<and> set ns = {n \<in> referenced [wit_config]. secret_exists mem_env mem_state n}
     \<and> ce_convert mem_env (mounted ns mem_daemon) \<noteq> None"
proof -
  have "\<exists>s'. syncLinuxptpDaemonSecrets mem_env [wit_config] mem_state = (Inr (), s')"
  proof -
    have "GetName wit_updated \<noteq> ''''" by code_simp
    moreover have "IsObjectSupported wit_updated = None"
      using wit_is_daemon(2) by (simp add: IsObjectSupported_def plain_def)
    ultimately have "ApplyObject (\<lambda>t. t) SourcePtpConfig mem_objects wit_updated mem_state
        = (None, mem_state\<lparr>mc_Objects := [key_of wit_updated \<mapsto> wit_updated]\<rparr>)"
      by (simp add: ApplyObject_def mem_objects_def mem_client_def mem_state_def)
    moreover have "bind_go (scan_configs [wit_config]) (\<lambda>mounts. fold_go (keep_existing mem_env mem_state) []
        (range_gmap (ce_order mem_env) (foldl add_unique [] mounts))) = Inr [(''sec'', mount_of ''/etc/ptp-secret-mount/sec/key'')]"
      by code_simp
    ultimately show ?thesis
      by (simp add: syncLinuxptpDaemonSecrets_def mem_env_def mem_ptp_client_def mem_state_def found_def)
  qed
  then obtain s' where "syncLinuxptpDaemonSecrets mem_env [wit_config] mem_state = (Inr (), s')" ..
  from daemon_secrets_exact [OF _ this] show ?thesis
    by (auto simp: mem_env_def mem_ptp_client_def mem_state_def found_def)
qed

text \<open>C23: The webhook protects the controller. The scan for secrets panics exactly when some
  \<open>sa_file\<close> has no slash after the mount directory, whatever the resources are; over resources
  that the webhook accepted, each at its own time, it succeeds, and every secret it finds is one the webhook read, under
  a key that the secret has.\<close>

theorem accepted_scan_succeeds:
  assumes "\<forall>c. range_order_ok (we_order (wenv c))"
  shows "(scan_configs items = panic SliceBounds \<longleftrightarrow> (\<exists>sa \<in> set (sa_files items). \<not> path_ok sa))
    \<and> ((\<forall>c \<in> set items. PtpConfig_validate (wenv c) c = Inr ()) \<longrightarrow>
        (\<exists>mounts. scan_configs items = Inr mounts \<and>
          (\<forall>m \<in> set mounts. \<exists>c \<in> set items. \<exists>i secret content. getSecret (wenv c) (SaFileRead i) (sm_secretName m) = Some secret
             \<and> gget (sec_Data secret) (sm_secretKey m) = Some content
             \<and> sm_saFilePath m = sa_path (sm_secretName m) (sm_secretKey m))))"
proof (intro conjI impI)
  show "scan_configs items = panic SliceBounds \<longleftrightarrow> (\<exists>sa \<in> set (sa_files items). \<not> path_ok sa)"
    by (auto simp: scan_configs_cases list_all_iff)
next
  assume acc: "\<forall>c \<in> set items. PtpConfig_validate (wenv c) c = Inr ()"
  note sa = accepted_sa_files [OF assms acc]
  have "list_all path_ok (sa_files items)" unfolding list_all_iff using sa sa_path_ok(1) by blast
  then have "scan_configs items = Inr (map mount_of (sa_files items))" by (simp add: scan_configs_cases)
  moreover have "\<exists>c \<in> set items. \<exists>i secret content. getSecret (wenv c) (SaFileRead i) (sm_secretName m) = Some secret
      \<and> gget (sec_Data secret) (sm_secretKey m) = Some content
      \<and> sm_saFilePath m = sa_path (sm_secretName m) (sm_secretKey m)" if "m \<in> set (map mount_of (sa_files items))" for m
  proof -
    from that obtain f where f: "f \<in> set (sa_files items)" "m = mount_of f" by auto
    from sa [OF f(1)] obtain name key c i secret content where "f = sa_path name key" "CHR ''/'' \<notin> set name"
      "c \<in> set items" "getSecret (wenv c) (SaFileRead i) name = Some secret" "gget (sec_Data secret) key = Some content" by blast
    with f(2) show ?thesis by (auto simp: mount_of_def sa_path_ok)
  qed
  ultimately show "\<exists>mounts. scan_configs items = Inr mounts \<and>
          (\<forall>m \<in> set mounts. \<exists>c \<in> set items. \<exists>i secret content. getSecret (wenv c) (SaFileRead i) (sm_secretName m) = Some secret
             \<and> gget (sec_Data secret) (sm_secretKey m) = Some content
             \<and> sm_saFilePath m = sa_path (sm_secretName m) (sm_secretKey m))" by blast
qed

theorem accepted_scan_succeeds_witness:
  "\<exists>mounts. scan_configs [wit_config] = Inr mounts \<and> \<not> (scan_configs [wit_config] = panic SliceBounds)"
  using accepted_scan_succeeds [of "\<lambda>c. wit_env" "[wit_config]"] wit_accepted(2) by auto

text \<open>C36: Events of secrets. Creating or deleting a secret enqueues one request, for a resource that refers
  to it, exactly when some listed resource does, provided every path has its slash; updates and
  generic events enqueue nothing, and a failed list enqueues nothing.\<close>

theorem secret_event_enqueues:
  assumes "list_all path_ok (sa_files items)" "evt \<in> {SecretCreated n, SecretDeleted n}"
  shows "(if n \<in> referenced items
      then \<exists>cfg \<in> set items. n \<in> referenced [cfg] \<and> secretEventHandler (Inr items) evt = Inr [request_of (cfg_Meta cfg)]
      else secretEventHandler (Inr items) evt = Inr [])
    \<and> secretEventHandler (Inr items) (SecretUpdated n) = Inr [] \<and> secretEventHandler (Inr items) (SecretGeneric n) = Inr []
    \<and> secretEventHandler (Inl e) evt = Inr []"
proof -
  let ?P = "\<lambda>cp. profile_sa_file (snd cp) \<noteq> '''' \<and> secret_of (profile_sa_file (snd cp)) = n"
  have evt: "secretEventHandler l evt = enqueuePtpConfigReconcile l n" for l
    using assms(2) by (auto simp: secretEventHandler_def)
  have ps: "set (all_profiles items) = {(c, p). c \<in> set items \<and> p \<in> set (cfg_Profile c)}" by (auto simp: all_profiles_def)
  have ok: "\<forall>cp \<in> set (all_profiles items). profile_sa_file (snd cp) \<noteq> '''' \<longrightarrow> path_ok (profile_sa_file (snd cp))"
    using assms(1) by (auto simp: ps sa_files_def list_all_iff)
  have ref: "n \<in> referenced items \<longleftrightarrow> (\<exists>cp \<in> set (all_profiles items). ?P cp)"
    by (auto simp: ps referenced_def sa_files_def image_iff)
  have res: "secretEventHandler (Inr items) evt =
      Inr (case find ?P (all_profiles items) of None \<Rightarrow> [] | Some cp \<Rightarrow> [request_of (cfg_Meta (fst cp))])"
    by (simp add: evt enqueuePtpConfigReconcile_def find_reference_cases [OF ok])
  have "if n \<in> referenced items
      then \<exists>cfg \<in> set items. n \<in> referenced [cfg] \<and> secretEventHandler (Inr items) evt = Inr [request_of (cfg_Meta cfg)]
      else secretEventHandler (Inr items) evt = Inr []"
  proof (cases "find ?P (all_profiles items)")
    case None
    then have "n \<notin> referenced items" unfolding ref find_None_iff by blast
    with None show ?thesis unfolding res by simp
  next
    case (Some cp)
    then have "cp \<in> set (all_profiles items)" "?P cp" by (auto simp: find_Some_iff)
    then have "n \<in> referenced items" unfolding ref by blast
    from \<open>cp \<in> set (all_profiles items)\<close> have c: "fst cp \<in> set items" "snd cp \<in> set (cfg_Profile (fst cp))" by (auto simp: ps)
    from c \<open>?P cp\<close> have "n \<in> referenced [fst cp]" by (force simp: referenced_def sa_files_def)
    with Some \<open>n \<in> referenced items\<close> c(1) show ?thesis unfolding res by auto
  qed
  then show ?thesis by (simp add: secretEventHandler_def [of _ "SecretUpdated n"] secretEventHandler_def [of _ "SecretGeneric n"]
      evt enqueuePtpConfigReconcile_def [of "Inl e"])
qed

theorem secret_event_enqueues_witness:
  "secretEventHandler (Inr [wit_config]) (SecretDeleted ''sec'') = Inr [request_of (cfg_Meta wit_config)]"
proof -
  have "list_all path_ok (sa_files [wit_config])" by code_simp
  moreover have "''sec'' \<in> referenced [wit_config]" by code_simp
  ultimately show ?thesis
    using secret_event_enqueues [of "[wit_config]" "SecretDeleted ''sec''" "''sec''" NotFound] by simp
qed

end
