(* ===== verification/Profile_Status.thy ===== *)
theory Profile_Status
  imports Recommend Hardware_Types
begin

text \<open>
  The status the operator derives for a PtpConfig (\<open>controllers/profile_status.go\<close>): how the
  profiles relate to each other, where they are applied according to the NodePtpDevice
  resources, warnings about misconfigurations, and whether references between profiles are valid.
\<close>

section \<open>Names\<close>

definition localProfileName :: "string \<Rightarrow> string \<Rightarrow> string" where
  "localProfileName ref crName =
     (if crName = '''' \<or> ref = '''' then ref
      else if HasPrefix ref (crName @ ProfileNameSeperator) then TrimPrefix ref (crName @ ProfileNameSeperator)
      else ref)"

definition relatedProfileMatches :: "string \<Rightarrow> string \<Rightarrow> string \<Rightarrow> bool" where
  "relatedProfileMatches listed related crName =
     (if listed = '''' \<or> related = '''' then False
      else if listed = related then True
      else if crName = '''' then False
      else listed = qualifyProfileName crName related \<or> related = qualifyProfileName crName listed)"

definition configsOrSelf :: "PtpConfig \<Rightarrow> PtpConfigList option \<Rightarrow> PtpConfigList" where
  "configsOrSelf ptpConfig al = (case al of Some items \<Rightarrow> items | None \<Rightarrow> [ptpConfig])"

definition qualifiedProfileRef :: "string \<Rightarrow> PtpConfig \<Rightarrow> PtpConfigList option \<Rightarrow> string" where
  "qualifiedProfileRef ref cfg al =
     (if ref = '''' then ref
      else
        (let items = configsOrSelf cfg al in
         if prefix_names_profile ref items then ref
         else if owningConfigName ref (Some items) \<noteq> ''''
         then qualifyProfileName (owningConfigName ref (Some items)) ref
         else qualifyProfileName (cfg_Name cfg) ref))"

definition profileHasPhc2sys :: "PtpProfile \<Rightarrow> bool" where
  "profileHasPhc2sys profile = (case pf_Phc2sysOpts profile of None \<Rightarrow> False | Some o2 \<Rightarrow> o2 \<noteq> '''')"

section \<open>Applied profiles\<close>

record appliedProfileInfo =
  ai_nodes :: "string list"
  ai_clockType :: string

definition apply_profile ::
  "string \<Rightarrow> appliedProfileInfo gmap \<Rightarrow> NodeProfileStatus \<Rightarrow> appliedProfileInfo gmap" where
  "apply_profile devName applied profile =
     (if nps_Name profile = '''' then applied
      else
        (let info = (case gget applied (nps_Name profile) of Some i \<Rightarrow> i
                     | None \<Rightarrow> \<lparr>ai_nodes = [], ai_clockType = ''''\<rparr>);
             info1 = info\<lparr>ai_nodes := ai_nodes info @ [devName]\<rparr>;
             info2 = (if ai_clockType info1 = '''' then info1\<lparr>ai_clockType := nps_ClockType profile\<rparr> else info1)
         in gset applied (nps_Name profile) info2))"

definition apply_device :: "appliedProfileInfo gmap \<Rightarrow> NodePtpDevice \<Rightarrow> appliedProfileInfo gmap" where
  "apply_device applied dev =
     (case nds_Sync (npd_Status dev) of
        None \<Rightarrow> applied
      | Some sync \<Rightarrow> foldl (apply_profile (om_Name (npd_Meta dev))) applied (sync_Profiles sync))"

definition appliedProfilesFromDevices :: "NodePtpDevice list option \<Rightarrow> appliedProfileInfo gmap" where
  "appliedProfilesFromDevices devices = (case devices of None \<Rightarrow> [] | Some items \<Rightarrow> foldl apply_device [] items)"

definition collect_applied ::
  "string \<Rightarrow> string \<Rightarrow> string list \<times> string \<Rightarrow> string \<times> appliedProfileInfo \<Rightarrow> string list \<times> string" where
  "collect_applied name crName acc e =
     (if \<not> relatedProfileMatches (fst e) name crName then acc
      else (fst acc @ ai_nodes (snd e), if snd acc = '''' then ai_clockType (snd e) else snd acc))"

definition appliedForProfile ::
  "range_order \<Rightarrow> string \<Rightarrow> string \<Rightarrow> appliedProfileInfo gmap \<Rightarrow> string list \<times> string" where
  "appliedForProfile ord name crName applied =
     (let r = foldl (collect_applied name crName) ([], '''') (range_gmap ord applied)
      in (compact (sort (fst r)), snd r))"

definition hardwareConfigsForProfile :: "string \<Rightarrow> string \<Rightarrow> HardwareConfig list option \<Rightarrow> string list" where
  "hardwareConfigsForProfile name crName hwList =
     (case hwList of
        None \<Rightarrow> []
      | Some items \<Rightarrow>
          sort (map hw_Name (filter (\<lambda>hw. hw_Related hw \<noteq> '''' \<and> relatedProfileMatches (hw_Related hw) name crName) items)))"

definition matchListFor :: "PtpConfig \<Rightarrow> PtpConfig option \<Rightarrow> NodeMatchList list \<Rightarrow> NodeMatchList list" where
  "matchListFor cfg self selfMatch =
     (case self of
        None \<Rightarrow> st_MatchList (cfg_Status cfg)
      | Some s \<Rightarrow> if cfg_Name cfg = cfg_Name s \<and> cfg_Namespace cfg = cfg_Namespace s then selfMatch
                  else st_MatchList (cfg_Status cfg))"

section \<open>Relations between profiles\<close>

text \<open>The members of an \<open>haProfiles\<close> setting: split at commas, trimmed, empty ones skipped.\<close>

definition ha_members :: "string \<Rightarrow> string list" where
  "ha_members ha = filter (\<lambda>m. m \<noteq> '''') (map TrimSpace (Split ha '',''))"

definition setting :: "string gmap option \<Rightarrow> string \<Rightarrow> string" where
  "setting settings k = (case settings of None \<Rightarrow> '''' | Some m \<Rightarrow> gget_str m k)"

type_synonym relations = "string list gmap \<times> string gmap"

text \<open>One profile of the first loop: who it is controlled by, and which members it coordinates.\<close>

definition relate_profile :: "string \<Rightarrow> relations \<Rightarrow> PtpProfile \<Rightarrow> relations" where
  "relate_profile crName r profile =
     (case pf_Name profile of
        None \<Rightarrow> r
      | Some name \<Rightarrow>
          (let qname = qualifyProfileName crName name;
               cp = setting (pf_PtpSettings profile) ''controllingProfile'';
               ha = setting (pf_PtpSettings profile) ''haProfiles'';
               controller = localProfileName cp crName;
               controlsMap = (if cp = '''' then fst r
                 else gset (fst r) controller
                   ((case gget (fst r) controller of None \<Rightarrow> [] | Some l \<Rightarrow> l) @ [qname]));
               haCoordinator = (if ha = '''' then snd r
                 else foldl (\<lambda>m member. gset m (localProfileName member crName) qname) (snd r) (ha_members ha))
           in (controlsMap, haCoordinator)))"

definition profile_status ::
  "range_order \<Rightarrow> PtpConfig \<Rightarrow> PtpConfigList \<Rightarrow> HardwareConfig list option \<Rightarrow> appliedProfileInfo gmap \<Rightarrow>
     relations \<Rightarrow> string \<Rightarrow> PtpProfile \<Rightarrow> ProfileStatus" where
  "profile_status ord ptpConfig items hwList applied r name profile =
     (let cp = setting (pf_PtpSettings profile) ''controllingProfile'';
          ha = setting (pf_PtpSettings profile) ''haProfiles'';
          nc = appliedForProfile ord name (cfg_Name ptpConfig) applied
      in \<lparr>ps_Name = qualifyProfileName (cfg_Name ptpConfig) name,
          ps_ControlledBy = (if cp = '''' then '''' else qualifiedProfileRef cp ptpConfig (Some items)),
          ps_Controls = (case gget (fst r) name of Some l \<Rightarrow> l | None \<Rightarrow> []),
          ps_HaMembers = (if ha = '''' then []
            else map (\<lambda>m. qualifiedProfileRef m ptpConfig (Some items)) (ha_members ha)),
          ps_PartOfHa = (case gget (snd r) name of Some c \<Rightarrow> c | None \<Rightarrow> ''''),
          ps_HasPhc2sys = profileHasPhc2sys profile,
          ps_ClockType = snd nc,
          ps_AppliedOnNodes = fst nc,
          ps_HardwareConfigs = hardwareConfigsForProfile name (cfg_Name ptpConfig) hwList\<rparr>)"

definition buildProfileStatuses ::
  "range_order \<Rightarrow> PtpConfig \<Rightarrow> NodePtpDevice list option \<Rightarrow> PtpConfigList option \<Rightarrow> HardwareConfig list option \<Rightarrow>
     ProfileStatus list" where
  "buildProfileStatuses ord ptpConfig devices al hwList =
     (let items = configsOrSelf ptpConfig al;
          applied = appliedProfilesFromDevices devices;
          r = foldl (relate_profile (cfg_Name ptpConfig)) ([], []) (cfg_Profile ptpConfig)
      in List.map_filter (\<lambda>profile.
           map_option (\<lambda>name. profile_status ord ptpConfig items hwList applied r name profile) (pf_Name profile))
         (cfg_Profile ptpConfig))"

section \<open>Warnings\<close>

text \<open>The nodes on which the match list of a resource applies the profile.\<close>

definition matched_nodes :: "string \<Rightarrow> string \<Rightarrow> NodeMatchList list \<Rightarrow> string list" where
  "matched_nodes crName name matches =
     List.map_filter (\<lambda>m. case (nml_NodeName m, nml_Profile m) of
         (Some node, Some p) \<Rightarrow> if relatedProfileMatches p name crName then Some node else None
       | _ \<Rightarrow> None) matches"

text \<open>The (node, profile) pairs that reach the body of the innermost loop, in order.\<close>

definition phc2sys_hits :: "PtpConfig \<Rightarrow> NodeMatchList list \<Rightarrow> PtpConfigList \<Rightarrow> (string \<times> string) list" where
  "phc2sys_hits ptpConfig matchList items =
     concat (map (\<lambda>cfg.
       concat (map (\<lambda>profile.
         case pf_Name profile of
           None \<Rightarrow> []
         | Some name \<Rightarrow>
             if \<not> profileHasPhc2sys profile then []
             else map (\<lambda>node. (node, qualifyProfileName (cfg_Name cfg) name))
               (matched_nodes (cfg_Name cfg) name (matchListFor cfg (Some ptpConfig) matchList)))
         (cfg_Profile cfg))) items)"

definition hit_step ::
  "string list gmap \<times> bool gmap gmap \<Rightarrow> string \<times> string \<Rightarrow> string list gmap \<times> bool gmap gmap" where
  "hit_step st h =
     (let node = fst h; qname = snd h;
          seenNode = (case gget (snd st) node of None \<Rightarrow> [] | Some m \<Rightarrow> m)
      in if gget seenNode qname = Some True then (fst st, gset (snd st) node seenNode)
         else (gset (fst st) node ((case gget (fst st) node of None \<Rightarrow> [] | Some l \<Rightarrow> l) @ [qname]),
               gset (snd st) node (gset seenNode qname True)))"

definition phc2sys_message :: "string \<Rightarrow> string list \<Rightarrow> string" where
  "phc2sys_message node profiles =
     ''Multiple profiles have phc2sys enabled on '' @ node @ '': '' @ Join profiles '', ''"

definition phc2sys_warnings :: "range_order \<Rightarrow> PtpConfig \<Rightarrow> NodeMatchList list \<Rightarrow> PtpConfigList \<Rightarrow> string list" where
  "phc2sys_warnings ord ptpConfig matchList items =
     (let nodePhc2sys = fst (foldl hit_step ([], []) (phc2sys_hits ptpConfig matchList items));
          nodes = sort (map fst (range_gmap ord nodePhc2sys))
      in List.map_filter (\<lambda>node.
           let profiles = (case gget nodePhc2sys node of None \<Rightarrow> [] | Some l \<Rightarrow> l) in
           if length profiles < 2 then None
           else
             (let sorted_profiles = sort profiles in
              if list_ex (\<lambda>p. HasPrefix p (cfg_Name ptpConfig @ ProfileNameSeperator)) sorted_profiles
              then Some (phc2sys_message node sorted_profiles) else None)) nodes)"

definition control_message :: "string \<Rightarrow> string \<Rightarrow> string" where
  "control_message qname qcontroller =
     ''Profile '' @ qname @ '' is controlled by '' @ qcontroller @ '' but not applied on any node''"

definition control_warning ::
  "PtpConfig \<Rightarrow> NodeMatchList list \<Rightarrow> PtpConfigList \<Rightarrow> PtpProfile \<Rightarrow> string option" where
  "control_warning ptpConfig matchList items profile =
     (case pf_Name profile of
        None \<Rightarrow> None
      | Some name \<Rightarrow>
          (let cp = setting (pf_PtpSettings profile) ''controllingProfile'';
               crName = cfg_Name ptpConfig;
               matched = List.map_filter nml_Profile matchList;
               controllerApplied = list_ex (\<lambda>p. relatedProfileMatches p (localProfileName cp crName) crName
                 \<or> relatedProfileMatches p cp crName) matched;
               profileApplied = list_ex (\<lambda>p. relatedProfileMatches p name crName) matched
           in if cp = '''' then None
              else if controllerApplied \<and> \<not> profileApplied
              then Some (control_message (qualifyProfileName crName name) (qualifiedProfileRef cp ptpConfig (Some items)))
              else None))"

definition detectWarnings ::
  "range_order \<Rightarrow> PtpConfig \<Rightarrow> NodeMatchList list \<Rightarrow> PtpConfigList option \<Rightarrow> string list" where
  "detectWarnings ord ptpConfig matchList al =
     (let items = configsOrSelf ptpConfig al
      in sort (phc2sys_warnings ord ptpConfig matchList items
           @ List.map_filter (control_warning ptpConfig matchList items) (cfg_Profile ptpConfig)))"

section \<open>Validity of references\<close>

fun first_some :: "('a \<Rightarrow> 'b option) \<Rightarrow> 'a list \<Rightarrow> 'b option" where
  "first_some f [] = None"
| "first_some f (x # xs) = (case f x of Some y \<Rightarrow> Some y | None \<Rightarrow> first_some f xs)"

definition missing_message :: "string \<Rightarrow> string \<Rightarrow> string" where
  "missing_message ref settingName =
     ''profile '' @ [CHR 0x27] @ ref @ [CHR 0x27] @ '' referenced in '' @ settingName @ '' not found in any PtpConfig CR''"

definition invalid_reference :: "PtpConfig \<Rightarrow> PtpConfigList \<Rightarrow> PtpProfile \<Rightarrow> string option" where
  "invalid_reference ptpConfig items profile =
     (let cp = setting (pf_PtpSettings profile) ''controllingProfile'';
          ha = setting (pf_PtpSettings profile) ''haProfiles''
      in if cp \<noteq> '''' \<and> \<not> profileReferenceExists cp (Some items)
         then Some (missing_message (qualifiedProfileRef cp ptpConfig (Some items)) ''controllingProfile'')
         else if ha = '''' then None
         else first_some (\<lambda>member.
             if profileReferenceExists member (Some items) then None
             else Some (missing_message (qualifiedProfileRef member ptpConfig (Some items)) ''haProfiles''))
           (ha_members ha))"

definition profileReferencesValid :: "PtpConfig \<Rightarrow> PtpConfigList option \<Rightarrow> bool \<times> string" where
  "profileReferencesValid ptpConfig al =
     (case first_some (invalid_reference ptpConfig (configsOrSelf ptpConfig al)) (cfg_Profile ptpConfig) of
        Some message \<Rightarrow> (False, message)
      | None \<Rightarrow> (True, ''All profile references are valid''))"

section \<open>Lemmas on references\<close>

lemma first_some_None: "first_some f xs = None \<longleftrightarrow> (\<forall>x \<in> set xs. f x = None)"
  by (induction xs) (auto split: option.splits)

lemma ha_members_Nil [simp]: "ha_members '''' = []"
proof -
  have "Split '''' '','' = ['''']" by (simp add: Split_no_sep)
  moreover have "TrimSpace '''' = ''''" by (simp add: TrimSpace_graphic)
  ultimately show ?thesis by (simp add: ha_members_def)
qed

abbreviation controlling :: "PtpProfile \<Rightarrow> string" where
  "controlling p \<equiv> setting (pf_PtpSettings p) ''controllingProfile''"

abbreviation members :: "PtpProfile \<Rightarrow> string list" where
  "members p \<equiv> ha_members (setting (pf_PtpSettings p) ''haProfiles'')"

lemma invalid_reference_None:
  "invalid_reference cfg items p = None \<longleftrightarrow>
     (controlling p \<noteq> '''' \<longrightarrow> profileReferenceExists (controlling p) (Some items))
     \<and> (\<forall>m \<in> set (members p). profileReferenceExists m (Some items))"
  by (auto simp: invalid_reference_def Let_def first_some_None split: if_splits)

lemma references_valid:
  "fst (profileReferencesValid cfg al) \<longleftrightarrow>
     (\<forall>p \<in> set (cfg_Profile cfg). invalid_reference cfg (configsOrSelf cfg al) p = None)"
  by (simp add: profileReferencesValid_def first_some_None [symmetric] split: option.splits)

lemma qualified_ref_resolves:
  "profileReferenceExists v (Some items) \<Longrightarrow> qualifiedProfileRef v cfg (Some items) = resolveProfileReference v items"
  by (auto simp: profileReferenceExists_def qualifiedProfileRef_def resolveProfileReference_def configsOrSelf_def)

section \<open>Lemmas on applied profiles\<close>

definition nodes_of :: "appliedProfileInfo gmap \<Rightarrow> string \<Rightarrow> string list" where
  "nodes_of m n = (case gget m n of None \<Rightarrow> [] | Some i \<Rightarrow> ai_nodes i)"

lemma nodes_of_apply_profile:
  "nodes_of (apply_profile d m p) n =
     nodes_of m n @ (if nps_Name p = n \<and> n \<noteq> '''' then [d] else [])"
  by (auto simp: nodes_of_def apply_profile_def Let_def split: option.splits)

text \<open>The names of the profiles a device reports.\<close>

definition reported :: "NodePtpDevice \<Rightarrow> string list" where
  "reported dev =
     (case nds_Sync (npd_Status dev) of None \<Rightarrow> [] | Some s \<Rightarrow> filter (\<lambda>n. n \<noteq> '''') (map nps_Name (sync_Profiles s)))"

lemma nodes_of_apply_profiles:
  "set (nodes_of (foldl (apply_profile d) m ps) n) =
     set (nodes_of m n) \<union> (if n \<noteq> '''' \<and> n \<in> nps_Name ` set ps then {d} else {})"
  by (induction ps arbitrary: m) (auto simp: nodes_of_apply_profile)

lemma nodes_of_devices:
  "set (nodes_of (foldl apply_device m devs) n) =
     set (nodes_of m n) \<union> {om_Name (npd_Meta dev) | dev. dev \<in> set devs \<and> n \<in> set (reported dev)}"
proof (induction devs arbitrary: m)
  case (Cons dev devs)
  have "set (nodes_of (apply_device m dev) n) =
      set (nodes_of m n) \<union> (if n \<in> set (reported dev) then {om_Name (npd_Meta dev)} else {})"
    by (auto simp: apply_device_def reported_def nodes_of_apply_profiles split: option.splits)
  with Cons.IH [of "apply_device m dev"] show ?case by auto
qed simp

lemma wf_apply_profiles: "wf_gmap m \<Longrightarrow> wf_gmap (foldl (apply_profile d) m ps)"
  by (induction ps arbitrary: m) (auto simp: apply_profile_def Let_def)

lemma wf_apply_devices: "wf_gmap m \<Longrightarrow> wf_gmap (foldl apply_device m devs)"
  by (induction devs arbitrary: m) (auto simp: apply_device_def wf_apply_profiles split: option.splits)

lemma collect_applied_nodes:
  "set (fst (foldl (collect_applied name cr) acc es)) =
     set (fst acc) \<union> {d. \<exists>n i. (n, i) \<in> set es \<and> relatedProfileMatches n name cr \<and> d \<in> set (ai_nodes i)}"
proof (induction es arbitrary: acc)
  case (Cons e es)
  show ?case
    unfolding foldl.simps Cons.IH by (cases e) (auto simp: collect_applied_def)
qed simp

lemma applied_nodes:
  assumes "range_order_ok ord"
  shows "set (fst (appliedForProfile ord name cr applied)) =
     {d. \<exists>n. d \<in> set (nodes_of applied n) \<and> relatedProfileMatches n name cr}"
    and "sorted (fst (appliedForProfile ord name cr applied))"
    and "distinct (fst (appliedForProfile ord name cr applied))"
proof -
  show "set (fst (appliedForProfile ord name cr applied)) =
     {d. \<exists>n. d \<in> set (nodes_of applied n) \<and> relatedProfileMatches n name cr}"
    by (auto simp: appliedForProfile_def Let_def collect_applied_nodes set_range_gmap [OF assms] nodes_of_def
        split: option.splits) (metis option.inject)+
qed (simp_all add: appliedForProfile_def Let_def sorted_distinct_compact)

section \<open>Lemmas on relations\<close>

definition controlled_by :: "string \<Rightarrow> string \<Rightarrow> PtpProfile \<Rightarrow> bool" where
  "controlled_by cr controller p \<longleftrightarrow>
     pf_Name p \<noteq> None \<and> controlling p \<noteq> '''' \<and> localProfileName (controlling p) cr = controller"

definition coordinates :: "string \<Rightarrow> string \<Rightarrow> PtpProfile \<Rightarrow> bool" where
  "coordinates cr member p \<longleftrightarrow>
     pf_Name p \<noteq> None \<and> member \<in> (\<lambda>m. localProfileName m cr) ` set (members p)"

abbreviation qname_in :: "string \<Rightarrow> PtpProfile \<Rightarrow> string" where
  "qname_in cr p \<equiv> qualifyProfileName cr (the (pf_Name p))"

abbreviation controls_of :: "relations \<Rightarrow> string \<Rightarrow> string list" where
  "controls_of r n \<equiv> (case gget (fst r) n of Some l \<Rightarrow> l | None \<Rightarrow> [])"

lemma relate_controls:
  "controls_of (foldl (relate_profile cr) r ps) n = controls_of r n @ map (qname_in cr) (filter (controlled_by cr n) ps)"
proof (induction ps arbitrary: r)
  case (Cons p ps)
  have "controls_of (relate_profile cr r p) n = controls_of r n @ map (qname_in cr) (filter (controlled_by cr n) [p])"
    by (auto simp: relate_profile_def controlled_by_def Let_def split: option.splits)
  with Cons.IH [of "relate_profile cr r p"] show ?case by simp
qed simp

lemma gget_set_all_members:
  "gget (foldl (\<lambda>m x. gset m (f x) q) m xs) n = (if n \<in> f ` set xs then Some q else gget m n)"
  by (induction xs arbitrary: m) auto

lemma relate_coordinator:
  "gget (snd (foldl (relate_profile cr) r ps)) n =
     (case filter (coordinates cr n) ps of [] \<Rightarrow> gget (snd r) n | xs \<Rightarrow> Some (qname_in cr (last xs)))"
proof (induction ps arbitrary: r)
  case (Cons p ps)
  have "gget (snd (relate_profile cr r p)) n = (if coordinates cr n p then Some (qname_in cr p) else gget (snd r) n)"
    by (auto simp: relate_profile_def coordinates_def Let_def gget_set_all_members split: option.splits)
  with Cons.IH [of "relate_profile cr r p"] show ?case by (auto split: list.splits)
qed simp

lemma status_of_profile:
  assumes "p \<in> set (cfg_Profile cfg)" "pf_Name p = Some name"
  shows "profile_status ord cfg (configsOrSelf cfg al) hw (appliedProfilesFromDevices devices)
     (foldl (relate_profile (cfg_Name cfg)) ([], []) (cfg_Profile cfg)) name p
     \<in> set (buildProfileStatuses ord cfg devices al hw)"
  using assms by (force simp: buildProfileStatuses_def Let_def set_map_filter)

section \<open>Lemmas on warnings\<close>

abbreviation profiles_on :: "string list gmap \<times> bool gmap gmap \<Rightarrow> string \<Rightarrow> string list" where
  "profiles_on st n \<equiv> (case gget (fst st) n of None \<Rightarrow> [] | Some l \<Rightarrow> l)"

definition hits_inv :: "string list gmap \<times> bool gmap gmap \<Rightarrow> bool" where
  "hits_inv st \<longleftrightarrow>
     (\<forall>n. distinct (profiles_on st n) \<and> (gget (fst st) n \<noteq> None \<longrightarrow> profiles_on st n \<noteq> [])
        \<and> (\<forall>q. gget (case gget (snd st) n of None \<Rightarrow> [] | Some m \<Rightarrow> m) q = Some True \<longleftrightarrow> q \<in> set (profiles_on st n)))"

lemma hit_step_inv:
  assumes "hits_inv st"
  shows "hits_inv (hit_step st h)"
    and "set (profiles_on (hit_step st h) n) = set (profiles_on st n) \<union> (if fst h = n then {snd h} else {})"
  using assms by (fastforce simp: hits_inv_def hit_step_def Let_def split: option.splits if_splits)+

lemma hits_loop:
  assumes "hits_inv st"
  shows "hits_inv (foldl hit_step st hs)
    \<and> set (profiles_on (foldl hit_step st hs) n) = set (profiles_on st n) \<union> {q. (n, q) \<in> set hs}"
  using assms
proof (induction hs arbitrary: st)
  case (Cons h hs)
  from Cons.IH [OF hit_step_inv(1) [OF Cons.prems]] hit_step_inv(2) [OF Cons.prems] show ?case
    by (cases h) auto
qed simp

text \<open>A listed name and another name mean the same profile of a resource: they are equal, or one is the other qualified by the name of
  the resource.\<close>

definition same_profile :: "string \<Rightarrow> string \<Rightarrow> string \<Rightarrow> bool" where
  "same_profile cr p q \<longleftrightarrow> p \<noteq> '''' \<and> q \<noteq> '''' \<and> (p = q \<or> cr \<noteq> '''' \<and> (p = cr @ ''_'' @ q \<or> q = cr @ ''_'' @ p))"

lemma relatedProfileMatches_iff: "relatedProfileMatches p q cr \<longleftrightarrow> same_profile cr p q"
  by (auto simp: relatedProfileMatches_def same_profile_def qualifyProfileName_def ProfileNameSeperator_def)

definition listed_in :: "string \<Rightarrow> NodeMatchList list \<Rightarrow> string \<Rightarrow> bool" where
  "listed_in cr ml q \<longleftrightarrow> (\<exists>m \<in> set ml. \<exists>p. nml_Profile m = Some p \<and> same_profile cr p q)"

text \<open>The controlled profiles of a resource that its match list applies nowhere although it applies their controller, which is
  named with or without the resource.\<close>

definition left_alone :: "PtpConfig \<Rightarrow> NodeMatchList list \<Rightarrow> string \<Rightarrow> string \<Rightarrow> bool" where
  "left_alone cfg ml name cp \<longleftrightarrow>
     (\<exists>p \<in> set (cfg_Profile cfg). pf_Name p = Some name \<and> setting (pf_PtpSettings p) ''controllingProfile'' = cp)
     \<and> cp \<noteq> '''' \<and> \<not> listed_in (cfg_Name cfg) ml name
     \<and> (listed_in (cfg_Name cfg) ml cp \<or> (\<exists>r. cfg_Name cfg \<noteq> '''' \<and> cp = cfg_Name cfg @ ''_'' @ r \<and> listed_in (cfg_Name cfg) ml r))"

lemma control_warnings_iff:
  "(\<exists>p \<in> set (cfg_Profile cfg). control_warning cfg ml items p = Some w) \<longleftrightarrow>
     (\<exists>name cp. left_alone cfg ml name cp
        \<and> w = control_message (cfg_Name cfg @ ''_'' @ name) (qualifiedProfileRef cp cfg (Some items)))"
proof -
  have listed: "list_ex (\<lambda>p. relatedProfileMatches p q (cfg_Name cfg)) (List.map_filter nml_Profile ml) \<longleftrightarrow> listed_in (cfg_Name cfg) ml q" for q
    by (auto simp: list_ex_iff set_map_filter listed_in_def relatedProfileMatches_iff)
  have ex: "list_ex (\<lambda>p. A p \<or> B p) xs \<longleftrightarrow> list_ex A xs \<or> list_ex B xs" for A B :: "string \<Rightarrow> bool" and xs
    by (auto simp: list_ex_iff)
  have loc: "listed_in (cfg_Name cfg) ml (localProfileName cp (cfg_Name cfg)) \<or> listed_in (cfg_Name cfg) ml cp \<longleftrightarrow>
      listed_in (cfg_Name cfg) ml cp \<or> (\<exists>r. cfg_Name cfg \<noteq> '''' \<and> cp = cfg_Name cfg @ ''_'' @ r \<and> listed_in (cfg_Name cfg) ml r)" for cp
    by (auto simp: localProfileName_def HasPrefix_iff TrimPrefix_def ProfileNameSeperator_def)
  have "control_warning cfg ml items p = Some w \<longleftrightarrow> (\<exists>name cp. pf_Name p = Some name
      \<and> setting (pf_PtpSettings p) ''controllingProfile'' = cp \<and> cp \<noteq> '''' \<and> \<not> listed_in (cfg_Name cfg) ml name
      \<and> (listed_in (cfg_Name cfg) ml cp \<or> (\<exists>r. cfg_Name cfg \<noteq> '''' \<and> cp = cfg_Name cfg @ ''_'' @ r \<and> listed_in (cfg_Name cfg) ml r))
      \<and> w = control_message (cfg_Name cfg @ ''_'' @ name) (qualifiedProfileRef cp cfg (Some items)))" for p
    unfolding control_warning_def Let_def ex listed loc
    by (auto simp: qualifyProfileName_def ProfileNameSeperator_def split: option.splits)
  then show ?thesis unfolding left_alone_def by blast
qed

text \<open>The profiles with phc2sys that the match lists put on a node.\<close>

definition phc2sys_on :: "PtpConfig \<Rightarrow> NodeMatchList list \<Rightarrow> PtpConfigList \<Rightarrow> string \<Rightarrow> string set" where
  "phc2sys_on cfg matchList items node =
     {q. \<exists>c \<in> set items. \<exists>p \<in> set (cfg_Profile c). \<exists>name. pf_Name p = Some name \<and> profileHasPhc2sys p
        \<and> q = qualifyProfileName (cfg_Name c) name
        \<and> (\<exists>m \<in> set (matchListFor c (Some cfg) matchList). nml_NodeName m = Some node
             \<and> (\<exists>listed. nml_Profile m = Some listed \<and> same_profile (cfg_Name c) listed name))}"

lemma set_matched_nodes:
  "set (matched_nodes cr name ms) =
     {node. \<exists>m \<in> set ms. nml_NodeName m = Some node
        \<and> (\<exists>listed. nml_Profile m = Some listed \<and> same_profile cr listed name)}"
proof -
  have "(case (a, b) of (Some node, Some p) \<Rightarrow> if R p then Some node else None | _ \<Rightarrow> None) = Some x \<longleftrightarrow>
      a = Some x \<and> (\<exists>p. b = Some p \<and> R p)" for a b :: "string option" and R x
    by (cases a; cases b) auto
  then show ?thesis by (simp only: relatedProfileMatches_iff matched_nodes_def set_map_filter)
qed

lemma set_phc2sys_hits: "{q. (node, q) \<in> set (phc2sys_hits cfg ml items)} = phc2sys_on cfg ml items node"
proof -
  have hit: "(node, q) \<in> set (case pf_Name p of None \<Rightarrow> []
         | Some name \<Rightarrow> if \<not> profileHasPhc2sys p then [] else map (\<lambda>node. (node, f name)) (g name)) \<longleftrightarrow>
      (\<exists>name. pf_Name p = Some name \<and> profileHasPhc2sys p \<and> q = f name \<and> node \<in> set (g name))" for p q f g
    by (cases "pf_Name p") auto
  show ?thesis
    by (simp only: phc2sys_hits_def phc2sys_on_def hit set_concat set_map UN_iff bex_simps set_matched_nodes
        mem_Collect_eq)
qed

lemma sort_distinct_set: "distinct l \<Longrightarrow> sort l = sorted_list_of_set (set l)"
  by (simp add: sorted_list_of_set_sort_remdups distinct_remdups_id)

lemma keys_visited: "range_order_ok ord \<Longrightarrow> set (sort (map fst (range_gmap ord m))) = set (gkeys m)"
  by (simp only: set_sort gkeys_range_gmap range_order_ok_set)

lemma phc2sys_warnings_iff:
  assumes "range_order_ok ord"
  shows "w \<in> set (phc2sys_warnings ord cfg ml items) \<longleftrightarrow>
    (\<exists>node. 2 \<le> card (phc2sys_on cfg ml items node)
       \<and> (\<exists>q \<in> phc2sys_on cfg ml items node. HasPrefix q (cfg_Name cfg @ ProfileNameSeperator))
       \<and> w = phc2sys_message node (sorted_list_of_set (phc2sys_on cfg ml items node)))"
proof -
  let ?st = "foldl hit_step ([], []) (phc2sys_hits cfg ml items)"
  have "hits_inv ([], [])" by (simp add: hits_inv_def)
  from hits_loop [OF this, of "phc2sys_hits cfg ml items"]
  have inv: "hits_inv ?st" and on: "\<And>n. set (profiles_on ?st n) = phc2sys_on cfg ml items n"
    by (simp_all add: set_phc2sys_hits)
  then have d: "\<And>n. distinct (profiles_on ?st n)" by (simp add: hits_inv_def)
  have len: "length (profiles_on ?st n) = card (phc2sys_on cfg ml items n)" for n
    using distinct_card [OF d, of n] on by simp
  have srt: "sort (profiles_on ?st n) = sorted_list_of_set (phc2sys_on cfg ml items n)" for n
    using sort_distinct_set [OF d, of n] on by simp
  have key: "n \<in> set (gkeys (fst ?st))" if "2 \<le> card (phc2sys_on cfg ml items n)" for n
    using that len [of n] gget_eq_None_iff [of "fst ?st" n] by (cases "gget (fst ?st) n") auto
  have ex: "list_ex P (sort (profiles_on ?st n)) \<longleftrightarrow> (\<exists>q \<in> phc2sys_on cfg ml items n. P q)" for P n
    using on [of n] by (simp add: list_ex_iff)
  have "w \<in> set (phc2sys_warnings ord cfg ml items) \<longleftrightarrow>
    (\<exists>n \<in> set (gkeys (fst ?st)). \<not> length (profiles_on ?st n) < 2
       \<and> list_ex (\<lambda>p. HasPrefix p (cfg_Name cfg @ ProfileNameSeperator)) (sort (profiles_on ?st n))
       \<and> w = phc2sys_message n (sort (profiles_on ?st n)))"
    unfolding phc2sys_warnings_def Let_def set_map_filter keys_visited [OF assms] by auto
  also have "\<dots> \<longleftrightarrow> (\<exists>n \<in> set (gkeys (fst ?st)). 2 \<le> card (phc2sys_on cfg ml items n)
       \<and> (\<exists>q \<in> phc2sys_on cfg ml items n. HasPrefix q (cfg_Name cfg @ ProfileNameSeperator))
       \<and> w = phc2sys_message n (sorted_list_of_set (phc2sys_on cfg ml items n)))"
    unfolding len ex not_less unfolding srt ..
  finally show ?thesis using key by blast
qed

section \<open>Independence of the map order\<close>

definition reports :: "NodePtpDevice \<Rightarrow> NodeProfileStatus list" where
  "reports dev = (case nds_Sync (npd_Status dev) of None \<Rightarrow> [] | Some s \<Rightarrow> sync_Profiles s)"

text \<open>No profile of the resource is reported under two names with different clock types.\<close>

definition clocks_determined :: "NodePtpDevice list \<Rightarrow> PtpConfig \<Rightarrow> bool" where
  "clocks_determined devices cfg \<longleftrightarrow>
     (\<forall>pf \<in> set (cfg_Profile cfg). \<forall>name. pf_Name pf = Some name \<longrightarrow>
        (\<forall>p \<in> set (concat (map reports devices)). \<forall>q \<in> set (concat (map reports devices)).
           same_profile (cfg_Name cfg) (nps_Name p) name \<and> same_profile (cfg_Name cfg) (nps_Name q) name \<and> nps_Name p \<noteq> nps_Name q \<longrightarrow>
           nps_ClockType p = '''' \<or> nps_ClockType q = '''' \<or> nps_ClockType p = nps_ClockType q))"

definition clocks_from :: "NodeProfileStatus set \<Rightarrow> appliedProfileInfo gmap \<Rightarrow> bool" where
  "clocks_from R m \<longleftrightarrow> (\<forall>n i. gget m n = Some i \<longrightarrow>
     ai_clockType i = '''' \<or> (\<exists>p \<in> R. nps_Name p = n \<and> nps_ClockType p = ai_clockType i))"

lemma clocks_from_apply: "clocks_from R m \<Longrightarrow> p \<in> R \<Longrightarrow> clocks_from R (apply_profile d m p)"
  unfolding clocks_from_def apply_profile_def Let_def by (auto split: option.splits if_splits)

lemma clocks_from_devices:
  "clocks_from R m \<Longrightarrow> set (concat (map reports devs)) \<subseteq> R \<Longrightarrow> clocks_from R (foldl apply_device m devs)"
proof (induction devs arbitrary: m)
  case (Cons dev devs)
  have "clocks_from R (foldl (apply_profile d) m' ps)" if "clocks_from R m'" "set ps \<subseteq> R" for d m' ps
    using that by (induction ps arbitrary: m') (auto simp: clocks_from_apply)
  then have "clocks_from R (apply_device m dev)"
    using Cons.prems by (auto simp: apply_device_def reports_def split: option.splits)
  with Cons show ?case by simp
qed simp

lemma collect_applied_clock:
  "(\<And>n i. (n, i) \<in> set es \<Longrightarrow> relatedProfileMatches n name cr \<Longrightarrow> ai_clockType i \<in> {'''', c}) \<Longrightarrow> snd acc \<in> {'''', c} \<Longrightarrow>
     snd (foldl (collect_applied name cr) acc es) =
       (if snd acc = c \<or> (\<exists>n i. (n, i) \<in> set es \<and> relatedProfileMatches n name cr \<and> ai_clockType i = c) then c else '''')"
proof (induction es arbitrary: acc)
  case (Cons e es)
  obtain n i where e: "e = (n, i)" by fastforce
  have acc: "snd (collect_applied name cr acc e) \<in> {'''', c}"
    "snd (collect_applied name cr acc e) = c \<longleftrightarrow> snd acc = c \<or> relatedProfileMatches n name cr \<and> ai_clockType i = c"
    using Cons.prems(1) [of n i] Cons.prems(2) by (auto simp: collect_applied_def e)
  have "snd (foldl (collect_applied name cr) (collect_applied name cr acc e) es) =
      (if snd (collect_applied name cr acc e) = c \<or> (\<exists>n i. (n, i) \<in> set es \<and> relatedProfileMatches n name cr \<and> ai_clockType i = c)
       then c else '''')"
    by (rule Cons.IH [OF Cons.prems(1) acc(1)]) simp_all
  then show ?case unfolding acc(2) by (auto simp: e)
qed auto

lemma applied_order:
  assumes "range_order_ok o1" "range_order_ok o2" "clocks_determined devices cfg" "pf \<in> set (cfg_Profile cfg)" "pf_Name pf = Some name"
  defines "a \<equiv> appliedProfilesFromDevices (Some devices)"
  shows "appliedForProfile o1 name (cfg_Name cfg) a = appliedForProfile o2 name (cfg_Name cfg) a"
proof -
  let ?R = "set (concat (map reports devices))" and ?m = "\<lambda>n. relatedProfileMatches n name (cfg_Name cfg)"
  have from_R: "clocks_from ?R a" unfolding a_def appliedProfilesFromDevices_def option.case
    by (rule clocks_from_devices) (simp_all add: clocks_from_def gget_def)
  have agree: "ai_clockType i = ai_clockType j"
    if "gget a n = Some i" "gget a k = Some j" "?m n" "?m k" "ai_clockType i \<noteq> ''''" "ai_clockType j \<noteq> ''''" for n k i j
  proof (cases "n = k")
    case False
    from from_R that obtain p q where "p \<in> ?R" "nps_Name p = n" "nps_ClockType p = ai_clockType i"
      "q \<in> ?R" "nps_Name q = k" "nps_ClockType q = ai_clockType j" unfolding clocks_from_def by metis
    with assms(3-5) that False show ?thesis unfolding clocks_determined_def relatedProfileMatches_iff by metis
  qed (use that in simp)
  obtain c where c: "\<And>n i. gget a n = Some i \<Longrightarrow> ?m n \<Longrightarrow> ai_clockType i \<in> {'''', c}"
  proof (cases "\<exists>n i. gget a n = Some i \<and> ?m n \<and> ai_clockType i \<noteq> ''''")
    case True
    then obtain n i where "gget a n = Some i" "?m n" "ai_clockType i \<noteq> ''''" by blast
    with agree have "\<And>k j. gget a k = Some j \<Longrightarrow> ?m k \<Longrightarrow> ai_clockType j \<in> {'''', ai_clockType i}" by blast
    then show thesis by (rule that)
  next
    case False
    then show thesis by (intro that [of "''''"]) blast
  qed
  have "snd (appliedForProfile ord name (cfg_Name cfg) a) = (if '''' = c \<or> (\<exists>n i. gget a n = Some i \<and> ?m n \<and> ai_clockType i = c) then c else '''')"
    if "range_order_ok ord" for ord
    using collect_applied_clock [of "range_gmap ord a" name "cfg_Name cfg" c "([], '''')"] c
    by (simp add: appliedForProfile_def Let_def set_range_gmap [OF that])
  moreover have "fst (appliedForProfile ord name (cfg_Name cfg) a) = sorted_list_of_set {d. \<exists>n. d \<in> set (nodes_of a n) \<and> ?m n}"
    if "range_order_ok ord" for ord
    using applied_nodes [OF that, of name "cfg_Name cfg" a] by (metis sorted_list_of_set.idem_if_sorted_distinct)
  ultimately show ?thesis using assms(1,2) by (simp add: prod_eq_iff)
qed

lemma statuses_order:
  assumes "range_order_ok o1" "range_order_ok o2" "clocks_determined devices cfg"
  shows "buildProfileStatuses o1 cfg (Some devices) al hws = buildProfileStatuses o2 cfg (Some devices) al hws"
proof -
  have "profile_status o1 cfg items hw (appliedProfilesFromDevices (Some devices)) r name pf
      = profile_status o2 cfg items hw (appliedProfilesFromDevices (Some devices)) r name pf"
    if "pf \<in> set (cfg_Profile cfg)" "pf_Name pf = Some name" for items hw r name pf
    using applied_order [OF assms that] by (simp add: profile_status_def Let_def)
  moreover have "List.map_filter f xs = List.map_filter g xs" if "\<And>x. x \<in> set xs \<Longrightarrow> f x = g x"
    for f g :: "PtpProfile \<Rightarrow> ProfileStatus option" and xs
    using that by (induction xs) (auto simp: List.map_filter_simps split: option.split)
  ultimately show ?thesis unfolding buildProfileStatuses_def Let_def by (metis (no_types, lifting) map_option_cong)
qed

lemma warnings_order:
  assumes "range_order_ok o1" "range_order_ok o2"
  shows "detectWarnings o1 cfg ml al = detectWarnings o2 cfg ml al"
proof -
  have "sort (map fst (range_gmap o1 m)) = sort (map fst (range_gmap o2 m))" for m :: "string list gmap"
    unfolding gkeys_range_gmap [OF assms(1)] gkeys_range_gmap [OF assms(2)]
    using assms by (intro properties_for_sort) (simp_all add: range_order_ok_def)
  then show ?thesis by (simp add: detectWarnings_def phc2sys_warnings_def Let_def)
qed

section \<open>Properties\<close>

text \<open>C26: The condition \<open>ProfileReferenceValid\<close> is computed as true exactly when every controlling
  profile and every member of \<open>haProfiles\<close> exists; and then the names shown in the status are the
  names written into the configuration of the node.\<close>

theorem references_valid_iff:
  "(fst (profileReferencesValid cfg (Some items)) \<longleftrightarrow>
     (\<forall>p \<in> set (cfg_Profile cfg).
        (controlling p \<noteq> '''' \<longrightarrow> profileReferenceExists (controlling p) (Some items))
        \<and> (\<forall>m \<in> set (members p). profileReferenceExists m (Some items))))
   \<and> (profileReferenceExists v (Some items) \<longrightarrow>
        qualifiedProfileRef v cfg (Some items) = resolveProfileReference v items)"
  using qualified_ref_resolves by (simp add: references_valid invalid_reference_None configsOrSelf_def)

theorem references_valid_iff_witness:
  "fst (profileReferencesValid (hd wit_items) (Some wit_items))
   \<and> qualifiedProfileRef ''master'' (hd wit_items) (Some wit_items) = ''a_master''"
proof -
  have "fst (profileReferencesValid (hd wit_items) (Some wit_items))" by code_simp
  moreover have "profileReferenceExists ''master'' (Some wit_items)" by code_simp
  then have "qualifiedProfileRef ''master'' (hd wit_items) (Some wit_items) = resolveProfileReference ''master'' wit_items"
    using references_valid_iff [of "hd wit_items" wit_items "''master''"] by blast
  moreover have "resolveProfileReference ''master'' wit_items = ''a_master''" by code_simp
  ultimately show ?thesis by simp
qed

text \<open>C13: The status of a named profile. It lists, sorted and without duplicates, exactly the nodes
  whose NodePtpDevice reports a profile name that matches it, whatever the order of map loops;
  it controls exactly the profiles of the same resource that name it as their controlling
  profile, in order; and it is part of the high-availability group of the last profile of the
  resource that lists it as a member.\<close>

theorem profile_status_correct:
  assumes "range_order_ok ord" "p \<in> set (cfg_Profile cfg)" "pf_Name p = Some name"
  shows "\<exists>s \<in> set (buildProfileStatuses ord cfg (Some devices) al hw).
    ps_Name s = qualifyProfileName (cfg_Name cfg) name
    \<and> ps_AppliedOnNodes s = sorted_list_of_set
        {om_Name (npd_Meta dev) | dev. dev \<in> set devices
           \<and> (\<exists>n \<in> set (reported dev). relatedProfileMatches n name (cfg_Name cfg))}
    \<and> ps_Controls s = map (qname_in (cfg_Name cfg)) (filter (controlled_by (cfg_Name cfg) name) (cfg_Profile cfg))
    \<and> ps_PartOfHa s = (case filter (coordinates (cfg_Name cfg) name) (cfg_Profile cfg) of
        [] \<Rightarrow> '''' | xs \<Rightarrow> qname_in (cfg_Name cfg) (last xs))"
proof (intro bexI conjI)
  let ?a = "appliedProfilesFromDevices (Some devices)"
    and ?r = "foldl (relate_profile (cfg_Name cfg)) ([], []) (cfg_Profile cfg)"
  let ?s = "profile_status ord cfg (configsOrSelf cfg al) hw ?a ?r name p"
  show "?s \<in> set (buildProfileStatuses ord cfg (Some devices) al hw)" by (rule status_of_profile [OF assms(2,3)])
  show "ps_Name ?s = qualifyProfileName (cfg_Name cfg) name" by (simp add: profile_status_def Let_def)
  have "ps_AppliedOnNodes ?s = fst (appliedForProfile ord name (cfg_Name cfg) ?a)"
    by (simp add: profile_status_def Let_def)
  moreover have "set (fst (appliedForProfile ord name (cfg_Name cfg) ?a)) =
      {om_Name (npd_Meta dev) | dev. dev \<in> set devices
           \<and> (\<exists>n \<in> set (reported dev). relatedProfileMatches n name (cfg_Name cfg))}"
    unfolding applied_nodes(1) [OF assms(1)] appliedProfilesFromDevices_def
    by (auto simp: nodes_of_devices) (auto simp: nodes_of_def)
  ultimately show "ps_AppliedOnNodes ?s = sorted_list_of_set
        {om_Name (npd_Meta dev) | dev. dev \<in> set devices
           \<and> (\<exists>n \<in> set (reported dev). relatedProfileMatches n name (cfg_Name cfg))}"
    using applied_nodes(2,3) [OF assms(1)] by (metis sorted_list_of_set.idem_if_sorted_distinct)
  show "ps_Controls ?s = map (qname_in (cfg_Name cfg)) (filter (controlled_by (cfg_Name cfg) name) (cfg_Profile cfg))"
    using relate_controls [of "cfg_Name cfg" "([], [])"] by (simp add: profile_status_def Let_def)
  show "ps_PartOfHa ?s = (case filter (coordinates (cfg_Name cfg) name) (cfg_Profile cfg) of
        [] \<Rightarrow> '''' | xs \<Rightarrow> qname_in (cfg_Name cfg) (last xs))"
    using relate_coordinator [of "cfg_Name cfg" "([], [])"]
    by (simp add: profile_status_def Let_def split: list.splits)
qed

theorem profile_status_correct_witness:
  "\<exists>s \<in> set (buildProfileStatuses rev (wit_items ! 1) (Some []) None None).
     ps_Name s = ''a_master'' \<and> ps_AppliedOnNodes s = [] \<and> ps_Controls s = [] \<and> ps_PartOfHa s = ''''"
proof -
  have p: "hd (cfg_Profile (wit_items ! 1)) \<in> set (cfg_Profile (wit_items ! 1))"
    "pf_Name (hd (cfg_Profile (wit_items ! 1))) = Some ''master''" "cfg_Name (wit_items ! 1) = ''a''"
    "cfg_Profile (wit_items ! 1) = [empty_profile\<lparr>pf_Name := Some ''master''\<rparr>]"
    by (simp_all add: wit_items_def sample_defs)
  have "members (empty_profile\<lparr>pf_Name := Some ''master''\<rparr>) = []"
    "controlling (empty_profile\<lparr>pf_Name := Some ''master''\<rparr>) = ''''"
    by (simp_all add: empty_profile_def setting_def)
  with profile_status_correct [OF range_order_ok_rev p(1,2), where devices = "[]" and al = None and hw = None] p(3,4)
  show ?thesis
    by (simp add: controlled_by_def coordinates_def qualifyProfileName_def ProfileNameSeperator_def)
qed

text \<open>C25: The warnings of a resource are sorted and are exactly: one for every node on which the
  match lists of all resources put two or more profiles with phc2sys, at least one of them of
  this resource, listing these profiles in order; and one for every controlled profile of the resource that its match list
  applies on no node while it applies the controller on some node.\<close>

theorem detect_warnings_correct:
  assumes "range_order_ok ord"
  shows "sorted (detectWarnings ord cfg ml (Some items))
   \<and> set (detectWarnings ord cfg ml (Some items)) =
       {phc2sys_message node (sorted_list_of_set (phc2sys_on cfg ml items node)) | node.
          2 \<le> card (phc2sys_on cfg ml items node)
          \<and> (\<exists>q \<in> phc2sys_on cfg ml items node. HasPrefix q (cfg_Name cfg @ ProfileNameSeperator))}
       \<union> {control_message (cfg_Name cfg @ ''_'' @ name) (qualifiedProfileRef cp cfg (Some items)) | name cp.
          left_alone cfg ml name cp}"
proof -
  have "set (phc2sys_warnings ord cfg ml items) =
      {phc2sys_message node (sorted_list_of_set (phc2sys_on cfg ml items node)) | node.
          2 \<le> card (phc2sys_on cfg ml items node)
          \<and> (\<exists>q \<in> phc2sys_on cfg ml items node. HasPrefix q (cfg_Name cfg @ ProfileNameSeperator))}"
    unfolding set_eq_iff phc2sys_warnings_iff [OF assms] mem_Collect_eq by blast
  moreover have "{w. \<exists>p \<in> set (cfg_Profile cfg). control_warning cfg ml items p = Some w} =
      {control_message (cfg_Name cfg @ ''_'' @ name) (qualifiedProfileRef cp cfg (Some items)) | name cp. left_alone cfg ml name cp}"
    unfolding control_warnings_iff by blast
  ultimately show ?thesis by (simp add: detectWarnings_def configsOrSelf_def set_map_filter)
qed

theorem detect_warnings_correct_witness:
  "''Profile b_slave is controlled by a_master but not applied on any node'' \<in> set (detectWarnings rev (hd wit_items)
       [\<lparr>nml_NodeName = Some ''worker-0'', nml_Profile = Some ''master''\<rparr>] (Some wit_items))
   \<and> ''Profile b_slave is controlled by a_master but not applied on any node'' \<notin> set (detectWarnings rev (hd wit_items)
       [\<lparr>nml_NodeName = Some ''worker-0'', nml_Profile = Some ''master''\<rparr>,
        \<lparr>nml_NodeName = Some ''worker-1'', nml_Profile = Some ''b_slave''\<rparr>] (Some wit_items))"
proof -
  let ?m = "\<lparr>nml_NodeName = Some ''worker-0'', nml_Profile = Some ''master''\<rparr>"
  let ?b = "\<lparr>nml_NodeName = Some ''worker-1'', nml_Profile = Some ''b_slave''\<rparr>"
  have "left_alone (hd wit_items) [?m] ''slave'' ''master''"
    by (simp add: left_alone_def listed_in_def same_profile_def wit_items_def sample_defs empty_profile_def setting_def gget_str_def gget_def)
  moreover have "control_message (cfg_Name (hd wit_items) @ ''_'' @ ''slave'') (qualifiedProfileRef ''master'' (hd wit_items) (Some wit_items))
      = ''Profile b_slave is controlled by a_master but not applied on any node''" by code_simp
  ultimately have "''Profile b_slave is controlled by a_master but not applied on any node'' \<in>
      {control_message (cfg_Name (hd wit_items) @ ''_'' @ name) (qualifiedProfileRef cp (hd wit_items) (Some wit_items)) | name cp.
        left_alone (hd wit_items) [?m] name cp}" (is "?w \<in> _")
    by (intro CollectI exI [of _ "''slave''"] exI [of _ "''master''"]) simp
  then have "?w \<in> set (detectWarnings rev (hd wit_items) [?m] (Some wit_items))"
    unfolding conjunct2 [OF detect_warnings_correct [OF range_order_ok_rev]] by (rule UnI2)
  moreover have "detectWarnings rev (hd wit_items) [?m, ?b] (Some wit_items) = []" by code_simp
  ultimately show ?thesis by simp
qed

end
