(* ===== verification/Status_Conditions.thy ===== *)
theory Status_Conditions
  imports Ptp_Types
begin

text \<open>
  Status conditions (\<open>controllers/status_helpers.go\<close> and the vendored
  \<open>k8s.io/apimachinery/pkg/api/meta\<close>), and the verbosity of the daemon
  (\<open>controllers/daemon_verbosity.go\<close>). The current time is a parameter.
\<close>

section \<open>Conditions\<close>

fun FindStatusCondition :: "Condition list \<Rightarrow> string \<Rightarrow> Condition option" where
  "FindStatusCondition [] conditionType = None"
| "FindStatusCondition (c # conditions) conditionType =
     (if cond_Type c = conditionType then Some c else FindStatusCondition conditions conditionType)"

text \<open>The fields of an existing condition that a new one replaces; the transition time changes only
  with the status.\<close>

definition update_condition :: "int \<Rightarrow> Condition \<Rightarrow> Condition \<Rightarrow> Condition" where
  "update_condition now newCondition existing =
     (let e1 = (if cond_Status existing \<noteq> cond_Status newCondition
                then existing\<lparr>cond_Status := cond_Status newCondition,
                  cond_LastTransitionTime := (if cond_LastTransitionTime newCondition \<noteq> 0
                    then cond_LastTransitionTime newCondition else now)\<rparr>
                else existing)
      in e1\<lparr>cond_Reason := cond_Reason newCondition, cond_Message := cond_Message newCondition,
            cond_ObservedGeneration := cond_ObservedGeneration newCondition\<rparr>)"

text \<open>The pointer that \<open>FindStatusCondition\<close> returns refers to the first condition of the type.\<close>

fun update_first :: "int \<Rightarrow> Condition \<Rightarrow> Condition list \<Rightarrow> Condition list" where
  "update_first now newCondition [] = []"
| "update_first now newCondition (c # conditions) =
     (if cond_Type c = cond_Type newCondition then update_condition now newCondition c # conditions
      else c # update_first now newCondition conditions)"

definition SetStatusCondition :: "int \<Rightarrow> Condition list \<Rightarrow> Condition \<Rightarrow> Condition list" where
  "SetStatusCondition now conditions newCondition =
     (case FindStatusCondition conditions (cond_Type newCondition) of
        None \<Rightarrow> conditions @ [if cond_LastTransitionTime newCondition = 0
                  then newCondition\<lparr>cond_LastTransitionTime := now\<rparr> else newCondition]
      | Some _ \<Rightarrow> update_first now newCondition conditions)"

definition setCondition :: "int \<Rightarrow> Condition list \<Rightarrow> string \<Rightarrow> bool \<Rightarrow> string \<Rightarrow> string \<Rightarrow> Condition list" where
  "setCondition now conditions condType status reason message =
     SetStatusCondition now conditions
       \<lparr>cond_Type = condType, cond_Status = (if status then ConditionTrue else ConditionFalse),
        cond_ObservedGeneration = 0, cond_LastTransitionTime = now, cond_Reason = reason, cond_Message = message\<rparr>"

definition conditionReason :: "bool \<Rightarrow> string \<Rightarrow> string \<Rightarrow> string" where
  "conditionReason val trueReason falseReason = (if val then trueReason else falseReason)"

definition hasCondition :: "Condition list \<Rightarrow> string \<Rightarrow> bool" where
  "hasCondition conditions condType = list_ex (\<lambda>c. cond_Type c = condType) conditions"

section \<open>Daemon verbosity\<close>

definition defaultDaemonVerbosity :: string where "defaultDaemonVerbosity = ''10''"
definition maxDaemonVerbosity :: int where "maxDaemonVerbosity = 14"

datatype verbosity_error = InvalidVerbosity string | VerbosityOutOfRange string

definition resolveDaemonVerbosity :: "string \<Rightarrow> string \<times> verbosity_error option" where
  "resolveDaemonVerbosity envValue =
     (if envValue = '''' then (defaultDaemonVerbosity, None)
      else case Atoi envValue of
        None \<Rightarrow> (defaultDaemonVerbosity, Some (InvalidVerbosity envValue))
      | Some v \<Rightarrow>
          if v < 0 \<or> v > maxDaemonVerbosity then (defaultDaemonVerbosity, Some (VerbosityOutOfRange envValue))
          else (Itoa v, None))"

definition daemonVerbosityFromEnv :: "(string \<Rightarrow> string) \<Rightarrow> string \<times> verbosity_error option" where
  "daemonVerbosityFromEnv getenv = resolveDaemonVerbosity (getenv ''LINUXPTP_VERBOSITY'')"

section \<open>Lemmas\<close>

lemma update_condition_fields [simp]:
  "cond_Type (update_condition now n c) = cond_Type c"
  "cond_Status (update_condition now n c) = cond_Status n"
  "cond_Reason (update_condition now n c) = cond_Reason n"
  "cond_Message (update_condition now n c) = cond_Message n"
  by (simp_all add: update_condition_def Let_def)

lemma find_update_first:
  "FindStatusCondition (update_first now n cs) t =
     (if t = cond_Type n then map_option (update_condition now n) (FindStatusCondition cs t)
      else FindStatusCondition cs t)"
  by (induction cs) auto

lemma find_append:
  "FindStatusCondition (cs @ ds) t = (case FindStatusCondition cs t of None \<Rightarrow> FindStatusCondition ds t | Some c \<Rightarrow> Some c)"
  by (induction cs) auto

lemma types_update_first: "map cond_Type (update_first now n cs) = map cond_Type cs"
  by (induction cs) auto

lemma find_None_iff: "FindStatusCondition cs t = None \<longleftrightarrow> t \<notin> cond_Type ` set cs"
  by (induction cs) auto

lemma SetStatusCondition_new:
  "FindStatusCondition cs (cond_Type n) = None \<Longrightarrow>
     SetStatusCondition now cs n = cs @ [if cond_LastTransitionTime n = 0 then n\<lparr>cond_LastTransitionTime := now\<rparr> else n]"
  by (simp add: SetStatusCondition_def)

lemma distinct_types_SetStatusCondition:
  "distinct (map cond_Type cs) \<Longrightarrow> distinct (map cond_Type (SetStatusCondition now cs n))"
  by (auto simp: SetStatusCondition_def types_update_first find_None_iff split: option.splits)

lemma update_first_fresh:
  "cond_Type n \<notin> cond_Type ` set cs \<Longrightarrow> update_first now n (cs @ ds) = cs @ update_first now n ds"
  by (induction cs) auto

lemma setCondition_idem:
  "setCondition now' (setCondition now cs t st re msg) t st re msg = setCondition now cs t st re msg"
proof (cases "FindStatusCondition cs t")
  case None
  then have fresh: "t \<notin> cond_Type ` set cs" by (simp add: find_None_iff)
  from None show ?thesis
    by (simp add: setCondition_def SetStatusCondition_def find_append update_first_fresh [of _ cs] fresh
        update_condition_def)
next
  case (Some c)
  let ?n = "\<lambda>now. \<lparr>cond_Type = t, cond_Status = (if st then ConditionTrue else ConditionFalse),
     cond_ObservedGeneration = 0, cond_LastTransitionTime = now, cond_Reason = re, cond_Message = msg\<rparr>"
  have again: "update_first now' (?n now') (update_first now (?n now) ds) = update_first now (?n now) ds" for ds
    by (induction ds) (auto simp: update_condition_def Let_def)
  from Some show ?thesis
    by (simp add: setCondition_def SetStatusCondition_def find_update_first again)
qed

lemma find_setCondition:
  "\<exists>c. FindStatusCondition (setCondition now cs t st re msg) t = Some c
     \<and> cond_Status c = (if st then ConditionTrue else ConditionFalse) \<and> cond_Reason c = re \<and> cond_Message c = msg"
  by (cases "FindStatusCondition cs t")
    (auto simp: setCondition_def SetStatusCondition_def find_append find_update_first)

lemma find_setCondition_other:
  "t' \<noteq> t \<Longrightarrow> FindStatusCondition (setCondition now cs t st re msg) t' = FindStatusCondition cs t'"
  by (cases "FindStatusCondition cs t")
    (auto simp: setCondition_def SetStatusCondition_def find_append find_update_first split: option.splits)

lemma resolve_range: "\<exists>v. fst (resolveDaemonVerbosity e) = Itoa v \<and> 0 \<le> v \<and> v \<le> 14"
proof -
  have d: "defaultDaemonVerbosity = Itoa 10" by code_simp
  show ?thesis
  proof (cases "Atoi e")
    case None
    then show ?thesis by (intro exI [of _ 10]) (simp add: resolveDaemonVerbosity_def d)
  next
    case (Some v)
    then show ?thesis
      by (cases "e \<noteq> '''' \<and> 0 \<le> v \<and> v \<le> 14", intro exI [of _ v])
        (auto simp: resolveDaemonVerbosity_def d maxDaemonVerbosity_def intro: exI [of _ 10])
  qed
qed

section \<open>Properties\<close>

text \<open>C37: Setting a status condition stores the status, reason and message under its type, leaves the
  conditions of other types alone, keeps the types unique, and is idempotent whenever it is
  repeated: the transition time moves only when the status changes.\<close>

theorem set_condition_correct:
  "(\<exists>c. FindStatusCondition (setCondition now cs t st re msg) t = Some c
      \<and> cond_Status c = (if st then ConditionTrue else ConditionFalse) \<and> cond_Reason c = re \<and> cond_Message c = msg)
   \<and> (t' \<noteq> t \<longrightarrow> FindStatusCondition (setCondition now cs t st re msg) t' = FindStatusCondition cs t')
   \<and> (distinct (map cond_Type cs) \<longrightarrow> distinct (map cond_Type (setCondition now cs t st re msg)))
   \<and> setCondition now' (setCondition now cs t st re msg) t st re msg = setCondition now cs t st re msg"
proof (intro conjI impI)
  show "distinct (map cond_Type cs) \<Longrightarrow> distinct (map cond_Type (setCondition now cs t st re msg))"
    unfolding setCondition_def by (rule distinct_types_SetStatusCondition)
qed (rule find_setCondition find_setCondition_other setCondition_idem, assumption?)+

theorem set_condition_correct_witness:
  "distinct (map cond_Type (setCondition 5 (setCondition 3 [] ''A'' True ''r'' ''m'') ''B'' False ''r'' ''m''))"
proof -
  have "distinct (map cond_Type (setCondition 3 [] ''A'' True ''r'' ''m''))" by code_simp
  then show ?thesis
    using set_condition_correct [of 5 "setCondition 3 [] ''A'' True ''r'' ''m''" "''B''" False "''r''" "''m''" "''B''" 0]
    by blast
qed

text \<open>C38: The verbosity handed to the daemon is always the decimal text of a number from 0 to 14; a
  value of the environment in this range is taken, in canonical form, and everything else gives
  the default 10, with an error unless the variable is empty.\<close>

theorem verbosity_in_range:
  "\<exists>v. fst (resolveDaemonVerbosity e) = Itoa v \<and> 0 \<le> v \<and> v \<le> maxDaemonVerbosity
     \<and> (snd (resolveDaemonVerbosity e) = None \<longleftrightarrow> e = '''' \<or> (\<exists>n. Atoi e = Some n \<and> 0 \<le> n \<and> n \<le> 14))
     \<and> (case Atoi e of Some n \<Rightarrow> if 0 \<le> n \<and> n \<le> 14 then v = n else v = 10 | None \<Rightarrow> v = 10)"
proof -
  have d: "defaultDaemonVerbosity = Itoa 10" by code_simp
  have e: "Atoi '''' = None" by code_simp
  show ?thesis
    by (cases "e = ''''"; cases "Atoi e")
      (auto simp: resolveDaemonVerbosity_def maxDaemonVerbosity_def d e)
qed

end
