(* ===== verification/PtpConfig_Controller.thy ===== *)
theory PtpConfig_Controller
  imports Daemon_Secrets Profile_Status Status_Conditions
begin

text \<open>
  The PtpConfig controller (\<open>controllers/ptpconfig_controller.go\<close>): the status of every PtpConfig,
  the profiles of every node in the config map the daemons read, and the reconcile that runs
  them before the daemon's secrets. A sync returns its outcome and the cluster after it; a
  run-time panic is an outcome.
\<close>

section \<open>Status of the resources\<close>

definition node_match :: "PtpConfig \<Rightarrow> Node \<Rightarrow> PtpProfile \<Rightarrow> NodeMatchList option" where
  "node_match ptpConfig node profile =
     map_option (\<lambda>name. \<lparr>nml_NodeName = Some (node_Name node),
        nml_Profile = Some (qualifyProfileName (cfg_Name ptpConfig) name)\<rparr>) (pf_Name profile)"

text \<open>The match list of one resource: the nodes and the profiles it recommends for them.\<close>

definition config_match_list ::
  "PtpRecommend slice_sort \<Rightarrow> Node list \<Rightarrow> PtpConfig \<Rightarrow> (sync_error, NodeMatchList list) go" where
  "config_match_list srt nodes ptpConfig =
     fold_go (\<lambda>matchList node.
       bind_go (getRecommendNodePtpProfilesForConfig srt ptpConfig node) (\<lambda>nodePtpProfiles.
         Inr (matchList @ List.map_filter (node_match ptpConfig node) nodePtpProfiles))) [] nodes"

text \<open>The first pass: every resource gets its match list; the status before is remembered.\<close>

definition first_pass ::
  "PtpRecommend slice_sort \<Rightarrow> Node list \<Rightarrow> PtpConfigList \<Rightarrow> (sync_error, (PtpConfig \<times> PtpConfigStatus) list) go" where
  "first_pass srt nodes items =
     fold_go (\<lambda>acc ptpConfig.
       bind_go (config_match_list srt nodes ptpConfig) (\<lambda>matchList.
         Inr (acc @ [(ptpConfig\<lparr>cfg_Status := (cfg_Status ptpConfig)\<lparr>st_MatchList := matchList\<rparr>\<rparr>,
                      cfg_Status ptpConfig)]))) [] items"

definition ProfileReferenceValid :: string where
  "ProfileReferenceValid = ''ProfileReferenceValid''"

definition compute_status ::
  "range_order \<Rightarrow> int \<Rightarrow> NodePtpDevice list \<Rightarrow> HardwareConfig list \<Rightarrow> PtpConfigList \<Rightarrow> PtpConfig \<Rightarrow> PtpConfigStatus" where
  "compute_status ord now devices hws items cfg =
     (let st = cfg_Status cfg; vm = profileReferencesValid cfg (Some items) in
      st\<lparr>st_ObservedGeneration := om_Generation (cfg_Meta cfg),
        st_ProfileStatuses := buildProfileStatuses ord cfg (Some devices) (Some items) (Some hws),
        st_Warnings := detectWarnings ord cfg (st_MatchList st) (Some items),
        st_Conditions := setCondition now (st_Conditions st) ProfileReferenceValid (fst vm)
          (conditionReason (fst vm) ''AllReferencesResolved'' ''UnresolvedProfileReference'') (snd vm)\<rparr>)"

text \<open>The second pass: the statuses of the resources one after the other, from index \<open>i\<close> on; an
  error of an update is only logged.\<close>

fun second_pass ::
  "'s ctl_env \<Rightarrow> NodePtpDevice list \<Rightarrow> HardwareConfig list \<Rightarrow> nat \<Rightarrow> PtpConfigStatus list \<Rightarrow>
     PtpConfigList \<Rightarrow> 's \<Rightarrow> PtpConfigList \<times> 's" where
  "second_pass env devices hws i [] items s = (items, s)"
| "second_pass env devices hws i (prev # prevs) items s =
     (let cfg = items ! i;
          cfg1 = cfg\<lparr>cfg_Status := compute_status (ce_order env) (ce_now env) devices hws items cfg\<rparr>
      in if prev \<noteq> cfg_Status cfg1 then
           (case cl_UpdateConfigStatus (ce_client env) cfg1 s of
              (e, cfg2, s1) \<Rightarrow> second_pass env devices hws (Suc i) prevs (items[i := cfg2]) s1)
         else second_pass env devices hws (Suc i) prevs (items[i := cfg1]) s)"

section \<open>Profiles of the nodes\<close>

definition node_data ::
  "PtpRecommend slice_sort \<Rightarrow> (PtpProfile list \<Rightarrow> string option) \<Rightarrow> PtpConfigList \<Rightarrow> string gmap \<Rightarrow> Node \<Rightarrow>
     (sync_error, string gmap) go" where
  "node_data srt marshal items data node =
     bind_go (wrap_err RecommendFailed (getRecommendNodePtpProfiles srt items node)) (\<lambda>nodePtpProfiles.
       case marshal nodePtpProfiles of
         None \<Rightarrow> err MarshalFailed
       | Some d \<Rightarrow> Inr (gset data (node_Name node) d))"

definition ptp_configmap :: "string \<Rightarrow> NamespacedName" where
  "ptp_configmap ns = \<lparr>nn_Namespace = ns, nn_Name = DefaultPTPConfigMapName\<rparr>"

definition syncPtpConfig ::
  "'s ctl_env \<Rightarrow> PtpConfigList \<Rightarrow> Node list \<Rightarrow> NodePtpDevice list \<Rightarrow> HardwareConfig list \<Rightarrow> 's \<Rightarrow>
     (sync_error, PtpConfigList) go \<times> 's" where
  "syncPtpConfig env items nodes devices hws s =
     (case first_pass (ce_sort env) nodes items of
        Inl f \<Rightarrow> (Inl f, s)
      | Inr matches \<Rightarrow>
          (case second_pass env devices hws 0 (map snd matches) (map fst matches) s of
             (items1, s1) \<Rightarrow>
               (case fold_go (node_data (ce_sort env) (ce_marshal env) items1) [] nodes of
                  Inl f \<Rightarrow> (Inl f, s1)
                | Inr data \<Rightarrow>
                    (case cl_GetConfigMap (ce_client env) (ptp_configmap (ce_ns env)) s1 of
                       Inl e \<Rightarrow> (err (GetConfigMapFailed e), s1)
                     | Inr cm \<Rightarrow>
                         (case cl_UpdateConfigMap (ce_client env) (cm\<lparr>cm_Data := data\<rparr>) s1 of
                            (Some e, s2) \<Rightarrow> (err (UpdateConfigMapFailed e), s2)
                          | (None, s2) \<Rightarrow> (Inr items1, s2))))))"

section \<open>Reconcile\<close>

definition PtpConfig_Reconcile :: "'s ctl_env \<Rightarrow> 's \<Rightarrow> (sync_error, unit) go \<times> 's" where
  "PtpConfig_Reconcile env s =
     (case cl_ListConfigs (ce_client env) s of
        Inl NotFound \<Rightarrow> (Inr (), s)
      | Inl e \<Rightarrow> (err (ListFailed e), s)
      | Inr instances \<Rightarrow>
          (case cl_ListNodes (ce_client env) s of
             Inl e \<Rightarrow> (err (ListFailed e), s)
           | Inr nodeList \<Rightarrow>
               (case cl_ListDevices (ce_client env) s of
                  Inl e \<Rightarrow> (err (ListFailed e), s)
                | Inr deviceList \<Rightarrow>
                    (case cl_ListHardware (ce_client env) s of
                       Inl e \<Rightarrow> (err (ListFailed e), s)
                     | Inr hwList \<Rightarrow>
                         (case syncPtpConfig env instances nodeList deviceList hwList s of
                            (Inl f, s1) \<Rightarrow> (Inl f, s1)
                          | (Inr instances1, s1) \<Rightarrow> syncLinuxptpDaemonSecrets env instances1 s1)))))"

section \<open>What the computations read of the other resources\<close>

text \<open>Two readings of the same resource: everything but the status and the resource version.\<close>

definition same_config :: "PtpConfig \<Rightarrow> PtpConfig \<Rightarrow> bool" where
  "same_config a b \<longleftrightarrow> cfg_Name a = cfg_Name b \<and> cfg_Namespace a = cfg_Namespace b
     \<and> om_Generation (cfg_Meta a) = om_Generation (cfg_Meta b) \<and> cfg_Spec a = cfg_Spec b"

definition same_matches :: "PtpConfig \<Rightarrow> PtpConfig \<Rightarrow> bool" where
  "same_matches a b \<longleftrightarrow> same_config a b \<and> st_MatchList (cfg_Status a) = st_MatchList (cfg_Status b)"

lemma same_configD:
  "same_config a b \<Longrightarrow> cfg_Name b = cfg_Name a" "same_config a b \<Longrightarrow> cfg_Namespace b = cfg_Namespace a"
  "same_config a b \<Longrightarrow> om_Generation (cfg_Meta b) = om_Generation (cfg_Meta a)"
  "same_config a b \<Longrightarrow> cfg_Spec b = cfg_Spec a"
  by (simp_all add: same_config_def)

lemma same_config_refl [simp]: "same_config a a" and same_matches_refl [simp]: "same_matches a a"
  by (simp_all add: same_config_def same_matches_def)

lemma same_matches_config: "list_all2 same_matches as bs \<Longrightarrow> list_all2 same_config as bs"
  by (erule list_all2_mono) (simp add: same_matches_def)

lemma same_profileExistsInCR:
  "list_all2 same_config as bs \<Longrightarrow> profileExistsInCR c n bs = profileExistsInCR c n as"
  by (induction rule: list_all2_induct) (auto simp: profileExistsInCR_def same_config_def)

lemma same_owning_config: "list_all2 same_config as bs \<Longrightarrow> owning_config n bs = owning_config n as"
  by (induction rule: list_all2_induct) (auto simp: same_config_def)

lemma same_prefix_names_profile:
  "list_all2 same_config as bs \<Longrightarrow> prefix_names_profile v bs = prefix_names_profile v as"
  by (simp add: prefix_names_profile_def same_profileExistsInCR split: list.splits)

lemma same_recommend: "list_all2 same_config as bs \<Longrightarrow> concat (map cfg_Recommend bs) = concat (map cfg_Recommend as)"
  by (induction rule: list_all2_induct) (auto simp: same_config_def)

lemmas same_lookups = same_prefix_names_profile same_owning_config same_recommend

lemma same_resolve:
  assumes "list_all2 same_config as bs"
  shows "resolveProfileReference v bs = resolveProfileReference v as"
    and "profileReferenceExists v (Some bs) = profileReferenceExists v (Some as)"
    and "qualifyCrossProfileReferences st bs = qualifyCrossProfileReferences st as"
proof -
  show r: "resolveProfileReference v bs = resolveProfileReference v as" for v
    using assms by (simp add: resolveProfileReference_def owningConfigName_def same_lookups [OF assms])
  show "profileReferenceExists v (Some bs) = profileReferenceExists v (Some as)"
    by (simp add: profileReferenceExists_def owningConfigName_def same_lookups [OF assms])
  show "qualifyCrossProfileReferences st bs = qualifyCrossProfileReferences st as"
    unfolding qualifyCrossProfileReferences_def qualify_ha_def r ..
qed

lemma same_qualifiedProfileRef:
  "list_all2 same_config as bs \<Longrightarrow> same_config a b \<Longrightarrow> qualifiedProfileRef v b (Some bs) = qualifiedProfileRef v a (Some as)"
  by (simp add: qualifiedProfileRef_def configsOrSelf_def owningConfigName_def same_lookups same_configD)

lemma same_qualify_profile:
  "list_all2 same_config as bs \<Longrightarrow> same_config a b \<Longrightarrow> qualify_profile bs b n p = qualify_profile as a n p"
  by (simp add: qualify_profile_def same_resolve same_configD)

text \<open>The profiles of all resources, with qualified names, depend on names and specs only.\<close>

lemma same_collect:
  "list_all2 same_config xs ys \<Longrightarrow> list_all2 same_config as bs \<Longrightarrow>
     foldl (collect_profile bs ns) acc (all_profiles ys) = foldl (collect_profile as ns) acc (all_profiles xs)"
proof (induction xs ys arbitrary: acc rule: list_all2_induct)
  case (Cons x xs y ys)
  have "collect_profile bs ns acc (y, p) = collect_profile as ns acc (x, p)" for p acc
    unfolding collect_profile_def fst_conv snd_conv
      same_qualify_profile [OF \<open>list_all2 same_config as bs\<close> \<open>same_config x y\<close>] ..
  then have "foldl (collect_profile bs ns) acc (map (Pair y) ps) = foldl (collect_profile as ns) acc (map (Pair x) ps)" for ps acc
    by (induction ps arbitrary: acc) simp_all
  with Cons show ?case by (simp add: all_profiles_Cons same_configD)
qed (simp add: all_profiles_def)

lemma same_recommended:
  "list_all2 same_config as bs \<Longrightarrow> getRecommendNodePtpProfiles srt bs node = getRecommendNodePtpProfiles srt as node"
  by (simp add: getRecommendNodePtpProfiles_def getRecommendProfiles_def getRecommendProfilesNames_def
      same_recommend same_collect)

lemma same_config_match_list:
  assumes "same_config a b"
  shows "config_match_list srt nodes b = config_match_list srt nodes a"
proof -
  have "getRecommendNodePtpProfilesForConfig srt b = (getRecommendNodePtpProfilesForConfig srt a :: _ \<Rightarrow> (sync_error, _) go)"
    "node_match b = node_match a"
    using assms by (simp_all add: fun_eq_iff getRecommendNodePtpProfilesForConfig_def node_match_def
        getRecommendProfilesNamesForConfig_def Let_def same_configD)
  then show ?thesis unfolding config_match_list_def by simp
qed

lemma same_buildProfileStatuses:
  assumes "list_all2 same_config as bs" "same_config a b"
  shows "buildProfileStatuses ord b devs (Some bs) hws = buildProfileStatuses ord a devs (Some as) hws"
proof -
  have "profile_status ord b bs hws applied r name p = profile_status ord a as hws applied r name p" for applied r name p
    unfolding profile_status_def same_qualifiedProfileRef [OF assms] same_configD [OF assms(2)] ..
  then show ?thesis
    unfolding buildProfileStatuses_def configsOrSelf_def same_configD [OF assms(2)] by simp
qed

lemma same_profileReferencesValid:
  assumes "list_all2 same_config as bs" "same_config a b"
  shows "profileReferencesValid b (Some bs) = profileReferencesValid a (Some as)"
proof -
  have "invalid_reference b bs = invalid_reference a as"
    unfolding fun_eq_iff invalid_reference_def same_qualifiedProfileRef [OF assms] same_resolve [OF assms(1)] by simp
  then show ?thesis
    unfolding profileReferencesValid_def configsOrSelf_def same_configD [OF assms(2)] by simp
qed

lemma same_phc2sys_hits:
  "list_all2 same_matches as bs \<Longrightarrow> same_config a b \<Longrightarrow> phc2sys_hits b ml bs = phc2sys_hits a ml as"
proof (induction rule: list_all2_induct)
  case (Cons x xs y ys)
  then have s: "same_config x y" and ml: "st_MatchList (cfg_Status y) = st_MatchList (cfg_Status x)"
    by (simp_all add: same_matches_def)
  have m: "matchListFor y (Some b) ml = matchListFor x (Some a) ml"
    by (simp add: matchListFor_def ml same_configD [OF s] same_configD [OF Cons.prems])
  from Cons show ?case unfolding phc2sys_hits_def list.map concat.simps same_configD [OF s] m by simp
qed (simp add: phc2sys_hits_def)

lemma same_detectWarnings:
  assumes "list_all2 same_matches as bs" "same_config a b"
  shows "detectWarnings ord b ml (Some bs) = detectWarnings ord a ml (Some as)"
proof -
  note items = same_matches_config [OF assms(1)]
  have "control_warning b ml bs = control_warning a ml as"
    unfolding fun_eq_iff control_warning_def same_qualifiedProfileRef [OF items assms(2)] same_configD [OF assms(2)]
    by simp
  moreover have "phc2sys_warnings ord b ml bs = phc2sys_warnings ord a ml as"
    unfolding phc2sys_warnings_def same_phc2sys_hits [OF assms] same_configD [OF assms(2)] ..
  ultimately show ?thesis
    unfolding detectWarnings_def configsOrSelf_def same_configD [OF assms(2)] by simp
qed

section \<open>The status passes\<close>

lemma compute_status_matches [simp]:
  "st_MatchList (compute_status ord now ds hws items c) = st_MatchList (cfg_Status c)"
  by (simp add: compute_status_def Let_def)

lemma compute_status_cong:
  assumes "list_all2 same_matches as bs" "same_config a b" "cfg_Status a = cfg_Status b"
  shows "compute_status ord now ds hws bs b = compute_status ord now ds hws as a"
  unfolding compute_status_def same_buildProfileStatuses [OF same_matches_config [OF assms(1)] assms(2)]
    same_profileReferencesValid [OF same_matches_config [OF assms(1)] assms(2)]
    same_detectWarnings [OF assms(1,2)] same_configD [OF assms(2)] assms(3) ..

text \<open>A computed status is computed again, at any later time.\<close>

lemma compute_status_settled:
  assumes "list_all2 same_matches as bs" "same_config a b"
    and st: "cfg_Status b = compute_status ord now ds hws as a"
  shows "compute_status ord now' ds hws bs b = cfg_Status b"
  unfolding compute_status_def [of _ now'] same_buildProfileStatuses [OF same_matches_config [OF assms(1)] assms(2)]
    same_profileReferencesValid [OF same_matches_config [OF assms(1)] assms(2)]
    same_detectWarnings [OF assms(1,2)] same_configD [OF assms(2)] st Let_def
  by (simp add: compute_status_def Let_def setCondition_idem)

lemma same_config_trans: "same_config a b \<Longrightarrow> same_config b c \<Longrightarrow> same_config a c"
  by (simp add: same_config_def)

lemma same_list_update:
  "i < length items \<Longrightarrow> same_config (items ! i) c \<Longrightarrow> list_all2 same_config items (items[i := c])"
  by (auto simp: list_all2_conv_all_nth nth_list_update)

text \<open>What the controller relies on of a status update: the object that comes back is the one
  sent, up to its resource version.\<close>

locale status_writer =
  fixes env :: "'s ctl_env"
  assumes update_returns: "cl_UpdateConfigStatus (ce_client env) cfg s = (e, cfg', s') \<Longrightarrow>
     same_config cfg cfg' \<and> cfg_Status cfg' = cfg_Status cfg"
begin

text \<open>One iteration of the second pass.\<close>

lemma second_pass_step:
  assumes "i < length items"
  obtains c s' where "second_pass env devices hws i (prev # prevs) items s =
      second_pass env devices hws (Suc i) prevs (items[i := c]) s'"
    "same_config (items ! i) c"
    "cfg_Status c = compute_status (ce_order env) (ce_now env) devices hws items (items ! i)"
proof -
  let ?cfg1 = "(items ! i)\<lparr>cfg_Status := compute_status (ce_order env) (ce_now env) devices hws items (items ! i)\<rparr>"
  obtain e c s' where u: "cl_UpdateConfigStatus (ce_client env) ?cfg1 s = (e, c, s')" by (metis prod_cases3)
  have s1: "same_config (items ! i) ?cfg1" by (simp add: same_config_def)
  from update_returns [OF u]
  have c: "same_config (items ! i) c" "cfg_Status c = cfg_Status ?cfg1"
    using same_config_trans [OF s1] by simp_all
  show thesis
  proof (cases "prev = cfg_Status ?cfg1")
    case True
    then show thesis by (intro that [of ?cfg1 s]) (use s1 in \<open>simp_all add: Let_def\<close>)
  next
    case False
    with u show thesis by (intro that [of c s']) (use c in \<open>simp_all add: Let_def\<close>)
  qed
qed

lemma second_pass_result:
  assumes "i + length prevs = length items"
    "second_pass env devices hws i prevs items s = (items1, s1)"
  shows "list_all2 same_config items items1 \<and> (\<forall>j < length items. cfg_Status (items1 ! j) =
     (if i \<le> j then compute_status (ce_order env) (ce_now env) devices hws items (items ! j) else cfg_Status (items ! j)))"
  using assms
proof (induction prevs arbitrary: i items s)
  case Nil
  then show ?case by (simp add: list_all2_refl)
next
  case (Cons prev prevs)
  then have i: "i < length items" by simp
  from second_pass_step [OF i] obtain c s' where
    step: "second_pass env devices hws i (prev # prevs) items s = second_pass env devices hws (Suc i) prevs (items[i := c]) s'"
    and c: "same_config (items ! i) c"
    and st: "cfg_Status c = compute_status (ce_order env) (ce_now env) devices hws items (items ! i)" by blast
  let ?items = "items[i := c]"
  have lst: "list_all2 same_matches items ?items"
    using i c st by (auto simp: list_all2_conv_all_nth nth_list_update same_matches_def)
  from Cons.IH [of "Suc i" ?items s'] Cons.prems step have IH: "list_all2 same_config ?items items1"
    "\<And>j. j < length items \<Longrightarrow> cfg_Status (items1 ! j) = (if Suc i \<le> j
       then compute_status (ce_order env) (ce_now env) devices hws ?items (?items ! j) else cfg_Status (?items ! j))"
    by simp_all
  have "list_all2 same_config items items1"
    using same_matches_config [OF lst] IH(1) list_all2_trans [of same_config same_config same_config] same_config_trans by blast
  moreover have "cfg_Status (items1 ! j) = (if i \<le> j
      then compute_status (ce_order env) (ce_now env) devices hws items (items ! j) else cfg_Status (items ! j))"
    if "j < length items" for j
    using IH(2) [OF that] i st compute_status_cong [OF lst same_config_refl refl]
    by (cases "j = i") (auto simp: nth_list_update)
  ultimately show ?case by blast
qed

end

text \<open>Loops that collect the outcome of every element, in a list or under a key.\<close>

lemma fold_go_collect:
  "fold_go (\<lambda>acc x. bind_go (f x) (\<lambda>y. Inr (acc @ [g x y]))) acc xs = Inr r \<longleftrightarrow>
     (\<forall>x \<in> set xs. f x = Inr (projr (f x))) \<and> r = acc @ map (\<lambda>x. g x (projr (f x))) xs"
proof (induction xs arbitrary: acc)
  case (Cons x xs)
  then show ?case by (cases "f x") auto
qed auto

lemma fold_go_gset:
  "fold_go (\<lambda>m x. bind_go (f x) (\<lambda>y. Inr (gset m (k x) y))) m xs = Inr r \<longleftrightarrow>
     (\<forall>x \<in> set xs. f x = Inr (projr (f x))) \<and> r = gset_all m (map (\<lambda>x. (k x, projr (f x))) xs)"
proof (induction xs arbitrary: m)
  case (Cons x xs)
  then show ?case by (cases "f x") auto
qed auto

definition with_matches :: "PtpConfig \<Rightarrow> NodeMatchList list \<Rightarrow> PtpConfig" where
  "with_matches c ml = c\<lparr>cfg_Status := (cfg_Status c)\<lparr>st_MatchList := ml\<rparr>\<rparr>"

lemma same_with_matches [simp]: "same_config c (with_matches c ml)"
  by (simp add: same_config_def with_matches_def)

lemma with_matches_id: "st_MatchList (cfg_Status c) = ml \<Longrightarrow> with_matches c ml = c"
  by (auto simp: with_matches_def)

lemma first_pass_iff:
  "first_pass srt nodes items = Inr matches \<longleftrightarrow>
     (\<forall>c \<in> set items. config_match_list srt nodes c = Inr (projr (config_match_list srt nodes c)))
     \<and> matches = map (\<lambda>c. (with_matches c (projr (config_match_list srt nodes c)), cfg_Status c)) items"
  unfolding first_pass_def fold_go_collect [of "config_match_list srt nodes"
      "\<lambda>c ml. (c\<lparr>cfg_Status := (cfg_Status c)\<lparr>st_MatchList := ml\<rparr>\<rparr>, cfg_Status c)"]
  by (simp add: with_matches_def)

text \<open>A status does not depend on the order of maps when clock types are determined.\<close>

lemma status_order:
  assumes "range_order_ok o1" "range_order_ok o2" "clocks_determined devices cfg"
  shows "compute_status o1 now devices hws items cfg = compute_status o2 now devices hws items cfg"
  unfolding compute_status_def Let_def statuses_order [OF assms] warnings_order [OF assms(1,2)] ..

text \<open>When every status is what the second pass computes, it changes nothing.\<close>

lemma second_pass_settled:
  assumes "\<And>j. j < length items \<Longrightarrow>
      compute_status (ce_order env) (ce_now env) devices hws items (items ! j) = cfg_Status (items ! j)"
  shows "i + length prevs = length items \<Longrightarrow> prevs = drop i (map cfg_Status items) \<Longrightarrow>
    second_pass env devices hws i prevs items s = (items, s)"
proof (induction prevs arbitrary: i)
  case (Cons prev prevs)
  from Cons.prems(1) have i: "i < length items" by simp
  then have "drop i (map cfg_Status items) = cfg_Status (items ! i) # drop (Suc i) (map cfg_Status items)"
    by (metis Cons_nth_drop_Suc length_map nth_map)
  with Cons.prems(2) have "prev = cfg_Status (items ! i)" and rest: "prevs = drop (Suc i) (map cfg_Status items)"
    by simp_all
  then show ?case using Cons.IH [of "Suc i"] Cons.prems(1) assms [OF i] by (simp add: Let_def)
qed simp

context status_writer
begin

lemma sync_items:
  assumes "syncPtpConfig env items nodes devices hws s = (Inr items1, s2)"
  shows "\<forall>c \<in> set items. config_match_list (ce_sort env) nodes c = Inr (projr (config_match_list (ce_sort env) nodes c))"
    and "list_all2 same_config items items1"
    and "j < length items \<Longrightarrow> cfg_Status (items1 ! j) =
      (let ms = map (\<lambda>c. with_matches c (projr (config_match_list (ce_sort env) nodes c))) items
       in compute_status (ce_order env) (ce_now env) devices hws ms (ms ! j))"
proof -
  let ?ms = "map (\<lambda>c. with_matches c (projr (config_match_list (ce_sort env) nodes c))) items"
  from assms obtain matches s1 where first: "first_pass (ce_sort env) nodes items = Inr matches"
    and second: "second_pass env devices hws 0 (map snd matches) (map fst matches) s = (items1, s1)"
    unfolding syncPtpConfig_def by (auto split: sum.splits prod.splits option.splits)
  from first show "\<forall>c \<in> set items. config_match_list (ce_sort env) nodes c = Inr (projr (config_match_list (ce_sort env) nodes c))"
    by (simp add: first_pass_iff)
  from first have m: "map fst matches = ?ms" "length matches = length items" by (simp_all add: first_pass_iff)
  note res = second_pass_result [OF _ second, simplified m, simplified]
  from m(2) res have "list_all2 same_config ?ms items1" by simp
  moreover have "list_all2 same_config items ?ms" by (simp add: list_all2_conv_all_nth)
  ultimately show "list_all2 same_config items items1"
    using list_all2_trans [of same_config same_config same_config] same_config_trans by blast
  from m(2) res show "j < length items \<Longrightarrow> cfg_Status (items1 ! j) =
      (let ms = ?ms in compute_status (ce_order env) (ce_now env) devices hws ms (ms ! j))"
    by (simp add: Let_def)
qed

lemma sync_settled:
  assumes ok: "syncPtpConfig env items nodes devices hws s = (Inr items1, s2)"
    and ord: "range_order_ok (ce_order env)" "range_order_ok (ce_order env')"
    and clocks: "\<forall>c \<in> set items. clocks_determined devices c"
  shows "first_pass (ce_sort env) nodes items1 = Inr (map (\<lambda>c. (c, cfg_Status c)) items1)"
    and "second_pass env' devices hws 0 (map cfg_Status items1) items1 t = (items1, t)"
proof -
  let ?ml = "\<lambda>c. projr (config_match_list (ce_sort env) nodes c)"
  let ?ms = "map (\<lambda>c. with_matches c (?ml c)) items"
  note items = sync_items [OF ok]
  from items(2) have len: "length items1 = length items" and
    same: "\<And>j. j < length items \<Longrightarrow> same_config (items ! j) (items1 ! j)" by (auto simp: list_all2_conv_all_nth)
  have ml: "config_match_list (ce_sort env) nodes (items1 ! j) = Inr (?ml (items1 ! j))"
      "st_MatchList (cfg_Status (items1 ! j)) = ?ml (items1 ! j)" if "j < length items" for j
    using items(1) items(3) [OF that] same_config_match_list [OF same [OF that], of "ce_sort env" nodes] that
    by (simp_all add: Let_def with_matches_def)
  have "config_match_list (ce_sort env) nodes c = Inr (?ml c) \<and> with_matches c (?ml c) = c" if "c \<in> set items1" for c
    using that ml len by (auto simp: in_set_conv_nth with_matches_id)
  then show "first_pass (ce_sort env) nodes items1 = Inr (map (\<lambda>c. (c, cfg_Status c)) items1)"
    by (simp add: first_pass_iff)
  have sm: "list_all2 same_matches ?ms items1"
    using len same items(3)
    by (auto simp: list_all2_conv_all_nth same_matches_def Let_def intro: same_config_trans [rotated])
      (simp add: same_config_def with_matches_def)
  have det: "clocks_determined devices (items1 ! j)" if "j < length items1" for j
  proof -
    have "clocks_determined devices (items ! j)" using clocks that len by simp
    then show ?thesis using same [of j] that len by (simp add: same_config_def clocks_determined_def)
  qed
  from sm have "compute_status (ce_order env') (ce_now env') devices hws items1 (items1 ! j) = cfg_Status (items1 ! j)"
    if "j < length items1" for j
    unfolding status_order [OF ord(2,1) det [OF that]]
    using that len items(3) [of j]
    by (intro compute_status_settled [OF sm, of "?ms ! j" _ _ "ce_now env"])
      (auto simp: list_all2_conv_all_nth same_matches_def Let_def)
  then show "second_pass env' devices hws 0 (map cfg_Status items1) items1 t = (items1, t)"
    by (intro second_pass_settled) simp_all
qed

end

section \<open>The config map\<close>

definition node_text ::
  "PtpRecommend slice_sort \<Rightarrow> (PtpProfile list \<Rightarrow> string option) \<Rightarrow> PtpConfigList \<Rightarrow> Node \<Rightarrow> (sync_error, string) go" where
  "node_text srt marshal items node =
     bind_go (wrap_err RecommendFailed (getRecommendNodePtpProfiles srt items node)) (\<lambda>ps.
       case marshal ps of None \<Rightarrow> err MarshalFailed | Some d \<Rightarrow> Inr d)"

lemma node_data_text:
  "node_data srt marshal items data node =
     bind_go (node_text srt marshal items node) (\<lambda>d. Inr (gset data (node_Name node) d))"
  by (cases "getRecommendNodePtpProfiles srt items node")
    (auto simp: node_data_def node_text_def wrap_err_def err_def split: option.splits fault.splits)

lemma node_text_Inr:
  "node_text srt marshal items node = Inr d \<longleftrightarrow>
     (\<exists>ps. getRecommendNodePtpProfiles srt items node = Inr ps \<and> marshal ps = Some d)"
  by (auto simp: node_text_def bind_go_eq_Inr split: option.splits)

lemma nodes_data_iff:
  "fold_go (node_data srt marshal items) [] nodes = Inr data \<longleftrightarrow>
     (\<forall>n \<in> set nodes. node_text srt marshal items n = Inr (projr (node_text srt marshal items n)))
     \<and> data = gset_all [] (map (\<lambda>n. (node_Name n, projr (node_text srt marshal items n))) nodes)"
  using fold_go_gset [of "node_text srt marshal items" node_Name "[]" nodes data]
  by (simp only: node_data_text [abs_def])

lemma nodes_data_lookup:
  assumes "distinct (map node_Name nodes)" "fold_go (node_data srt marshal items) [] nodes = Inr data"
  shows "gget data k = map_option (\<lambda>n. projr (node_text srt marshal items n)) (find (\<lambda>n. node_Name n = k) nodes)"
proof -
  have "map_of (map (\<lambda>n. (node_Name n, f n)) ns) k = map_option f (find (\<lambda>n. node_Name n = k) ns)" for f :: "Node \<Rightarrow> string" and ns
    by (induction ns) auto
  moreover have "distinct (map fst (map (\<lambda>n. (node_Name n, projr (node_text srt marshal items n))) nodes))"
    using assms(1) by (simp add: comp_def)
  ultimately show ?thesis using assms(2) by (simp add: nodes_data_iff gget_gset_all split: option.splits)
qed

lemma in_gkeys: "k \<in> set (gkeys m) \<longleftrightarrow> gget m k \<noteq> None"
  by (simp add: gget_eq_None_iff)

lemma second_pass_other_calls:
  "second_pass (env\<lparr>ce_client := (ce_client env)\<lparr>cl_UpdateConfigMap := u\<rparr>\<rparr>) devices hws i prevs items s =
     second_pass env devices hws i prevs items s"
  by (induction prevs arbitrary: i items s) (simp_all add: Let_def split: prod.splits)

context status_writer
begin

text \<open>The resources after the status passes publish what the listed ones publish.\<close>

lemma text_after_passes:
  assumes "first_pass (ce_sort env) nodes items = Inr matches"
    and "second_pass env devices hws 0 (map snd matches) (map fst matches) s = (items1, s1)"
  shows "node_text srt marshal items1 node = node_text srt marshal items node"
proof -
  let ?ms = "map (\<lambda>c. with_matches c (projr (config_match_list (ce_sort env) nodes c))) items"
  from assms(1) have m: "map fst matches = ?ms" "length matches = length items" by (simp_all add: first_pass_iff)
  from second_pass_result [OF _ assms(2)] m have "list_all2 same_config ?ms items1" by simp
  moreover have "list_all2 same_config items ?ms" by (simp add: list_all2_conv_all_nth)
  ultimately have "list_all2 same_config items items1"
    using list_all2_trans [of same_config same_config same_config] same_config_trans by blast
  then show ?thesis by (simp add: node_text_def same_recommended)
qed

lemma sync_published:
  assumes "distinct (map node_Name nodes)" "syncPtpConfig env items nodes devices hws s = (Inr items1, s2)"
  obtains cm data s1 where "cl_GetConfigMap (ce_client env) (ptp_configmap (ce_ns env)) s1 = Inr cm"
    "cl_UpdateConfigMap (ce_client env) (cm\<lparr>cm_Data := data\<rparr>) s1 = (None, s2)"
    "set (gkeys data) = node_Name ` set nodes"
    "\<And>node. node \<in> set nodes \<Longrightarrow> \<exists>d. node_text (ce_sort env) (ce_marshal env) items node = Inr d
       \<and> gget data (node_Name node) = Some d"
proof -
  from assms(2) obtain matches s1 data cm where
    first: "first_pass (ce_sort env) nodes items = Inr matches"
    and second: "second_pass env devices hws 0 (map snd matches) (map fst matches) s = (items1, s1)"
    and data: "fold_go (node_data (ce_sort env) (ce_marshal env) items1) [] nodes = Inr data"
    and put: "cl_GetConfigMap (ce_client env) (ptp_configmap (ce_ns env)) s1 = Inr cm"
      "cl_UpdateConfigMap (ce_client env) (cm\<lparr>cm_Data := data\<rparr>) s1 = (None, s2)"
    unfolding syncPtpConfig_def by (auto split: sum.splits prod.splits option.splits)
  note txt_items = text_after_passes [OF first second]
  note look = nodes_data_lookup [OF assms(1) data, unfolded txt_items]
  have all: "\<And>n. n \<in> set nodes \<Longrightarrow> node_text (ce_sort env) (ce_marshal env) items n =
      Inr (projr (node_text (ce_sort env) (ce_marshal env) items n))"
    using data by (simp add: nodes_data_iff txt_items)
  have hit: "find (\<lambda>n. node_Name n = node_Name node) nodes = Some node" if "node \<in> set nodes" for node
    using that assms(1) by (induction nodes) auto
  have "set (gkeys data) = node_Name ` set nodes"
    using look by (auto simp: set_eq_iff in_gkeys List.find_None_iff)
  with put all look hit that show thesis by force
qed

lemma sync_unpublished:
  assumes "node \<in> set nodes" "\<And>d. node_text (ce_sort env) (ce_marshal env) items node \<noteq> Inr d"
  shows "\<exists>f. fst (syncPtpConfig env items nodes devices hws s) = Inl f"
    and "syncPtpConfig (env\<lparr>ce_client := (ce_client env)\<lparr>cl_UpdateConfigMap := u\<rparr>\<rparr>) items nodes devices hws s =
      syncPtpConfig env items nodes devices hws s"
proof -
  have fails: "\<exists>f. fold_go (node_data (ce_sort env) (ce_marshal env) items1) [] nodes = Inl f"
    if "first_pass (ce_sort env) nodes items = Inr matches"
      "second_pass env devices hws 0 (map snd matches) (map fst matches) s = (items1, s1)" for matches items1 s1
  proof (cases "fold_go (node_data (ce_sort env) (ce_marshal env) items1) [] nodes")
    case (Inr data)
    with assms text_after_passes [OF that] show ?thesis unfolding nodes_data_iff by metis
  qed blast
  show "\<exists>f. fst (syncPtpConfig env items nodes devices hws s) = Inl f"
    using fails unfolding syncPtpConfig_def by (fastforce split: sum.splits prod.splits)
  show "syncPtpConfig (env\<lparr>ce_client := (ce_client env)\<lparr>cl_UpdateConfigMap := u\<rparr>\<rparr>) items nodes devices hws s =
      syncPtpConfig env items nodes devices hws s"
    using fails unfolding syncPtpConfig_def second_pass_other_calls by (fastforce split: sum.splits prod.splits)
qed

end

interpretation mems: status_writer mem_env
  by unfold_locales (auto simp: mem_env_def mem_ptp_client_def)

section \<open>Properties\<close>

text \<open>C5: Publishing the profiles. After a successful sync, the config map that was written holds, under
  the name of every node and under no other key, the serialised profiles recommended for that
  node over the listed resources; the statuses written meanwhile do not change them. If the
  profiles of some node cannot be determined or serialised, the config map is not written at all:
  the outcome is the same for every behaviour of its update call.\<close>

theorem sync_publishes_profiles:
  assumes "status_writer env" "distinct (map node_Name nodes)"
  shows "(\<forall>items1 s2. syncPtpConfig env items nodes devices hws s = (Inr items1, s2) \<longrightarrow>
      (\<exists>cm data s1. cl_GetConfigMap (ce_client env) (ptp_configmap (ce_ns env)) s1 = Inr cm
        \<and> cl_UpdateConfigMap (ce_client env) (cm\<lparr>cm_Data := data\<rparr>) s1 = (None, s2)
        \<and> set (gkeys data) = node_Name ` set nodes
        \<and> (\<forall>node \<in> set nodes. \<exists>ps d. getRecommendNodePtpProfiles (ce_sort env) items node = Inr ps
             \<and> ce_marshal env ps = Some d \<and> gget data (node_Name node) = Some d)))
    \<and> ((\<exists>node \<in> set nodes. \<forall>ps. getRecommendNodePtpProfiles (ce_sort env) items node = Inr ps \<longrightarrow> ce_marshal env ps = None) \<longrightarrow>
        (\<exists>f. fst (syncPtpConfig env items nodes devices hws s) = Inl f)
        \<and> syncPtpConfig (env\<lparr>ce_client := (ce_client env)\<lparr>cl_UpdateConfigMap := u\<rparr>\<rparr>) items nodes devices hws s =
            syncPtpConfig env items nodes devices hws s)"
proof (intro conjI allI impI)
  fix items1 s2
  assume "syncPtpConfig env items nodes devices hws s = (Inr items1, s2)"
  from status_writer.sync_published [OF assms this] show "\<exists>cm data s1.
      cl_GetConfigMap (ce_client env) (ptp_configmap (ce_ns env)) s1 = Inr cm
      \<and> cl_UpdateConfigMap (ce_client env) (cm\<lparr>cm_Data := data\<rparr>) s1 = (None, s2)
      \<and> set (gkeys data) = node_Name ` set nodes
      \<and> (\<forall>node \<in> set nodes. \<exists>ps d. getRecommendNodePtpProfiles (ce_sort env) items node = Inr ps
           \<and> ce_marshal env ps = Some d \<and> gget data (node_Name node) = Some d)"
    unfolding node_text_Inr by metis
next
  assume "\<exists>node \<in> set nodes. \<forall>ps. getRecommendNodePtpProfiles (ce_sort env) items node = Inr ps \<longrightarrow> ce_marshal env ps = None"
  then obtain node where node: "node \<in> set nodes"
    and none: "\<And>d. node_text (ce_sort env) (ce_marshal env) items node \<noteq> Inr d" unfolding node_text_Inr by fastforce
  from status_writer.sync_unpublished [OF assms(1) node none]
  show "\<exists>f. fst (syncPtpConfig env items nodes devices hws s) = Inl f"
    and "syncPtpConfig (env\<lparr>ce_client := (ce_client env)\<lparr>cl_UpdateConfigMap := u\<rparr>\<rparr>) items nodes devices hws s =
      syncPtpConfig env items nodes devices hws s" by blast+
qed

lemma wit_sync_ok: "\<not> isl (fst (syncPtpConfig mem_env wit_items [wit_node] [] [] mem_state))"
  by code_simp

lemma wit_sync:
  obtains items1 s2 where "syncPtpConfig mem_env wit_items [wit_node] [] [] mem_state = (Inr items1, s2)"
proof (cases "syncPtpConfig mem_env wit_items [wit_node] [] [] mem_state")
  case (Pair r s2)
  with wit_sync_ok that show thesis by (cases r) simp_all
qed

theorem sync_publishes_profiles_witness:
  "\<exists>data. set (gkeys data) = {''worker-0''}
     \<and> (\<exists>ps d. getRecommendNodePtpProfiles (ce_sort mem_env) wit_items wit_node = Inr ps
          \<and> ce_marshal mem_env ps = Some d \<and> gget data ''worker-0'' = Some d)"
proof -
  obtain items1 s2 where ok: "syncPtpConfig mem_env wit_items [wit_node] [] [] mem_state = (Inr items1, s2)" by (rule wit_sync)
  have "distinct (map node_Name [wit_node])" by simp
  from sync_publishes_profiles [OF mems.status_writer_axioms this, THEN conjunct1, rule_format, OF ok]
  show ?thesis by (auto simp: wit_node_def)
qed

text \<open>C21: The statuses settle. After a successful sync, a sync over the resources it leaves,
  with the same nodes, devices and hardware configs, at any later time and with any other order of Go's map loops, computes the statuses
  that are there: the second pass leaves resources and cluster unchanged for every client, so no
  status is written again. No profile of a resource may be reported by the devices under two names, bare and qualified, with
  different clock types, and \<open>sort.Slice\<close> is taken to order equal inputs equally.\<close>

theorem sync_status_settles:
  fixes env :: "'s ctl_env" and env' :: "'t ctl_env"
  assumes "status_writer env" "syncPtpConfig env items nodes devices hws s = (Inr items1, s2)"
    and "range_order_ok (ce_order env)" "range_order_ok (ce_order env')" "\<forall>c \<in> set items. clocks_determined devices c"
    and "ce_sort env' = ce_sort env"
  shows "\<exists>matches. first_pass (ce_sort env') nodes items1 = Inr matches \<and> map fst matches = items1
    \<and> second_pass env' devices hws 0 (map snd matches) (map fst matches) t = (items1, t)"
  using status_writer.sync_settled [OF assms(1-5)]
  by (intro exI [of _ "map (\<lambda>c. (c, cfg_Status c)) items1"]) (simp add: assms(6) comp_def)

theorem sync_status_settles_witness:
  "\<exists>items1. \<not> isl (first_pass (ce_sort mem_env) [wit_node] items1)
     \<and> second_pass (mem_env\<lparr>ce_now := 500, ce_order := \<lambda>ks. ks\<rparr>) [] [] 0 (map cfg_Status items1) items1 mem_state = (items1, mem_state)"
proof -
  obtain items1 s2 where ok: "syncPtpConfig mem_env wit_items [wit_node] [] [] mem_state = (Inr items1, s2)" by (rule wit_sync)
  from sync_status_settles [OF mems.status_writer_axioms ok, of "mem_env\<lparr>ce_now := 500, ce_order := \<lambda>ks. ks\<rparr>" mem_state]
  obtain matches where m: "first_pass (ce_sort mem_env) [wit_node] items1 = Inr matches" "map fst matches = items1"
    "second_pass (mem_env\<lparr>ce_now := 500, ce_order := \<lambda>ks. ks\<rparr>) [] [] 0 (map snd matches) items1 mem_state = (items1, mem_state)" by (auto simp: mem_env_def clocks_determined_def)
  from m(1) have "map snd matches = map cfg_Status items1" by (simp add: first_pass_iff comp_def)
  with m show ?thesis by (intro exI [of _ items1]) simp
qed

end
