(* ===== verification/HardwareConfig_Controller.thy ===== *)
theory HardwareConfig_Controller
  imports Memory_Cluster Profile_Status
begin

text \<open>
  The HardwareConfig controller (\<open>controllers/hardwareconfig_controller.go\<close>): the nodes on which
  the related profile is recommended, taken from the match lists of the PtpConfig statuses, are
  kept in the status of the HardwareConfig; every event of a PtpConfig enqueues all of them.
\<close>

section \<open>Status\<close>

datatype hw_sync_error =
    HwReadFailed api_error
  | HwStatusUpdateFailed api_error

text \<open>The body of the inner loop for one entry of a match list.\<close>

definition matched_node :: "string \<Rightarrow> PtpConfig \<Rightarrow> NodeMatchList \<Rightarrow> MatchedNode option" where
  "matched_node related ptpConfig m =
     (case nml_Profile m of
        None \<Rightarrow> None
      | Some p \<Rightarrow>
          if relatedProfileMatches p related (cfg_Name ptpConfig)
          then map_option (\<lambda>node. \<lparr>mn_NodeName = node, mn_PtpProfile = related\<rparr>) (nml_NodeName m)
          else None)"

definition matchedNodes :: "string \<Rightarrow> PtpConfigList \<Rightarrow> MatchedNode list" where
  "matchedNodes related items =
     concat (map (\<lambda>ptpConfig. List.map_filter (matched_node related ptpConfig) (st_MatchList (cfg_Status ptpConfig))) items)"

text \<open>\<open>nodeMap\<close> holds \<open>true\<close> for the recorded nodes.\<close>

definition statusChanged :: "MatchedNode list \<Rightarrow> MatchedNode list \<Rightarrow> bool" where
  "statusChanged new recorded =
     (if length new \<noteq> length recorded then True
      else if new = [] then False
      else
        (let nodeMap = foldl (\<lambda>m node. gset m (mn_NodeName node) True) [] recorded
         in list_ex (\<lambda>node. gget nodeMap (mn_NodeName node) \<noteq> Some True) new))"

definition write_matched ::
  "'s ptp_client \<Rightarrow> HardwareConfig \<Rightarrow> MatchedNode list \<Rightarrow> 's \<Rightarrow> (hw_sync_error, unit) go \<times> 's" where
  "write_matched client hw nodes s =
     (case cl_UpdateHardwareStatus client (hw\<lparr>hw_Status := (hw_Status hw)\<lparr>hst_MatchedNodes := nodes\<rparr>\<rparr>) s of
        (Some e, s1) \<Rightarrow> (err (HwStatusUpdateFailed e), s1)
      | (None, s1) \<Rightarrow> (Inr (), s1))"

definition syncHardwareConfigStatus ::
  "'s ptp_client \<Rightarrow> HardwareConfig \<Rightarrow> PtpConfigList \<Rightarrow> 's \<Rightarrow> (hw_sync_error, unit) go \<times> 's" where
  "syncHardwareConfigStatus client hw items s =
     (let recorded = hst_MatchedNodes (hw_Status hw) in
      if hw_Related hw = '''' then
        (if recorded \<noteq> [] then write_matched client hw [] s else (Inr (), s))
      else
        (let new = matchedNodes (hw_Related hw) items in
         if statusChanged new recorded then write_matched client hw new s else (Inr (), s)))"

definition HardwareConfig_Reconcile ::
  "'s ptp_client \<Rightarrow> NamespacedName \<Rightarrow> 's \<Rightarrow> (hw_sync_error, unit) go \<times> 's" where
  "HardwareConfig_Reconcile client req s =
     (case cl_GetHardware client req s of
        Inl NotFound \<Rightarrow> (Inr (), s)
      | Inl e \<Rightarrow> (err (HwReadFailed e), s)
      | Inr hw \<Rightarrow>
          (case cl_ListConfigs client s of
             Inl NotFound \<Rightarrow> (Inr (), s)
           | Inl e \<Rightarrow> (err (HwReadFailed e), s)
           | Inr items \<Rightarrow> syncHardwareConfigStatus client hw items s))"

section \<open>Events\<close>

datatype config_event = ConfigCreated | ConfigUpdated | ConfigDeleted | ConfigGeneric

definition enqueueHardwareConfigs :: "api_error + HardwareConfig list \<Rightarrow> NamespacedName list" where
  "enqueueHardwareConfigs listed =
     (case listed of Inl e \<Rightarrow> []
      | Inr items \<Rightarrow> map (\<lambda>hw. \<lparr>nn_Namespace = om_Namespace (hw_Meta hw), nn_Name = hw_Name hw\<rparr>) items)"

text \<open>All four kinds of events do the same.\<close>

definition HardwareConfigPtpConfigHandler :: "api_error + HardwareConfig list \<Rightarrow> config_event \<Rightarrow> NamespacedName list" where
  "HardwareConfigPtpConfigHandler listed evt =
     (case evt of
        ConfigCreated \<Rightarrow> enqueueHardwareConfigs listed
      | ConfigUpdated \<Rightarrow> enqueueHardwareConfigs listed
      | ConfigDeleted \<Rightarrow> enqueueHardwareConfigs listed
      | ConfigGeneric \<Rightarrow> enqueueHardwareConfigs listed)"

section \<open>Lemmas\<close>

abbreviation node_names :: "MatchedNode list \<Rightarrow> string list" where
  "node_names ns \<equiv> map mn_NodeName ns"

lemma node_map_lookup:
  "gget (foldl (\<lambda>m node. gset m (mn_NodeName node) True) m ns) k =
     (if k \<in> set (node_names ns) then Some True else gget m k)"
  by (induction ns arbitrary: m) auto

lemma statusChanged_iff:
  "statusChanged new recorded \<longleftrightarrow>
     length new \<noteq> length recorded \<or> \<not> set (node_names new) \<subseteq> set (node_names recorded)"
  by (auto simp: statusChanged_def Let_def node_map_lookup list_ex_iff)

lemma matchedNodes_unset [simp]: "matchedNodes '''' items = []"
proof -
  have "matched_node '''' c = (\<lambda>m. None)" for c
    by (auto simp: fun_eq_iff matched_node_def relatedProfileMatches_def split: option.splits)
  then show ?thesis by (simp add: matchedNodes_def List.map_filter_def)
qed

text \<open>Without a related profile the expected list is empty, so the two branches are one.\<close>

lemma sync_cases:
  "syncHardwareConfigStatus client hw items s =
     (let new = matchedNodes (hw_Related hw) items; recorded = hst_MatchedNodes (hw_Status hw)
      in if statusChanged new recorded then write_matched client hw new s else (Inr (), s))"
  by (auto simp: syncHardwareConfigStatus_def Let_def statusChanged_iff)

lemma same_size_subset_mset:
  assumes "distinct xs" "length xs = length ys" "set xs \<subseteq> set ys"
  shows "mset xs = mset ys"
proof -
  have "card (set xs) \<le> card (set ys)" using assms(3) by (simp add: card_mono)
  moreover have "card (set xs) = length ys" using assms(1,2) by (simp add: distinct_card)
  moreover have "card (set ys) \<le> length ys" by (rule card_length)
  ultimately have "distinct ys" "card (set xs) = card (set ys)" by (simp_all add: card_distinct)
  then have "set xs = set ys" using card_subset_eq [OF _ assms(3)] by simp
  with assms(1) \<open>distinct ys\<close> show ?thesis by (simp add: set_eq_iff_mset_eq_distinct)
qed

section \<open>The contract of the API server\<close>

text \<open>Every call may fail. A read that succeeds gives the stored object, and a status update that succeeds stores the status of
  the object it names and nothing else.\<close>

locale hardware_store =
  fixes client :: "'s ptp_client"
    and hw_at :: "'s \<Rightarrow> NamespacedName \<Rightarrow> HardwareConfig option"
  assumes get_missing: "cl_GetHardware client k s = Inl NotFound \<Longrightarrow> hw_at s k = None"
    and get_found: "cl_GetHardware client k s = Inr h \<Longrightarrow> hw_at s k = Some h"
    and hw_key: "hw_at s k = Some h \<Longrightarrow> meta_key (hw_Meta h) = k"
    and update_hw: "cl_UpdateHardwareStatus client h s = (None, s') \<Longrightarrow> hw_at s (meta_key (hw_Meta h)) = Some old \<Longrightarrow>
      (\<exists>h'. hw_at s' = (hw_at s)(meta_key (hw_Meta h) \<mapsto> h') \<and> hw_Status h' = hw_Status h \<and> hw_Spec h' = hw_Spec old)"
    and update_configs: "cl_UpdateHardwareStatus client h s = (e, s') \<Longrightarrow> cl_ListConfigs client s' = cl_ListConfigs client s"
begin

lemma reconcile_reads:
  assumes "HardwareConfig_Reconcile client k s = (r, s')" "hw_at s k = Some h" "cl_ListConfigs client s = Inr items"
  shows "cl_GetHardware client k s = Inr h \<and> syncHardwareConfigStatus client h items s = (r, s') \<or> r \<noteq> Inr () \<and> s' = s"
  using assms get_missing [of k s] get_found [of k s]
  by (auto simp: HardwareConfig_Reconcile_def split: sum.splits api_error.splits)

text \<open>What a successful reconcile leaves: the recorded nodes are up to date, and only this status
  was touched.\<close>

lemma reconcile_result:
  assumes "HardwareConfig_Reconcile client k s = (Inr (), s')" "hw_at s k = Some h" "cl_ListConfigs client s = Inr items"
  obtains h' where "hw_at s' = (hw_at s)(k \<mapsto> h')" "cl_ListConfigs client s' = Inr items" "hw_Spec h' = hw_Spec h"
    "\<not> statusChanged (matchedNodes (hw_Related h) items) (hst_MatchedNodes (hw_Status h'))"
proof -
  let ?new = "matchedNodes (hw_Related h) items"
  let ?h = "h\<lparr>hw_Status := (hw_Status h)\<lparr>hst_MatchedNodes := ?new\<rparr>\<rparr>"
  have "syncHardwareConfigStatus client h items s = (Inr (), s')" using reconcile_reads [OF assms] by simp
  note sync = this [unfolded sync_cases Let_def]
  show thesis
  proof (cases "statusChanged ?new (hst_MatchedNodes (hw_Status h))")
    case True
    with sync have u: "cl_UpdateHardwareStatus client ?h s = (None, s')"
      by (auto simp: write_matched_def split: prod.splits option.splits)
    have k: "meta_key (hw_Meta ?h) = k" using hw_key [OF assms(2)] by simp
    from update_hw [OF u, unfolded k, OF assms(2)] obtain h' where
      "hw_at s' = (hw_at s)(k \<mapsto> h')" "hw_Status h' = hw_Status ?h" "hw_Spec h' = hw_Spec h" by blast
    then show thesis using update_configs [OF u] assms(3) by (intro that [of h']) (simp_all add: statusChanged_iff)
  next
    case False
    with sync assms(2,3) show thesis by (intro that [of h]) (simp_all add: fun_upd_idem)
  qed
qed

lemma reconcile_again:
  assumes "HardwareConfig_Reconcile client k s = (Inr (), s')" "hw_at s k = Some h" "cl_ListConfigs client s = Inr items"
  shows "snd (HardwareConfig_Reconcile client k s') = s'"
proof -
  from reconcile_result [OF assms] obtain h' where h': "hw_at s' = (hw_at s)(k \<mapsto> h')" "cl_ListConfigs client s' = Inr items"
    "hw_Spec h' = hw_Spec h" "\<not> statusChanged (matchedNodes (hw_Related h) items) (hst_MatchedNodes (hw_Status h'))" .
  have at: "hw_at s' k = Some h'" by (simp add: h'(1))
  have "snd (HardwareConfig_Reconcile client k s') = s' \<or> snd (syncHardwareConfigStatus client h' items s') = snd (HardwareConfig_Reconcile client k s')"
    using reconcile_reads [OF prod.collapse [symmetric] at h'(2)] by auto
  with h'(3,4) show ?thesis by (auto simp: sync_cases Let_def)
qed

end

text \<open>The in-memory cluster.\<close>

definition mem_hw_at :: "mem_cluster \<Rightarrow> NamespacedName \<Rightarrow> HardwareConfig option" where
  "mem_hw_at s k = find (\<lambda>h. meta_key (hw_Meta h) = k) (mc_Hardware s)"

lemma mem_hw_update:
  "mem_hw_at (s\<lparr>mc_Hardware := change_at (meta_key \<circ> hw_Meta) k (\<lambda>x. x\<lparr>hw_Status := st\<rparr>) (mc_Hardware s)\<rparr>) =
     (\<lambda>j. map_option (if j = k then (\<lambda>x. x\<lparr>hw_Status := st\<rparr>) else id) (mem_hw_at s j))"
  using find_change_at [of "meta_key \<circ> hw_Meta" "(\<lambda>x. x\<lparr>hw_Status := st\<rparr>) :: HardwareConfig \<Rightarrow> HardwareConfig"]
  by (simp add: fun_eq_iff mem_hw_at_def)

interpretation memh: hardware_store "mem_ptp_client ns" mem_hw_at
proof unfold_locales
  fix k s h
  assume "mem_hw_at s k = Some h"
  then show "meta_key (hw_Meta h) = k" by (auto simp: mem_hw_at_def find_Some_iff)
next
  fix h s s' old
  assume u: "cl_UpdateHardwareStatus (mem_ptp_client ns) h s = (None, s')"
    and old: "mem_hw_at s (meta_key (hw_Meta h)) = Some old"
  have "mem_hw_at s' = (mem_hw_at s)(meta_key (hw_Meta h) \<mapsto> old\<lparr>hw_Status := hw_Status h\<rparr>)"
    using u old by (auto simp: mem_ptp_client_def mem_hw_update fun_eq_iff option.map_id)
  then show "\<exists>h'. mem_hw_at s' = (mem_hw_at s)(meta_key (hw_Meta h) \<mapsto> h') \<and> hw_Status h' = hw_Status h \<and> hw_Spec h' = hw_Spec old"
    by fastforce
qed (auto simp: mem_ptp_client_def mem_hw_at_def found_def split: option.splits)

section \<open>Properties\<close>

text \<open>The nodes that the match lists of the PtpConfigs give for a profile, entry by entry.\<close>

definition nodes_with_profile :: "string \<Rightarrow> PtpConfigList \<Rightarrow> string list" where
  "nodes_with_profile related items =
     [n. c \<leftarrow> items, m \<leftarrow> st_MatchList (cfg_Status c),
         n \<leftarrow> (case (nml_Profile m, nml_NodeName m) of
                (Some p, Some n) \<Rightarrow> if same_profile (cfg_Name c) p related then [n] else [] | _ \<Rightarrow> [])]"

lemma matchedNodes_names: "node_names (matchedNodes related items) = nodes_with_profile related items"
proof -
  have "map mn_NodeName (List.map_filter (matched_node related c) ms) = concat (map (\<lambda>m. case (nml_Profile m, nml_NodeName m) of
      (Some p, Some n) \<Rightarrow> if same_profile (cfg_Name c) p related then [n] else [] | _ \<Rightarrow> []) ms)" for c ms
    by (induction ms) (auto simp: matched_node_def relatedProfileMatches_iff List.map_filter_simps split: option.splits)
  then show ?thesis by (simp add: matchedNodes_def nodes_with_profile_def map_concat comp_def)
qed

text \<open>C15: A successful reconcile of a HardwareConfig leaves in its status as many nodes as the match lists of
  the PtpConfigs have entries for the related profile, under its bare or its qualified name, with every one of these nodes recorded;
  when no node is listed twice, the recorded nodes are exactly these. Without a related profile the list is empty. No other
  HardwareConfig is touched, and a second reconcile writes nothing.\<close>

theorem hardware_reconcile_correct:
  assumes "hardware_store client hw_at" "HardwareConfig_Reconcile client k s = (Inr (), s')"
    and "hw_at s k = Some h" "cl_ListConfigs client s = Inr items"
  shows "\<exists>h'. hw_at s' = (hw_at s)(k \<mapsto> h')
    \<and> (let new = nodes_with_profile (hw_Related h) items; recorded = node_names (hst_MatchedNodes (hw_Status h')) in
        length recorded = length new \<and> set new \<subseteq> set recorded
        \<and> (distinct new \<longrightarrow> mset recorded = mset new)
        \<and> (hw_Related h = '''' \<longrightarrow> recorded = []))
    \<and> snd (HardwareConfig_Reconcile client k s') = s'"
proof -
  from hardware_store.reconcile_result [OF assms] obtain h' where h': "hw_at s' = (hw_at s)(k \<mapsto> h')"
    and same: "\<not> statusChanged (matchedNodes (hw_Related h) items) (hst_MatchedNodes (hw_Status h'))" .
  let ?new = "nodes_with_profile (hw_Related h) items" and ?rec = "node_names (hst_MatchedNodes (hw_Status h'))"
  have "length ?rec = length ?new" "set ?new \<subseteq> set ?rec"
    using same unfolding statusChanged_iff matchedNodes_names [symmetric] by simp_all
  moreover have "hw_Related h = '''' \<Longrightarrow> ?new = []" using matchedNodes_names [of "''''" items] by simp
  ultimately show ?thesis
    using h' hardware_store.reconcile_again [OF assms] same_size_subset_mset [of ?new ?rec]
    by (intro exI [of _ h']) (auto simp: Let_def)
qed

definition wit_hardware :: HardwareConfig where
  "wit_hardware = \<lparr>hw_Meta = \<lparr>om_Name = ''hw'', om_Namespace = ''openshift-ptp'', om_Generation = 1, om_UID = ''h'',
       om_ResourceVersion = ''1'', om_OwnerReferences = []\<rparr>,
     hw_Spec = \<lparr>hs_Profile = \<lparr>hpr_Name = None, hpr_ClockType = None, hpr_ClockChain = None, hpr_Description = None\<rparr>, hs_RelatedPtpProfileName = ''bc''\<rparr>,
     hw_Status = \<lparr>hst_MatchedNodes = [\<lparr>mn_NodeName = ''worker-0'', mn_PtpProfile = ''gm''\<rparr>], hst_Sources = []\<rparr>\<rparr>"

definition wit_matched_config :: PtpConfig where
  "wit_matched_config = wit_config\<lparr>cfg_Status := (cfg_Status wit_config)\<lparr>st_MatchList :=
     [\<lparr>nml_NodeName = Some ''worker-0'', nml_Profile = Some ''cfg_bc''\<rparr>, \<lparr>nml_NodeName = Some ''worker-1'', nml_Profile = Some ''cfg_bc''\<rparr>]\<rparr>\<rparr>"

definition wit_hw_state :: mem_cluster where
  "wit_hw_state = mem_state\<lparr>mc_Hardware := [wit_hardware], mc_Configs := [wit_matched_config]\<rparr>"

theorem hardware_reconcile_correct_witness:
  "\<exists>h' s'. mem_hw_at s' (meta_key (hw_Meta wit_hardware)) = Some h'
     \<and> mset (node_names (hst_MatchedNodes (hw_Status h'))) = {#''worker-0'', ''worker-1''#}"
proof -
  let ?k = "meta_key (hw_Meta wit_hardware)" and ?c = "mem_ptp_client ''openshift-ptp''"
  have ok: "fst (HardwareConfig_Reconcile ?c ?k wit_hw_state) = Inr ()" by code_simp
  have at: "mem_hw_at wit_hw_state ?k = Some wit_hardware" by (simp add: mem_hw_at_def wit_hw_state_def)
  have items: "cl_ListConfigs ?c wit_hw_state = Inr [wit_matched_config]" by (simp add: mem_ptp_client_def wit_hw_state_def)
  have new: "nodes_with_profile (hw_Related wit_hardware) [wit_matched_config] = [''worker-0'', ''worker-1'']" by code_simp
  from ok have "HardwareConfig_Reconcile ?c ?k wit_hw_state = (Inr (), snd (HardwareConfig_Reconcile ?c ?k wit_hw_state))"
    by (simp add: prod_eq_iff)
  from hardware_reconcile_correct [OF memh.hardware_store_axioms this at items]
  obtain h' where "mem_hw_at (snd (HardwareConfig_Reconcile ?c ?k wit_hw_state)) = (mem_hw_at wit_hw_state)(?k \<mapsto> h')"
    "mset (node_names (hst_MatchedNodes (hw_Status h'))) = mset [''worker-0'', ''worker-1'']"
    unfolding Let_def new by auto
  then show ?thesis
    by (intro exI [of _ h'] exI [of _ "snd (HardwareConfig_Reconcile ?c ?k wit_hw_state)"] conjI) auto
qed

text \<open>The comparison that decides whether the status is written looks at the number and the names of
  the nodes only. When the related profile of a HardwareConfig is renamed and the nodes stay the
  same, a successful reconcile writes nothing, although every node it computed carries the new
  name: the old profile name stays in the status.\<close>

lemma hardware_status_keeps_old_profile:
  assumes "hw_Related h \<noteq> ''''" "length (matchedNodes (hw_Related h) items) = length (hst_MatchedNodes (hw_Status h))"
    and "set (node_names (matchedNodes (hw_Related h) items)) \<subseteq> set (node_names (hst_MatchedNodes (hw_Status h)))"
  shows "syncHardwareConfigStatus client h items s = (Inr (), s)
    \<and> (\<forall>n \<in> set (matchedNodes (hw_Related h) items). mn_PtpProfile n = hw_Related h)"
  using assms
  by (auto simp: sync_cases Let_def statusChanged_iff matchedNodes_def set_map_filter matched_node_def
      split: option.splits if_splits)

lemma hardware_status_keeps_old_profile_witness:
  "syncHardwareConfigStatus (mem_ptp_client ''openshift-ptp'') wit_hardware
     [wit_config\<lparr>cfg_Status := (cfg_Status wit_config)\<lparr>st_MatchList :=
        [\<lparr>nml_NodeName = Some ''worker-0'', nml_Profile = Some ''cfg_bc''\<rparr>]\<rparr>\<rparr>] mem_state = (Inr (), mem_state)
   \<and> map mn_PtpProfile (hst_MatchedNodes (hw_Status wit_hardware)) = [''gm''] \<and> hw_Related wit_hardware = ''bc''"
  by (intro conjI, rule hardware_status_keeps_old_profile [THEN conjunct1]) code_simp+

end
