(* ===== verification/Network_Policies.thy ===== *)
theory Network_Policies
  imports Owner_References Memory_Cluster
begin

text \<open>
  The network policies of the operator (\<open>chronydNetworkPolicy\<close> and \<open>applyNetworkPoliciesFromYaml\<close>
  of \<open>controllers/ptpoperatorconfig_controller.go\<close>): the policies of a manifest, and one more when
  some profile runs chronyd, are created or updated in a fixed order, and policies of the
  operator that are no longer wanted are deleted. Decoding of a YAML document is a parameter.
\<close>

section \<open>Policies\<close>

record NetworkPolicyPort =
  npp_Protocol :: string
  npp_Port :: int

text \<open>A rule: its ports; its peers, which are not read, as text.\<close>

record NetworkPolicyRule =
  npr_Ports :: "NetworkPolicyPort list"
  npr_Peers :: string

record NetworkPolicySpec =
  nps_PodSelector :: "string gmap"
  nps_PolicyTypes :: "string list"
  nps_Ingress :: "NetworkPolicyRule list"
  nps_Egress :: "NetworkPolicyRule list"

record NetworkPolicy =
  np_Meta :: ObjectMeta
  np_Spec :: NetworkPolicySpec

abbreviation np_Name :: "NetworkPolicy \<Rightarrow> string" where
  "np_Name p \<equiv> om_Name (np_Meta p)"

definition chronyd_policy_name :: string where
  "chronyd_policy_name = ''13-linuxptp-daemon-egress-ntp-optional''"

definition chronydNetworkPolicy :: "string \<Rightarrow> NetworkPolicy" where
  "chronydNetworkPolicy ns =
     (let ports = map (\<lambda>protocol. \<lparr>npp_Protocol = protocol, npp_Port = 123\<rparr>) [''UDP'', ''TCP''];
          rule = \<lparr>npr_Ports = ports, npr_Peers = ''''\<rparr>
      in \<lparr>np_Meta = \<lparr>om_Name = chronyd_policy_name, om_Namespace = ns, om_Generation = 0, om_UID = '''',
            om_ResourceVersion = '''', om_OwnerReferences = []\<rparr>,
          np_Spec = \<lparr>nps_PodSelector = [(''app'', ''linuxptp-daemon'')], nps_PolicyTypes = [''Ingress'', ''Egress''],
            nps_Ingress = [rule], nps_Egress = [rule]\<rparr>\<rparr>)"

text \<open>The names a manifest may declare, the order of creation, and the names that may be deleted.\<close>

definition operand_policies :: "string list" where
  "operand_policies =
     [''06-linuxptp-daemon-default-deny'', ''07-linuxptp-daemon-egress-dns'',
      ''08-linuxptp-daemon-egress-api-server'', ''09-linuxptp-daemon-ptp-traffic'',
      ''11-linuxptp-daemon-ingress-metrics'',
      ''01-ptp-operator-default-deny'', ''02-ptp-operator-ingress-webhook'',
      ''03-ptp-operator-ingress-metrics'', ''04-ptp-operator-egress-dns'',
      ''05-ptp-operator-egress-api-server'']"

definition policy_order :: "string list" where
  "policy_order =
     [''02-ptp-operator-ingress-webhook'', ''03-ptp-operator-ingress-metrics'',
      ''04-ptp-operator-egress-dns'', ''05-ptp-operator-egress-api-server'',
      ''07-linuxptp-daemon-egress-dns'', ''08-linuxptp-daemon-egress-api-server'',
      ''09-linuxptp-daemon-ptp-traffic'', ''11-linuxptp-daemon-ingress-metrics'',
      ''13-linuxptp-daemon-egress-ntp-optional'',
      ''01-ptp-operator-default-deny'', ''06-linuxptp-daemon-default-deny'']"

definition removable_policies :: "string list" where
  "removable_policies =
     [''06-linuxptp-daemon-default-deny'', ''07-linuxptp-daemon-egress-dns'',
      ''08-linuxptp-daemon-egress-api-server'', ''09-linuxptp-daemon-ptp-traffic'',
      ''11-linuxptp-daemon-ingress-metrics'', ''12-operator-to-daemon-management'',
      ''13-linuxptp-daemon-egress-ntp-optional'',
      ''01-ptp-operator-default-deny'', ''02-ptp-operator-ingress-webhook'',
      ''03-ptp-operator-ingress-metrics'', ''04-ptp-operator-egress-dns'',
      ''05-ptp-operator-egress-api-server'',
      ''allow-webhook-traffic'', ''allow-egress-to-api-server'', ''allow-metrics-traffic'']"

section \<open>The desired policies\<close>

datatype policy_error =
    ReadPoliciesFailed
  | DecodePolicyYaml
  | DecodePolicy
  | UnexpectedPolicy string
  | ListConfigsFailed api_error
  | SetPolicyOwner string owner_error
  | CreatePolicy string api_error
  | GetPolicy string api_error
  | PolicyNotOwned string
  | UpdatePolicy string api_error
  | ListPoliciesFailed api_error
  | DeletePolicy string api_error

text \<open>One document: \<open>toJSON\<close> is \<open>k8syaml.ToJSON\<close>, \<open>unmarshal\<close> the decoding of the JSON text.\<close>

definition decode_policy ::
  "(string \<Rightarrow> string option) \<Rightarrow> (string \<Rightarrow> NetworkPolicy option) \<Rightarrow> string \<Rightarrow> NetworkPolicy gmap \<Rightarrow> string \<Rightarrow>
     (policy_error, NetworkPolicy gmap) go" where
  "decode_policy toJSON unmarshal ns desired doc =
     (let trimmedDoc = TrimSpace doc in
      if trimmedDoc = '''' then Inr desired
      else case toJSON trimmedDoc of
        None \<Rightarrow> err DecodePolicyYaml
      | Some jsonBytes \<Rightarrow>
          (case unmarshal jsonBytes of
             None \<Rightarrow> err DecodePolicy
           | Some np \<Rightarrow>
               if np_Name np \<notin> set operand_policies then err (UnexpectedPolicy (np_Name np))
               else Inr (gset desired (np_Name np) (np\<lparr>np_Meta := (np_Meta np)\<lparr>om_Namespace := ns\<rparr>\<rparr>))))"

definition uses_chronyd :: "PtpConfigList \<Rightarrow> bool" where
  "uses_chronyd configs =
     list_ex (\<lambda>config. list_ex (\<lambda>profile. pf_ChronydConf profile \<noteq> None \<or> pf_ChronydOpts profile \<noteq> None) (cfg_Profile config)) configs"

definition add_chronyd :: "string \<Rightarrow> PtpConfigList \<Rightarrow> NetworkPolicy gmap \<Rightarrow> NetworkPolicy gmap" where
  "add_chronyd ns configs desired =
     (if uses_chronyd configs then gset desired chronyd_policy_name (chronydNetworkPolicy ns) else desired)"

section \<open>Applying and pruning\<close>

record 's np_client =
  np_Get :: "NamespacedName \<Rightarrow> 's \<Rightarrow> api_error + NetworkPolicy"
  np_Create :: "NetworkPolicy \<Rightarrow> 's \<Rightarrow> api_error option \<times> 's"
  np_Update :: "NetworkPolicy \<Rightarrow> 's \<Rightarrow> api_error option \<times> 's"
  np_List :: "string \<Rightarrow> 's \<Rightarrow> api_error + NetworkPolicy list"
  np_Delete :: "NetworkPolicy \<Rightarrow> 's \<Rightarrow> api_error option \<times> 's"
  np_ListConfigs :: "string \<Rightarrow> 's \<Rightarrow> api_error + PtpConfigList"

text \<open>What is fixed during a reconcile: the client, the namespace, the scheme's kind of the owner and
  the owner itself.\<close>

record 's np_env =
  ne_client :: "'s np_client"
  ne_ns :: string
  ne_scheme :: "GroupVersionKind option"
  ne_owner :: ObjectMeta

text \<open>A write as the last action of a step.\<close>

definition ends_with :: "(api_error \<Rightarrow> 'e) \<Rightarrow> api_error option \<times> 's \<Rightarrow> ('e, unit) go \<times> 's" where
  "ends_with w r = (case r of (None, s) \<Rightarrow> (Inr (), s) | (Some e, s) \<Rightarrow> (err (w e), s))"

definition apply_policy ::
  "'s np_env \<Rightarrow> NetworkPolicy gmap \<Rightarrow> string \<Rightarrow> 's \<Rightarrow> (policy_error, unit) go \<times> 's" where
  "apply_policy env desired name s =
     (case gget desired name of
        None \<Rightarrow> (Inr (), s)
      | Some np \<Rightarrow>
          (case wrap_err (SetPolicyOwner name) (SetControllerReference (ne_scheme env) (ne_owner env) (np_Meta np)) of
             Inl f \<Rightarrow> (Inl f, s)
           | Inr m \<Rightarrow>
               (case np_Get (ne_client env) \<lparr>nn_Namespace = ne_ns env, nn_Name = name\<rparr> s of
                  Inl NotFound \<Rightarrow> ends_with (CreatePolicy name) (np_Create (ne_client env) (np\<lparr>np_Meta := m\<rparr>) s)
                | Inl e \<Rightarrow> (err (GetPolicy name e), s)
                | Inr current \<Rightarrow>
                    if \<not> IsControlledBy (np_Meta current) (ne_owner env) then (err (PolicyNotOwned name), s)
                    else if np_Spec current \<noteq> np_Spec np then
                      ends_with (UpdatePolicy name) (np_Update (ne_client env) (current\<lparr>np_Spec := np_Spec np\<rparr>) s)
                    else (Inr (), s))))"

definition prune_policy ::
  "'s np_env \<Rightarrow> NetworkPolicy gmap \<Rightarrow> NetworkPolicy \<Rightarrow> 's \<Rightarrow> (policy_error, unit) go \<times> 's" where
  "prune_policy env desired policy s =
     (if \<not> IsControlledBy (np_Meta policy) (ne_owner env) then (Inr (), s)
      else if gget desired (np_Name policy) \<noteq> None then (Inr (), s)
      else if np_Name policy \<in> set removable_policies then
        (case np_Delete (ne_client env) policy s of
           (Some NotFound, s1) \<Rightarrow> (Inr (), s1)
         | (Some e, s1) \<Rightarrow> (err (DeletePolicy (np_Name policy) e), s1)
         | (None, s1) \<Rightarrow> (Inr (), s1))
      else (Inr (), s))"

definition apply_desired ::
  "'s np_env \<Rightarrow> NetworkPolicy gmap \<Rightarrow> 's \<Rightarrow> (policy_error, unit) go \<times> 's" where
  "apply_desired env desired s =
     (case each_st (apply_policy env desired) policy_order s of
        (Inl f, s1) \<Rightarrow> (Inl f, s1)
      | (Inr _, s1) \<Rightarrow>
          (case np_List (ne_client env) (ne_ns env) s1 of
             Inl e \<Rightarrow> (err (ListPoliciesFailed e), s1)
           | Inr policies \<Rightarrow> each_st (prune_policy env desired) policies s1))"

text \<open>\<open>file\<close> is the content of the manifest, if it can be read.\<close>

definition applyNetworkPoliciesFromYaml ::
  "'s np_env \<Rightarrow> (string \<Rightarrow> string option) \<Rightarrow> (string \<Rightarrow> NetworkPolicy option) \<Rightarrow> string option \<Rightarrow> 's \<Rightarrow>
     (policy_error, unit) go \<times> 's" where
  "applyNetworkPoliciesFromYaml env toJSON unmarshal file s =
     (case file of
        None \<Rightarrow> (err ReadPoliciesFailed, s)
      | Some data \<Rightarrow>
          (case fold_go (decode_policy toJSON unmarshal (ne_ns env)) [] (Split data ''---'') of
             Inl f \<Rightarrow> (Inl f, s)
           | Inr desired \<Rightarrow>
               (case np_ListConfigs (ne_client env) (ne_ns env) s of
                  Inl e \<Rightarrow> (err (ListConfigsFailed e), s)
                | Inr configs \<Rightarrow> apply_desired env (add_chronyd (ne_ns env) configs desired) s)))"

section \<open>The desired policies are well formed\<close>

definition desired_ok :: "string \<Rightarrow> NetworkPolicy gmap \<Rightarrow> bool" where
  "desired_ok ns desired \<longleftrightarrow> (\<forall>n np. gget desired n = Some np \<longrightarrow>
     n \<in> set policy_order \<and> np_Name np = n \<and> om_Namespace (np_Meta np) = ns)"

lemma desired_okD:
  assumes "desired_ok ns desired" "gget desired n = Some np"
  shows "n \<in> set policy_order" "np_Name np = n" "om_Namespace (np_Meta np) = ns"
  using assms by (auto simp: desired_ok_def)

lemma operand_ordered: "set operand_policies \<subseteq> set policy_order"
  by code_simp

lemma chronyd_ordered: "chronyd_policy_name \<in> set policy_order"
  by code_simp

lemma decode_policy_ok:
  "decode_policy toJSON unmarshal ns desired doc = Inr d \<Longrightarrow> desired_ok ns desired \<Longrightarrow> desired_ok ns d"
  using operand_ordered
  by (auto simp: decode_policy_def Let_def desired_ok_def split: if_splits option.splits)

lemma decode_policies_ok:
  "fold_go (decode_policy toJSON unmarshal ns) desired docs = Inr d \<Longrightarrow> desired_ok ns desired \<Longrightarrow> desired_ok ns d"
  by (induction docs arbitrary: desired) (auto simp: bind_go_eq_Inr dest: decode_policy_ok)

lemma add_chronyd_ok: "desired_ok ns desired \<Longrightarrow> desired_ok ns (add_chronyd ns configs desired)"
  by (auto simp: add_chronyd_def desired_ok_def chronydNetworkPolicy_def Let_def chronyd_ordered)

section \<open>The order of creation\<close>

definition allow_policies :: "string list" where
  "allow_policies = take 9 policy_order"

definition deny_policies :: "string list" where
  "deny_policies = [''01-ptp-operator-default-deny'', ''06-linuxptp-daemon-default-deny'']"

lemma policy_order_split: "policy_order = allow_policies @ deny_policies"
  by code_simp

lemma allow_deny_apart: "set allow_policies \<inter> set deny_policies = {}"
  by code_simp

section \<open>The contract of the API server\<close>

text \<open>What the server keeps of a policy that is written: everything but the fields it assigns.\<close>

definition stored_as :: "NetworkPolicy \<Rightarrow> NetworkPolicy \<Rightarrow> bool" where
  "stored_as p p' \<longleftrightarrow> np_Name p' = np_Name p \<and> np_Spec p' = np_Spec p
     \<and> om_OwnerReferences (np_Meta p') = om_OwnerReferences (np_Meta p)"

text \<open>\<open>pol s\<close> are the policies of the operator's namespace, by name. Calls may fail; a failed call
  changes nothing.\<close>

locale policy_store =
  fixes env :: "'s np_env" and pol :: "'s \<Rightarrow> string \<Rightarrow> NetworkPolicy option"
  assumes get_missing: "np_Get (ne_client env) \<lparr>nn_Namespace = ne_ns env, nn_Name = n\<rparr> s = Inl NotFound \<Longrightarrow> pol s n = None"
    and get_found: "np_Get (ne_client env) \<lparr>nn_Namespace = ne_ns env, nn_Name = n\<rparr> s = Inr p \<Longrightarrow> pol s n = Some p"
    and pol_name: "pol s n = Some p \<Longrightarrow> np_Name p = n"
    and create_ok: "np_Create (ne_client env) p s = (None, s') \<Longrightarrow> om_Namespace (np_Meta p) = ne_ns env \<Longrightarrow>
      \<exists>p'. stored_as p p' \<and> pol s' = (pol s)(np_Name p \<mapsto> p')"
    and create_err: "np_Create (ne_client env) p s = (Some e, s') \<Longrightarrow> pol s' = pol s"
    and update_ok: "np_Update (ne_client env) p s = (None, s') \<Longrightarrow> pol s (np_Name p) \<noteq> None \<Longrightarrow>
      \<exists>p'. stored_as p p' \<and> pol s' = (pol s)(np_Name p \<mapsto> p')"
    and update_err: "np_Update (ne_client env) p s = (Some e, s') \<Longrightarrow> pol s' = pol s"
    and list_ok: "np_List (ne_client env) (ne_ns env) s = Inr ps \<Longrightarrow> set ps = {p. \<exists>n. pol s n = Some p}"
    and delete_ok: "np_Delete (ne_client env) p s = (None, s') \<Longrightarrow> pol s' = (pol s)(np_Name p := None)"
    and delete_err: "np_Delete (ne_client env) p s = (Some e, s') \<Longrightarrow>
      pol s' = pol s \<and> (e = NotFound \<longrightarrow> pol s (np_Name p) = None)"
begin

abbreviation owned :: "NetworkPolicy \<Rightarrow> bool" where
  "owned p \<equiv> IsControlledBy (np_Meta p) (ne_owner env)"

definition in_place :: "NetworkPolicy gmap \<Rightarrow> string \<Rightarrow> 's \<Rightarrow> bool" where
  "in_place desired n s \<longleftrightarrow> (\<forall>np. gget desired n = Some np \<longrightarrow>
     (\<exists>p. pol s n = Some p \<and> np_Spec p = np_Spec np \<and> owned p))"

text \<open>A step of the first loop writes at most the policy it is about, and only over nothing or over
  a policy of the owner.\<close>

definition wrote :: "NetworkPolicy gmap \<Rightarrow> string \<Rightarrow> 's \<Rightarrow> 's \<Rightarrow> bool" where
  "wrote desired n s s' \<longleftrightarrow> (\<exists>np p'. gget desired n = Some np \<and> pol s' = (pol s)(n \<mapsto> p')
     \<and> np_Spec p' = np_Spec np \<and> owned p' \<and> (\<forall>cur. pol s n = Some cur \<longrightarrow> owned cur))"

lemma owned_stored:
  assumes "stored_as p p'" "owned p" shows "owned p'"
  using assms by (simp add: stored_as_def IsControlledBy_def)

lemma create_effect:
  assumes "desired_ok (ne_ns env) desired" "gget desired n = Some np"
    and ref: "SetControllerReference (ne_scheme env) (ne_owner env) (np_Meta np) = Inr m"
    and "pol s n = None" "ends_with w (np_Create (ne_client env) (np\<lparr>np_Meta := m\<rparr>) s) = (r, s')"
  shows "(pol s' = pol s \<or> wrote desired n s s') \<and> (r = Inr () \<longrightarrow> in_place desired n s')"
proof (cases "np_Create (ne_client env) (np\<lparr>np_Meta := m\<rparr>) s")
  case (Pair e t)
  note np = desired_okD [OF assms(1,2)]
  obtain refs where m: "m = (np_Meta np)\<lparr>om_OwnerReferences := refs\<rparr>" "IsControlledBy m (ne_owner env)"
    using SetControllerReference_result [OF ref] by blast
  show ?thesis
  proof (cases e)
    case None
    with Pair np m obtain p' where p': "stored_as (np\<lparr>np_Meta := m\<rparr>) p'" "pol t = (pol s)(n \<mapsto> p')"
      using create_ok [of "np\<lparr>np_Meta := m\<rparr>" s t] by auto
    have "owned p'" using owned_stored [OF p'(1)] m(2) by simp
    with p' have "wrote desired n s t" "in_place desired n t"
      using assms(2,4) by (auto simp: wrote_def in_place_def stored_as_def)
    with Pair None assms(5) show ?thesis by (simp add: ends_with_def)
  next
    case (Some x)
    with Pair assms(5) create_err [of "np\<lparr>np_Meta := m\<rparr>" s x t] show ?thesis by (auto simp: ends_with_def)
  qed
qed

lemma update_effect:
  assumes "gget desired n = Some np" "pol s n = Some cur" "owned cur"
    and "ends_with w (np_Update (ne_client env) (cur\<lparr>np_Spec := np_Spec np\<rparr>) s) = (r, s')"
  shows "(pol s' = pol s \<or> wrote desired n s s') \<and> (r = Inr () \<longrightarrow> in_place desired n s')"
proof (cases "np_Update (ne_client env) (cur\<lparr>np_Spec := np_Spec np\<rparr>) s")
  case (Pair e t)
  have n: "np_Name cur = n" by (rule pol_name [OF assms(2)])
  show ?thesis
  proof (cases e)
    case None
    with Pair n assms(2) obtain p' where p': "stored_as (cur\<lparr>np_Spec := np_Spec np\<rparr>) p'" "pol t = (pol s)(n \<mapsto> p')"
      using update_ok [of "cur\<lparr>np_Spec := np_Spec np\<rparr>" s t] by auto
    have "owned p'" using owned_stored [OF p'(1)] assms(3) by simp
    with p' have "wrote desired n s t" "in_place desired n t"
      using assms(1-3) by (auto simp: wrote_def in_place_def stored_as_def)
    with Pair None assms(4) show ?thesis by (simp add: ends_with_def)
  next
    case (Some x)
    with Pair assms(4) update_err [of "cur\<lparr>np_Spec := np_Spec np\<rparr>" s x t] show ?thesis by (auto simp: ends_with_def)
  qed
qed

lemma apply_effect:
  assumes "desired_ok (ne_ns env) desired" "apply_policy env desired n s = (r, s')"
  shows "(pol s' = pol s \<or> wrote desired n s s') \<and> (r = Inr () \<longrightarrow> in_place desired n s')"
proof (cases "gget desired n")
  case None
  with assms(2) show ?thesis by (auto simp: apply_policy_def in_place_def)
next
  case (Some np)
  show ?thesis
  proof (cases "SetControllerReference (ne_scheme env) (ne_owner env) (np_Meta np)")
    case (Inl f)
    with Some assms(2) show ?thesis by (cases f) (auto simp: apply_policy_def wrap_err_def)
  next
    case (Inr m)
    note step = assms(2) [unfolded apply_policy_def Some option.case Inr wrap_err_Inr sum.case]
    show ?thesis
    proof (cases "np_Get (ne_client env) \<lparr>nn_Namespace = ne_ns env, nn_Name = n\<rparr> s")
      case (Inl e)
      with step show ?thesis
        using create_effect [OF assms(1) Some Inr get_missing, of s]
        by (cases e) (auto simp: err_def)
    next
      case get: (Inr cur)
      with step Some show ?thesis
        using update_effect [OF Some get_found [OF get]] get_found [OF get]
        by (auto simp: in_place_def err_def split: if_splits)
    qed
  qed
qed

lemma apply_frame:
  assumes "desired_ok (ne_ns env) desired" "each_st (apply_policy env desired) ns s = (r, s')"
    and "k \<notin> set ns \<or> gget desired k = None"
  shows "pol s' k = pol s k"
proof -
  have "pol t' k = pol s k" if "n \<in> set ns" "pol t k = pol s k" "apply_policy env desired n t = (r', t')" for n t r' t'
    using apply_effect [OF assms(1) that(3)] that(1,2) assms(3) by (auto simp: wrote_def)
  from each_st_keeps [where P = "\<lambda>t. pol t k = pol s k", OF this refl assms(2)] show ?thesis .
qed

lemma apply_foreign:
  assumes "desired_ok (ne_ns env) desired" "each_st (apply_policy env desired) ns s = (r, s')"
    and "pol s k = Some q" "\<not> owned q"
  shows "pol s' k = Some q"
proof -
  have "pol t' k = Some q" if "n \<in> set ns" "pol t k = Some q" "apply_policy env desired n t = (r', t')" for n t r' t'
    using apply_effect [OF assms(1) that(3)] that(2) assms(4) by (auto simp: wrote_def)
  from each_st_keeps [where P = "\<lambda>t. pol t k = Some q", OF this assms(3,2)] show ?thesis .
qed

lemma apply_all:
  assumes "desired_ok (ne_ns env) desired" "each_st (apply_policy env desired) ns s = (Inr (), s')" "n \<in> set ns"
  shows "in_place desired n s'"
proof -
  have step: "in_place desired x t'" if "apply_policy env desired x t = (Inr (), t')" for x t t'
    using apply_effect [OF assms(1) that] by blast
  have keep: "in_place desired x t'" if "in_place desired x t" "apply_policy env desired y t = (Inr (), t')" for x y t t'
  proof (cases "x = y")
    case True
    with step [OF that(2)] show ?thesis by blast
  next
    case False
    with apply_effect [OF assms(1) that(2)] have "pol t' x = pol t x" by (auto simp: wrote_def)
    with that(1) show ?thesis by (simp add: in_place_def)
  qed
  show ?thesis by (rule each_st_does [where Q = "in_place desired", OF step keep assms(2,3)])
qed

text \<open>The second loop.\<close>

definition stale :: "NetworkPolicy gmap \<Rightarrow> NetworkPolicy \<Rightarrow> bool" where
  "stale desired p \<longleftrightarrow> owned p \<and> gget desired (np_Name p) = None \<and> np_Name p \<in> set removable_policies"

lemma prune_effect:
  assumes "prune_policy env desired p s = (r, s')"
  shows "(pol s' = pol s \<or> (stale desired p \<and> pol s' = (pol s)(np_Name p := None)))
    \<and> (r = Inr () \<longrightarrow> stale desired p \<longrightarrow> pol s' (np_Name p) = None)"
proof (cases "stale desired p")
  case False
  with assms show ?thesis by (auto simp: prune_policy_def stale_def split: if_splits)
next
  case True
  obtain e t where d: "np_Delete (ne_client env) p s = (e, t)" by (cases "np_Delete (ne_client env) p s")
  note step = assms [unfolded prune_policy_def d]
  show ?thesis
  proof (cases e)
    case None
    with d True step delete_ok [of p s t] show ?thesis by (auto simp: stale_def)
  next
    case (Some x)
    with d delete_err [of p s x t] have "pol t = pol s" "x = NotFound \<longrightarrow> pol s (np_Name p) = None" by auto
    with Some True step show ?thesis by (cases x) (auto simp: stale_def err_def)
  qed
qed

lemma prune_frame:
  assumes "each_st (prune_policy env desired) ps s = (r, s')" "\<forall>p \<in> set ps. np_Name p = k \<longrightarrow> \<not> stale desired p"
  shows "pol s' k = pol s k"
proof -
  have "pol t' k = pol s k" if "p \<in> set ps" "pol t k = pol s k" "prune_policy env desired p t = (r', t')" for p t r' t'
    using prune_effect [OF that(3)] that(1,2) assms(2) by auto
  from each_st_keeps [where P = "\<lambda>t. pol t k = pol s k", OF this refl assms(1)] show ?thesis .
qed

lemma prune_all:
  assumes "each_st (prune_policy env desired) ps s = (Inr (), s')" "p \<in> set ps" "stale desired p"
  shows "pol s' (np_Name p) = None"
proof -
  let ?Q = "\<lambda>p t. stale desired p \<longrightarrow> pol t (np_Name p) = None"
  have step: "?Q x t'" if "prune_policy env desired x t = (Inr (), t')" for x t t'
    using prune_effect [OF that] by blast
  have keep: "?Q x t'" if "?Q x t" "prune_policy env desired y t = (Inr (), t')" for x y t t'
    using prune_effect [OF that(2)] that(1) by (auto split: if_splits)
  have "?Q p s'" by (rule each_st_does [where Q = ?Q, OF step keep assms(1,2)])
  with assms(3) show ?thesis by blast
qed

lemma list_stale:
  assumes "np_List (ne_client env) (ne_ns env) s = Inr ps"
  shows "(\<exists>p \<in> set ps. np_Name p = k \<and> stale desired p) \<longleftrightarrow> (\<exists>p. pol s k = Some p \<and> stale desired p)"
  using list_ok [OF assms] pol_name by auto

text \<open>Both loops, with the outcome they have.\<close>

lemma converge:
  assumes d: "desired_ok (ne_ns env) desired" and ok: "apply_desired env desired s = (Inr (), s')"
  shows "in_place desired n s'"
    and "gget desired n = None \<Longrightarrow> pol s' n =
      (case pol s n of Some p \<Rightarrow> if owned p \<and> n \<in> set removable_policies then None else Some p | None \<Rightarrow> None)"
proof -
  from ok obtain s1 ps where a: "each_st (apply_policy env desired) policy_order s = (Inr (), s1)"
    and l: "np_List (ne_client env) (ne_ns env) s1 = Inr ps" and p: "each_st (prune_policy env desired) ps s1 = (Inr (), s')"
    by (auto simp: apply_desired_def split: sum.splits prod.splits)
  show "in_place desired n s'"
  proof (cases "gget desired n")
    case (Some np)
    have "pol s' n = pol s1 n" by (rule prune_frame [OF p]) (auto simp: stale_def Some)
    with apply_all [OF d a desired_okD(1) [OF d Some]] show ?thesis by (simp add: in_place_def)
  qed (simp add: in_place_def)
  assume none: "gget desired n = None"
  then have s1: "pol s1 n = pol s n" by (intro apply_frame [OF d a]) simp
  have stale: "stale desired q \<longleftrightarrow> owned q \<and> n \<in> set removable_policies" if "pol s1 n = Some q" for q
    using pol_name [OF that] none by (simp add: stale_def)
  show "pol s' n = (case pol s n of Some p \<Rightarrow> if owned p \<and> n \<in> set removable_policies then None else Some p | None \<Rightarrow> None)"
  proof (cases "\<exists>q. pol s1 n = Some q \<and> stale desired q")
    case True
    then obtain q where q: "q \<in> set ps" "np_Name q = n" "stale desired q" using list_stale [OF l] by blast
    from prune_all [OF p q(1,3)] q(2) have "pol s' n = None" by simp
    moreover obtain q' where q': "pol s1 n = Some q'" "stale desired q'" using True by blast
    ultimately show ?thesis using stale [OF q'(1)] s1 by simp
  next
    case False
    with list_stale [OF l] have "pol s' n = pol s1 n" by (intro prune_frame [OF p]) blast
    with False stale s1 show ?thesis by (cases "pol s n") simp_all
  qed
qed

lemma foreign_kept:
  assumes d: "desired_ok (ne_ns env) desired" and run: "apply_desired env desired s = (r, s')"
    and q: "pol s n = Some q" "\<not> owned q"
  shows "pol s' n = Some q"
proof -
  obtain r1 s1 where a: "each_st (apply_policy env desired) policy_order s = (r1, s1)"
    by (cases "each_st (apply_policy env desired) policy_order s")
  note s1 = apply_foreign [OF d a q]
  show ?thesis
  proof (cases "\<exists>ps. r1 = Inr () \<and> np_List (ne_client env) (ne_ns env) s1 = Inr ps")
    case True
    then obtain ps where l: "np_List (ne_client env) (ne_ns env) s1 = Inr ps" and "r1 = Inr ()" by blast
    with a run have p: "each_st (prune_policy env desired) ps s1 = (r, s')" by (simp add: apply_desired_def)
    have "\<not> (\<exists>p. pol s1 n = Some p \<and> stale desired p)" using s1 q(2) by (auto simp: stale_def)
    with list_stale [OF l] have "pol s' n = pol s1 n" by (intro prune_frame [OF p]) blast
    with s1 show ?thesis by simp
  qed (use a run s1 in \<open>auto simp: apply_desired_def split: sum.splits\<close>)
qed

lemma place_kept: "in_place desired n s \<Longrightarrow> pol s' n = pol s n \<Longrightarrow> in_place desired n s'"
  by (simp add: in_place_def)

lemma prune_keeps_place:
  assumes "each_st (prune_policy env desired) ps s = (r, s')" "in_place desired n s"
  shows "in_place desired n s'"
proof (cases "gget desired n")
  case (Some np)
  have "pol s' n = pol s n" by (rule prune_frame [OF assms(1)]) (auto simp: stale_def Some)
  with place_kept [OF assms(2)] show ?thesis .
qed (simp add: in_place_def)

lemma deny_after_allow:
  assumes d: "desired_ok (ne_ns env) desired" and run: "apply_desired env desired s = (r, s')"
    and deny: "x \<in> set deny_policies" "pol s' x \<noteq> pol s x" "pol s' x \<noteq> None" and n: "n \<in> set allow_policies"
  shows "in_place desired n s'"
proof -
  let ?f = "apply_policy env desired"
  obtain r1 s1 where a: "each_st ?f allow_policies s = (r1, s1)" by (cases "each_st ?f allow_policies s")
  have x: "pol s1 x = pol s x" by (rule apply_frame [OF d a]) (use allow_deny_apart deny(1) in blast)
  show ?thesis
  proof (cases r1)
    case (Inl f)
    with a run have "s' = s1" by (simp add: apply_desired_def policy_order_split each_st_append)
    with x deny(2) show ?thesis by simp
  next
    case (Inr u)
    with a have place: "in_place desired n s1" by (intro apply_all [OF d _ n]) simp
    obtain r2 s2 where b: "each_st ?f deny_policies s1 = (r2, s2)" by (cases "each_st ?f deny_policies s1")
    have "pol s2 n = pol s1 n" by (rule apply_frame [OF d b]) (use allow_deny_apart n in blast)
    with place_kept [OF place] have s2: "in_place desired n s2" .
    have "each_st ?f policy_order s = (r2, s2)" using a b Inr by (simp add: policy_order_split each_st_append)
    with run s2 show ?thesis
      by (auto simp: apply_desired_def split: sum.splits intro: prune_keeps_place)
  qed
qed

end

section \<open>Policies in memory\<close>

type_synonym mem_policies = "NetworkPolicy list \<times> PtpConfigList"

definition mem_pol :: "mem_policies \<Rightarrow> string \<Rightarrow> NetworkPolicy option" where
  "mem_pol s n = find (\<lambda>p. np_Name p = n) (fst s)"

definition mem_np_client :: "string \<Rightarrow> mem_policies np_client" where
  "mem_np_client ns = \<lparr>
     np_Get = \<lambda>k s. if nn_Namespace k = ns then found (mem_pol s (nn_Name k)) else Inl NotFound,
     np_Create = \<lambda>p s. if mem_pol s (np_Name p) = None then (None, (fst s @ [p], snd s)) else (Some (OtherError ''exists''), s),
     np_Update = \<lambda>p s. if mem_pol s (np_Name p) = None then (Some NotFound, s)
       else (None, (p # filter (\<lambda>q. np_Name q \<noteq> np_Name p) (fst s), snd s)),
     np_List = \<lambda>_ s. Inr (filter (\<lambda>p. mem_pol s (np_Name p) = Some p) (fst s)),
     np_Delete = \<lambda>p s. if mem_pol s (np_Name p) = None then (Some NotFound, s)
       else (None, (filter (\<lambda>q. np_Name q \<noteq> np_Name p) (fst s), snd s)),
     np_ListConfigs = \<lambda>_ s. Inr (snd s)\<rparr>"

definition mem_np_env :: "string \<Rightarrow> GroupVersionKind option \<Rightarrow> ObjectMeta \<Rightarrow> mem_policies np_env" where
  "mem_np_env ns scheme owner = \<lparr>ne_client = mem_np_client ns, ne_ns = ns, ne_scheme = scheme, ne_owner = owner\<rparr>"

lemma find_filter_other:
  "find (\<lambda>p. np_Name p = n) (filter (\<lambda>q. np_Name q \<noteq> k) ps) = (if n = k then None else find (\<lambda>p. np_Name p = n) ps)"
  by (induction ps) auto

lemma find_snoc: "find P (xs @ [x]) = (case find P xs of Some y \<Rightarrow> Some y | None \<Rightarrow> if P x then Some x else None)"
  by (induction xs) auto

interpretation memp: policy_store "mem_np_env ns scheme owner" mem_pol
proof unfold_locales
  fix s p n and ps :: "NetworkPolicy list"
  show "mem_pol s n = Some p \<Longrightarrow> np_Name p = n" by (auto simp: mem_pol_def find_Some_iff)
  assume "np_List (ne_client (mem_np_env ns scheme owner)) (ne_ns (mem_np_env ns scheme owner)) s = Inr ps"
  then have "ps = filter (\<lambda>p. mem_pol s (np_Name p) = Some p) (fst s)" by (simp add: mem_np_env_def mem_np_client_def)
  moreover have "p \<in> set (fst s)" "mem_pol s (np_Name p) = Some p" if "mem_pol s n = Some p" for n p
    using that by (auto simp: mem_pol_def find_Some_iff)
  ultimately show "set ps = {p. \<exists>n. mem_pol s n = Some p}" by fastforce
qed (auto simp: mem_np_env_def mem_np_client_def found_def stored_as_def mem_pol_def find_filter_other find_snoc fun_eq_iff
    split: option.splits if_splits)

section \<open>Properties\<close>

text \<open>The policies a run works towards, when the manifest and the resources can be read.\<close>

definition wanted_policies ::
  "'s np_env \<Rightarrow> (string \<Rightarrow> string option) \<Rightarrow> (string \<Rightarrow> NetworkPolicy option) \<Rightarrow> string option \<Rightarrow> 's \<Rightarrow>
     NetworkPolicy gmap option" where
  "wanted_policies env toJSON unmarshal file s =
     (case file of
        None \<Rightarrow> None
      | Some data \<Rightarrow>
          (case (fold_go (decode_policy toJSON unmarshal (ne_ns env)) [] (Split data ''---''),
                 np_ListConfigs (ne_client env) (ne_ns env) s) of
             (Inr desired, Inr configs) \<Rightarrow> Some (add_chronyd (ne_ns env) configs desired)
           | _ \<Rightarrow> None))"

lemma apply_wanted:
  "wanted_policies env toJSON unmarshal file s = Some desired \<Longrightarrow>
     applyNetworkPoliciesFromYaml env toJSON unmarshal file s = apply_desired env desired s \<and> desired_ok (ne_ns env) desired"
proof -
  assume w: "wanted_policies env toJSON unmarshal file s = Some desired"
  have "desired_ok (ne_ns env) []" by (simp add: desired_ok_def)
  with w show ?thesis
    by (auto simp: wanted_policies_def applyNetworkPoliciesFromYaml_def
        split: option.splits sum.splits intro!: add_chronyd_ok dest: decode_policies_ok)
qed

lemma apply_unwanted:
  "wanted_policies env toJSON unmarshal file s = None \<Longrightarrow>
     \<exists>f. applyNetworkPoliciesFromYaml env toJSON unmarshal file s = (Inl f, s)"
  by (auto simp: wanted_policies_def applyNetworkPoliciesFromYaml_def err_def split: option.splits sum.splits)

text \<open>C8: The policies converge. After a successful run, every wanted policy exists with the wanted spec and
  is controlled by the PtpOperatorConfig; every other policy of the operator whose name is on the
  list of removable ones is gone; and all remaining policies of the namespace are as they were. A
  run that cannot read its inputs writes nothing.\<close>

theorem policies_converge:
  assumes "policy_store env pol"
  shows "case wanted_policies env toJSON unmarshal file s of
      None \<Rightarrow> \<exists>f. applyNetworkPoliciesFromYaml env toJSON unmarshal file s = (Inl f, s)
    | Some desired \<Rightarrow> \<forall>s'. applyNetworkPoliciesFromYaml env toJSON unmarshal file s = (Inr (), s') \<longrightarrow>
        (\<forall>n. case gget desired n of
           Some np \<Rightarrow> (\<exists>p. pol s' n = Some p \<and> np_Spec p = np_Spec np \<and> IsControlledBy (np_Meta p) (ne_owner env))
         | None \<Rightarrow> pol s' n = (case pol s n of
             Some p \<Rightarrow> if IsControlledBy (np_Meta p) (ne_owner env) \<and> n \<in> set removable_policies then None else Some p
           | None \<Rightarrow> None))"
proof (cases "wanted_policies env toJSON unmarshal file s")
  case (Some desired)
  note w = apply_wanted [OF Some]
  note conv = policy_store.converge [OF assms conjunct2 [OF w]]
  show ?thesis unfolding Some using conv w
    by (auto simp: policy_store.in_place_def [OF assms] split: option.split)
qed (simp add: apply_unwanted)

text \<open>C9: Allow rules come first. Whatever the outcome of a run, also when a call to the API server fails
  half way, a default-deny policy that the run created or changed is only there together with
  every wanted allow policy, each with its wanted spec: the pods are never cut off by a partial
  run.\<close>

theorem allow_before_deny:
  assumes "policy_store env pol" "wanted_policies env toJSON unmarshal file s = Some desired"
    and "applyNetworkPoliciesFromYaml env toJSON unmarshal file s = (r, s')"
    and "x \<in> {''01-ptp-operator-default-deny'', ''06-linuxptp-daemon-default-deny''}"
    and "pol s' x \<noteq> pol s x" "pol s' x \<noteq> None"
    and "n \<notin> {''01-ptp-operator-default-deny'', ''06-linuxptp-daemon-default-deny''}" "gget desired n = Some np"
  shows "\<exists>p. pol s' n = Some p \<and> np_Spec p = np_Spec np \<and> IsControlledBy (np_Meta p) (ne_owner env)"
proof -
  note w = apply_wanted [OF assms(2)]
  have run: "apply_desired env desired s = (r, s')" using w assms(3) by simp
  have x: "x \<in> set deny_policies" using assms(4) by (simp add: deny_policies_def)
  have "n \<notin> set deny_policies" using assms(7) by (simp add: deny_policies_def)
  then have n: "n \<in> set allow_policies"
    using desired_okD(1) [OF conjunct2 [OF w] assms(8)] by (simp add: policy_order_split)
  from policy_store.deny_after_allow [OF assms(1) conjunct2 [OF w] run x assms(5,6) n] assms(8)
  show ?thesis by (simp add: policy_store.in_place_def [OF assms(1)])
qed

text \<open>C22: Policies of others are safe. A policy of the namespace that the PtpOperatorConfig does not
  control is neither changed nor deleted by a run, whatever its name and whatever the outcome; and
  if its name is a wanted one, the run does not succeed.\<close>

theorem foreign_policies_kept:
  assumes "policy_store env pol" "applyNetworkPoliciesFromYaml env toJSON unmarshal file s = (r, s')"
    and "pol s n = Some q" "\<not> IsControlledBy (np_Meta q) (ne_owner env)"
  shows "pol s' n = Some q
    \<and> (\<forall>desired. wanted_policies env toJSON unmarshal file s = Some desired \<longrightarrow> gget desired n \<noteq> None \<longrightarrow> r \<noteq> Inr ())"
proof (cases "wanted_policies env toJSON unmarshal file s")
  case None
  with apply_unwanted [OF None] assms(2,3) show ?thesis by auto
next
  case (Some desired)
  note w = apply_wanted [OF Some]
  have run: "apply_desired env desired s = (r, s')" using w assms(2) by simp
  note q = policy_store.foreign_kept [OF assms(1) conjunct2 [OF w] run assms(3,4)]
  have "r \<noteq> Inr ()" if np: "gget desired n = Some np" for np
  proof
    assume "r = Inr ()"
    with run have "apply_desired env desired s = (Inr (), s')" by simp
    from policy_store.converge(1) [OF assms(1) conjunct2 [OF w] this, of n] np q assms(4)
    show False by (simp add: policy_store.in_place_def [OF assms(1)])
  qed
  with q Some show ?thesis by auto
qed

section \<open>Witnesses\<close>

definition wit_owner :: ObjectMeta where
  "wit_owner = \<lparr>om_Name = ''default'', om_Namespace = ''openshift-ptp'', om_Generation = 1, om_UID = ''uid-1'',
     om_ResourceVersion = ''7'', om_OwnerReferences = []\<rparr>"

definition wit_gvk :: GroupVersionKind where
  "wit_gvk = \<lparr>gvk_Group = ''ptp.openshift.io'', gvk_Version = ''v1'', gvk_Kind = ''PtpOperatorConfig''\<rparr>"

text \<open>A decoder that reads a document as the name of a policy.\<close>

definition wit_unmarshal :: "string \<Rightarrow> NetworkPolicy option" where
  "wit_unmarshal t = Some ((chronydNetworkPolicy ''x'')\<lparr>np_Meta := wit_owner\<lparr>om_Name := t, om_UID := ''''\<rparr>\<rparr>)"

definition wit_manifest :: string where
  "wit_manifest = ''06-linuxptp-daemon-default-deny'' @ newline @ ''---'' @ newline @ ''07-linuxptp-daemon-egress-dns'' @ newline"

definition wit_policy :: "string \<Rightarrow> bool \<Rightarrow> NetworkPolicy" where
  "wit_policy n mine = \<lparr>np_Meta = wit_owner\<lparr>om_Name := n, om_UID := ''p'',
       om_OwnerReferences := (if mine then [owner_ref wit_gvk wit_owner] else [])\<rparr>,
     np_Spec = \<lparr>nps_PodSelector = [], nps_PolicyTypes = [], nps_Ingress = [], nps_Egress = []\<rparr>\<rparr>"

definition wit_policies :: mem_policies where
  "wit_policies = ([wit_policy ''allow-metrics-traffic'' True, wit_policy ''custom'' False], [])"

definition wit_run :: "(policy_error, unit) go \<times> mem_policies" where
  "wit_run = applyNetworkPoliciesFromYaml (mem_np_env ''openshift-ptp'' (Some wit_gvk) wit_owner) Some wit_unmarshal
     (Some wit_manifest) wit_policies"

definition wit_wanted :: "NetworkPolicy gmap option" where
  "wit_wanted = wanted_policies (mem_np_env ''openshift-ptp'' (Some wit_gvk) wit_owner) Some wit_unmarshal
     (Some wit_manifest) wit_policies"

lemma wit_run_ok: "fst wit_run = Inr ()" "map np_Name (fst (snd wit_run)) =
    [''custom'', ''07-linuxptp-daemon-egress-dns'', ''06-linuxptp-daemon-default-deny'']"
  "map_option gkeys wit_wanted = Some [''06-linuxptp-daemon-default-deny'', ''07-linuxptp-daemon-egress-dns'']"
  by code_simp+

abbreviation wit_np_env :: "mem_policies np_env" where
  "wit_np_env \<equiv> mem_np_env ''openshift-ptp'' (Some wit_gvk) wit_owner"

lemma wit_run_eq:
  "applyNetworkPoliciesFromYaml wit_np_env Some wit_unmarshal (Some wit_manifest) wit_policies = (Inr (), snd wit_run)"
  using wit_run_ok(1) by (simp add: wit_run_def prod_eq_iff)

lemma wit_wanted_eq:
  obtains desired where "wanted_policies wit_np_env Some wit_unmarshal (Some wit_manifest) wit_policies = Some desired"
    "gkeys desired = [''06-linuxptp-daemon-default-deny'', ''07-linuxptp-daemon-egress-dns'']"
  using wit_run_ok(3) that by (auto simp: wit_wanted_def)

lemma wit_gget: "gkeys m = [''06-linuxptp-daemon-default-deny'', ''07-linuxptp-daemon-egress-dns''] \<Longrightarrow>
    n \<in> {''06-linuxptp-daemon-default-deny'', ''07-linuxptp-daemon-egress-dns''} \<Longrightarrow> \<exists>np. gget m n = Some np"
  using gget_eq_None_iff [of m n] by auto

theorem policies_converge_witness:
  "\<exists>p. mem_pol (snd wit_run) ''07-linuxptp-daemon-egress-dns'' = Some p \<and> IsControlledBy (np_Meta p) wit_owner"
proof -
  obtain desired where w: "wanted_policies wit_np_env Some wit_unmarshal (Some wit_manifest) wit_policies = Some desired"
    and k: "gkeys desired = [''06-linuxptp-daemon-default-deny'', ''07-linuxptp-daemon-egress-dns'']" by (rule wit_wanted_eq)
  obtain np where np: "gget desired ''07-linuxptp-daemon-egress-dns'' = Some np" using wit_gget [OF k] by blast
  note conv = policies_converge [of wit_np_env mem_pol Some wit_unmarshal "Some wit_manifest" wit_policies,
      OF memp.policy_store_axioms, unfolded w option.case, rule_format, OF wit_run_eq, of "''07-linuxptp-daemon-egress-dns''"]
  have "\<exists>p. mem_pol (snd wit_run) ''07-linuxptp-daemon-egress-dns'' = Some p \<and> np_Spec p = np_Spec np
      \<and> IsControlledBy (np_Meta p) (ne_owner wit_np_env)"
    using conv unfolding np option.case .
  then show ?thesis by (auto simp: mem_np_env_def)
qed

theorem allow_before_deny_witness:
  "\<exists>p. mem_pol (snd wit_run) ''07-linuxptp-daemon-egress-dns'' = Some p"
proof -
  obtain desired where w: "wanted_policies wit_np_env Some wit_unmarshal (Some wit_manifest) wit_policies = Some desired"
    and k: "gkeys desired = [''06-linuxptp-daemon-default-deny'', ''07-linuxptp-daemon-egress-dns'']" by (rule wit_wanted_eq)
  obtain np where np: "gget desired ''07-linuxptp-daemon-egress-dns'' = Some np" using wit_gget [OF k] by blast
  have old: "mem_pol wit_policies ''06-linuxptp-daemon-default-deny'' = None" by code_simp
  have new: "mem_pol (snd wit_run) ''06-linuxptp-daemon-default-deny'' \<noteq> None" by code_simp
  have "\<exists>p. mem_pol (snd wit_run) ''07-linuxptp-daemon-egress-dns'' = Some p \<and> np_Spec p = np_Spec np
      \<and> IsControlledBy (np_Meta p) (ne_owner wit_np_env)"
    by (rule allow_before_deny [OF memp.policy_store_axioms w wit_run_eq, of "''06-linuxptp-daemon-default-deny''"])
      (use np old new in simp_all)
  then show ?thesis by blast
qed

theorem foreign_policies_kept_witness:
  "mem_pol (snd wit_run) ''custom'' = Some (wit_policy ''custom'' False)"
proof -
  have "mem_pol wit_policies ''custom'' = Some (wit_policy ''custom'' False)" by code_simp
  moreover have "\<not> IsControlledBy (np_Meta (wit_policy ''custom'' False)) (ne_owner wit_np_env)" by code_simp
  ultimately show ?thesis using foreign_policies_kept [OF memp.policy_store_axioms wit_run_eq] by blast
qed

end
