(* ===== verification/Render.thy ===== *)
theory Render
  imports Prelude Go_Strings Unstructured
begin

text \<open>
  Rendering of manifests (\<open>pkg/render\<close>). The template engine, the files and the YAML decoder are
  parameters; what the package does with them, and the two functions it adds to templates, are
  modelled.
\<close>

section \<open>Template data\<close>

datatype tval = TStr string | TBool bool

type_synonym tdata = "tval gmap"

definition getOr :: "tdata \<Rightarrow> string \<Rightarrow> string \<Rightarrow> tval" where
  "getOr m key fallback =
     (case gget m key of
        None \<Rightarrow> TStr fallback
      | Some val \<Rightarrow> if val = TStr '''' then TStr fallback else val)"

definition isSet :: "tdata \<Rightarrow> string \<Rightarrow> tval" where
  "isSet m key = (case gget m key of None \<Rightarrow> TBool False | Some val \<Rightarrow> val)"

definition MakeRenderData :: tdata where
  "MakeRenderData = []"

section \<open>Manifests\<close>

datatype render_error =
    ReadManifest string
  | ParseManifest string
  | ExecuteManifest string
  | UnmarshalManifest string
  | WalkManifests

text \<open>\<open>re_execute\<close> is the execution of a parsed template on the data, with \<open>missingkey=error\<close>;
  \<open>re_decode\<close> gives the outcomes of the decoder until the end of the text, \<open>None\<close> for an error.\<close>

record render_env =
  re_read :: "string \<Rightarrow> string option"
  re_parses :: "string \<Rightarrow> bool"
  re_execute :: "string \<Rightarrow> tdata \<Rightarrow> string option"
  re_decode :: "string \<Rightarrow> obj option list"

fun decode_all :: "string \<Rightarrow> obj option list \<Rightarrow> (render_error, obj list) go" where
  "decode_all path [] = Inr []"
| "decode_all path (None # us) = err (UnmarshalManifest path)"
| "decode_all path (Some u # us) = bind_go (decode_all path us) (\<lambda>out. Inr (u # out))"

definition RenderTemplate :: "render_env \<Rightarrow> string \<Rightarrow> tdata \<Rightarrow> (render_error, obj list) go" where
  "RenderTemplate env path d =
     (case re_read env path of
        None \<Rightarrow> err (ReadManifest path)
      | Some source \<Rightarrow>
          if \<not> re_parses env source then err (ParseManifest path)
          else case re_execute env source d of
            None \<Rightarrow> err (ExecuteManifest path)
          | Some rendered \<Rightarrow>
              if TrimSpace rendered = '''' then Inr []
              else decode_all path (re_decode env rendered))"

text \<open>The entries \<open>filepath.Walk\<close> visits.\<close>

datatype walk_entry = WalkFailed | WalkDir string | WalkFile string

definition is_manifest :: "string \<Rightarrow> bool" where
  "is_manifest path \<longleftrightarrow> HasSuffix path ''.yml'' \<or> HasSuffix path ''.yaml'' \<or> HasSuffix path ''.json''"

definition render_entry ::
  "render_env \<Rightarrow> tdata \<Rightarrow> obj list \<Rightarrow> walk_entry \<Rightarrow> (render_error, obj list) go" where
  "render_entry env d out e =
     (case e of
        WalkFailed \<Rightarrow> err WalkManifests
      | WalkDir path \<Rightarrow> Inr out
      | WalkFile path \<Rightarrow>
          if \<not> is_manifest path then Inr out
          else bind_go (RenderTemplate env path d) (\<lambda>objs. Inr (out @ objs)))"

definition RenderDir :: "render_env \<Rightarrow> tdata \<Rightarrow> walk_entry list \<Rightarrow> (render_error, obj list) go" where
  "RenderDir env d entries = fold_go (render_entry env d) [] entries"

end
