(* ===== verification/Operator_Controller.thy ===== *)
theory Operator_Controller
  imports Network_Policies Render Status_Conditions
begin

text \<open>
  The PtpOperatorConfig controller (\<open>controllers/ptpoperatorconfig_controller.go\<close>): the default
  resource, a NodePtpDevice for every node, the two config maps, the network policies, and the
  rendered DaemonSet and event services. Everything the controller takes from outside is in
  \<open>op_env\<close>.
\<close>

section \<open>Environment\<close>

record TLSProfileSpec =
  tls_Ciphers :: "string list"
  tls_MinTLSVersion :: string
  tls_Groups :: "string list"

text \<open>\<open>oe_iana\<close> and \<open>oe_curves\<close> are library-go's conversions of cipher and group names; \<open>oe_toDS\<close> and
  \<open>oe_fromDS\<close> the conversions of the scheme; \<open>oe_url_ok\<close> is \<open>url.Parse\<close> succeeding.\<close>

record 's op_env =
  oe_ns :: string
  oe_scheme :: "GroupVersionKind option"
  oe_order :: range_order
  oe_getenv :: "string \<Rightarrow> string option"
  oe_readFile :: "string \<Rightarrow> string option"
  oe_toJSON :: "string \<Rightarrow> string option"
  oe_unmarshal :: "string \<Rightarrow> NetworkPolicy option"
  oe_render :: render_env
  oe_url_ok :: "string \<Rightarrow> bool"
  oe_tls :: "TLSProfileSpec option"
  oe_iana :: "string list \<Rightarrow> string list"
  oe_curves :: "string list \<Rightarrow> int list"
  oe_toDS :: "obj \<Rightarrow> DaemonSet option"
  oe_fromDS :: "DaemonSet \<Rightarrow> obj option"
  oe_norm :: "string \<Rightarrow> string"
  oe_policies :: "'s np_client"
  oe_objects :: "'s kclient"
  oe_GetConfig :: "NamespacedName \<Rightarrow> 's \<Rightarrow> api_error + PtpOperatorConfig"
  oe_CreateConfig :: "PtpOperatorConfig \<Rightarrow> 's \<Rightarrow> api_error option \<times> 's"
  oe_ListNodes :: "'s \<Rightarrow> api_error + Node list"
  oe_GetDevice :: "NamespacedName \<Rightarrow> 's \<Rightarrow> api_error + NodePtpDevice"
  oe_CreateDevice :: "NodePtpDevice \<Rightarrow> 's \<Rightarrow> api_error option \<times> 's"
  oe_GetConfigMap :: "NamespacedName \<Rightarrow> 's \<Rightarrow> api_error + ConfigMap"
  oe_CreateConfigMap :: "ConfigMap \<Rightarrow> 's \<Rightarrow> api_error option \<times> 's"

definition getenv :: "'s op_env \<Rightarrow> string \<Rightarrow> string" where
  "getenv env k = (case oe_getenv env k of None \<Rightarrow> '''' | Some v \<Rightarrow> v)"

datatype op_error =
    GetConfigFailed api_error
  | CreateConfigFailed api_error
  | ListNodesFailed api_error
  | GetDeviceFailed string api_error
  | CreateDeviceFailed string api_error
  | ConfigMapFailed string api_error
  | SetOwnerFailed owner_error
  | PoliciesFailed policy_error
  | RenderFailed render_error
  | ToDaemonSetFailed
  | FromDaemonSetFailed
  | ApplyObjectFailed apply_error

section \<open>Devices and config maps\<close>

text \<open>A new NodePtpDevice has a name, a namespace and an empty status.\<close>

definition new_device :: "string \<Rightarrow> string \<Rightarrow> NodePtpDevice" where
  "new_device ns n = \<lparr>npd_Meta = empty_meta\<lparr>om_Name := n, om_Namespace := ns\<rparr>,
     npd_Status = \<lparr>nds_Devices = [], nds_Hwconfig = [], nds_SystemInfo = None, nds_BaseBoardInfo = None,
       nds_Sync = None, nds_Conditions = []\<rparr>\<rparr>"

definition sync_device :: "'s op_env \<Rightarrow> Node \<Rightarrow> 's \<Rightarrow> (op_error, unit) go \<times> 's" where
  "sync_device env node s =
     (case oe_GetDevice env \<lparr>nn_Namespace = oe_ns env, nn_Name = node_Name node\<rparr> s of
        Inl NotFound \<Rightarrow>
          ends_with (CreateDeviceFailed (node_Name node)) (oe_CreateDevice env (new_device (oe_ns env) (node_Name node)) s)
      | Inl e \<Rightarrow> (err (GetDeviceFailed (node_Name node) e), s)
      | Inr dev \<Rightarrow> (Inr (), s))"

definition syncNodePtpDevice :: "'s op_env \<Rightarrow> Node list \<Rightarrow> 's \<Rightarrow> (op_error, unit) go \<times> 's" where
  "syncNodePtpDevice env nodes s = each_st (sync_device env) nodes s"

text \<open>The two functions that create a config map differ in its name only.\<close>

definition create_config_map :: "string \<Rightarrow> 's op_env \<Rightarrow> PtpOperatorConfig \<Rightarrow> 's \<Rightarrow> (op_error, unit) go \<times> 's" where
  "create_config_map name env defaultCfg s =
     (case oe_GetConfigMap env \<lparr>nn_Namespace = oe_ns env, nn_Name = name\<rparr> s of
        Inr cm \<Rightarrow> (Inr (), s)
      | Inl NotFound \<Rightarrow>
          (case wrap_err SetOwnerFailed (controller_refs (oe_scheme env) (oc_Meta defaultCfg) (oe_ns env) []) of
             Inl f \<Rightarrow> (Inl f, s)
           | Inr refs \<Rightarrow>
               ends_with (ConfigMapFailed name) (oe_CreateConfigMap env
                 \<lparr>cm_Name = name, cm_Namespace = oe_ns env, cm_OwnerReferences = refs, cm_Data = []\<rparr> s))
      | Inl e \<Rightarrow> (err (ConfigMapFailed name e), s))"

definition createPTPConfigMap :: "'s op_env \<Rightarrow> PtpOperatorConfig \<Rightarrow> 's \<Rightarrow> (op_error, unit) go \<times> 's" where
  "createPTPConfigMap = create_config_map DefaultPTPConfigMapName"

definition createLeapConfigMap :: "'s op_env \<Rightarrow> PtpOperatorConfig \<Rightarrow> 's \<Rightarrow> (op_error, unit) go \<times> 's" where
  "createLeapConfigMap = create_config_map DefaultLeapConfigMapName"

section \<open>Data of the templates\<close>

definition DefaultTransportHost :: "string \<Rightarrow> string" where
  "DefaultTransportHost ns = ''http://ptp-event-publisher-service-NODE_NAME.'' @ ns @ ''.svc.cluster.local:9043''"

definition DefaultStorageType :: string where "DefaultStorageType = ''emptyDir''"
definition DefaultApiVersion :: string where "DefaultApiVersion = ''2.0''"

text \<open>The check never returns an error.\<close>

definition EventTransportHostAvailabilityCheck :: "'s op_env \<Rightarrow> string \<Rightarrow> string" where
  "EventTransportHostAvailabilityCheck env transportHost =
     (if transportHost = '''' then DefaultTransportHost (oe_ns env)
      else if \<not> oe_url_ok env transportHost then DefaultTransportHost (oe_ns env)
      else transportHost)"

definition enabledPluginNames :: "range_order \<Rightarrow> PtpOperatorConfig \<Rightarrow> string" where
  "enabledPluginNames ord defaultCfg =
     (let pluginList =
        (case op_EnabledPlugins (oc_Spec defaultCfg) of
           Some plugins \<Rightarrow> map fst (range_gmap ord plugins)
         | None \<Rightarrow> [''e810'', ''e825'', ''e830'', ''ntpfailover'', ''phc-first-step''])
      in Join (sort pluginList) '','')"

definition legacyCipherSuites :: string where
  "legacyCipherSuites = ''TLS_ECDHE_RSA_WITH_AES_128_GCM_SHA256,'' @ ''TLS_ECDHE_ECDSA_WITH_AES_128_GCM_SHA256,''
     @ ''TLS_RSA_WITH_AES_128_CBC_SHA256,'' @ ''TLS_ECDHE_ECDSA_WITH_AES_128_CBC_SHA256,''
     @ ''TLS_ECDHE_RSA_WITH_AES_128_CBC_SHA256''"

definition setTLSTemplateData :: "'s op_env \<Rightarrow> tdata \<Rightarrow> tdata" where
  "setTLSTemplateData env data =
     (case oe_tls env of
        Some spec \<Rightarrow>
          gset_all data
            [(''TLSMinVersion'', TStr (tls_MinTLSVersion spec)),
             (''TLSCipherSuites'', TStr (Join (oe_iana env (tls_Ciphers spec)) '','')),
             (''TLSGroups'', TStr (Join (map Itoa (oe_curves env (tls_Groups spec))) '',''))]
      | None \<Rightarrow>
          gset_all data
            [(''TLSMinVersion'', TStr ''''), (''TLSCipherSuites'', TStr legacyCipherSuites), (''TLSGroups'', TStr '''')])"

definition base_data :: "'s op_env \<Rightarrow> tdata" where
  "base_data env =
     gset_all MakeRenderData
       [(''Image'', TStr (getenv env ''LINUXPTP_DAEMON_IMAGE'')),
        (''ImagePullPolicy'', TStr (case oe_getenv env ''IMAGE_PULL_POLICY'' of None \<Rightarrow> ''IfNotPresent'' | Some p \<Rightarrow> p)),
        (''Namespace'', TStr (oe_ns env)),
        (''ReleaseVersion'', TStr (getenv env ''RELEASEVERSION'')),
        (''KubeRbacProxy'', TStr (getenv env ''KUBE_RBAC_PROXY_IMAGE'')),
        (''SideCar'', TStr (getenv env ''SIDECAR_EVENT_IMAGE'')),
        (''SideCarV2'', TStr (getenv env ''EVENT_PROXY_IMAGE'')),
        (''NodeName'', TStr (getenv env ''NODE_NAME'')),
        (''StorageType'', TStr DefaultStorageType),
        (''EventApiVersion'', TStr DefaultApiVersion)]"

definition event_data :: "'s op_env \<Rightarrow> PtpOperatorConfig \<Rightarrow> tdata \<Rightarrow> tdata" where
  "event_data env defaultCfg data =
     (case op_EventConfig (oc_Spec defaultCfg) of
        None \<Rightarrow> gset data ''EnableEventPublisher'' (TBool False)
      | Some ev \<Rightarrow>
          (let data1 = gset (gset data ''EnableEventPublisher'' (TBool (ev_EnableEventPublisher ev)))
                 ''EventTransportHost'' (TStr (ev_TransportHost ev))
           in if \<not> ev_EnableEventPublisher ev then data1
              else
                (let data2 = gset data1 ''EventTransportHost'' (TStr (EventTransportHostAvailabilityCheck env (ev_TransportHost ev)))
                 in if ev_StorageType ev \<noteq> '''' then gset data2 ''StorageType'' (TStr (ev_StorageType ev)) else data2)))"

definition daemon_data :: "'s op_env \<Rightarrow> PtpOperatorConfig \<Rightarrow> tdata" where
  "daemon_data env defaultCfg =
     (let data1 = event_data env defaultCfg (base_data env);
          data2 = gset data1 ''EnabledPlugins'' (TStr (enabledPluginNames (oe_order env) defaultCfg));
          data3 = gset data2 ''Verbosity'' (TStr (fst (daemonVerbosityFromEnv (getenv env))))
      in setTLSTemplateData env data3)"

section \<open>The daemon and the event services\<close>

definition setDaemonNodeSelector :: "'s op_env \<Rightarrow> PtpOperatorConfig \<Rightarrow> obj \<Rightarrow> (op_error, obj) go" where
  "setDaemonNodeSelector env defaultCfg o1 =
     (if GetKind o1 = ''DaemonSet'' \<and> op_DaemonNodeSelector (oc_Spec defaultCfg) \<noteq> [] then
        (case oe_toDS env o1 of
           None \<Rightarrow> err ToDaemonSetFailed
         | Some ds \<Rightarrow>
             (case oe_fromDS env (ds\<lparr>ds_NodeSelector := op_DaemonNodeSelector (oc_Spec defaultCfg)\<rparr>) of
                None \<Rightarrow> err FromDaemonSetFailed
              | Some o2 \<Rightarrow> Inr o2))
      else Inr o1)"

definition apply_object :: "'s op_env \<Rightarrow> string \<Rightarrow> obj \<Rightarrow> 's \<Rightarrow> (op_error, unit) go \<times> 's" where
  "apply_object env source o1 s =
     (case ApplyObject (oe_norm env) source (oe_objects env) o1 s of
        (Some e, s1) \<Rightarrow> (err (ApplyObjectFailed e), s1)
      | (None, s1) \<Rightarrow> (Inr (), s1))"

definition apply_daemon_object :: "'s op_env \<Rightarrow> PtpOperatorConfig \<Rightarrow> obj \<Rightarrow> 's \<Rightarrow> (op_error, unit) go \<times> 's" where
  "apply_daemon_object env defaultCfg o1 s =
     (case bind_go (setDaemonNodeSelector env defaultCfg o1) (\<lambda>o2.
        wrap_err SetOwnerFailed (SetControllerReference_obj (oe_scheme env) (oc_Meta defaultCfg) o2)) of
        Inl f \<Rightarrow> (Inl f, s)
      | Inr o3 \<Rightarrow> apply_object env SourcePtpOperatorConfig o3 s)"

definition daemon_manifest :: string where "daemon_manifest = ''bindata/linuxptp/ptp-daemon.yaml''"
definition service_manifest :: string where "service_manifest = ''bindata/linuxptp/event-service.yaml''"
definition policy_manifest :: string where "policy_manifest = ''bindata/linuxptp/network-policy.yaml''"

text \<open>The service of one node; its objects are applied without a controller in the context.\<close>

definition sync_event_service :: "'s op_env \<Rightarrow> tdata \<Rightarrow> Node \<Rightarrow> 's \<Rightarrow> (op_error, unit) go \<times> 's" where
  "sync_event_service env data node s =
     (case wrap_err RenderFailed (RenderTemplate (oe_render env) service_manifest
        (gset data ''NodeName'' (TStr (hd (Split (node_Name node) ''.''))))) of
        Inl f \<Rightarrow> (Inl f, s)
      | Inr objs \<Rightarrow> each_st (apply_object env '''') objs s)"

definition syncLinuxptpDaemon ::
  "'s op_env \<Rightarrow> PtpOperatorConfig \<Rightarrow> Node list \<Rightarrow> 's \<Rightarrow> (op_error, unit) go \<times> 's" where
  "syncLinuxptpDaemon env defaultCfg nodes s =
     (let data = daemon_data env defaultCfg in
      case wrap_err RenderFailed (RenderTemplate (oe_render env) daemon_manifest data) of
        Inl f \<Rightarrow> (Inl f, s)
      | Inr objs \<Rightarrow>
          (case each_st (apply_daemon_object env defaultCfg) objs s of
             (Inl f, s1) \<Rightarrow> (Inl f, s1)
           | (Inr _, s1) \<Rightarrow>
               (case op_EventConfig (oc_Spec defaultCfg) of
                  None \<Rightarrow> (Inr (), s1)
                | Some ev \<Rightarrow>
                    if ev_EnableEventPublisher ev then each_st (sync_event_service env data) nodes s1
                    else (Inr (), s1))))"

section \<open>Reconcile\<close>

definition policy_env :: "'s op_env \<Rightarrow> PtpOperatorConfig \<Rightarrow> 's np_env" where
  "policy_env env defaultCfg = \<lparr>ne_client = oe_policies env, ne_ns = oe_ns env, ne_scheme = oe_scheme env,
     ne_owner = oc_Meta defaultCfg\<rparr>"

definition sync_policies :: "'s op_env \<Rightarrow> PtpOperatorConfig \<Rightarrow> 's \<Rightarrow> (op_error, unit) go \<times> 's" where
  "sync_policies env defaultCfg s =
     map_prod (wrap_err PoliciesFailed) (\<lambda>s. s) (applyNetworkPoliciesFromYaml (policy_env env defaultCfg) (oe_toJSON env)
       (oe_unmarshal env) (oe_readFile env policy_manifest) s)"

definition default_config :: "string \<Rightarrow> PtpOperatorConfig" where
  "default_config ns = \<lparr>oc_Meta = empty_meta\<lparr>om_Name := DefaultOperatorConfigName, om_Namespace := ns\<rparr>,
     oc_Spec = \<lparr>op_DaemonNodeSelector = [], op_EventConfig = None, op_EnabledPlugins = None\<rparr>\<rparr>"

text \<open>The result: none, or another reconcile after the resync period, in seconds.\<close>

datatype requeue = NoRequeue | RequeueAfter nat

definition ResyncPeriod :: nat where "ResyncPeriod = 120"

text \<open>Steps that run one after the other until one fails.\<close>

definition then_do ::
  "('e, unit) go \<times> 's \<Rightarrow> ('s \<Rightarrow> ('e, 'a) go \<times> 's) \<Rightarrow> ('e, 'a) go \<times> 's" where
  "then_do r f = (case r of (Inl e, s) \<Rightarrow> (Inl e, s) | (Inr _, s) \<Rightarrow> f s)"

definition PtpOperatorConfig_Reconcile :: "'s op_env \<Rightarrow> 's \<Rightarrow> (op_error, requeue) go \<times> 's" where
  "PtpOperatorConfig_Reconcile env s =
     (case oe_GetConfig env \<lparr>nn_Namespace = oe_ns env, nn_Name = DefaultOperatorConfigName\<rparr> s of
        Inl NotFound \<Rightarrow>
          then_do (ends_with CreateConfigFailed (oe_CreateConfig env (default_config (oe_ns env)) s)) (\<lambda>s1. (Inr NoRequeue, s1))
      | Inl e \<Rightarrow> (err (GetConfigFailed e), s)
      | Inr defaultCfg \<Rightarrow>
          (case oe_ListNodes env s of
             Inl e \<Rightarrow> (err (ListNodesFailed e), s)
           | Inr nodeList \<Rightarrow>
               then_do (syncNodePtpDevice env nodeList s) (\<lambda>s1.
               then_do (createPTPConfigMap env defaultCfg s1) (\<lambda>s2.
               then_do (createLeapConfigMap env defaultCfg s2) (\<lambda>s3.
               then_do (sync_policies env defaultCfg s3) (\<lambda>s4.
               then_do (syncLinuxptpDaemon env defaultCfg nodeList s4) (\<lambda>s5.
                 (Inr (RequeueAfter ResyncPeriod), s5))))))))"

section \<open>The contract of the API server on devices\<close>

text \<open>\<open>dev s\<close> are the NodePtpDevices of the operator's namespace, by name.\<close>

locale device_store =
  fixes env :: "'s op_env" and dev :: "'s \<Rightarrow> string \<Rightarrow> NodePtpDevice option"
  assumes dev_missing: "oe_GetDevice env \<lparr>nn_Namespace = oe_ns env, nn_Name = n\<rparr> s = Inl NotFound \<Longrightarrow> dev s n = None"
    and dev_found: "oe_GetDevice env \<lparr>nn_Namespace = oe_ns env, nn_Name = n\<rparr> s = Inr d \<Longrightarrow> dev s n = Some d"
    and dev_create: "oe_CreateDevice env d s = (None, s') \<Longrightarrow> om_Namespace (npd_Meta d) = oe_ns env \<Longrightarrow>
      \<exists>d'. dev s' = (dev s)(om_Name (npd_Meta d) \<mapsto> d')"
    and dev_create_err: "oe_CreateDevice env d s = (Some e, s') \<Longrightarrow> dev s' = dev s"
begin

lemma sync_device_effect:
  assumes "sync_device env node s = (r, s')"
  shows "(dev s' = dev s \<or> (dev s (node_Name node) = None \<and> (\<exists>d. dev s' = (dev s)(node_Name node \<mapsto> d))))
    \<and> (r = Inr () \<longrightarrow> dev s' (node_Name node) \<noteq> None)"
proof (cases "oe_GetDevice env \<lparr>nn_Namespace = oe_ns env, nn_Name = node_Name node\<rparr> s")
  case (Inr d)
  with assms dev_found [OF Inr] show ?thesis by (simp add: sync_device_def)
next
  case (Inl e)
  let ?d = "new_device (oe_ns env) (node_Name node)"
  have d: "om_Namespace (npd_Meta ?d) = oe_ns env" "om_Name (npd_Meta ?d) = node_Name node" by (simp_all add: new_device_def)
  obtain x t where c: "oe_CreateDevice env ?d s = (x, t)" by (cases "oe_CreateDevice env ?d s")
  show ?thesis
  proof (cases e)
    case NotFound
    with Inl dev_missing have none: "dev s (node_Name node) = None" by blast
    show ?thesis
    proof (cases x)
      case None
      with dev_create [of ?d s t] c d obtain d' where "dev t = (dev s)(node_Name node \<mapsto> d')" by auto
      with assms Inl NotFound c None none show ?thesis by (auto simp: sync_device_def ends_with_def)
    next
      case (Some y)
      with dev_create_err [of ?d s y t] assms Inl NotFound c show ?thesis by (auto simp: sync_device_def ends_with_def)
    qed
  qed (use assms Inl in \<open>auto simp: sync_device_def err_def\<close>)
qed

lemma devices_frame:
  assumes "syncNodePtpDevice env nodes s = (r, s')" "k \<notin> node_Name ` set nodes \<or> dev s k \<noteq> None"
  shows "dev s' k = dev s k"
proof -
  have "dev t' k = dev s k" if "node \<in> set nodes" "dev t k = dev s k" "sync_device env node t = (r', t')" for node t r' t'
    using sync_device_effect [OF that(3)] that(1,2) assms(2) by auto
  from each_st_keeps [where P = "\<lambda>t. dev t k = dev s k", OF this refl assms(1) [unfolded syncNodePtpDevice_def]]
  show ?thesis .
qed

lemma devices_all:
  assumes "syncNodePtpDevice env nodes s = (Inr (), s')" "node \<in> set nodes"
  shows "dev s' (node_Name node) \<noteq> None"
proof -
  have step: "dev t' (node_Name x) \<noteq> None" if "sync_device env x t = (Inr (), t')" for x t t'
    using sync_device_effect [OF that] by blast
  have keep: "dev t' (node_Name x) \<noteq> None" if "dev t (node_Name x) \<noteq> None" "sync_device env y t = (Inr (), t')" for x y t t'
    using sync_device_effect [OF that(2)] that(1) by auto
  show ?thesis
    by (rule each_st_does [where Q = "\<lambda>n t. dev t (node_Name n) \<noteq> None", OF step keep assms(1) [unfolded syncNodePtpDevice_def] assms(2)])
qed

end

section \<open>The keys of the manifests\<close>

text \<open>The fields that \<open>bindata/linuxptp/ptp-daemon.yaml\<close> and \<open>event-service.yaml\<close> refer to outside the
  branch for events; in that branch the daemon's manifest also refers to \<open>EventTransportHost\<close>.\<close>

definition template_keys :: "string list" where
  "template_keys = [''Namespace'', ''ReleaseVersion'', ''EnableEventPublisher'', ''SideCarV2'', ''ImagePullPolicy'', ''SideCar'',
     ''EventApiVersion'', ''KubeRbacProxy'', ''TLSCipherSuites'', ''TLSMinVersion'', ''TLSGroups'', ''Image'', ''Verbosity'',
     ''EnabledPlugins'', ''NodeName'']"

definition base_keys :: "string list" where
  "base_keys = [''Namespace'', ''ReleaseVersion'', ''SideCarV2'', ''ImagePullPolicy'', ''SideCar'', ''EventApiVersion'',
     ''KubeRbacProxy'', ''Image'', ''NodeName'']"

definition tls_keys :: "string list" where
  "tls_keys = [''TLSMinVersion'', ''TLSCipherSuites'', ''TLSGroups'']"

lemma template_keys_split:
  "set template_keys = set base_keys \<union> set tls_keys \<union> {''EnableEventPublisher'', ''EnabledPlugins'', ''Verbosity''}"
  by code_simp

lemma base_keys_set: "k \<in> set base_keys \<Longrightarrow> gget (base_data env) k \<noteq> None"
proof -
  have "list_all (\<lambda>k. gget (base_data env) k \<noteq> None) base_keys"
    unfolding base_keys_def by (simp add: base_data_def MakeRenderData_def gget_Cons)
  then show "k \<in> set base_keys \<Longrightarrow> gget (base_data env) k \<noteq> None" by (simp add: list_all_iff)
qed

lemma tls_keys_set: "k \<in> set tls_keys \<Longrightarrow> gget (setTLSTemplateData env data) k \<noteq> None"
proof -
  have "list_all (\<lambda>k. gget (setTLSTemplateData env data) k \<noteq> None) tls_keys"
    unfolding tls_keys_def by (simp add: setTLSTemplateData_def split: option.splits)
  then show "k \<in> set tls_keys \<Longrightarrow> gget (setTLSTemplateData env data) k \<noteq> None" by (simp add: list_all_iff)
qed

text \<open>Later assignments keep every key, and values under other keys.\<close>

lemma event_mono: "gget data k \<noteq> None \<Longrightarrow> gget (event_data env cfg data) k \<noteq> None"
  by (simp add: event_data_def Let_def split: option.splits)

lemma tls_other: "k \<notin> set tls_keys \<Longrightarrow> gget (setTLSTemplateData env data) k = gget data k"
  by (simp add: setTLSTemplateData_def tls_keys_def split: option.splits)

lemma event_values:
  "gget (event_data env cfg data) ''EnableEventPublisher'' =
     Some (TBool (case op_EventConfig (oc_Spec cfg) of None \<Rightarrow> False | Some ev \<Rightarrow> ev_EnableEventPublisher ev))"
  "op_EventConfig (oc_Spec cfg) = Some ev \<Longrightarrow> ev_EnableEventPublisher ev \<Longrightarrow>
     gget (event_data env cfg data) ''EventTransportHost'' = Some (TStr (EventTransportHostAvailabilityCheck env (ev_TransportHost ev)))"
  by (simp_all add: event_data_def Let_def split: option.splits)

lemma not_tls_keys:
  "''EnableEventPublisher'' \<notin> set tls_keys" "''EventTransportHost'' \<notin> set tls_keys" "''Verbosity'' \<notin> set tls_keys"
  "''EnabledPlugins'' \<notin> set tls_keys"
  by code_simp+

lemma daemon_values:
  "gget (daemon_data env cfg) ''EnableEventPublisher'' =
     Some (TBool (case op_EventConfig (oc_Spec cfg) of None \<Rightarrow> False | Some ev \<Rightarrow> ev_EnableEventPublisher ev))"
  "gget (daemon_data env cfg) ''Verbosity'' = Some (TStr (fst (daemonVerbosityFromEnv (getenv env))))"
  "gget (daemon_data env cfg) ''EnabledPlugins'' = Some (TStr (enabledPluginNames (oe_order env) cfg))"
  "op_EventConfig (oc_Spec cfg) = Some ev \<Longrightarrow> ev_EnableEventPublisher ev \<Longrightarrow>
     gget (daemon_data env cfg) ''EventTransportHost'' = Some (TStr (EventTransportHostAvailabilityCheck env (ev_TransportHost ev)))"
  unfolding daemon_data_def Let_def tls_other [OF not_tls_keys(1)] tls_other [OF not_tls_keys(2)]
    tls_other [OF not_tls_keys(3)] tls_other [OF not_tls_keys(4)]
  by (simp_all add: event_values)

lemma daemon_keys:
  assumes "k \<in> set template_keys"
  shows "gget (daemon_data env cfg) k \<noteq> None"
proof -
  from assms consider (base) "k \<in> set base_keys" "k \<notin> set tls_keys" | (tls) "k \<in> set tls_keys"
    | (rest) "k \<in> {''EnableEventPublisher'', ''EnabledPlugins'', ''Verbosity''}" unfolding template_keys_split by blast
  then show ?thesis
  proof cases
    case base
    from event_mono [OF base_keys_set [OF base(1)], of env cfg env] show ?thesis
      unfolding daemon_data_def Let_def tls_other [OF base(2)] by simp
  next
    case tls
    then show ?thesis unfolding daemon_data_def Let_def by (rule tls_keys_set)
  qed (auto simp: daemon_values)
qed

lemma enabledPlugins_order:
  assumes "range_order_ok ord" "range_order_ok ord'"
  shows "enabledPluginNames ord cfg = enabledPluginNames ord' cfg"
proof (cases "op_EnabledPlugins (oc_Spec cfg)")
  case (Some plugins)
  have "mset (map fst (range_gmap ord plugins)) = mset (map fst (range_gmap ord' plugins))"
    using assms by (simp add: gkeys_range_gmap range_order_ok_def del: mset_map)
  then have "sort (map fst (range_gmap ord plugins)) = sort (map fst (range_gmap ord' plugins))"
    by (metis mset_sort properties_for_sort sorted_sort)
  with Some show ?thesis by (simp add: enabledPluginNames_def)
qed (simp add: enabledPluginNames_def)

section \<open>An environment in memory\<close>

text \<open>The cluster: policies and resources, the devices and the config maps; every other input is fixed.\<close>

record mem_operator =
  mo_Devices :: "NodePtpDevice list"
  mo_ConfigMaps :: "ConfigMap list"
  mo_Configs :: "PtpOperatorConfig list"
  mo_Nodes :: "Node list"
  mo_Policies :: mem_policies
  mo_Objects :: memory

definition mem_dev :: "mem_operator \<Rightarrow> string \<Rightarrow> NodePtpDevice option" where
  "mem_dev s n = find (\<lambda>d. om_Name (npd_Meta d) = n) (mo_Devices s)"

text \<open>A client on one field of the state.\<close>

definition on_policies :: "(mem_policies \<Rightarrow> api_error option \<times> mem_policies) \<Rightarrow> mem_operator \<Rightarrow> api_error option \<times> mem_operator" where
  "on_policies f s = map_prod (\<lambda>e. e) (\<lambda>p. s\<lparr>mo_Policies := p\<rparr>) (f (mo_Policies s))"

definition on_objects :: "(memory \<Rightarrow> api_error option \<times> memory) \<Rightarrow> mem_operator \<Rightarrow> api_error option \<times> mem_operator" where
  "on_objects f s = map_prod (\<lambda>e. e) (\<lambda>p. s\<lparr>mo_Objects := p\<rparr>) (f (mo_Objects s))"

definition mem_op_policies :: "mem_operator np_client" where
  "mem_op_policies =
     (let c = mem_np_client ''openshift-ptp'' in \<lparr>
      np_Get = \<lambda>k s. np_Get c k (mo_Policies s), np_Create = \<lambda>p. on_policies (np_Create c p),
      np_Update = \<lambda>p. on_policies (np_Update c p), np_List = \<lambda>n s. np_List c n (mo_Policies s),
      np_Delete = \<lambda>p. on_policies (np_Delete c p), np_ListConfigs = \<lambda>n s. np_ListConfigs c n (mo_Policies s)\<rparr>)"

definition mem_op_objects :: "mem_operator kclient" where
  "mem_op_objects = \<lparr>kc_Get = \<lambda>g ns n s. (fst (kc_Get mem_client g ns n (mo_Objects s)), s),
     kc_Create = \<lambda>x. on_objects (kc_Create mem_client x), kc_Update = \<lambda>x. on_objects (kc_Update mem_client x)\<rparr>"

definition wit_op_env :: "mem_operator op_env" where
  "wit_op_env = \<lparr>oe_ns = ''openshift-ptp'', oe_scheme = Some wit_gvk, oe_order = (\<lambda>ks. ks),
     oe_getenv = \<lambda>k. if k = ''LINUXPTP_VERBOSITY'' then Some ''3'' else None,
     oe_readFile = \<lambda>f. Some wit_manifest, oe_toJSON = Some, oe_unmarshal = wit_unmarshal,
     oe_render = \<lparr>re_read = Some, re_parses = \<lambda>t. True, re_execute = \<lambda>t d. Some t, re_decode = \<lambda>t. []\<rparr>,
     oe_url_ok = \<lambda>u. True, oe_tls = None, oe_iana = \<lambda>cs. cs, oe_curves = \<lambda>gs. [], oe_toDS = \<lambda>x. None, oe_fromDS = \<lambda>d. None,
     oe_norm = \<lambda>t. t, oe_policies = mem_op_policies, oe_objects = mem_op_objects,
     oe_GetConfig = \<lambda>k s. found (find (\<lambda>c. meta_key (oc_Meta c) = k) (mo_Configs s)),
     oe_CreateConfig = \<lambda>c s. (None, s\<lparr>mo_Configs := c # mo_Configs s\<rparr>),
     oe_ListNodes = \<lambda>s. Inr (mo_Nodes s),
     oe_GetDevice = \<lambda>k s. found (mem_dev s (nn_Name k)),
     oe_CreateDevice = \<lambda>d s. (None, s\<lparr>mo_Devices := d # mo_Devices s\<rparr>),
     oe_GetConfigMap = \<lambda>k s. found (find (\<lambda>c. cm_key c = k) (mo_ConfigMaps s)),
     oe_CreateConfigMap = \<lambda>c s. (None, s\<lparr>mo_ConfigMaps := c # mo_ConfigMaps s\<rparr>)\<rparr>"

definition wit_op_config :: PtpOperatorConfig where
  "wit_op_config = \<lparr>oc_Meta = wit_owner, oc_Spec = \<lparr>op_DaemonNodeSelector = [],
     op_EventConfig = Some \<lparr>ev_EnableEventPublisher = True, ev_TransportHost = '''', ev_StorageType = '''', ev_ApiVersion = ''2.0''\<rparr>,
     op_EnabledPlugins = Some [(''e810'', None), (''ntpfailover'', None)]\<rparr>\<rparr>"

definition wit_op_state :: mem_operator where
  "wit_op_state = \<lparr>mo_Devices = [], mo_ConfigMaps = [], mo_Configs = [wit_op_config], mo_Nodes = [wit_node],
     mo_Policies = wit_policies, mo_Objects = Map.empty\<rparr>"

interpretation memd: device_store wit_op_env mem_dev
  by unfold_locales (auto simp: wit_op_env_def found_def mem_dev_def fun_eq_iff split: option.splits)

section \<open>Properties\<close>

text \<open>A device for every node. After a successful sync of the devices there is a NodePtpDevice for
  every node; devices that existed before, and those of other names, are as they were, also when
  the sync fails.\<close>

lemma devices_for_all_nodes:
  assumes "device_store env dev" "syncNodePtpDevice env nodes s = (r, s')"
  shows "(r = Inr () \<longrightarrow> (\<forall>node \<in> set nodes. dev s' (node_Name node) \<noteq> None))
    \<and> (\<forall>n. n \<notin> node_Name ` set nodes \<or> dev s n \<noteq> None \<longrightarrow> dev s' n = dev s n)"
  using device_store.devices_all [OF assms(1)] device_store.devices_frame [OF assms] assms(2) by blast

lemma devices_for_all_nodes_witness:
  "mem_dev (snd (syncNodePtpDevice wit_op_env [wit_node] wit_op_state)) ''worker-0'' \<noteq> None"
proof -
  have "fst (syncNodePtpDevice wit_op_env [wit_node] wit_op_state) = Inr ()" by code_simp
  then have "syncNodePtpDevice wit_op_env [wit_node] wit_op_state =
      (Inr (), snd (syncNodePtpDevice wit_op_env [wit_node] wit_op_state))" by (simp add: prod_eq_iff)
  from devices_for_all_nodes [OF memd.device_store_axioms this] show ?thesis by (simp add: wit_node_def)
qed

text \<open>C39: The data of the templates is complete. Templates are rendered with missing keys as errors; every
  field the manifests refer to is set for every PtpOperatorConfig and environment, the host for
  events is set and not empty whenever the branch that uses it is taken, and the verbosity is a
  number from 0 to 14.\<close>

theorem template_data_complete:
  "(\<forall>k \<in> set template_keys. gget (daemon_data env cfg) k \<noteq> None)
   \<and> (gget (daemon_data env cfg) ''EnableEventPublisher'' = Some (TBool True) \<longrightarrow>
        (\<exists>h. gget (daemon_data env cfg) ''EventTransportHost'' = Some (TStr h) \<and> h \<noteq> ''''))
   \<and> (\<exists>v. gget (daemon_data env cfg) ''Verbosity'' = Some (TStr (Itoa v)) \<and> 0 \<le> v \<and> v \<le> 14)"
proof (intro conjI ballI impI)
  fix k assume "k \<in> set template_keys"
  then show "gget (daemon_data env cfg) k \<noteq> None" by (rule daemon_keys)
next
  assume "gget (daemon_data env cfg) ''EnableEventPublisher'' = Some (TBool True)"
  then obtain ev where ev: "op_EventConfig (oc_Spec cfg) = Some ev" "ev_EnableEventPublisher ev"
    by (auto simp: daemon_values(1) split: option.splits)
  have "EventTransportHostAvailabilityCheck env h \<noteq> ''''" for h
    by (simp add: EventTransportHostAvailabilityCheck_def DefaultTransportHost_def)
  with daemon_values(4) [OF ev] show "\<exists>h. gget (daemon_data env cfg) ''EventTransportHost'' = Some (TStr h) \<and> h \<noteq> ''''" by blast
next
  show "\<exists>v. gget (daemon_data env cfg) ''Verbosity'' = Some (TStr (Itoa v)) \<and> 0 \<le> v \<and> v \<le> 14"
    using resolve_range by (simp add: daemon_values(2) daemonVerbosityFromEnv_def)
qed

theorem template_data_complete_witness:
  "\<exists>h. gget (daemon_data wit_op_env wit_op_config) ''EventTransportHost'' = Some (TStr h) \<and> h \<noteq> ''''"
proof -
  have "gget (daemon_data wit_op_env wit_op_config) ''EnableEventPublisher'' = Some (TBool True)"
    by (simp add: daemon_values(1) wit_op_config_def)
  with template_data_complete [of wit_op_env wit_op_config] show ?thesis by blast
qed

text \<open>Rendering is deterministic. The data of the templates, and with it the rendered DaemonSet, does
  not depend on the order in which Go visits the map of enabled plugins, so that a reconcile
  without a change of the configuration does not roll out the daemon.\<close>

lemma template_data_deterministic:
  assumes "range_order_ok ord" "range_order_ok ord'"
  shows "daemon_data (env\<lparr>oe_order := ord\<rparr>) cfg = daemon_data (env\<lparr>oe_order := ord'\<rparr>) cfg"
proof -
  have [simp]: "getenv (env\<lparr>oe_order := o1\<rparr>) = getenv env" for o1 by (simp add: fun_eq_iff getenv_def)
  have [simp]: "base_data (env\<lparr>oe_order := o1\<rparr>) = base_data env"
    "event_data (env\<lparr>oe_order := o1\<rparr>) cfg d = event_data env cfg d"
    "setTLSTemplateData (env\<lparr>oe_order := o1\<rparr>) d = setTLSTemplateData env d" for o1 d
    by (simp_all add: base_data_def event_data_def EventTransportHostAvailabilityCheck_def setTLSTemplateData_def Let_def
        split: option.splits)
  show ?thesis by (simp add: daemon_data_def Let_def enabledPlugins_order [OF assms])
qed

lemma template_data_deterministic_witness:
  "daemon_data (wit_op_env\<lparr>oe_order := rev\<rparr>) wit_op_config = daemon_data (wit_op_env\<lparr>oe_order := (\<lambda>ks. ks)\<rparr>) wit_op_config"
  by (rule template_data_deterministic) simp_all

text \<open>The whole reconcile on the cluster in memory.\<close>

lemma operator_reconcile_runs:
  "fst (PtpOperatorConfig_Reconcile wit_op_env wit_op_state) = Inr (RequeueAfter 120)"
  "fst (PtpOperatorConfig_Reconcile wit_op_env (wit_op_state\<lparr>mo_Configs := []\<rparr>)) = Inr NoRequeue"
  by code_simp+

end
