(* ===== verification/Startup.thy ===== *)
theory Startup
  imports Operator_Controller
begin

text \<open>
  The start of the operator (\<open>main.go\<close> and \<open>pkg/leaderelection\<close>): the timing of leader election,
  the TLS settings of the servers and of the operand, the caches, the order of the setup steps, and the
  wait for the webhook before the default PtpOperatorConfig is created. Times are nanoseconds,
  as in Go.
\<close>

section \<open>Leader election\<close>

definition Second :: int where "Second = 1000000000"

record LeaderElection =
  le_Disable :: bool
  le_Namespace :: string
  le_Name :: string
  le_LeaseDuration :: int
  le_RenewDeadline :: int
  le_RetryPeriod :: int

text \<open>\<open>saFile\<close> is the content of the service account's namespace file, if it can be read.\<close>

definition LeaderElectionDefaulting ::
  "string option \<Rightarrow> LeaderElection \<Rightarrow> string \<Rightarrow> string \<Rightarrow> LeaderElection" where
  "LeaderElectionDefaulting saFile config defaultNamespace defaultName =
     (let ret1 = (if le_LeaseDuration config = 0 then config\<lparr>le_LeaseDuration := 137 * Second\<rparr> else config);
          ret2 = (if le_RenewDeadline ret1 = 0 then ret1\<lparr>le_RenewDeadline := 107 * Second\<rparr> else ret1);
          ret3 = (if le_RetryPeriod ret2 = 0 then ret2\<lparr>le_RetryPeriod := 26 * Second\<rparr> else ret2);
          ret4 =
            (if le_Namespace ret3 \<noteq> '''' then ret3
             else if defaultNamespace \<noteq> '''' then ret3\<lparr>le_Namespace := defaultNamespace\<rparr>
             else case saFile of
               None \<Rightarrow> ret3
             | Some data \<Rightarrow> if TrimSpace data \<noteq> '''' then ret3\<lparr>le_Namespace := TrimSpace data\<rparr> else ret3)
      in if le_Name ret4 = '''' then ret4\<lparr>le_Name := defaultName\<rparr> else ret4)"

definition LeaderElectionSNOConfig :: "LeaderElection \<Rightarrow> LeaderElection" where
  "LeaderElectionSNOConfig config =
     config\<lparr>le_LeaseDuration := 270 * Second, le_RenewDeadline := 240 * Second, le_RetryPeriod := 60 * Second\<rparr>"

text \<open>\<open>infra\<close> is the outcome of \<open>GetClusterInfraStatus\<close>: an error, no status, or the topology of the
  control plane.\<close>

definition GetLeaderElectionConfig ::
  "string option \<Rightarrow> (api_error + string option) \<Rightarrow> bool \<Rightarrow> LeaderElection" where
  "GetLeaderElectionConfig saFile infra enabled =
     (let defaultLeaderElection =
        LeaderElectionDefaulting saFile \<lparr>le_Disable = \<not> enabled, le_Namespace = '''', le_Name = '''',
          le_LeaseDuration = 0, le_RenewDeadline = 0, le_RetryPeriod = 0\<rparr> '''' ''''
      in if enabled then
           (case infra of
              Inr (Some topology) \<Rightarrow>
                if topology = ''SingleReplica'' then LeaderElectionSNOConfig defaultLeaderElection else defaultLeaderElection
            | _ \<Rightarrow> defaultLeaderElection)
         else defaultLeaderElection)"

text \<open>What client-go's \<open>NewLeaderElector\<close> demands of the durations. It multiplies the retry period with the
  jitter factor 1.2 in floating point; the nanosecond added here is more than the rounding.\<close>

definition elector_accepts :: "LeaderElection \<Rightarrow> bool" where
  "elector_accepts lec \<longleftrightarrow>
     le_LeaseDuration lec > le_RenewDeadline lec \<and> le_RenewDeadline lec > 12 * le_RetryPeriod lec div 10 + 1 \<and>
     le_LeaseDuration lec \<ge> 1 \<and> le_RenewDeadline lec \<ge> 1 \<and> le_RetryPeriod lec \<ge> 1"

section \<open>Waiting for the webhook\<close>

definition wait_timeout :: int where "wait_timeout = 60 * Second"
definition pollingFreq :: int where "pollingFreq = 1 * Second"

datatype wait_error = RequestFailed | ServerTimeout | EndpointsTimeout | ContextDone

text \<open>One turn of a polling loop: whether the check succeeds and how long it takes; then, when the loop
  goes on to its \<open>select\<close>, whether the context's channel is the one that is received from, and for how long
  the \<open>select\<close> blocks.\<close>

record poll =
  po_ok :: bool
  po_takes :: int
  po_done :: bool
  po_pause :: int

text \<open>Both loops have this form; they differ in the check and in the error at the timeout. The result
  comes with the number of the next turn and the time. \<open>None\<close> is a loop that does not end.\<close>

partial_function (option) poll_until ::
  "wait_error \<Rightarrow> (nat \<Rightarrow> poll) \<Rightarrow> int \<Rightarrow> nat \<Rightarrow> int \<Rightarrow> ((wait_error, unit) go \<times> nat \<times> int) option" where
  "poll_until late polls start i t =
     (let p = polls i; t1 = t + po_takes p in
      if po_ok p then Some (Inr (), Suc i, t1)
      else if t1 - start > wait_timeout then Some (err late, Suc i, t1)
      else if po_done p then Some (err ContextDone, Suc i, t1 + po_pause p)
      else poll_until late polls start (Suc i) (t1 + po_pause p))"

text \<open>\<open>checker\<close> are the checks of the local server, \<open>dial\<close> the attempts to reach the service; \<open>req_ok\<close>
  is \<open>http.NewRequestWithContext\<close> succeeding.\<close>

definition waitForWebhookServer ::
  "bool \<Rightarrow> (nat \<Rightarrow> poll) \<Rightarrow> (nat \<Rightarrow> poll) \<Rightarrow> int \<Rightarrow> ((wait_error, unit) go \<times> int) option" where
  "waitForWebhookServer req_ok checker dial start =
     (if \<not> req_ok then Some (err RequestFailed, start)
      else case poll_until ServerTimeout checker start 0 start of
        None \<Rightarrow> None
      | Some (Inl f, _, t) \<Rightarrow> Some (Inl f, t)
      | Some (Inr _, _, t) \<Rightarrow>
          (case poll_until EndpointsTimeout dial start 0 t of
             None \<Rightarrow> None
           | Some (r, _, t') \<Rightarrow> Some (r, t')))"

datatype create_error = ClientFailed | ReadConfigFailed api_error | WriteConfigFailed api_error

definition createDefaultOperatorConfig :: "bool \<Rightarrow> 's op_env \<Rightarrow> 's \<Rightarrow> (create_error, unit) go \<times> 's" where
  "createDefaultOperatorConfig client_ok env s =
     (if \<not> client_ok then (err ClientFailed, s)
      else case oe_GetConfig env \<lparr>nn_Namespace = oe_ns env, nn_Name = DefaultOperatorConfigName\<rparr> s of
        Inl NotFound \<Rightarrow> ends_with WriteConfigFailed (oe_CreateConfig env (default_config (oe_ns env)) s)
      | Inl e \<Rightarrow> (err (ReadConfigFailed e), s)
      | Inr config \<Rightarrow> (Inr (), s))"

text \<open>The goroutine that \<open>main\<close> starts; its errors are logged only.\<close>

definition create_when_ready ::
  "bool \<Rightarrow> (nat \<Rightarrow> poll) \<Rightarrow> (nat \<Rightarrow> poll) \<Rightarrow> int \<Rightarrow> bool \<Rightarrow> 's op_env \<Rightarrow> 's \<Rightarrow> 's option" where
  "create_when_ready req_ok checker dial start client_ok env s =
     (case waitForWebhookServer req_ok checker dial start of
        None \<Rightarrow> None
      | Some (Inl f, _) \<Rightarrow> Some s
      | Some (Inr _, _) \<Rightarrow> Some (snd (createDefaultOperatorConfig client_ok env s)))"

section \<open>TLS\<close>

record TLSSecurityProfile =
  tsp_Type :: string
  tsp_Custom :: "TLSProfileSpec option"

record APIServer =
  as_TLSSecurityProfile :: "TLSSecurityProfile option"
  as_TLSAdherence :: string

text \<open>The predefined profiles.\<close>

definition modern_ciphers :: "string list" where
  "modern_ciphers = [''TLS_AES_128_GCM_SHA256'', ''TLS_AES_256_GCM_SHA384'', ''TLS_CHACHA20_POLY1305_SHA256'']"

definition intermediate_ciphers :: "string list" where
  "intermediate_ciphers = modern_ciphers @
     [''ECDHE-ECDSA-AES128-GCM-SHA256'', ''ECDHE-RSA-AES128-GCM-SHA256'', ''ECDHE-ECDSA-AES256-GCM-SHA384'',
      ''ECDHE-RSA-AES256-GCM-SHA384'', ''ECDHE-ECDSA-CHACHA20-POLY1305'', ''ECDHE-RSA-CHACHA20-POLY1305'']"

definition old_ciphers :: "string list" where
  "old_ciphers = intermediate_ciphers @
     [''ECDHE-ECDSA-AES128-SHA256'', ''ECDHE-RSA-AES128-SHA256'', ''ECDHE-ECDSA-AES128-SHA'', ''ECDHE-RSA-AES128-SHA'',
      ''ECDHE-ECDSA-AES256-SHA384'', ''ECDHE-RSA-AES256-SHA384'', ''ECDHE-ECDSA-AES256-SHA'', ''ECDHE-RSA-AES256-SHA'',
      ''AES128-GCM-SHA256'', ''AES256-GCM-SHA384'', ''AES128-SHA256'', ''AES256-SHA256'', ''AES128-SHA'', ''AES256-SHA'',
      ''DES-CBC3-SHA'']"

definition profile_groups :: "string list" where
  "profile_groups = [''X25519MLKEM768'', ''X25519'', ''secp256r1'', ''secp384r1'']"

definition intermediate_profile :: TLSProfileSpec where
  "intermediate_profile = \<lparr>tls_Ciphers = intermediate_ciphers, tls_MinTLSVersion = ''VersionTLS12'', tls_Groups = profile_groups\<rparr>"

definition TLSProfiles :: "TLSProfileSpec gmap" where
  "TLSProfiles =
     [(''Old'', \<lparr>tls_Ciphers = old_ciphers, tls_MinTLSVersion = ''VersionTLS10'', tls_Groups = profile_groups\<rparr>),
      (''Intermediate'', intermediate_profile),
      (''Modern'', \<lparr>tls_Ciphers = modern_ciphers, tls_MinTLSVersion = ''VersionTLS13'', tls_Groups = profile_groups\<rparr>)]"

datatype tls_error = InstallFailed | NewClientFailed | GetAPIServerFailed api_error | CustomProfileNil

definition GetTLSProfileSpec :: "TLSSecurityProfile option \<Rightarrow> (tls_error, TLSProfileSpec) go" where
  "GetTLSProfileSpec profile =
     (case profile of
        None \<Rightarrow> Inr intermediate_profile
      | Some p \<Rightarrow>
          if tsp_Type p = '''' then Inr intermediate_profile
          else if tsp_Type p \<noteq> ''Custom'' then
            (case gget TLSProfiles (tsp_Type p) of Some spec \<Rightarrow> Inr spec | None \<Rightarrow> Inr intermediate_profile)
          else case tsp_Custom p of None \<Rightarrow> err CustomProfileNil | Some spec \<Rightarrow> Inr spec)"

definition FetchAPIServerTLSProfile :: "api_error + APIServer \<Rightarrow> (tls_error, TLSProfileSpec) go" where
  "FetchAPIServerTLSProfile got =
     (case got of Inl e \<Rightarrow> err (GetAPIServerFailed e) | Inr a \<Rightarrow> GetTLSProfileSpec (as_TLSSecurityProfile a))"

definition FetchAPIServerTLSAdherencePolicy :: "api_error + APIServer \<Rightarrow> (tls_error, string) go" where
  "FetchAPIServerTLSAdherencePolicy got =
     (case got of Inl e \<Rightarrow> err (GetAPIServerFailed e) | Inr a \<Rightarrow> Inr (as_TLSAdherence a))"

text \<open>What the start takes from outside: whether the scheme and the client can be made, what the two
  reads of the APIServer give, and library-go's conversions to codes.\<close>

record tls_env =
  te_install :: bool
  te_client :: bool
  te_first :: "api_error + APIServer"
  te_second :: "api_error + APIServer"
  te_cipherCodes :: "string list \<Rightarrow> int list"
  te_curves :: "string list \<Rightarrow> int list"

definition fetchTLSConfig :: "tls_env \<Rightarrow> (tls_error, TLSProfileSpec \<times> string) go" where
  "fetchTLSConfig env =
     (if \<not> te_install env then err InstallFailed
      else if \<not> te_client env then err NewClientFailed
      else bind_go (FetchAPIServerTLSProfile (te_first env)) (\<lambda>profileSpec.
        case FetchAPIServerTLSAdherencePolicy (te_second env) of
          Inl (Fail (GetAPIServerFailed NotFound)) \<Rightarrow> Inr (profileSpec, '''')
        | Inl f \<Rightarrow> Inl f
        | Inr adherencePolicy \<Rightarrow> Inr (profileSpec, adherencePolicy)))"

definition ShouldHonorClusterTLSProfile :: "string \<Rightarrow> bool" where
  "ShouldHonorClusterTLSProfile tlsAdherence \<longleftrightarrow> tlsAdherence \<notin> {'''', ''LegacyAdheringComponentsOnly''}"

text \<open>The fields of Go's \<open>tls.Config\<close> that are set. A version of 0 and empty lists are Go's defaults.\<close>

record tls_config =
  tc_MinVersion :: int
  tc_CipherSuites :: "int list"
  tc_CurvePreferences :: "int list"
  tc_NextProtos :: "string list"

definition goTLSVersions :: "int gmap" where
  "goTLSVersions = [(''VersionTLS10'', 0x0301), (''VersionTLS11'', 0x0302), (''VersionTLS12'', 0x0303), (''VersionTLS13'', 0x0304)]"

definition TLSVersion :: "string \<Rightarrow> int option" where
  "TLSVersion versionName = (if versionName = '''' then Some 0x0303 else gget goTLSVersions versionName)"

definition TLSVersionOrDie :: "string \<Rightarrow> ('e, int) go" where
  "TLSVersionOrDie versionName = (case TLSVersion versionName of None \<Rightarrow> panic ExplicitPanic | Some v \<Rightarrow> Inr v)"

definition NewTLSConfigFromProfile :: "tls_env \<Rightarrow> TLSProfileSpec \<Rightarrow> ('e, tls_config \<Rightarrow> tls_config) go" where
  "NewTLSConfigFromProfile env profile =
     bind_go (TLSVersionOrDie (tls_MinTLSVersion profile)) (\<lambda>minVersion. Inr (\<lambda>c.
       let c1 = c\<lparr>tc_MinVersion := minVersion\<rparr>;
           c2 = (if te_curves env (tls_Groups profile) \<noteq> [] then c1\<lparr>tc_CurvePreferences := te_curves env (tls_Groups profile)\<rparr> else c1)
       in if minVersion \<noteq> 0x0304 then c2\<lparr>tc_CipherSuites := te_cipherCodes env (tls_Ciphers profile)\<rparr> else c2))"

text \<open>What \<open>main\<close> derives from the fetched profile: whether the cluster is an OpenShift one, the profile
  the reconciler gets, and the options of the two servers.\<close>

record tls_setup =
  ts_isOpenShiftCluster :: bool
  ts_profilePtr :: "TLSProfileSpec option"
  ts_opts :: "(tls_config \<Rightarrow> tls_config) list"

definition disableHTTP2 :: "bool \<Rightarrow> tls_config \<Rightarrow> tls_config" where
  "disableHTTP2 enableHTTP2 c = (if \<not> enableHTTP2 then c\<lparr>tc_NextProtos := [''http/1.1'']\<rparr> else c)"

definition main_tls :: "tls_env \<Rightarrow> bool \<Rightarrow> (tls_error, tls_setup) go" where
  "main_tls env enableHTTP2 =
     (let (isOpenShiftCluster, tlsProfileSpec, tlsAdherencePolicy) =
        (case fetchTLSConfig env of
           Inr (spec, policy) \<Rightarrow> (True, spec, policy)
         | Inl f \<Rightarrow> (False, intermediate_profile, ''''))
      in if ShouldHonorClusterTLSProfile tlsAdherencePolicy then
           bind_go (NewTLSConfigFromProfile env tlsProfileSpec) (\<lambda>tlsOption.
             Inr \<lparr>ts_isOpenShiftCluster = isOpenShiftCluster, ts_profilePtr = Some tlsProfileSpec,
               ts_opts = [tlsOption, disableHTTP2 enableHTTP2]\<rparr>)
         else Inr \<lparr>ts_isOpenShiftCluster = isOpenShiftCluster, ts_profilePtr = None,
               ts_opts = [\<lambda>c. c, disableHTTP2 enableHTTP2]\<rparr>)"

text \<open>A server applies its options in order to its initial configuration.\<close>

definition server_config :: "tls_setup \<Rightarrow> tls_config \<Rightarrow> tls_config" where
  "server_config setup c = fold (\<lambda>f. f) (ts_opts setup) c"

section \<open>The manager\<close>

record flags =
  fl_metricsAddr :: string
  fl_probeAddr :: string
  fl_enableLeaderElection :: bool
  fl_enableHTTP2 :: bool

definition default_flags :: flags where
  "default_flags = \<lparr>fl_metricsAddr = '':8080'', fl_probeAddr = '':8081'', fl_enableLeaderElection = False, fl_enableHTTP2 = False\<rparr>"

text \<open>The namespaces of the caches: of every kind, all of them when the map is empty, and of secrets.\<close>

record cache_options =
  co_DefaultNamespaces :: "unit gmap"
  co_Secrets :: "unit gmap"

definition cache_setup :: "string \<Rightarrow> string \<Rightarrow> cache_options" where
  "cache_setup ns watch =
     (if watch \<noteq> '''' then
        \<lparr>co_DefaultNamespaces = foldl (\<lambda>m n. gset m n ()) [] (Split watch '',''), co_Secrets = [(ns, ())]\<rparr>
      else \<lparr>co_DefaultNamespaces = [], co_Secrets = [(ns, ())]\<rparr>)"

record manager_options =
  mg_HealthProbeBindAddress :: string
  mg_LeaderElection :: bool
  mg_LeaseDuration :: int
  mg_RenewDeadline :: int
  mg_RetryPeriod :: int
  mg_LeaderElectionID :: string
  mg_LeaderElectionReleaseOnCancel :: bool
  mg_MetricsAddress :: string
  mg_TLSOpts :: "(tls_config \<Rightarrow> tls_config) list"
  mg_WebhookPort :: int
  mg_Cache :: cache_options

definition main_options :: "flags \<Rightarrow> LeaderElection \<Rightarrow> tls_setup \<Rightarrow> string \<Rightarrow> string \<Rightarrow> manager_options" where
  "main_options fl le setup ns watch =
     \<lparr>mg_HealthProbeBindAddress = fl_probeAddr fl, mg_LeaderElection = fl_enableLeaderElection fl,
      mg_LeaseDuration = le_LeaseDuration le, mg_RenewDeadline = le_RenewDeadline le, mg_RetryPeriod = le_RetryPeriod le,
      mg_LeaderElectionID = ''ptp.openshift.io'', mg_LeaderElectionReleaseOnCancel = True,
      mg_MetricsAddress = fl_metricsAddr fl, mg_TLSOpts = ts_opts setup, mg_WebhookPort = 9443, mg_Cache = cache_setup ns watch\<rparr>"

text \<open>The steps of \<open>main\<close> that can fail, in their order. A failure ends the process with exit code 1,
  but for the watcher of the TLS profile, whose failure is logged.\<close>

datatype main_step =
    NewManager
  | SetupController string
  | SetupWatcher
  | SetupWebhook string
  | AddCheck string
  | StartManager

definition main_steps :: "bool \<Rightarrow> main_step list" where
  "main_steps isOpenShiftCluster =
     [NewManager, SetupController ''PtpOperatorConfig'', SetupController ''PtpConfig'', SetupController ''HardwareConfig'']
     @ (if isOpenShiftCluster then [SetupWatcher] else [])
     @ [SetupWebhook ''PtpConfig'', SetupWebhook ''PtpOperatorConfig'', AddCheck ''healthz'', AddCheck ''readyz'', StartManager]"

text \<open>The steps that are taken, and the exit code.\<close>

fun run_steps :: "(main_step \<Rightarrow> bool) \<Rightarrow> main_step list \<Rightarrow> main_step list \<times> nat" where
  "run_steps ok [] = ([], 0)"
| "run_steps ok (step # steps) =
     (if \<not> ok step \<and> step \<noteq> SetupWatcher then ([step], 1)
      else apfst (Cons step) (run_steps ok steps))"

text \<open>The inputs of \<open>main\<close>, and its outcome: the manager's options, the profile of the reconciler, the steps
  and the exit code.\<close>

record main_env =
  me_tls :: tls_env
  me_saFile :: "string option"
  me_infra :: "api_error + string option"
  me_ns :: string
  me_watch :: string

datatype main_outcome = MainPanics | Exits manager_options "TLSProfileSpec option" "main_step list" nat

definition main :: "main_env \<Rightarrow> flags \<Rightarrow> (main_step \<Rightarrow> bool) \<Rightarrow> main_outcome" where
  "main env fl ok =
     (let le = GetLeaderElectionConfig (me_saFile env) (me_infra env) (fl_enableLeaderElection fl) in
      case main_tls (me_tls env) (fl_enableHTTP2 fl) of
        Inl f \<Rightarrow> MainPanics
      | Inr setup \<Rightarrow>
          (case run_steps ok (main_steps (ts_isOpenShiftCluster setup)) of
             (taken, code) \<Rightarrow> Exits (main_options fl le setup (me_ns env) (me_watch env)) (ts_profilePtr setup) taken code))"

section \<open>Lemmas\<close>

text \<open>A polling loop ends: \<open>n\<close> bounds the turns that fit before the timeout. The turns before the last
  one failed, the result is the outcome of the last one, and the loop does not end later than one pause and one
  check after the timeout, or one check after its beginning.\<close>

definition polls_ok :: "int \<Rightarrow> int \<Rightarrow> (nat \<Rightarrow> poll) \<Rightarrow> bool" where
  "polls_ok D P polls \<longleftrightarrow> (\<forall>i. 0 \<le> po_takes (polls i) \<and> po_takes (polls i) \<le> D \<and> 0 \<le> po_pause (polls i) \<and> po_pause (polls i) \<le> P
     \<and> (\<not> po_done (polls i) \<longrightarrow> pollingFreq \<le> po_pause (polls i)))"

definition loop_result ::
  "(nat \<Rightarrow> poll) \<Rightarrow> nat \<Rightarrow> (wait_error, unit) go \<Rightarrow> nat \<Rightarrow> bool" where
  "loop_result polls i r j \<longleftrightarrow> i \<le> j \<and> (\<forall>k. i \<le> k \<and> k < j \<longrightarrow> \<not> po_ok (polls k)) \<and> (r = Inr () \<longleftrightarrow> po_ok (polls j))"

lemma loop_result_Suc: "loop_result polls (Suc i) r j \<Longrightarrow> \<not> po_ok (polls i) \<Longrightarrow> loop_result polls i r j"
  unfolding loop_result_def using le_eq_less_or_eq Suc_leI by (metis Suc_leD)

lemma poll_until_ends:
  assumes ok: "polls_ok D P polls" and n: "start + wait_timeout - t < int n * pollingFreq"
  shows "\<exists>r j t'. poll_until late polls start i t = Some (r, Suc j, t') \<and> j \<le> i + n \<and> loop_result polls i r j
    \<and> t \<le> t' \<and> t' \<le> max t (start + wait_timeout + P) + D"
  using n
proof (induction n arbitrary: i t)
  case 0
  have "0 \<le> po_takes (polls i)" "po_takes (polls i) \<le> D" using ok by (auto simp: polls_ok_def)
  with 0 show ?case
    by (subst poll_until.simps) (auto simp: Let_def loop_result_def)
next
  case (Suc n)
  let ?p = "polls i" and ?t = "t + po_takes (polls i)"
  have p: "0 \<le> po_takes ?p" "po_takes ?p \<le> D" "0 \<le> po_pause ?p" "po_pause ?p \<le> P"
    "\<not> po_done ?p \<Longrightarrow> pollingFreq \<le> po_pause ?p"
    using ok by (auto simp: polls_ok_def)
  show ?case
  proof (cases "po_ok ?p \<or> ?t - start > wait_timeout \<or> po_done ?p")
    case True
    with p show ?thesis by (subst poll_until.simps) (auto simp: Let_def loop_result_def)
  next
    case False
    have "start + wait_timeout - (?t + po_pause ?p) < int n * pollingFreq"
      using Suc.prems p False by (simp add: algebra_simps)
    from Suc.IH [OF this, of "Suc i"] obtain r j t' where r: "poll_until late polls start (Suc i) (?t + po_pause ?p) = Some (r, Suc j, t')"
      "j \<le> Suc i + n" "loop_result polls (Suc i) r j" "?t + po_pause ?p \<le> t'"
      "t' \<le> max (?t + po_pause ?p) (start + wait_timeout + P) + D" by blast
    have "loop_result polls i r j" using loop_result_Suc [OF r(3)] False by simp
    moreover have "poll_until late polls start i t = Some (r, Suc j, t')"
      using r(1) False by (subst poll_until.simps) (simp add: Let_def)
    moreover have "j \<le> i + Suc n" "t \<le> t'" using r(2,4) p by linarith+
    moreover have "t' \<le> max t (start + wait_timeout + P) + D" using r(5) p False by linarith
    ultimately show ?thesis by blast
  qed
qed

lemma polls_ok_nonneg: "polls_ok D P polls \<Longrightarrow> 0 \<le> P" "polls_ok D P polls \<Longrightarrow> 0 \<le> D"
  by (auto simp: polls_ok_def intro: order_trans)

text \<open>From the start of the wait a loop takes at most 62 turns.\<close>

lemma poll_from_start:
  assumes "polls_ok D P polls" "start \<le> t"
  obtains r j t' where "poll_until late polls start 0 t = Some (r, Suc j, t')" "j \<le> 61" "loop_result polls 0 r j"
    "t \<le> t'" "t' \<le> max t (start + wait_timeout + P) + D"
proof -
  have "start + wait_timeout - t < int 61 * pollingFreq"
    using assms(2) by (simp add: wait_timeout_def pollingFreq_def Second_def)
  from poll_until_ends [OF assms(1) this, of late 0] that show thesis by auto
qed

lemma elector_timing:
  "elector_accepts (GetLeaderElectionConfig saFile infra enabled)"
  "le_LeaseDuration (GetLeaderElectionConfig saFile infra enabled) - le_RenewDeadline (GetLeaderElectionConfig saFile infra enabled) = 30 * Second"
  "le_RenewDeadline (GetLeaderElectionConfig saFile infra enabled) div le_RetryPeriod (GetLeaderElectionConfig saFile infra enabled) = 4"
  "le_LeaseDuration (GetLeaderElectionConfig saFile infra enabled) + le_RetryPeriod (GetLeaderElectionConfig saFile infra enabled) \<le> 330 * Second"
  by (simp_all add: GetLeaderElectionConfig_def LeaderElectionDefaulting_def LeaderElectionSNOConfig_def
      elector_accepts_def Second_def Let_def split: sum.split option.split)

text \<open>Exit code 1 means that a step other than the watcher failed, the last one taken.\<close>

lemma run_steps_result:
  "run_steps ok steps = (taken, code) \<Longrightarrow>
     (code = 0 \<and> taken = steps \<and> (\<forall>s \<in> set steps. ok s \<or> s = SetupWatcher))
     \<or> (code = 1 \<and> (\<exists>ss s rest. steps = ss @ s # rest \<and> taken = ss @ [s] \<and> \<not> ok s \<and> s \<noteq> SetupWatcher
          \<and> (\<forall>s' \<in> set ss. ok s' \<or> s' = SetupWatcher)))"
proof (induction steps arbitrary: taken)
  case (Cons step steps)
  show ?case
  proof (cases "\<not> ok step \<and> step \<noteq> SetupWatcher")
    case True
    with Cons.prems have "step # steps = [] @ step # steps \<and> taken = [] @ [step] \<and> code = 1" by auto
    with True show ?thesis by fastforce
  next
    case False
    with Cons.prems obtain taken' where t: "run_steps ok steps = (taken', code)" "taken = step # taken'"
      by (cases "run_steps ok steps") auto
    from Cons.IH [OF t(1)] show ?thesis
    proof
      assume "code = 1 \<and> (\<exists>ss s rest. steps = ss @ s # rest \<and> taken' = ss @ [s] \<and> \<not> ok s \<and> s \<noteq> SetupWatcher
          \<and> (\<forall>s' \<in> set ss. ok s' \<or> s' = SetupWatcher))"
      then obtain ss s rest where "code = 1" "steps = ss @ s # rest" "taken' = ss @ [s]" "\<not> ok s" "s \<noteq> SetupWatcher"
        "\<forall>s' \<in> set ss. ok s' \<or> s' = SetupWatcher" by blast
      with t False have "code = 1 \<and> step # steps = (step # ss) @ s # rest \<and> taken = (step # ss) @ [s] \<and> \<not> ok s
        \<and> s \<noteq> SetupWatcher \<and> (\<forall>s' \<in> set (step # ss). ok s' \<or> s' = SetupWatcher)" by auto
      then show ?thesis by blast
    qed (use t False in auto)
  qed
qed simp

text \<open>The predefined profiles name versions that Go knows; only a custom one can name another.\<close>

lemma TLSVersion_known: "tls_MinTLSVersion spec \<in> {'''', ''VersionTLS10'', ''VersionTLS11'', ''VersionTLS12'', ''VersionTLS13''}
   \<longleftrightarrow> TLSVersion (tls_MinTLSVersion spec) \<noteq> None"
  by (auto simp: TLSVersion_def goTLSVersions_def gget_def)

text \<open>What the operand's template gets from the setup.\<close>

definition template_tls :: "'s op_env \<Rightarrow> TLSProfileSpec option \<Rightarrow> tdata \<Rightarrow> tval option list" where
  "template_tls op ptr data =
     map (gget (setTLSTemplateData (op\<lparr>oe_tls := ptr\<rparr>) data)) [''TLSMinVersion'', ''TLSCipherSuites'', ''TLSGroups'']"

lemma template_tls_fields:
  "template_tls op None data = [Some (TStr ''''), Some (TStr legacyCipherSuites), Some (TStr '''')]"
  "template_tls op (Some spec) data = [Some (TStr (tls_MinTLSVersion spec)),
     Some (TStr (Join (oe_iana op (tls_Ciphers spec)) '','')), Some (TStr (Join (map Itoa (oe_curves op (tls_Groups spec))) '',''))]"
  by (simp_all add: template_tls_def setTLSTemplateData_def gset_all_def)

text \<open>The profile that the APIServer resource asks for, unless it asks for a custom one and has none.\<close>

definition wanted_spec :: "APIServer \<Rightarrow> TLSProfileSpec option" where
  "wanted_spec a =
     (case as_TLSSecurityProfile a of
        None \<Rightarrow> Some intermediate_profile
      | Some p \<Rightarrow>
          if tsp_Type p = ''Custom'' then tsp_Custom p
          else if tsp_Type p = ''Old''
          then Some \<lparr>tls_Ciphers = old_ciphers, tls_MinTLSVersion = ''VersionTLS10'', tls_Groups = profile_groups\<rparr>
          else if tsp_Type p = ''Modern''
          then Some \<lparr>tls_Ciphers = modern_ciphers, tls_MinTLSVersion = ''VersionTLS13'', tls_Groups = profile_groups\<rparr>
          else Some intermediate_profile)"

lemma GetTLSProfileSpec_wanted: "wanted_spec a = Some spec \<Longrightarrow> GetTLSProfileSpec (as_TLSSecurityProfile a) = Inr spec"
  by (auto simp: wanted_spec_def GetTLSProfileSpec_def TLSProfiles_def gget_def intermediate_profile_def split: option.splits if_splits)

lemma fetch_accessible:
  "te_install env \<Longrightarrow> te_client env \<Longrightarrow> te_first env = Inr a \<Longrightarrow> te_second env = Inr b \<Longrightarrow> wanted_spec a = Some spec \<Longrightarrow>
     fetchTLSConfig env = Inr (spec, as_TLSAdherence b)"
  by (simp add: fetchTLSConfig_def FetchAPIServerTLSProfile_def FetchAPIServerTLSAdherencePolicy_def GetTLSProfileSpec_wanted)

text \<open>The goroutine creates the default resource only when the webhook is ready and there is none.\<close>

lemma create_when_ready_effect:
  assumes "create_when_ready req_ok checker dial start client_ok env s = Some s'" "s' \<noteq> s"
  shows "\<exists>t. waitForWebhookServer req_ok checker dial start = Some (Inr (), t)"
    "oe_GetConfig env \<lparr>nn_Namespace = oe_ns env, nn_Name = DefaultOperatorConfigName\<rparr> s = Inl NotFound"
    "s' = snd (oe_CreateConfig env (default_config (oe_ns env)) s)"
  using assms
  by (auto simp: create_when_ready_def createDefaultOperatorConfig_def ends_with_def
      split: option.splits sum.splits if_splits api_error.splits prod.splits)

section \<open>Properties\<close>

text \<open>C20: The wait for the webhook ends. When a check takes at most \<open>D\<close>, and a pause at least the polling
  interval (unless the context ends it) and at most \<open>P\<close>, the wait returns within its timeout plus one pause and
  two checks, after at most 62 turns of each loop. It succeeds exactly when the last turn of both
  loops does, all earlier turns having failed.\<close>

theorem webhook_wait_returns:
  assumes "polls_ok D P checker" "polls_ok D P dial"
  shows "\<exists>r t i j. waitForWebhookServer req_ok checker dial start = Some (r, t)
    \<and> start \<le> t \<and> t \<le> start + wait_timeout + P + 2 * D \<and> i \<le> 61 \<and> j \<le> 61
    \<and> (\<forall>k < i. \<not> po_ok (checker k)) \<and> (\<forall>k < j. \<not> po_ok (dial k))
    \<and> (r = Inr () \<longleftrightarrow> req_ok \<and> po_ok (checker i) \<and> po_ok (dial j))"
proof (cases req_ok)
  case False
  with polls_ok_nonneg [OF assms(1)] show ?thesis
    by (intro exI [of _ "err RequestFailed"] exI [of _ start] exI [of _ 0])
      (simp add: waitForWebhookServer_def wait_timeout_def Second_def)
next
  case True
  note PD = polls_ok_nonneg [OF assms(1)]
  obtain r i t where c: "poll_until ServerTimeout checker start 0 start = Some (r, Suc i, t)" "i \<le> 61"
    "loop_result checker 0 r i" "start \<le> t" "t \<le> start + wait_timeout + P + D"
    using poll_from_start [OF assms(1), of start start ServerTimeout] PD
    by (auto simp: max_def wait_timeout_def Second_def split: if_splits)
  show ?thesis
  proof (cases r)
    case (Inl f)
    with c True PD show ?thesis
      by (intro exI [of _ r] exI [of _ t] exI [of _ i] exI [of _ 0]) (simp add: waitForWebhookServer_def loop_result_def)
  next
    case (Inr u)
    obtain r' j t' where d: "poll_until EndpointsTimeout dial start 0 t = Some (r', Suc j, t')" "j \<le> 61"
      "loop_result dial 0 r' j" "t \<le> t'" "t' \<le> max t (start + wait_timeout + P) + D"
      using poll_from_start [OF assms(2) c(4)] by blast
    with c Inr True PD show ?thesis
      by (intro exI [of _ r'] exI [of _ t'] exI [of _ i] exI [of _ j]) (simp add: waitForWebhookServer_def loop_result_def)
  qed
qed

text \<open>Leader election is accepted. On every branch the durations are what client-go accepts, with 30
  seconds for the skew of clocks, four retries, and no overflow of 64 bits.\<close>

lemma leader_election_timing:
  "let le = GetLeaderElectionConfig saFile infra enabled in
     elector_accepts le \<and> le_LeaseDuration le - le_RenewDeadline le = 30 * Second
     \<and> le_RenewDeadline le div le_RetryPeriod le = 4 \<and> le_LeaseDuration le + le_RetryPeriod le < 2 ^ 63"
  unfolding Let_def using elector_timing [of saFile infra enabled] by (simp add: Second_def)

text \<open>C24: One TLS profile for the servers and the operand, when the APIServer resource can be read. If its adherence policy is to honour
  the profile, the servers get the minimum version of the profile it asks for, its curves, when there are any, and, below TLS 1.3, its cipher
  suites, and the operand's template gets the version, the suites and the groups of the same profile; a version that is not known
  panics. If the policy is empty or the legacy one, the servers get Go's defaults and the operand the legacy suites. HTTP/2 is off unless it is enabled,
  and nothing else of a server's configuration changes.\<close>

theorem tls_profile_consistent:
  assumes "te_install env" "te_client env" "te_first env = Inr a" "te_second env = Inr b" "wanted_spec a = Some spec"
  shows "if as_TLSAdherence b \<in> {'''', ''LegacyAdheringComponentsOnly''} then
      \<exists>setup. main_tls env h2 = Inr setup
        \<and> server_config setup c = c\<lparr>tc_NextProtos := if h2 then tc_NextProtos c else [''http/1.1'']\<rparr>
        \<and> template_tls op (ts_profilePtr setup) data = [Some (TStr ''''), Some (TStr legacyCipherSuites), Some (TStr '''')]
    else case TLSVersion (tls_MinTLSVersion spec) of
      None \<Rightarrow> main_tls env h2 = panic ExplicitPanic
    | Some v \<Rightarrow> \<exists>setup. main_tls env h2 = Inr setup
        \<and> server_config setup c = c\<lparr>tc_MinVersion := v,
            tc_CipherSuites := if v = 0x0304 then tc_CipherSuites c else te_cipherCodes env (tls_Ciphers spec),
            tc_CurvePreferences := if te_curves env (tls_Groups spec) = [] then tc_CurvePreferences c else te_curves env (tls_Groups spec),
            tc_NextProtos := if h2 then tc_NextProtos c else [''http/1.1'']\<rparr>
        \<and> template_tls op (ts_profilePtr setup) data = [Some (TStr (tls_MinTLSVersion spec)),
            Some (TStr (Join (oe_iana op (tls_Ciphers spec)) '','')), Some (TStr (Join (map Itoa (oe_curves op (tls_Groups spec))) '',''))]"
  using fetch_accessible [OF assms]
  by (auto simp: main_tls_def NewTLSConfigFromProfile_def TLSVersionOrDie_def server_config_def disableHTTP2_def
      ShouldHonorClusterTLSProfile_def template_tls_fields panic_def Let_def split: option.split)

text \<open>When the profile cannot be fetched, the Intermediate profile is chosen but, the policy being empty, not used: the servers get Go's
  defaults and the operand the legacy suites.\<close>

lemma tls_not_accessible:
  assumes "fetchTLSConfig env = Inl f"
  shows "\<exists>setup. main_tls env h2 = Inr setup \<and> server_config setup c = disableHTTP2 h2 c
    \<and> template_tls op (ts_profilePtr setup) data = [Some (TStr ''''), Some (TStr legacyCipherSuites), Some (TStr '''')]"
  using assms by (simp add: main_tls_def server_config_def ShouldHonorClusterTLSProfile_def template_tls_fields)

section \<open>Witnesses\<close>

definition wit_polls :: "nat \<Rightarrow> nat \<Rightarrow> poll" where
  "wit_polls n i = \<lparr>po_ok = (n \<le> i), po_takes = 2 * Second, po_done = False, po_pause = Second\<rparr>"

lemma wit_polls_ok: "polls_ok (2 * Second) Second (wit_polls n)"
  by (simp add: polls_ok_def wit_polls_def pollingFreq_def Second_def)

theorem webhook_wait_returns_witness:
  "\<exists>r t. waitForWebhookServer True (wit_polls 3) (wit_polls 100) 0 = Some (r, t) \<and> t \<le> 65 * Second \<and> r \<noteq> Inr ()"
proof -
  have "\<not> po_ok (wit_polls 100 j)" if "j \<le> 61" for j using that by (simp add: wit_polls_def)
  with webhook_wait_returns [OF wit_polls_ok wit_polls_ok, of True 3 100 0] show ?thesis
    by (fastforce simp: wait_timeout_def Second_def)
qed

definition wit_tls_env :: tls_env where
  "wit_tls_env =
     (let a = \<lparr>as_TLSSecurityProfile = Some \<lparr>tsp_Type = ''Modern'', tsp_Custom = None\<rparr>, as_TLSAdherence = ''StrictAllComponents''\<rparr>
      in \<lparr>te_install = True, te_client = True, te_first = Inr a, te_second = Inr a, te_cipherCodes = map (\<lambda>_. 1), te_curves = map (\<lambda>_. 29)\<rparr>)"

theorem tls_profile_consistent_witness:
  "\<exists>setup. main_tls wit_tls_env False = Inr setup
     \<and> server_config setup \<lparr>tc_MinVersion = 0, tc_CipherSuites = [], tc_CurvePreferences = [], tc_NextProtos = []\<rparr>
         = \<lparr>tc_MinVersion = 0x0304, tc_CipherSuites = [], tc_CurvePreferences = [29, 29, 29, 29], tc_NextProtos = [''http/1.1'']\<rparr>
     \<and> hd (template_tls wit_op_env (ts_profilePtr setup) []) = Some (TStr ''VersionTLS13'')"
proof -
  let ?a = "\<lparr>as_TLSSecurityProfile = Some \<lparr>tsp_Type = ''Modern'', tsp_Custom = None\<rparr>, as_TLSAdherence = ''StrictAllComponents''\<rparr>"
  let ?spec = "\<lparr>tls_Ciphers = modern_ciphers, tls_MinTLSVersion = ''VersionTLS13'', tls_Groups = profile_groups\<rparr>"
  have e: "te_install wit_tls_env" "te_client wit_tls_env" "te_first wit_tls_env = Inr ?a" "te_second wit_tls_env = Inr ?a"
    "te_curves wit_tls_env = map (\<lambda>_. 29)" by (simp_all add: wit_tls_env_def Let_def)
  have w: "wanted_spec ?a = Some ?spec" by (simp add: wanted_spec_def)
  have "TLSVersion ''VersionTLS13'' = Some 0x0304" by code_simp
  with tls_profile_consistent [OF e(1-4) w, of False "\<lparr>tc_MinVersion = 0, tc_CipherSuites = [], tc_CurvePreferences = [], tc_NextProtos = []\<rparr>"
      wit_op_env "[]"] e(5)
  show ?thesis by (auto simp: profile_groups_def)
qed

end
