(* ===== verification/Hardware_Validate.thy ===== *)
theory Hardware_Validate
  imports Hardware_Types
begin

text \<open>
  The validation of a HardwareConfig and the text forms of its types
  (\<open>api/v2alpha1/hardwareconfig_types.go\<close>): \<open>ClockChain.Validate\<close> with everything it calls, the
  text marshalling of \<open>PTPPinFunction\<close>, and the \<open>String\<close> methods.
\<close>

section \<open>Text forms\<close>

definition PTPPinFunction_String :: "PTPPinFunction \<Rightarrow> string" where
  "PTPPinFunction_String f =
     (if f = PTPPinFunctionDisabled then ''Disabled''
      else if f = PTPPinFunctionRX then ''RX''
      else if f = PTPPinFunctionTX then ''TX''
      else if f = PTPPinFunctionSync then ''Sync''
      else ''Unknown('' @ Itoa f @ '')'')"

definition MarshalText :: "PTPPinFunction \<Rightarrow> string" where
  "MarshalText f = PTPPinFunction_String f"

text \<open>\<open>None\<close> is the error of an invalid value.\<close>

definition UnmarshalText :: "(string \<Rightarrow> string) \<Rightarrow> string \<Rightarrow> PTPPinFunction option" where
  "UnmarshalText ulower txt =
     (let s = ToLower ulower txt in
      if s = ''disabled'' then Some PTPPinFunctionDisabled
      else if s = ''rx'' then Some PTPPinFunctionRX
      else if s = ''tx'' then Some PTPPinFunctionTX
      else if s = ''sync'' then Some PTPPinFunctionSync
      else None)"

abbreviation line :: "string \<Rightarrow> string" where
  "line s \<equiv> s @ [CHR 0x0A]"

definition ClockChain_String :: "ClockChain \<Rightarrow> string" where
  "ClockChain_String cc =
     line ''Clock Chain Configuration:''
     @ line (''  Subsystems: '' @ Itoa (int (length (cc_Structure cc))))
     @ (case cc_CommonDefinitions cc of None \<Rightarrow> ''''
        | Some d \<Rightarrow> line (''  eSync Definitions: '' @ Itoa (int (length (cd_ESyncDefinitions d)))))
     @ (case cc_Behavior cc of None \<Rightarrow> ''''
        | Some b \<Rightarrow> line (''  Sources: '' @ Itoa (int (length (bh_Sources b))))
            @ line (''  Conditions: '' @ Itoa (int (length (bh_Conditions b)))))"

definition Subsystem_String :: "Subsystem \<Rightarrow> string" where
  "Subsystem_String s =
     (let key = (if sub_HardwareSpecificDefinitions s = '''' then ''default'' else sub_HardwareSpecificDefinitions s)
      in ''Subsystem '' @ sub_Name s @ '' (Plugin: '' @ key @ '', Network Interface: ''
         @ dpll_NetworkInterface (sub_DPLL s) @ '', Ethernet Ports: '' @ Itoa (int (length (sub_Ethernet s))) @ '')'')"

section \<open>Errors\<close>

datatype hw_error =
    NotAlphanumDash string
  | FrequencyAndESync
  | InvalidConnector hw_error
  | SubsystemNotSpecified
  | PTPTimeReceiversMissing
  | InvalidTimeReceiver hw_error
  | GnssConfigMissing
  | NoSubsystem
  | EmptySubsystemName
  | DuplicateSubsystem string
  | EmptyESyncName
  | DuplicateESync string
  | EmptyRefSyncName
  | DuplicateRefSync string
  | InvalidPinConfig string string hw_error
  | ESyncNotFound string string string
  | RefSyncOnFrequencyOutput string string
  | RefSyncOnNonFrequencyInput string string
  | RefSyncNotPhasePin string string string
  | InvalidSource string hw_error
  | DuplicateSource string
  | SourceSubsystemNotFound string string
  | TriggerSourceNotFound string string
  | DesiredSubsystemNotFound string string

type_synonym hres = "(hw_error, unit) go"

section \<open>Validation\<close>

definition ValidateAlphanumDash :: "string \<Rightarrow> hres" where
  "ValidateAlphanumDash value =
     (if rx_match (RPlus (RClass word_dash)) value then Inr () else err (NotAlphanumDash value))"

definition PinConfig_Validate :: "PinConfig \<Rightarrow> hres" where
  "PinConfig_Validate pc =
     (if pc_Frequency pc \<noteq> None \<and> pc_ESyncConfigName pc \<noteq> '''' then err FrequencyAndESync
      else if pc_Connector pc \<noteq> '''' then wrap_err InvalidConnector (ValidateAlphanumDash (pc_Connector pc))
      else Inr ())"

definition SourceConfig_Validate :: "SourceConfig \<Rightarrow> hres" where
  "SourceConfig_Validate sc =
     (if sc_Subsystem sc = '''' then err SubsystemNotSpecified
      else case sc_SourceType sc of
        SourceTypePTP \<Rightarrow>
          if sc_PTPTimeReceivers sc = [] then err PTPTimeReceiversMissing
          else each (\<lambda>receiver. wrap_err InvalidTimeReceiver (ValidateAlphanumDash receiver)) (sc_PTPTimeReceivers sc)
      | SourceTypeGNSS \<Rightarrow> if sc_GNSSConfig sc = None then err GnssConfigMissing else Inr ()
      | _ \<Rightarrow> Inr ())"

text \<open>
  The loops that collect unique names into a \<open>map[string]bool\<close>: a check before, the test whether
  the name was seen, and a check after it is recorded.
\<close>

definition seen :: "bool gmap \<Rightarrow> string \<Rightarrow> bool" where
  "seen m n = (gget m n = Some True)"

definition register ::
  "('a \<Rightarrow> ('e, unit) go) \<Rightarrow> ('a \<Rightarrow> string) \<Rightarrow> (string \<Rightarrow> 'e) \<Rightarrow> ('a \<Rightarrow> ('e, unit) go) \<Rightarrow>
     bool gmap \<Rightarrow> 'a \<Rightarrow> ('e, bool gmap) go" where
  "register before key dup after names x =
     bind_go (before x) (\<lambda>_.
       if seen names (key x) then err (dup (key x))
       else bind_go (after x) (\<lambda>_. Inr (gset names (key x) True)))"

abbreviation nonempty :: "'e \<Rightarrow> ('a \<Rightarrow> string) \<Rightarrow> 'a \<Rightarrow> ('e, unit) go" where
  "nonempty e key x \<equiv> (if key x = '''' then err e else Inr ())"

definition register_subsystem :: "bool gmap \<Rightarrow> Subsystem \<Rightarrow> (hw_error, bool gmap) go" where
  "register_subsystem =
     register (nonempty EmptySubsystemName sub_Name) sub_Name DuplicateSubsystem (\<lambda>_. Inr ())"

definition register_esync :: "bool gmap \<Rightarrow> ESyncDefinition \<Rightarrow> (hw_error, bool gmap) go" where
  "register_esync = register (nonempty EmptyESyncName esd_Name) esd_Name DuplicateESync (\<lambda>_. Inr ())"

definition register_refsync :: "bool gmap \<Rightarrow> RefSyncDefinition \<Rightarrow> (hw_error, bool gmap) go" where
  "register_refsync = register (nonempty EmptyRefSyncName rsd_Name) rsd_Name DuplicateRefSync (\<lambda>_. Inr ())"

definition register_source :: "bool gmap \<Rightarrow> bool gmap \<Rightarrow> SourceConfig \<Rightarrow> (hw_error, bool gmap) go" where
  "register_source subsystemNames =
     register (\<lambda>source. wrap_err (InvalidSource (sc_Name source)) (SourceConfig_Validate source))
       sc_Name DuplicateSource
       (\<lambda>source. if seen subsystemNames (sc_Subsystem source) then Inr ()
          else err (SourceSubsystemNotFound (sc_Name source) (sc_Subsystem source)))"

text \<open>All pins of a subsystem by label: the four maps are copied one after the other, so that a
  label used twice keeps the last configuration.\<close>

definition allPinConfigs :: "range_order \<Rightarrow> DPLL \<Rightarrow> PinConfig gmap" where
  "allPinConfigs ord d =
     gset_all (gset_all (gset_all (gset_all []
       (range_gmap ord (dpll_PhaseInputs d))) (range_gmap ord (dpll_PhaseOutputs d)))
       (range_gmap ord (dpll_FrequencyInputs d))) (range_gmap ord (dpll_FrequencyOutputs d))"

definition validate_pin :: "bool gmap \<Rightarrow> Subsystem \<Rightarrow> string \<times> PinConfig \<Rightarrow> hres" where
  "validate_pin esyncNames subsystem lc =
     (let label = fst lc; config = snd lc; d = sub_DPLL subsystem;
          isPhase = (\<lambda>l. gget (dpll_PhaseInputs d) l \<noteq> None \<or> gget (dpll_PhaseOutputs d) l \<noteq> None)
      in bind_go (wrap_err (InvalidPinConfig label (sub_Name subsystem)) (PinConfig_Validate config)) (\<lambda>_.
         if pc_ESyncConfigName config \<noteq> '''' \<and> \<not> seen esyncNames (pc_ESyncConfigName config)
         then err (ESyncNotFound (pc_ESyncConfigName config) (sub_Name subsystem) label)
         else if pc_ReferenceSync config \<noteq> '''' then
           (if gget (dpll_FrequencyInputs d) label = None then
              (if gget (dpll_FrequencyOutputs d) label \<noteq> None
               then err (RefSyncOnFrequencyOutput label (sub_Name subsystem))
               else err (RefSyncOnNonFrequencyInput label (sub_Name subsystem)))
            else if \<not> isPhase (pc_ReferenceSync config)
            then err (RefSyncNotPhasePin (pc_ReferenceSync config) (sub_Name subsystem) label)
            else Inr ())
         else Inr ()))"

definition validate_subsystem :: "range_order \<Rightarrow> bool gmap \<Rightarrow> Subsystem \<Rightarrow> hres" where
  "validate_subsystem ord esyncNames subsystem =
     each (validate_pin esyncNames subsystem) (range_gmap ord (allPinConfigs ord (sub_DPLL subsystem)))"

definition default_trigger :: string where
  "default_trigger = ''Default on profile (re)load''"

definition validate_condition :: "bool gmap \<Rightarrow> bool gmap \<Rightarrow> HwCondition \<Rightarrow> hres" where
  "validate_condition subsystemNames sourceNames condition =
     bind_go (each (\<lambda>trigger.
         if ss_SourceName trigger \<noteq> default_trigger \<and> \<not> seen sourceNames (ss_SourceName trigger)
         then err (TriggerSourceNotFound (ss_SourceName trigger) (hc_Name condition)) else Inr ())
       (hc_Triggers condition)) (\<lambda>_.
     each (\<lambda>desiredState.
         case ds_DPLL desiredState of
           None \<Rightarrow> Inr ()
         | Some d \<Rightarrow>
             if dds_Subsystem d \<noteq> '''' \<and> \<not> seen subsystemNames (dds_Subsystem d)
             then err (DesiredSubsystemNotFound (hc_Name condition) (dds_Subsystem d)) else Inr ())
       (hc_DesiredStates condition))"

definition validate_behavior :: "bool gmap \<Rightarrow> Behavior \<Rightarrow> hres" where
  "validate_behavior subsystemNames b =
     bind_go (fold_go (register_source subsystemNames) [] (bh_Sources b)) (\<lambda>sourceNames.
       each (validate_condition subsystemNames sourceNames) (bh_Conditions b))"

definition ClockChain_Validate :: "range_order \<Rightarrow> ClockChain \<Rightarrow> hres" where
  "ClockChain_Validate ord cc =
     (if cc_Structure cc = [] then err NoSubsystem
      else bind_go (fold_go register_subsystem [] (cc_Structure cc)) (\<lambda>subsystemNames.
        bind_go
          (case cc_CommonDefinitions cc of
             None \<Rightarrow> Inr []
           | Some cd \<Rightarrow>
               bind_go (fold_go register_esync [] (cd_ESyncDefinitions cd)) (\<lambda>esyncNames.
                 bind_go (fold_go register_refsync [] (cd_RefSyncDefinitions cd)) (\<lambda>_. Inr esyncNames)))
          (\<lambda>esyncNames.
             bind_go (each (validate_subsystem ord esyncNames) (cc_Structure cc)) (\<lambda>_.
               case cc_Behavior cc of None \<Rightarrow> Inr () | Some b \<Rightarrow> validate_behavior subsystemNames b))))"

section \<open>Loops over unique names\<close>

lemma seen_gset [simp]: "seen (gset m k True) n \<longleftrightarrow> n = k \<or> seen m n"
  by (simp add: seen_def)

lemma seen_Nil [simp]: "\<not> seen [] n"
  by (simp add: seen_def)

abbreviation record_names :: "('a \<Rightarrow> string) \<Rightarrow> bool gmap \<Rightarrow> 'a list \<Rightarrow> bool gmap" where
  "record_names key m xs \<equiv> foldl (\<lambda>m x. gset m (key x) True) m xs"

lemma seen_record_names: "seen (record_names key m xs) n \<longleftrightarrow> seen m n \<or> n \<in> key ` set xs"
  by (induction xs arbitrary: m) auto

lemma seen_recorded [simp]: "Collect (seen (record_names key [] xs)) = key ` set xs"
  by (auto simp: seen_record_names)

lemma register_ok:
  "register before key dup after names x = Inr m \<longleftrightarrow>
     before x = Inr () \<and> after x = Inr () \<and> \<not> seen names (key x) \<and> m = gset names (key x) True"
  by (auto simp: register_def bind_go_eq_Inr)

lemma register_loop_ok:
  "fold_go (register before key dup after) names xs = Inr m \<longleftrightarrow>
     (\<forall>x \<in> set xs. before x = Inr () \<and> after x = Inr () \<and> \<not> seen names (key x))
     \<and> distinct (map key xs) \<and> m = record_names key names xs"
proof (induction xs arbitrary: names)
  case Nil
  then show ?case by auto
next
  case (Cons x xs)
  have "fold_go (register before key dup after) names (x # xs) = Inr m \<longleftrightarrow>
      before x = Inr () \<and> after x = Inr () \<and> \<not> seen names (key x)
      \<and> fold_go (register before key dup after) (gset names (key x) True) xs = Inr m"
    by (auto simp: bind_go_eq_Inr register_ok)
  also have "\<dots> \<longleftrightarrow> (\<forall>y \<in> set (x # xs). before y = Inr () \<and> after y = Inr () \<and> \<not> seen names (key y))
     \<and> distinct (map key (x # xs)) \<and> m = record_names key names (x # xs)"
    unfolding Cons.IH by (auto simp: image_iff)
  finally show ?case .
qed

section \<open>What a valid clock chain is\<close>

text \<open>The configuration that counts for a label.\<close>

definition pin_of :: "DPLL \<Rightarrow> string \<Rightarrow> PinConfig option" where
  "pin_of d l =
     (case gget (dpll_FrequencyOutputs d) l of Some c \<Rightarrow> Some c | None \<Rightarrow>
     (case gget (dpll_FrequencyInputs d) l of Some c \<Rightarrow> Some c | None \<Rightarrow>
     (case gget (dpll_PhaseOutputs d) l of Some c \<Rightarrow> Some c | None \<Rightarrow> gget (dpll_PhaseInputs d) l)))"

definition dpll_wf :: "DPLL \<Rightarrow> bool" where
  "dpll_wf d \<longleftrightarrow> wf_gmap (dpll_PhaseInputs d) \<and> wf_gmap (dpll_PhaseOutputs d)
     \<and> wf_gmap (dpll_FrequencyInputs d) \<and> wf_gmap (dpll_FrequencyOutputs d)"

definition chain_wf :: "ClockChain \<Rightarrow> bool" where
  "chain_wf cc \<longleftrightarrow> list_all (dpll_wf \<circ> sub_DPLL) (cc_Structure cc)"

definition name_ok :: "string \<Rightarrow> bool" where
  "name_ok s \<longleftrightarrow> s \<noteq> '''' \<and> list_all word_dash s"

definition pin_policy :: "string set \<Rightarrow> DPLL \<Rightarrow> string \<Rightarrow> PinConfig \<Rightarrow> bool" where
  "pin_policy esyncs d l c \<longleftrightarrow>
     (pc_Frequency c = None \<or> pc_ESyncConfigName c = '''')
     \<and> (pc_Connector c = '''' \<or> name_ok (pc_Connector c))
     \<and> (pc_ESyncConfigName c = '''' \<or> pc_ESyncConfigName c \<in> esyncs)
     \<and> (pc_ReferenceSync c = '''' \<or>
          l \<in> set (gkeys (dpll_FrequencyInputs d))
          \<and> pc_ReferenceSync c \<in> set (gkeys (dpll_PhaseInputs d)) \<union> set (gkeys (dpll_PhaseOutputs d)))"

definition source_policy :: "string set \<Rightarrow> SourceConfig \<Rightarrow> bool" where
  "source_policy subsystems s \<longleftrightarrow>
     sc_Subsystem s \<noteq> '''' \<and> sc_Subsystem s \<in> subsystems
     \<and> (sc_SourceType s = SourceTypePTP \<longrightarrow> sc_PTPTimeReceivers s \<noteq> [] \<and> list_all name_ok (sc_PTPTimeReceivers s))
     \<and> (sc_SourceType s = SourceTypeGNSS \<longrightarrow> sc_GNSSConfig s \<noteq> None)"

definition condition_policy :: "string set \<Rightarrow> string set \<Rightarrow> HwCondition \<Rightarrow> bool" where
  "condition_policy subsystems sources c \<longleftrightarrow>
     list_all (\<lambda>t. ss_SourceName t \<in> insert default_trigger sources) (hc_Triggers c)
     \<and> (\<forall>s \<in> set (hc_DesiredStates c). \<forall>d. ds_DPLL s = Some d \<longrightarrow> dds_Subsystem d \<in> insert '''' subsystems)"

definition behavior_policy :: "string set \<Rightarrow> Behavior \<Rightarrow> bool" where
  "behavior_policy subsystems b \<longleftrightarrow>
     distinct (map sc_Name (bh_Sources b)) \<and> list_all (source_policy subsystems) (bh_Sources b)
     \<and> list_all (condition_policy subsystems (set (map sc_Name (bh_Sources b)))) (bh_Conditions b)"

abbreviation names_ok :: "string list \<Rightarrow> bool" where
  "names_ok ns \<equiv> distinct ns \<and> '''' \<notin> set ns"

definition esync_names :: "ClockChain \<Rightarrow> string list" where
  "esync_names cc = (case cc_CommonDefinitions cc of None \<Rightarrow> [] | Some cd \<Rightarrow> map esd_Name (cd_ESyncDefinitions cd))"

definition refsync_names :: "ClockChain \<Rightarrow> string list" where
  "refsync_names cc = (case cc_CommonDefinitions cc of None \<Rightarrow> [] | Some cd \<Rightarrow> map rsd_Name (cd_RefSyncDefinitions cd))"

definition chain_policy :: "ClockChain \<Rightarrow> bool" where
  "chain_policy cc \<longleftrightarrow>
     cc_Structure cc \<noteq> [] \<and> names_ok (map sub_Name (cc_Structure cc))
     \<and> names_ok (esync_names cc) \<and> names_ok (refsync_names cc)
     \<and> (\<forall>s \<in> set (cc_Structure cc). \<forall>l c. pin_of (sub_DPLL s) l = Some c \<longrightarrow>
          pin_policy (set (esync_names cc)) (sub_DPLL s) l c)
     \<and> (\<forall>b. cc_Behavior cc = Some b \<longrightarrow> behavior_policy (set (map sub_Name (cc_Structure cc))) b)"

section \<open>The validator decides the policy\<close>

lemma ValidateAlphanumDash_ok: "ValidateAlphanumDash v = Inr () \<longleftrightarrow> name_ok v"
  by (simp add: ValidateAlphanumDash_def rx_match_iff rx_plus_class name_ok_def)

lemma PinConfig_Validate_ok:
  "PinConfig_Validate c = Inr () \<longleftrightarrow>
     (pc_Frequency c = None \<or> pc_ESyncConfigName c = '''') \<and> (pc_Connector c = '''' \<or> name_ok (pc_Connector c))"
  by (auto simp: PinConfig_Validate_def ValidateAlphanumDash_ok)

lemma SourceConfig_Validate_ok:
  "SourceConfig_Validate s = Inr () \<longleftrightarrow>
     sc_Subsystem s \<noteq> ''''
     \<and> (sc_SourceType s = SourceTypePTP \<longrightarrow> sc_PTPTimeReceivers s \<noteq> [] \<and> list_all name_ok (sc_PTPTimeReceivers s))
     \<and> (sc_SourceType s = SourceTypeGNSS \<longrightarrow> sc_GNSSConfig s \<noteq> None)"
  by (auto simp: SourceConfig_Validate_def each_ok_iff ValidateAlphanumDash_ok list_all_iff
      split: SourceTypeID.splits)

lemma gget_gset_range:
  "range_order_ok ord \<Longrightarrow> wf_gmap n \<Longrightarrow>
     gget (gset_all m (range_gmap ord n)) k = (case gget n k of None \<Rightarrow> gget m k | Some v \<Rightarrow> Some v)"
  by (simp add: gget_gset_all distinct_range_gmap map_of_range_gmap)

lemma gget_allPinConfigs:
  "range_order_ok ord \<Longrightarrow> dpll_wf d \<Longrightarrow> gget (allPinConfigs ord d) l = pin_of d l"
  by (auto simp: allPinConfigs_def pin_of_def dpll_wf_def gget_gset_range split: option.splits)

lemma validate_pin_ok:
  "validate_pin esyncs s (l, c) = Inr () \<longleftrightarrow> pin_policy {n. seen esyncs n} (sub_DPLL s) l c"
  unfolding validate_pin_def Let_def fst_conv snd_conv gget_eq_None_iff
  by (auto simp: bind_go_eq_Inr PinConfig_Validate_ok pin_policy_def)

lemma validate_subsystem_ok:
  assumes "range_order_ok ord" "dpll_wf (sub_DPLL s)"
  shows "validate_subsystem ord esyncs s = Inr () \<longleftrightarrow>
    (\<forall>l c. pin_of (sub_DPLL s) l = Some c \<longrightarrow> pin_policy {n. seen esyncs n} (sub_DPLL s) l c)"
  by (auto simp: validate_subsystem_def each_ok_iff set_range_gmap [OF assms(1)]
      gget_allPinConfigs [OF assms] validate_pin_ok)

lemma validate_condition_ok:
  "validate_condition subs srcs c = Inr () \<longleftrightarrow> condition_policy {n. seen subs n} {n. seen srcs n} c"
  by (auto simp: validate_condition_def condition_policy_def bind_go_eq_Inr each_ok_iff list_all_iff
      split: option.splits)

lemma validate_behavior_ok: "validate_behavior subs b = Inr () \<longleftrightarrow> behavior_policy {n. seen subs n} b"
  by (auto simp: validate_behavior_def bind_go_eq_Inr register_source_def register_loop_ok
      each_ok_iff validate_condition_ok behavior_policy_def source_policy_def
      SourceConfig_Validate_ok list_all_iff)

lemma register_subsystems_ok:
  "fold_go register_subsystem [] ss = Inr m \<longleftrightarrow> names_ok (map sub_Name ss) \<and> m = record_names sub_Name [] ss"
  by (auto simp: register_subsystem_def register_loop_ok image_iff)

lemma register_esyncs_ok:
  "fold_go register_esync [] ds = Inr m \<longleftrightarrow> names_ok (map esd_Name ds) \<and> m = record_names esd_Name [] ds"
  by (auto simp: register_esync_def register_loop_ok image_iff)

lemma register_refsyncs_ok:
  "fold_go register_refsync [] ds = Inr m \<longleftrightarrow> names_ok (map rsd_Name ds) \<and> m = record_names rsd_Name [] ds"
  by (auto simp: register_refsync_def register_loop_ok image_iff)

lemma common_definitions_ok:
  "(case cc_CommonDefinitions cc of
      None \<Rightarrow> Inr []
    | Some cd \<Rightarrow>
        bind_go (fold_go register_esync [] (cd_ESyncDefinitions cd)) (\<lambda>esyncNames.
          bind_go (fold_go register_refsync [] (cd_RefSyncDefinitions cd)) (\<lambda>_. Inr esyncNames))) = Inr m
   \<longleftrightarrow> names_ok (esync_names cc) \<and> names_ok (refsync_names cc)
     \<and> m = (case cc_CommonDefinitions cc of None \<Rightarrow> [] | Some cd \<Rightarrow> record_names esd_Name [] (cd_ESyncDefinitions cd))"
  by (auto simp: esync_names_def refsync_names_def bind_go_eq_Inr register_esyncs_ok register_refsyncs_ok
      split: option.splits)

lemma seen_esyncs:
  "{n. seen (case cc_CommonDefinitions cc of None \<Rightarrow> [] | Some cd \<Rightarrow> record_names esd_Name [] (cd_ESyncDefinitions cd)) n}
   = set (esync_names cc)"
  by (simp add: esync_names_def split: option.splits)

lemma ClockChain_Validate_ok:
  assumes "range_order_ok ord" "chain_wf cc"
  shows "ClockChain_Validate ord cc = Inr () \<longleftrightarrow> chain_policy cc"
proof -
  have wf: "dpll_wf (sub_DPLL s)" if "s \<in> set (cc_Structure cc)" for s
    using assms(2) that by (simp add: chain_wf_def list_all_iff)
  have subs: "each (validate_subsystem ord m) (cc_Structure cc) = Inr () \<longleftrightarrow>
      (\<forall>s \<in> set (cc_Structure cc). \<forall>l c. pin_of (sub_DPLL s) l = Some c \<longrightarrow>
         pin_policy {n. seen m n} (sub_DPLL s) l c)" for m
    using validate_subsystem_ok [OF assms(1) wf] by (simp add: each_ok_iff)
  show ?thesis
    unfolding ClockChain_Validate_def bind_go_eq_Inr register_subsystems_ok common_definitions_ok subs chain_policy_def
    by (auto simp: subs seen_esyncs validate_behavior_ok bind_go_eq_Inr register_subsystems_ok
        common_definitions_ok split: option.splits)
qed

section \<open>Names of pin functions\<close>

lemma Itoa_ascii: "c \<in> set (Itoa i) \<Longrightarrow> (of_char c :: nat) < 128"
  using nat_digits_chars by (fastforce simp: Itoa_def split: if_splits)

lemma ToLower_unknown: "hd (ToLower ul (''Unknown('' @ Itoa f @ '')'')) = CHR ''u''"
proof -
  have "list_all (\<lambda>c. (of_char c :: nat) < 128) (''Unknown('' @ Itoa f @ '')'')"
    using Itoa_ascii by (auto simp: list_all_iff)
  moreover have "lower_ascii CHR ''U'' = CHR ''u''" by code_simp
  ultimately show ?thesis by (simp add: ToLower_def)
qed

lemma UnmarshalText_unknown: "UnmarshalText ul (''Unknown('' @ Itoa f @ '')'') = None"
proof -
  let ?s = "ToLower ul (''Unknown('' @ Itoa f @ '')'')"
  have "?s \<noteq> ''disabled'' \<and> ?s \<noteq> ''rx'' \<and> ?s \<noteq> ''tx'' \<and> ?s \<noteq> ''sync''"
  proof (intro conjI notI)
  qed (use ToLower_unknown [of ul f] in \<open>simp_all only: list.sel\<close>, simp_all)
  then show ?thesis by (simp only: UnmarshalText_def Let_def simp_thms if_False)
qed

lemma UnmarshalText_names:
  "UnmarshalText ul ''Disabled'' = Some 0" "UnmarshalText ul ''RX'' = Some 1"
  "UnmarshalText ul ''TX'' = Some 2" "UnmarshalText ul ''Sync'' = Some 3"
  by code_simp+

section \<open>What the comments ask for\<close>







section \<open>Properties\<close>


text \<open>Where the code is more lenient: a \<open>referenceSync\<close> to a phase output, and a pin that is not looked at because
  another map has its label.\<close>

lemma clock_chain_lenient:
  fixes pin chain
  defines "pin \<equiv> \<lparr>pc_Connector = '''', pc_PhaseAdjustment = None, pc_Frequency = None, pc_ESyncConfigName = '''', pc_Description = '''',
    pc_ReferenceSync = ''''\<rparr>"
  defines "chain \<equiv> \<lambda>po fi. \<lparr>cc_CommonDefinitions = Some \<lparr>cd_ESyncDefinitions = [], cd_RefSyncDefinitions = []\<rparr>,
     cc_Structure = [\<lparr>sub_Name = ''leader'', sub_HardwareSpecificDefinitions = '''', sub_DPLL =
       \<lparr>dpll_NetworkInterface = ''ens1'', dpll_HoldoverParameters = None, dpll_PhaseInputs = [], dpll_PhaseOutputs = po,
         dpll_FrequencyInputs = fi, dpll_FrequencyOutputs = []\<rparr>, sub_Ethernet = []\<rparr>],
     cc_Behavior = None\<rparr>"
  shows "ClockChain_Validate rev (chain [(''OUT'', pin)] [(''IN'', pin\<lparr>pc_ReferenceSync := ''OUT''\<rparr>)]) = Inr ()"
    "ClockChain_Validate rev (chain [(''A'', pin\<lparr>pc_Frequency := Some 1, pc_ESyncConfigName := ''es''\<rparr>)] [(''A'', pin)]) = Inr ()"
  unfolding chain_def pin_def by code_simp+

text \<open>The verdict on a clock chain does not depend on the order in which Go visits the pin
  maps.\<close>

lemma clock_chain_order_independent:
  assumes "range_order_ok o1" "range_order_ok o2" "chain_wf cc"
  shows "ClockChain_Validate o1 cc = Inr () \<longleftrightarrow> ClockChain_Validate o2 cc = Inr ()"
  using ClockChain_Validate_ok assms by blast

text \<open>Text round trip of pin functions: unmarshalling the text of a value gives the value back
  exactly for the four named functions, and fails for every other integer.\<close>

lemma pin_function_roundtrip:
  "UnmarshalText ul (MarshalText f) = (if f \<in> {0, 1, 2, 3} then Some f else None)"
  using UnmarshalText_unknown [of ul f]
  by (auto simp: MarshalText_def PTPPinFunction_String_def UnmarshalText_names pin_functions)

section \<open>Witnesses\<close>

definition wit_pin :: PinConfig where
  "wit_pin = \<lparr>pc_Connector = ''SMA1'', pc_PhaseAdjustment = None, pc_Frequency = None,
     pc_ESyncConfigName = ''es'', pc_Description = '''', pc_ReferenceSync = ''''\<rparr>"

definition wit_chain :: ClockChain where
  "wit_chain = \<lparr>cc_CommonDefinitions = Some \<lparr>cd_ESyncDefinitions = [\<lparr>esd_Name = ''es'', esd_ESyncConfig =
       \<lparr>esc_TransferFrequency = 10000000, esc_EmbeddedSyncFrequency = 1, esc_DutyCyclePct = 25\<rparr>\<rparr>], cd_RefSyncDefinitions = []\<rparr>,
     cc_Structure = [\<lparr>sub_Name = ''leader'', sub_HardwareSpecificDefinitions = '''', sub_DPLL =
       \<lparr>dpll_NetworkInterface = ''ens1'', dpll_HoldoverParameters = None, dpll_PhaseInputs = [(''REF0'', wit_pin)],
         dpll_PhaseOutputs = [], dpll_FrequencyInputs = [(''REF1'', wit_pin\<lparr>pc_ReferenceSync := ''REF0''\<rparr>)],
         dpll_FrequencyOutputs = []\<rparr>, sub_Ethernet = []\<rparr>],
     cc_Behavior = Some \<lparr>bh_Sources = [\<lparr>sc_Name = ''PTP'', sc_Subsystem = ''leader'', sc_SourceType = SourceTypePTP,
         sc_BoardLabel = '''', sc_PTPTimeReceivers = [''ens1''], sc_GNSSConfig = None\<rparr>],
       bh_Conditions = [\<lparr>hc_Name = ''c'', hc_Triggers = [\<lparr>ss_SourceName = ''PTP'', ss_ConditionType = ''locked''\<rparr>],
         hc_DesiredStates = []\<rparr>]\<rparr>\<rparr>"

lemma wit_chain_ok: "ClockChain_Validate rev wit_chain = Inr ()" "chain_wf wit_chain"
  by code_simp+


lemma clock_chain_order_independent_witness:
  "ClockChain_Validate (\<lambda>ks. ks) wit_chain = Inr ()"
  using clock_chain_order_independent [OF range_order_ok_rev range_order_ok_id wit_chain_ok(2)] wit_chain_ok(1)
  by blast

end
