(* ===== verification/Go_Heap.thy ===== *)
theory Go_Heap
  imports Prelude
begin

text \<open>
  Go values on a heap, as the generated deep-copy functions see them. A value is a scalar, a
  struct, nil, or a reference to a cell: what a pointer points to, the elements of a slice, or
  the entries of a map. The statements that the generator emits are combinators on \<open>copier\<close>s; their
  theorems say when a copy has the same content as the original and shares no cell with anything that
  existed before.
\<close>

section \<open>Values, cells and types\<close>

type_synonym addr = nat

datatype gv =
    GScalar string
  | GNil
  | GRef addr
  | GStruct "(string \<times> gv) list"

datatype cell =
    Pointee gv
  | Elems "gv list"
  | Entries "gv gmap"

record heap =
  hp_store :: "addr \<Rightarrow> cell option"
  hp_lim :: addr

text \<open>Go types, as far as copying is concerned: strings, numbers, booleans and values that are
  never changed in place are scalars.\<close>

datatype gtype =
    TScalar
  | TPtr gtype
  | TSlice gtype
  | TMap gtype
  | TStruct "(string \<times> gtype) list"

text \<open>The zero value that \<open>new\<close> and \<open>make\<close> put into a cell.\<close>

fun zero_value :: "gtype \<Rightarrow> gv" where
  "zero_value TScalar = GScalar ''''"
| "zero_value (TStruct fts) = GStruct (map (\<lambda>(f, t). (f, zero_value t)) fts)"
| "zero_value _ = GNil"

definition alloc :: "cell \<Rightarrow> heap \<Rightarrow> addr \<times> heap" where
  "alloc c h = (hp_lim h, \<lparr>hp_store = (hp_store h)(hp_lim h := Some c), hp_lim = Suc (hp_lim h)\<rparr>)"

definition write_cell :: "addr \<Rightarrow> cell \<Rightarrow> heap \<Rightarrow> heap" where
  "write_cell a c h = h\<lparr>hp_store := (hp_store h)(a := Some c)\<rparr>"

definition write_elem :: "addr \<Rightarrow> nat \<Rightarrow> gv \<Rightarrow> heap \<Rightarrow> heap" where
  "write_elem a i y h = (case hp_store h a of Some (Elems ys) \<Rightarrow> write_cell a (Elems (ys[i := y])) h | _ \<Rightarrow> h)"

definition write_entry :: "addr \<Rightarrow> string \<Rightarrow> gv \<Rightarrow> heap \<Rightarrow> heap" where
  "write_entry a k y h = (case hp_store h a of Some (Entries m) \<Rightarrow> write_cell a (Entries (gset m k y)) h | _ \<Rightarrow> h)"

section \<open>Copiers\<close>

text \<open>A copier is what a statement of a generated function does: it takes the value of \<open>in\<close> and gives
  the value of \<open>out\<close>.\<close>

type_synonym copier = "gv \<Rightarrow> heap \<Rightarrow> gv \<times> heap"

text \<open>\<open>*out = *in\<close>\<close>

definition assign :: copier where
  "assign v h = (v, h)"

text \<open>\<open>if in != nil { *out = new(T); copy **in into **out }\<close>; a \<open>DeepCopy\<close> method has this form too.\<close>

definition ptr_copy :: "gtype \<Rightarrow> copier \<Rightarrow> copier" where
  "ptr_copy t c v h =
     (case v of
        GRef a \<Rightarrow>
          (case hp_store h a of
             Some (Pointee x) \<Rightarrow>
               (case alloc (Pointee (zero_value t)) h of
                  (a', h1) \<Rightarrow> (case c x h1 of (y, h2) \<Rightarrow> (GRef a', write_cell a' (Pointee y) h2)))
           | _ \<Rightarrow> (GNil, h))
      | _ \<Rightarrow> (GNil, h))"

text \<open>\<open>*in.DeepCopy()\<close> on a value that is not a pointer: the copy is made in a new cell and read back.\<close>

definition value_copy :: "gtype \<Rightarrow> copier \<Rightarrow> copier" where
  "value_copy t c v h =
     (case alloc (Pointee (zero_value t)) h of
        (a', h1) \<Rightarrow> (case c v h1 of (y, h2) \<Rightarrow> (y, write_cell a' (Pointee y) h2)))"

text \<open>\<open>*out = make([]T, len(*in)); for i := range *in { copy (*in)[i] into (*out)[i] }\<close>\<close>

fun copy_elems :: "copier \<Rightarrow> addr \<Rightarrow> nat \<Rightarrow> gv list \<Rightarrow> heap \<Rightarrow> heap" where
  "copy_elems c a i [] h = h"
| "copy_elems c a i (x # xs) h =
     (case c x h of (y, h1) \<Rightarrow> copy_elems c a (Suc i) xs (write_elem a i y h1))"

definition slice_copy :: "gtype \<Rightarrow> copier \<Rightarrow> copier" where
  "slice_copy t c v h =
     (case v of
        GRef a \<Rightarrow>
          (case hp_store h a of
             Some (Elems xs) \<Rightarrow>
               (case alloc (Elems (replicate (length xs) (zero_value t))) h of
                  (a', h1) \<Rightarrow> (GRef a', copy_elems c a' 0 xs h1))
           | _ \<Rightarrow> (GNil, h))
      | _ \<Rightarrow> (GNil, h))"

text \<open>\<open>*out = make(map[string]T, len(*in)); for key, val := range *in { (*out)[key] = copy of val }\<close>.
  The entries of a cell are in the order in which \<open>range\<close> visits them.\<close>

fun copy_entries :: "copier \<Rightarrow> addr \<Rightarrow> gv gmap \<Rightarrow> heap \<Rightarrow> heap" where
  "copy_entries c a [] h = h"
| "copy_entries c a ((k, x) # m) h =
     (case c x h of (y, h1) \<Rightarrow> copy_entries c a m (write_entry a k y h1))"

definition map_copy :: "copier \<Rightarrow> copier" where
  "map_copy c v h =
     (case v of
        GRef a \<Rightarrow>
          (case hp_store h a of
             Some (Entries m) \<Rightarrow> (case alloc (Entries []) h of (a', h1) \<Rightarrow> (GRef a', copy_entries c a' m h1))
           | _ \<Rightarrow> (GNil, h))
      | _ \<Rightarrow> (GNil, h))"

text \<open>A struct: \<open>*out = *in\<close>, then a statement for each of the listed fields, which are in the order of
  their declaration.\<close>

fun copy_fields :: "(string \<times> copier) list \<Rightarrow> (string \<times> gv) list \<Rightarrow> heap \<Rightarrow> (string \<times> gv) list \<times> heap" where
  "copy_fields stmts [] h = ([], h)"
| "copy_fields stmts ((f, x) # fvs) h =
     (case (case map_of stmts f of None \<Rightarrow> (x, h) | Some c \<Rightarrow> c x h) of
        (y, h1) \<Rightarrow> (case copy_fields stmts fvs h1 of (gvs, h2) \<Rightarrow> ((f, y) # gvs, h2)))"

definition struct_copy :: "(string \<times> copier) list \<Rightarrow> copier" where
  "struct_copy stmts v h =
     (case v of GStruct fvs \<Rightarrow> map_prod GStruct (\<lambda>h. h) (copy_fields stmts fvs h) | _ \<Rightarrow> (v, h))"

text \<open>A \<open>DeepCopyObject\<close> method: the copy as a value of the interface, nil for nil.\<close>

definition object_copy :: "copier \<Rightarrow> copier" where
  "object_copy d v h = (case d v h of (c, h1) \<Rightarrow> if c \<noteq> GNil then (c, h1) else (GNil, h1))"

section \<open>Content\<close>

text \<open>The content of a value, without addresses.\<close>

datatype tree =
    Leaf string
  | NilTree
  | Box tree
  | Items "tree list"
  | Dict "(string \<times> tree) list"
  | Node "(string \<times> tree) list"

text \<open>The outcomes of reading several values one after the other.\<close>

fun collect :: "('a \<Rightarrow> (tree \<times> addr list) option) \<Rightarrow> 'a list \<Rightarrow> (tree list \<times> addr list) option" where
  "collect f [] = Some ([], [])"
| "collect f (x # xs) =
     (case f x of
        None \<Rightarrow> None
      | Some (T, A) \<Rightarrow> (case collect f xs of None \<Rightarrow> None | Some (Ts, As) \<Rightarrow> Some (T # Ts, A @ As)))"

text \<open>The content of a value of a type, and the cells it consists of; \<open>None\<close> for a value that is not of the
  type.\<close>

fun view :: "heap \<Rightarrow> gtype \<Rightarrow> gv \<Rightarrow> (tree \<times> addr list) option"
  and view_fields :: "heap \<Rightarrow> (string \<times> gtype) list \<Rightarrow> (string \<times> gv) list \<Rightarrow> ((string \<times> tree) list \<times> addr list) option"
where
  "view h TScalar v = (case v of GScalar s \<Rightarrow> Some (Leaf s, []) | _ \<Rightarrow> None)"
| "view h (TPtr t) v =
     (case v of
        GNil \<Rightarrow> Some (NilTree, [])
      | GRef a \<Rightarrow>
          (case hp_store h a of
             Some (Pointee x) \<Rightarrow> (case view h t x of None \<Rightarrow> None | Some (T, A) \<Rightarrow> Some (Box T, a # A))
           | _ \<Rightarrow> None)
      | _ \<Rightarrow> None)"
| "view h (TSlice t) v =
     (case v of
        GNil \<Rightarrow> Some (NilTree, [])
      | GRef a \<Rightarrow>
          (case hp_store h a of
             Some (Elems xs) \<Rightarrow> (case collect (view h t) xs of None \<Rightarrow> None | Some (Ts, A) \<Rightarrow> Some (Items Ts, a # A))
           | _ \<Rightarrow> None)
      | _ \<Rightarrow> None)"
| "view h (TMap t) v =
     (case v of
        GNil \<Rightarrow> Some (NilTree, [])
      | GRef a \<Rightarrow>
          (case hp_store h a of
             Some (Entries m) \<Rightarrow>
               if \<not> wf_gmap m then None
               else (case collect (view h t) (map snd m) of
                       None \<Rightarrow> None
                     | Some (Ts, A) \<Rightarrow> Some (Dict (zip (gkeys m) Ts), a # A))
           | _ \<Rightarrow> None)
      | _ \<Rightarrow> None)"
| "view h (TStruct fts) v =
     (case v of
        GStruct fvs \<Rightarrow> (case view_fields h fts fvs of None \<Rightarrow> None | Some (Ts, A) \<Rightarrow> Some (Node Ts, A))
      | _ \<Rightarrow> None)"
| "view_fields h [] fvs = (if fvs = [] then Some ([], []) else None)"
| "view_fields h ((f, t) # fts) fvs =
     (case fvs of
        (g, v) # gvs \<Rightarrow>
          if f \<noteq> g then None
          else (case view h t v of
                  None \<Rightarrow> None
                | Some (T, A) \<Rightarrow> (case view_fields h fts gvs of None \<Rightarrow> None | Some (Ts, As) \<Rightarrow> Some ((f, T) # Ts, A @ As)))
      | [] \<Rightarrow> None)"

section \<open>Deep copies\<close>

text \<open>No cell lies beyond the limit.\<close>

definition heap_ok :: "heap \<Rightarrow> bool" where
  "heap_ok h \<longleftrightarrow> (\<forall>a. hp_store h a \<noteq> None \<longrightarrow> a < hp_lim h)"

text \<open>\<open>h'\<close> has all cells of \<open>h\<close>, unchanged.\<close>

definition extends :: "heap \<Rightarrow> heap \<Rightarrow> bool" where
  "extends h h' \<longleftrightarrow> heap_ok h' \<and> hp_lim h \<le> hp_lim h' \<and> (\<forall>a < hp_lim h. hp_store h' a = hp_store h a)"

text \<open>A copier is deep for a type when the copy of every value of the type has the content of the
  original and consists of new cells only, and no existing cell has changed.\<close>

definition copies_deep :: "gtype \<Rightarrow> copier \<Rightarrow> bool" where
  "copies_deep t c \<longleftrightarrow> (\<forall>h v T A v' h'. heap_ok h \<longrightarrow> view h t v = Some (T, A) \<longrightarrow> c v h = (v', h') \<longrightarrow>
     extends h h' \<and> (\<exists>A'. view h' t v' = Some (T, A') \<and> set A' \<subseteq> {hp_lim h ..< hp_lim h'}))"

text \<open>Types without references.\<close>

fun flat :: "gtype \<Rightarrow> bool" where
  "flat TScalar = True"
| "flat (TStruct fts) = list_all (\<lambda>(f, t). flat t) fts"
| "flat _ = False"

lemma collect_frame:
  assumes "collect f xs = Some (Ts, A)" "\<And>x T B. x \<in> set xs \<Longrightarrow> f x = Some (T, B) \<Longrightarrow> set B \<subseteq> set A \<Longrightarrow> g x = Some (T, B)"
  shows "collect g xs = Some (Ts, A)"
  using assms
proof (induction xs arbitrary: Ts A)
  case (Cons x xs)
  from Cons.prems(1) obtain T B Us As where x: "f x = Some (T, B)" "collect f xs = Some (Us, As)" "Ts = T # Us" "A = B @ As"
    by (auto split: option.splits)
  have "g y = Some (T', B')" if "y \<in> set xs" "f y = Some (T', B')" "set B' \<subseteq> set As" for y T' B'
    using that x(4) by (intro Cons.prems(2)) auto
  from Cons.IH [OF x(2) this] Cons.prems(2) [of x T B] x show ?case by simp
qed simp

lemma collect_cells:
  assumes "collect f xs = Some (Ts, A)" "\<And>x T B. x \<in> set xs \<Longrightarrow> f x = Some (T, B) \<Longrightarrow> set B \<subseteq> S"
  shows "set A \<subseteq> S"
  using assms
proof (induction xs arbitrary: Ts A)
  case (Cons x xs)
  from Cons.prems(1) obtain T B Us As where x: "f x = Some (T, B)" "collect f xs = Some (Us, As)" "Ts = T # Us" "A = B @ As"
    by (auto split: option.splits)
  from Cons.prems(2) have "set As \<subseteq> S" by (intro Cons.IH [OF x(2)]) auto
  with Cons.prems(2) [of x T B] x show ?case by simp
qed simp

text \<open>How a value of each type reads.\<close>

lemma view_scalar_iff: "view h TScalar v = Some r \<longleftrightarrow> (\<exists>s. v = GScalar s \<and> r = (Leaf s, []))"
  by (auto split: gv.splits)

lemma view_ptr_iff:
  "view h (TPtr t) v = Some r \<longleftrightarrow> v = GNil \<and> r = (NilTree, [])
     \<or> (\<exists>a x T A. v = GRef a \<and> hp_store h a = Some (Pointee x) \<and> view h t x = Some (T, A) \<and> r = (Box T, a # A))"
  by (auto split: gv.splits option.splits cell.splits)

lemma view_slice_iff:
  "view h (TSlice t) v = Some r \<longleftrightarrow> v = GNil \<and> r = (NilTree, [])
     \<or> (\<exists>a xs Ts A. v = GRef a \<and> hp_store h a = Some (Elems xs) \<and> collect (view h t) xs = Some (Ts, A) \<and> r = (Items Ts, a # A))"
  by (auto split: gv.splits option.splits cell.splits)

lemma view_map_iff:
  "view h (TMap t) v = Some r \<longleftrightarrow> v = GNil \<and> r = (NilTree, [])
     \<or> (\<exists>a m Ts A. v = GRef a \<and> hp_store h a = Some (Entries m) \<and> wf_gmap m \<and> collect (view h t) (map snd m) = Some (Ts, A)
          \<and> r = (Dict (zip (gkeys m) Ts), a # A))"
  by (auto split: gv.splits option.splits cell.splits)

lemma view_struct_iff:
  "view h (TStruct fts) v = Some r \<longleftrightarrow> (\<exists>fvs Ts A. v = GStruct fvs \<and> view_fields h fts fvs = Some (Ts, A) \<and> r = (Node Ts, A))"
  by (auto split: gv.splits option.splits)

lemma view_fields_Cons_iff:
  "view_fields h ((f, t) # fts) fvs = Some r \<longleftrightarrow> (\<exists>v gvs T A Ts As. fvs = (f, v) # gvs \<and> view h t v = Some (T, A)
     \<and> view_fields h fts gvs = Some (Ts, As) \<and> r = ((f, T) # Ts, A @ As))"
  by (auto split: list.splits option.splits)

lemmas view_iffs = view_scalar_iff view_ptr_iff view_slice_iff view_map_iff view_struct_iff

declare view.simps [simp del] view_fields.simps(2) [simp del]

text \<open>Reading depends on the cells of the value only.\<close>

lemma view_fields_frame:
  assumes "\<And>f t v T A. (f, t) \<in> set fts \<Longrightarrow> view h t v = Some (T, A) \<Longrightarrow> (\<forall>a \<in> set A. hp_store h' a = hp_store h a) \<Longrightarrow>
      view h' t v = Some (T, A)"
    and "view_fields h fts fvs = Some (Ts, A)" "\<forall>a \<in> set A. hp_store h' a = hp_store h a"
  shows "view_fields h' fts fvs = Some (Ts, A)"
  using assms
proof (induction fts arbitrary: fvs Ts A)
  case (Cons ft fts)
  obtain f t where [simp]: "ft = (f, t)" by (cases ft)
  from Cons.prems(2) obtain v gvs T B Us As where x: "fvs = (f, v) # gvs" "view h t v = Some (T, B)"
    "view_fields h fts gvs = Some (Us, As)" "Ts = (f, T) # Us" "A = B @ As" by (auto simp: view_fields_Cons_iff)
  have "view h' t v = Some (T, B)" using Cons.prems(3) x by (intro Cons.prems(1)) auto
  moreover have "view_fields h' fts gvs = Some (Us, As)"
    using Cons.prems(3) x(5) by (intro Cons.IH [OF _ x(3)]) (auto intro: Cons.prems(1))
  ultimately show ?case by (simp add: x view_fields_Cons_iff)
qed simp

lemma view_frame:
  "view h t v = Some (T, A) \<Longrightarrow> (\<forall>a \<in> set A. hp_store h' a = hp_store h a) \<Longrightarrow> view h' t v = Some (T, A)"
proof (induction t arbitrary: v T A)
  case (TSlice t)
  from TSlice.prems(1) [unfolded view_slice_iff] show ?case
  proof (elim disjE exE conjE)
    fix a xs Ts B assume x: "v = GRef a" "hp_store h a = Some (Elems xs)" "collect (view h t) xs = Some (Ts, B)" "(T, A) = (Items Ts, a # B)"
    have "collect (view h' t) xs = Some (Ts, B)"
      using TSlice.prems(2) x(4) by (intro collect_frame [OF x(3)] TSlice.IH) auto
    with x TSlice.prems(2) show ?thesis by (simp add: view_slice_iff)
  qed (simp add: view_slice_iff)
next
  case (TMap t)
  from TMap.prems(1) [unfolded view_map_iff] show ?case
  proof (elim disjE exE conjE)
    fix a m Ts B assume x: "v = GRef a" "hp_store h a = Some (Entries m)" "wf_gmap m" "collect (view h t) (map snd m) = Some (Ts, B)"
      "(T, A) = (Dict (zip (gkeys m) Ts), a # B)"
    have "collect (view h' t) (map snd m) = Some (Ts, B)"
      using TMap.prems(2) x(5) by (intro collect_frame [OF x(4)] TMap.IH) auto
    with x TMap.prems(2) show ?thesis by (simp add: view_map_iff)
  qed (simp add: view_map_iff)
next
  case (TStruct fts)
  then obtain fvs Ts where "v = GStruct fvs" "view_fields h fts fvs = Some (Ts, A)" "T = Node Ts" by (auto simp: view_struct_iff)
  moreover from this(2) have "view_fields h' fts fvs = Some (Ts, A)"
    using TStruct.prems(2) by (rule view_fields_frame [rotated]) (auto intro!: TStruct.IH snds.intros)
  ultimately show ?case by (simp add: view_struct_iff)
qed (auto simp: view_scalar_iff view_ptr_iff)

lemma view_cells: "heap_ok h \<Longrightarrow> view h t v = Some (T, A) \<Longrightarrow> set A \<subseteq> {..< hp_lim h}"
proof (induction t arbitrary: v T A)
  case (TStruct fts)
  then obtain fvs Ts where x: "v = GStruct fvs" "view_fields h fts fvs = Some (Ts, A)" by (auto simp: view_struct_iff)
  have IH: "(f, t) \<in> set fts \<Longrightarrow> view h t v = Some (T, A) \<Longrightarrow> set A \<subseteq> {..< hp_lim h}" for f t v T A
    using TStruct.IH TStruct.prems(1) by (auto intro: snds.intros)
  from x(2) IH show ?case
  proof (induction fts arbitrary: fvs Ts A)
    case (Cons ft fts)
    obtain f t where ft: "ft = (f, t)" by (cases ft)
    with Cons.prems(1) obtain v gvs T B Us As where y: "view h t v = Some (T, B)"
      "view_fields h fts gvs = Some (Us, As)" "A = B @ As" by (auto simp: view_fields_Cons_iff)
    have "set As \<subseteq> {..< hp_lim h}" by (rule Cons.IH [OF y(2)]) (rule Cons.prems(2), auto)
    moreover have "set B \<subseteq> {..< hp_lim h}" using Cons.prems(2) [of f t v T B] ft y(1) by simp
    ultimately show ?case using y(3) by simp
  qed (simp split: if_splits)
next
  case (TSlice t)
  have "set B \<subseteq> {..< hp_lim h}" if "collect (view h t) xs = Some (Ts, B)" for xs Ts B
    by (rule collect_cells [OF that]) (rule TSlice.IH [OF TSlice.prems(1)])
  with TSlice.prems show ?case by (fastforce simp: view_slice_iff heap_ok_def)
next
  case (TMap t)
  have "set B \<subseteq> {..< hp_lim h}" if "collect (view h t) xs = Some (Ts, B)" for xs Ts B
    by (rule collect_cells [OF that]) (rule TMap.IH [OF TMap.prems(1)])
  with TMap.prems show ?case by (fastforce simp: view_map_iff heap_ok_def)
next
  case (TPtr t)
  then show ?case by (fastforce simp: view_ptr_iff heap_ok_def)
qed (auto simp: view_scalar_iff)

section \<open>Copiers that are deep\<close>

lemma extends_refl: "heap_ok h \<Longrightarrow> extends h h"
  by (simp add: extends_def)

lemma extends_trans: "extends h1 h2 \<Longrightarrow> extends h2 h3 \<Longrightarrow> extends h1 h3"
  by (auto simp: extends_def)

lemma view_extends: "heap_ok h \<Longrightarrow> extends h h' \<Longrightarrow> view h t v = Some (T, A) \<Longrightarrow> view h' t v = Some (T, A)"
  using view_cells [of h t v T A] view_frame [of h t v T A h'] by (auto simp: extends_def)

lemma collect_view_cells: "heap_ok h \<Longrightarrow> collect (view h t) xs = Some (Ts, A) \<Longrightarrow> set A \<subseteq> {..< hp_lim h}"
  by (erule collect_cells) (rule view_cells)

lemma collect_view_extends:
  assumes "heap_ok h" "extends h h'" "collect (view h t) xs = Some (Ts, A)"
  shows "collect (view h' t) xs = Some (Ts, A)"
  by (rule collect_frame [OF assms(3)]) (rule view_extends [OF assms(1,2)])

lemma view_fields_extends:
  assumes "heap_ok h" "extends h h'" "view_fields h fts fvs = Some (Ts, A)"
  shows "view_fields h' fts fvs = Some (Ts, A)"
  using view_extends [OF assms(1,2), of "TStruct fts" "GStruct fvs" "Node Ts" A] assms(3) by (simp add: view_struct_iff)

lemma copies_deepD:
  assumes "copies_deep t c" "heap_ok h" "view h t v = Some (T, A)" "c v h = (v', h')"
  obtains A' where "extends h h'" "view h' t v' = Some (T, A')" "set A' \<subseteq> {hp_lim h ..< hp_lim h'}"
  using assms unfolding copies_deep_def by blast

lemma alloc_eq:
  assumes "heap_ok h" "alloc c h = (a, h1)"
  shows "a = hp_lim h" "hp_lim h1 = Suc (hp_lim h)" "hp_store h1 a = Some c" "extends h h1" "heap_ok h1"
proof -
  show "a = hp_lim h" "hp_lim h1 = Suc (hp_lim h)" "hp_store h1 a = Some c" using assms(2) by (auto simp: alloc_def)
  show "extends h h1" "heap_ok h1" using assms by (auto simp: alloc_def extends_def heap_ok_def less_Suc_eq)
qed

lemma write_cell_simps [simp]:
  "hp_lim (write_cell a c h) = hp_lim h" "hp_store (write_cell a c h) b = (if b = a then Some c else hp_store h b)"
  by (auto simp: write_cell_def)

text \<open>A cell that was allocated after \<open>h\<close> may be written.\<close>

lemma extends_write: "extends h h' \<Longrightarrow> hp_lim h \<le> a \<Longrightarrow> a < hp_lim h' \<Longrightarrow> extends h (write_cell a c h')"
  by (auto simp: extends_def heap_ok_def)

text \<open>A copy that is made into a new cell.\<close>

lemma copy_into_new:
  assumes "copies_deep t c" "heap_ok h" "view h t x = Some (T, A)" "alloc (Pointee z) h = (a, h1)" "c x h1 = (y, h2)"
  obtains A' where "extends h (write_cell a (Pointee y) h2)" "view (write_cell a (Pointee y) h2) t y = Some (T, A')"
    "set A' \<subseteq> {Suc a ..< hp_lim h2}" "a = hp_lim h" "a < hp_lim h2"
proof -
  note al = alloc_eq [OF assms(2,4)]
  from copies_deepD [OF assms(1) al(5) view_extends [OF assms(2) al(4) assms(3)] assms(5)]
  obtain A' where A': "extends h1 h2" "view h2 t y = Some (T, A')" "set A' \<subseteq> {hp_lim h1 ..< hp_lim h2}" .
  have lt: "a < hp_lim h2" using A'(1) al(1,2) by (simp add: extends_def)
  have "view (write_cell a (Pointee y) h2) t y = Some (T, A')" using A'(3) al(1,2) by (intro view_frame [OF A'(2)]) auto
  moreover have "extends h (write_cell a (Pointee y) h2)"
    using extends_trans [OF al(4) A'(1)] al(1) lt by (intro extends_write) auto
  ultimately show thesis using that A'(3) al(1,2) lt by auto
qed

lemma deep_ptr: "copies_deep t c \<Longrightarrow> copies_deep (TPtr t) (ptr_copy s c)"
  unfolding copies_deep_def [of "TPtr t"]
proof (intro allI impI)
  fix h v T A v' h'
  assume c: "copies_deep t c" and ok: "heap_ok h" and v: "view h (TPtr t) v = Some (T, A)" and r: "ptr_copy s c v h = (v', h')"
  from v [unfolded view_ptr_iff]
  show "extends h h' \<and> (\<exists>A'. view h' (TPtr t) v' = Some (T, A') \<and> set A' \<subseteq> {hp_lim h ..< hp_lim h'})"
  proof (elim disjE exE conjE)
    assume "v = GNil" "(T, A) = (NilTree, [])"
    with r ok show ?thesis by (auto simp: ptr_copy_def view_ptr_iff extends_refl)
  next
    fix a x U B
    assume x: "v = GRef a" "hp_store h a = Some (Pointee x)" "view h t x = Some (U, B)" "(T, A) = (Box U, a # B)"
    obtain a' h1 y h2 where n: "alloc (Pointee (zero_value s)) h = (a', h1)" "c x h1 = (y, h2)" by (meson surj_pair)
    with r x have r': "v' = GRef a'" "h' = write_cell a' (Pointee y) h2" by (auto simp: ptr_copy_def)
    from copy_into_new [OF c ok x(3) n] obtain A' where "extends h h'" "view h' t y = Some (U, A')"
      "set A' \<subseteq> {Suc a' ..< hp_lim h2}" "a' = hp_lim h" "a' < hp_lim h2" unfolding r' by metis
    then show ?thesis using x(4) r' by (auto simp: view_ptr_iff)
  qed
qed

lemma deep_value: "copies_deep t c \<Longrightarrow> copies_deep t (value_copy s c)"
  unfolding copies_deep_def [of t "value_copy s c"]
proof (intro allI impI)
  fix h v T A v' h'
  assume c: "copies_deep t c" and ok: "heap_ok h" and v: "view h t v = Some (T, A)" and r: "value_copy s c v h = (v', h')"
  obtain a' h1 y h2 where n: "alloc (Pointee (zero_value s)) h = (a', h1)" "c v h1 = (y, h2)" by (meson surj_pair)
  with r have r': "v' = y" "h' = write_cell a' (Pointee y) h2" by (auto simp: value_copy_def)
  from copy_into_new [OF c ok v n] obtain A' where "extends h h'" "view h' t v' = Some (T, A')"
    "set A' \<subseteq> {Suc a' ..< hp_lim h2}" "a' = hp_lim h" unfolding r' by metis
  then show "extends h h' \<and> (\<exists>A'. view h' t v' = Some (T, A') \<and> set A' \<subseteq> {hp_lim h ..< hp_lim h'})" using r' by auto
qed

lemma collect_append_Some:
  "collect f xs = Some (Ts, A) \<Longrightarrow> collect f ys = Some (Us, B) \<Longrightarrow> collect f (xs @ ys) = Some (Ts @ Us, A @ B)"
  by (induction xs arbitrary: Ts A) (auto split: option.splits)

lemma collect_Cons_iff:
  "collect f (x # xs) = Some r \<longleftrightarrow> (\<exists>T A Ts As. f x = Some (T, A) \<and> collect f xs = Some (Ts, As) \<and> r = (T # Ts, A @ As))"
  by (auto split: option.splits)

lemma collect_length: "collect f xs = Some (Ts, A) \<Longrightarrow> length Ts = length xs"
  by (induction xs arbitrary: Ts A) (auto simp: collect_Cons_iff simp del: collect.simps(2))

declare collect.simps(2) [simp del]

text \<open>One turn of a copying loop: a value is copied, and the cell \<open>a\<close> that is being filled is written.\<close>

lemma copy_turn:
  fixes cl :: cell
  assumes "copies_deep t c" "heap_ok h" "a < hp_lim h" "view h t x = Some (T, A)" "c x h = (y, h1)"
  defines "h2 \<equiv> write_cell a cl h1"
  obtains A' where "heap_ok h2" "hp_lim h \<le> hp_lim h2" "\<forall>b < hp_lim h. b \<noteq> a \<longrightarrow> hp_store h2 b = hp_store h b"
    "view h2 t y = Some (T, A')" "set A' \<subseteq> {hp_lim h ..< hp_lim h2}" "hp_store h1 a = hp_store h a"
proof -
  from copies_deepD [OF assms(1,2,4,5)] obtain A' where A': "extends h h1" "view h1 t y = Some (T, A')"
    "set A' \<subseteq> {hp_lim h ..< hp_lim h1}" .
  show thesis
  proof (rule that)
    show "view h2 t y = Some (T, A')" unfolding h2_def using A'(3) assms(3) by (intro view_frame [OF A'(2)]) auto
  qed (use A' assms(3) in \<open>auto simp: h2_def extends_def heap_ok_def\<close>)
qed

text \<open>Values that were read before the turn read the same after it.\<close>

lemma collect_kept:
  assumes "collect (view h t) xs = Some (Ts, A)" "a \<notin> set A" "heap_ok h" "\<forall>b < hp_lim h. b \<noteq> a \<longrightarrow> hp_store h2 b = hp_store h b"
  shows "collect (view h2 t) xs = Some (Ts, A)"
proof (rule collect_frame [OF assms(1)])
  fix x T B assume "view h t x = Some (T, B)" "set B \<subseteq> set A"
  moreover from this(1) assms(3) have "set B \<subseteq> {..< hp_lim h}" by (rule view_cells [rotated])
  ultimately show "view h2 t x = Some (T, B)" using assms(2,4) view_frame [of h t x T B h2] by auto
qed

definition filled :: "gtype \<Rightarrow> addr \<Rightarrow> heap \<Rightarrow> heap \<Rightarrow> gv list \<Rightarrow> tree list \<Rightarrow> bool" where
  "filled t a h h' ys Ts \<longleftrightarrow> heap_ok h' \<and> hp_lim h \<le> hp_lim h' \<and> (\<forall>b < hp_lim h. b \<noteq> a \<longrightarrow> hp_store h' b = hp_store h b)
     \<and> (\<exists>A. collect (view h' t) ys = Some (Ts, A) \<and> set A \<subseteq> {Suc a ..< hp_lim h'})"

lemma filled_step:
  assumes "filled t a h2 h' ys Ts" "hp_lim h \<le> hp_lim h2" "\<forall>b < hp_lim h. b \<noteq> a \<longrightarrow> hp_store h2 b = hp_store h b"
  shows "filled t a h h' ys Ts"
  using assms by (auto simp: filled_def)

lemma copy_elems_fills:
  assumes "copies_deep t c"
  shows "heap_ok h \<Longrightarrow> a < hp_lim h \<Longrightarrow> hp_store h a = Some (Elems (ys @ zs)) \<Longrightarrow> length zs = length xs \<Longrightarrow>
    collect (view h t) ys = Some (Ts, A) \<Longrightarrow> set A \<subseteq> {Suc a ..< hp_lim h} \<Longrightarrow>
    collect (view h t) xs = Some (Us, B) \<Longrightarrow> a \<notin> set B \<Longrightarrow>
    \<exists>ys'. hp_store (copy_elems c a (length ys) xs h) a = Some (Elems ys')
      \<and> filled t a h (copy_elems c a (length ys) xs h) ys' (Ts @ Us)"
proof (induction xs arbitrary: h ys zs Ts A Us B)
  case Nil
  then show ?case by (auto simp: filled_def)
next
  case (Cons x xs)
  obtain z zs' where zs: "zs = z # zs'" "length zs' = length xs" using Cons.prems(4) by (cases zs) auto
  from Cons.prems(7) obtain T Ax Us' B' where x: "view h t x = Some (T, Ax)" "collect (view h t) xs = Some (Us', B')"
    "Us = T # Us'" "B = Ax @ B'" by (auto simp: collect_Cons_iff)
  obtain y h1 where y: "c x h = (y, h1)" by (meson surj_pair)
  define h2 where "h2 = write_cell a (Elems ((ys @ [y]) @ zs')) h1"
  from copy_turn [OF assms Cons.prems(1,2) x(1) y] obtain Ay where t: "heap_ok h2" "hp_lim h \<le> hp_lim h2"
    "\<forall>b < hp_lim h. b \<noteq> a \<longrightarrow> hp_store h2 b = hp_store h b" "view h2 t y = Some (T, Ay)" "set Ay \<subseteq> {hp_lim h ..< hp_lim h2}"
    "hp_store h1 a = hp_store h a" unfolding h2_def by metis
  have step: "write_elem a (length ys) y h1 = h2" using t(6) Cons.prems(3) zs by (simp add: write_elem_def h2_def)
  have ys: "collect (view h2 t) ys = Some (Ts, A)" using Cons.prems(6) by (intro collect_kept [OF Cons.prems(5) _ Cons.prems(1) t(3)]) auto
  have lt: "a < hp_lim h2" using Cons.prems(2) t(2) by simp
  have st: "hp_store h2 a = Some (Elems ((ys @ [y]) @ zs'))" by (simp add: h2_def)
  have col: "collect (view h2 t) (ys @ [y]) = Some (Ts @ [T], A @ Ay)"
    using collect_append_Some [OF ys, of "[y]" "[T]" Ay] t(4) by (simp add: collect_Cons_iff)
  have fresh: "set (A @ Ay) \<subseteq> {Suc a ..< hp_lim h2}" using Cons.prems(2,6) t(2,5) by auto
  have B': "a \<notin> set B'" using Cons.prems(8) x(4) by simp
  have rest: "collect (view h2 t) xs = Some (Us', B')" by (rule collect_kept [OF x(2) B' Cons.prems(1) t(3)])
  have "\<exists>ys'. hp_store (copy_elems c a (length (ys @ [y])) xs h2) a = Some (Elems ys')
      \<and> filled t a h2 (copy_elems c a (length (ys @ [y])) xs h2) ys' ((Ts @ [T]) @ Us')"
    by (rule Cons.IH [OF t(1) lt st zs(2) col fresh rest B'])
  then show ?case using filled_step [OF _ t(2,3)] by (auto simp: y step x(3))
qed

lemma copy_entries_fills:
  assumes "copies_deep t c"
  shows "heap_ok h \<Longrightarrow> a < hp_lim h \<Longrightarrow> hp_store h a = Some (Entries n) \<Longrightarrow> wf_gmap (n @ m) \<Longrightarrow>
    collect (view h t) (map snd n) = Some (Ts, A) \<Longrightarrow> set A \<subseteq> {Suc a ..< hp_lim h} \<Longrightarrow>
    collect (view h t) (map snd m) = Some (Us, B) \<Longrightarrow> a \<notin> set B \<Longrightarrow>
    \<exists>n'. hp_store (copy_entries c a m h) a = Some (Entries n') \<and> gkeys n' = gkeys n @ gkeys m
      \<and> filled t a h (copy_entries c a m h) (map snd n') (Ts @ Us)"
proof (induction m arbitrary: h n Ts A Us B)
  case Nil
  then show ?case by (auto simp: filled_def gkeys_def)
next
  case (Cons e m)
  obtain k x where e: "e = (k, x)" by (cases e)
  from Cons.prems(7) e obtain T Ax Us' B' where x: "view h t x = Some (T, Ax)" "collect (view h t) (map snd m) = Some (Us', B')"
    "Us = T # Us'" "B = Ax @ B'" by (auto simp: collect_Cons_iff)
  obtain y h1 where y: "c x h = (y, h1)" by (meson surj_pair)
  define h2 where "h2 = write_cell a (Entries (n @ [(k, y)])) h1"
  from copy_turn [OF assms Cons.prems(1,2) x(1) y] obtain Ay where t: "heap_ok h2" "hp_lim h \<le> hp_lim h2"
    "\<forall>b < hp_lim h. b \<noteq> a \<longrightarrow> hp_store h2 b = hp_store h b" "view h2 t y = Some (T, Ay)" "set Ay \<subseteq> {hp_lim h ..< hp_lim h2}"
    "hp_store h1 a = hp_store h a" unfolding h2_def by metis
  have "k \<notin> set (gkeys n)" using Cons.prems(4) e by (auto simp: wf_gmap_def gkeys_def)
  then have step: "write_entry a k y h1 = h2" using t(6) Cons.prems(3) by (simp add: write_entry_def h2_def gset_fresh)
  have n: "collect (view h2 t) (map snd n) = Some (Ts, A)" using Cons.prems(6) by (intro collect_kept [OF Cons.prems(5) _ Cons.prems(1) t(3)]) auto
  have lt: "a < hp_lim h2" using Cons.prems(2) t(2) by simp
  have st: "hp_store h2 a = Some (Entries (n @ [(k, y)]))" by (simp add: h2_def)
  have col: "collect (view h2 t) (map snd (n @ [(k, y)])) = Some (Ts @ [T], A @ Ay)"
    using collect_append_Some [OF n, of "[y]" "[T]" Ay] t(4) by (simp add: collect_Cons_iff)
  have fresh: "set (A @ Ay) \<subseteq> {Suc a ..< hp_lim h2}" using Cons.prems(2,6) t(2,5) by auto
  have B': "a \<notin> set B'" using Cons.prems(8) x(4) by simp
  have rest: "collect (view h2 t) (map snd m) = Some (Us', B')" by (rule collect_kept [OF x(2) B' Cons.prems(1) t(3)])
  have wf: "wf_gmap ((n @ [(k, y)]) @ m)" using Cons.prems(4) e by (simp add: wf_gmap_def gkeys_def)
  have "\<exists>n'. hp_store (copy_entries c a m h2) a = Some (Entries n') \<and> gkeys n' = gkeys (n @ [(k, y)]) @ gkeys m
      \<and> filled t a h2 (copy_entries c a m h2) (map snd n') ((Ts @ [T]) @ Us')"
    by (rule Cons.IH [OF t(1) lt st wf col fresh rest B'])
  then show ?case using filled_step [OF _ t(2,3)] by (auto simp: e y step x(3) gkeys_def)
qed

lemma filled_new:
  assumes "filled t a h1 h' ys Ts" "extends h h1" "a = hp_lim h" "hp_lim h1 = Suc (hp_lim h)"
  obtains A where "extends h h'" "collect (view h' t) ys = Some (Ts, A)" "set (a # A) \<subseteq> {hp_lim h ..< hp_lim h'}"
proof -
  from assms(1) obtain A where A: "collect (view h' t) ys = Some (Ts, A)" "set A \<subseteq> {Suc a ..< hp_lim h'}"
    by (auto simp: filled_def)
  have "extends h h'" "a < hp_lim h'" using assms by (auto simp: filled_def extends_def)
  moreover have "set A \<subseteq> {hp_lim h ..< hp_lim h'}" using A(2) assms(3) by fastforce
  ultimately show thesis using that A(1) assms(3) by simp
qed

lemma deep_slice: "copies_deep t c \<Longrightarrow> copies_deep (TSlice t) (slice_copy s c)"
  unfolding copies_deep_def [of "TSlice t"]
proof (intro allI impI)
  fix h v T A v' h'
  assume c: "copies_deep t c" and ok: "heap_ok h" and v: "view h (TSlice t) v = Some (T, A)" and r: "slice_copy s c v h = (v', h')"
  from v [unfolded view_slice_iff]
  show "extends h h' \<and> (\<exists>A'. view h' (TSlice t) v' = Some (T, A') \<and> set A' \<subseteq> {hp_lim h ..< hp_lim h'})"
  proof (elim disjE exE conjE)
    assume "v = GNil" "(T, A) = (NilTree, [])"
    with r ok show ?thesis by (auto simp: slice_copy_def view_slice_iff extends_refl)
  next
    fix a xs Ts B
    assume x: "v = GRef a" "hp_store h a = Some (Elems xs)" "collect (view h t) xs = Some (Ts, B)" "(T, A) = (Items Ts, a # B)"
    obtain a' h1 where n: "alloc (Elems (replicate (length xs) (zero_value s))) h = (a', h1)" by (meson surj_pair)
    note al = alloc_eq [OF ok n]
    have xs: "collect (view h1 t) xs = Some (Ts, B)" "a' \<notin> set B"
      using collect_view_extends [OF ok al(4) x(3)] collect_view_cells [OF ok x(3)] al(1) by auto
    have "\<exists>ys'. hp_store (copy_elems c a' (length ([] :: gv list)) xs h1) a' = Some (Elems ys')
      \<and> filled t a' h1 (copy_elems c a' (length ([] :: gv list)) xs h1) ys' ([] @ Ts)"
      by (rule copy_elems_fills [OF c al(5), where zs = "replicate (length xs) (zero_value s)" and A = "[]"])
        (use al xs in \<open>auto\<close>)
    moreover have "v' = GRef a'" "h' = copy_elems c a' 0 xs h1" using r x(1,2) n by (auto simp: slice_copy_def)
    ultimately obtain ys' where "hp_store h' a' = Some (Elems ys')" "filled t a' h1 h' ys' Ts" "v' = GRef a'" by auto
    moreover from filled_new [OF this(2) al(4,1,2)] obtain A' where "extends h h'" "collect (view h' t) ys' = Some (Ts, A')"
      "set (a' # A') \<subseteq> {hp_lim h ..< hp_lim h'}" .
    ultimately show ?thesis using x(4) by (auto simp: view_slice_iff)
  qed
qed

lemma deep_map: "copies_deep t c \<Longrightarrow> copies_deep (TMap t) (map_copy c)"
  unfolding copies_deep_def [of "TMap t"]
proof (intro allI impI)
  fix h v T A v' h'
  assume c: "copies_deep t c" and ok: "heap_ok h" and v: "view h (TMap t) v = Some (T, A)" and r: "map_copy c v h = (v', h')"
  from v [unfolded view_map_iff]
  show "extends h h' \<and> (\<exists>A'. view h' (TMap t) v' = Some (T, A') \<and> set A' \<subseteq> {hp_lim h ..< hp_lim h'})"
  proof (elim disjE exE conjE)
    assume "v = GNil" "(T, A) = (NilTree, [])"
    with r ok show ?thesis by (auto simp: map_copy_def view_map_iff extends_refl)
  next
    fix a m Ts B
    assume x: "v = GRef a" "hp_store h a = Some (Entries m)" "wf_gmap m" "collect (view h t) (map snd m) = Some (Ts, B)"
      "(T, A) = (Dict (zip (gkeys m) Ts), a # B)"
    obtain a' h1 where n: "alloc (Entries []) h = (a', h1)" by (meson surj_pair)
    note al = alloc_eq [OF ok n]
    have m: "collect (view h1 t) (map snd m) = Some (Ts, B)" "a' \<notin> set B"
      using collect_view_extends [OF ok al(4) x(4)] collect_view_cells [OF ok x(4)] al(1) by auto
    have "\<exists>n'. hp_store (copy_entries c a' m h1) a' = Some (Entries n') \<and> gkeys n' = gkeys ([] :: gv gmap) @ gkeys m
      \<and> filled t a' h1 (copy_entries c a' m h1) (map snd n') ([] @ Ts)"
      by (rule copy_entries_fills [OF c al(5), where A = "[]"]) (use al m x(3) in \<open>auto\<close>)
    moreover have "v' = GRef a'" "h' = copy_entries c a' m h1" using r x(1,2) n by (auto simp: map_copy_def)
    ultimately obtain n' where n': "hp_store h' a' = Some (Entries n')" "gkeys n' = gkeys m" "filled t a' h1 h' (map snd n') Ts" "v' = GRef a'"
      by (auto simp: gkeys_def)
    have "wf_gmap n'" using x(3) n'(2) by (simp add: wf_gmap_def)
    moreover from filled_new [OF n'(3) al(4,1,2)] obtain A' where "extends h h'" "collect (view h' t) (map snd n') = Some (Ts, A')"
      "set (a' # A') \<subseteq> {hp_lim h ..< hp_lim h'}" .
    ultimately show ?thesis using n'(1,2,4) x(5) by (auto simp: view_map_iff)
  qed
qed

text \<open>A value without references has no cells and reads the same in every heap.\<close>

lemma flat_view: "flat t \<Longrightarrow> view h t v = Some (T, A) \<Longrightarrow> A = [] \<and> view h' t v = Some (T, [])"
proof (induction t arbitrary: v T A)
  case (TStruct fts)
  then obtain fvs Ts where x: "v = GStruct fvs" "view_fields h fts fvs = Some (Ts, A)" "T = Node Ts" by (auto simp: view_struct_iff)
  have IH: "(f, t) \<in> set fts \<Longrightarrow> view h t v = Some (T, A) \<Longrightarrow> A = [] \<and> view h' t v = Some (T, [])" for f t v T A
    using TStruct.IH [of "(f, t)" t v T A] TStruct.prems(1) by (auto simp: list_all_iff)
  from x(2) IH have "A = [] \<and> view_fields h' fts fvs = Some (Ts, [])"
  proof (induction fts arbitrary: fvs Ts A)
    case (Cons ft fts)
    obtain f t where ft: "ft = (f, t)" by (cases ft)
    with Cons.prems(1) obtain v gvs T B Us As where y: "fvs = (f, v) # gvs" "view h t v = Some (T, B)"
      "view_fields h fts gvs = Some (Us, As)" "Ts = (f, T) # Us" "A = B @ As" by (auto simp: view_fields_Cons_iff)
    have "As = [] \<and> view_fields h' fts gvs = Some (Us, [])" by (rule Cons.IH [OF y(3)]) (rule Cons.prems(2), auto)
    moreover have "B = [] \<and> view h' t v = Some (T, [])" using Cons.prems(2) [of f t v T B] ft y(2) by simp
    ultimately show ?case using y ft by (simp add: view_fields_Cons_iff)
  qed (simp split: if_splits)
  with x show ?case by (simp add: view_struct_iff)
qed (auto simp: view_scalar_iff)

lemma deep_assign: "flat t \<Longrightarrow> copies_deep t assign"
  by (auto simp: copies_deep_def assign_def extends_refl dest: flat_view)

text \<open>A struct is copied deeply when every field with references has a statement that copies it deeply.\<close>

definition fields_deep :: "(string \<times> copier) list \<Rightarrow> (string \<times> gtype) list \<Rightarrow> bool" where
  "fields_deep stmts fts \<longleftrightarrow> (\<forall>(f, t) \<in> set fts. case map_of stmts f of None \<Rightarrow> flat t | Some c \<Rightarrow> copies_deep t c)"

lemma copy_fields_deep:
  "fields_deep stmts fts \<Longrightarrow> heap_ok h \<Longrightarrow> view_fields h fts fvs = Some (Ts, A) \<Longrightarrow> copy_fields stmts fvs h = (gvs, h') \<Longrightarrow>
     extends h h' \<and> (\<exists>A'. view_fields h' fts gvs = Some (Ts, A') \<and> set A' \<subseteq> {hp_lim h ..< hp_lim h'})"
proof (induction fts arbitrary: fvs Ts A h gvs)
  case Nil
  then show ?case by (auto simp: extends_refl split: if_splits)
next
  case (Cons ft fts)
  obtain f t where ft: "ft = (f, t)" by (cases ft)
  from Cons.prems(3) ft obtain x fvs' T B Us As where x: "fvs = (f, x) # fvs'" "view h t x = Some (T, B)"
    "view_fields h fts fvs' = Some (Us, As)" "Ts = (f, T) # Us" by (auto simp: view_fields_Cons_iff)
  define c where "c = (case map_of stmts f of None \<Rightarrow> assign | Some c \<Rightarrow> c)"
  have "copies_deep t c" using Cons.prems(1) ft deep_assign by (auto simp: fields_deep_def c_def split: option.splits)
  moreover obtain y h1 where y: "c x h = (y, h1)" by (meson surj_pair)
  ultimately obtain Ay where Ay: "extends h h1" "view h1 t y = Some (T, Ay)" "set Ay \<subseteq> {hp_lim h ..< hp_lim h1}"
    using copies_deepD [OF _ Cons.prems(2) x(2)] by metis
  obtain gvs' where g: "copy_fields stmts fvs' h1 = (gvs', h')" "gvs = (f, y) # gvs'"
    using Cons.prems(4) x(1) y by (auto simp: c_def assign_def split: option.splits prod.splits)
  have h1: "heap_ok h1" using Ay(1) by (simp add: extends_def)
  from Cons.IH [OF _ h1 view_fields_extends [OF Cons.prems(2) Ay(1) x(3)] g(1)] Cons.prems(1) obtain A' where A': "extends h1 h'" "view_fields h' fts gvs' = Some (Us, A')"
    "set A' \<subseteq> {hp_lim h1 ..< hp_lim h'}" by (auto simp: fields_deep_def)
  have "view h' t y = Some (T, Ay)" by (rule view_extends [OF h1 A'(1) Ay(2)])
  with A' have "view_fields h' (ft # fts) gvs = Some (Ts, Ay @ A')" using g(2) x(4) ft by (simp add: view_fields_Cons_iff)
  moreover have "set (Ay @ A') \<subseteq> {hp_lim h ..< hp_lim h'}" using Ay A' by (auto simp: extends_def)
  ultimately show ?case using extends_trans [OF Ay(1) A'(1)] by blast
qed

lemma deep_struct: "fields_deep stmts fts \<Longrightarrow> copies_deep (TStruct fts) (struct_copy stmts)"
  unfolding copies_deep_def
proof (intro allI impI)
  fix h v T A v' h'
  assume f: "fields_deep stmts fts" and ok: "heap_ok h" and v: "view h (TStruct fts) v = Some (T, A)" and r: "struct_copy stmts v h = (v', h')"
  from v obtain fvs Ts where x: "v = GStruct fvs" "view_fields h fts fvs = Some (Ts, A)" "T = Node Ts" by (auto simp: view_struct_iff)
  obtain gvs where g: "copy_fields stmts fvs h = (gvs, h')" "v' = GStruct gvs"
    using r x(1) by (cases "copy_fields stmts fvs h") (auto simp: struct_copy_def)
  from copy_fields_deep [OF f ok x(2) g(1)] x(3) g(2)
  show "extends h h' \<and> (\<exists>A'. view h' (TStruct fts) v' = Some (T, A') \<and> set A' \<subseteq> {hp_lim h ..< hp_lim h'})"
    by (auto simp: view_struct_iff)
qed

lemma deep_object: "copies_deep t d \<Longrightarrow> copies_deep t (object_copy d)"
proof -
  have "object_copy d v h = d v h" for v h by (simp add: object_copy_def split: prod.split)
  then show "copies_deep t d \<Longrightarrow> copies_deep t (object_copy d)" by (simp add: copies_deep_def)
qed

text \<open>The copiers whose depth is known, and the types without references.\<close>

named_theorems deep_copies

lemmas [deep_copies] = deep_ptr deep_value deep_slice deep_map deep_assign deep_object

end
