(* ===== verification/Deep_Copy_Meta.thy ===== *)
theory Deep_Copy_Meta
  imports Go_Heap
begin

text \<open>
  The metadata of Kubernetes objects and raw JSON, with their vendored deep-copy functions. A time is a
  scalar: Go never changes one in place.
\<close>

section \<open>Types and functions\<close>

definition T_Time :: gtype where
  "T_Time = TScalar"

definition Time_DeepCopyInto :: copier where
  "Time_DeepCopyInto = assign"

definition T_TypeMeta :: gtype where
  "T_TypeMeta = TStruct [(''Kind'', TScalar), (''APIVersion'', TScalar)]"

definition T_MetaCondition :: gtype where
  "T_MetaCondition = TStruct
     [(''Type'', TScalar), (''Status'', TScalar), (''ObservedGeneration'', TScalar), (''LastTransitionTime'', T_Time),
      (''Reason'', TScalar), (''Message'', TScalar)]"

definition MetaCondition_DeepCopyInto :: copier where
  "MetaCondition_DeepCopyInto = struct_copy [(''LastTransitionTime'', Time_DeepCopyInto)]"

definition MetaCondition_DeepCopy :: copier where
  "MetaCondition_DeepCopy = ptr_copy T_MetaCondition MetaCondition_DeepCopyInto"

definition T_ShardInfo :: gtype where
  "T_ShardInfo = TStruct [(''Selector'', TScalar)]"

definition ShardInfo_DeepCopyInto :: copier where
  "ShardInfo_DeepCopyInto = struct_copy []"

definition ShardInfo_DeepCopy :: copier where
  "ShardInfo_DeepCopy = ptr_copy T_ShardInfo ShardInfo_DeepCopyInto"

definition T_ListMeta :: gtype where
  "T_ListMeta = TStruct
     [(''SelfLink'', TScalar), (''ResourceVersion'', TScalar), (''Continue'', TScalar),
      (''RemainingItemCount'', TPtr TScalar), (''ShardInfo'', TPtr T_ShardInfo)]"

definition ListMeta_DeepCopyInto :: copier where
  "ListMeta_DeepCopyInto = struct_copy
     [(''RemainingItemCount'', ptr_copy TScalar assign), (''ShardInfo'', ptr_copy T_ShardInfo assign)]"

definition ListMeta_DeepCopy :: copier where
  "ListMeta_DeepCopy = ptr_copy T_ListMeta ListMeta_DeepCopyInto"

definition T_FieldsV1 :: gtype where
  "T_FieldsV1 = TStruct [(''Raw'', TSlice TScalar)]"

definition FieldsV1_DeepCopyInto :: copier where
  "FieldsV1_DeepCopyInto = struct_copy [(''Raw'', slice_copy TScalar assign)]"

definition FieldsV1_DeepCopy :: copier where
  "FieldsV1_DeepCopy = ptr_copy T_FieldsV1 FieldsV1_DeepCopyInto"

definition T_ManagedFieldsEntry :: gtype where
  "T_ManagedFieldsEntry = TStruct
     [(''Manager'', TScalar), (''Operation'', TScalar), (''APIVersion'', TScalar), (''Time'', TPtr T_Time),
      (''FieldsType'', TScalar), (''FieldsV1'', TPtr T_FieldsV1), (''Subresource'', TScalar)]"

definition ManagedFieldsEntry_DeepCopyInto :: copier where
  "ManagedFieldsEntry_DeepCopyInto = struct_copy
     [(''Time'', ptr_copy T_Time Time_DeepCopyInto), (''FieldsV1'', ptr_copy T_FieldsV1 FieldsV1_DeepCopyInto)]"

definition ManagedFieldsEntry_DeepCopy :: copier where
  "ManagedFieldsEntry_DeepCopy = ptr_copy T_ManagedFieldsEntry ManagedFieldsEntry_DeepCopyInto"

definition T_OwnerReference :: gtype where
  "T_OwnerReference = TStruct
     [(''APIVersion'', TScalar), (''Kind'', TScalar), (''Name'', TScalar), (''UID'', TScalar),
      (''Controller'', TPtr TScalar), (''BlockOwnerDeletion'', TPtr TScalar)]"

definition OwnerReference_DeepCopyInto :: copier where
  "OwnerReference_DeepCopyInto = struct_copy
     [(''Controller'', ptr_copy TScalar assign), (''BlockOwnerDeletion'', ptr_copy TScalar assign)]"

definition OwnerReference_DeepCopy :: copier where
  "OwnerReference_DeepCopy = ptr_copy T_OwnerReference OwnerReference_DeepCopyInto"

definition T_ObjectMeta :: gtype where
  "T_ObjectMeta = TStruct
     [(''Name'', TScalar), (''GenerateName'', TScalar), (''Namespace'', TScalar), (''SelfLink'', TScalar),
      (''UID'', TScalar), (''ResourceVersion'', TScalar), (''Generation'', TScalar), (''CreationTimestamp'', T_Time),
      (''DeletionTimestamp'', TPtr T_Time), (''DeletionGracePeriodSeconds'', TPtr TScalar), (''Labels'', TMap TScalar),
      (''Annotations'', TMap TScalar), (''OwnerReferences'', TSlice T_OwnerReference),
      (''Finalizers'', TSlice TScalar), (''ManagedFields'', TSlice T_ManagedFieldsEntry)]"

definition ObjectMeta_DeepCopyInto :: copier where
  "ObjectMeta_DeepCopyInto = struct_copy
     [(''CreationTimestamp'', Time_DeepCopyInto), (''DeletionTimestamp'', ptr_copy T_Time Time_DeepCopyInto),
      (''DeletionGracePeriodSeconds'', ptr_copy TScalar assign), (''Labels'', map_copy assign),
      (''Annotations'', map_copy assign),
      (''OwnerReferences'', slice_copy T_OwnerReference OwnerReference_DeepCopyInto),
      (''Finalizers'', slice_copy TScalar assign),
      (''ManagedFields'', slice_copy T_ManagedFieldsEntry ManagedFieldsEntry_DeepCopyInto)]"

definition ObjectMeta_DeepCopy :: copier where
  "ObjectMeta_DeepCopy = ptr_copy T_ObjectMeta ObjectMeta_DeepCopyInto"

definition T_JSON :: gtype where
  "T_JSON = TStruct [(''Raw'', TSlice TScalar)]"

definition JSON_DeepCopyInto :: copier where
  "JSON_DeepCopyInto = struct_copy [(''Raw'', slice_copy TScalar assign)]"

definition JSON_DeepCopy :: copier where
  "JSON_DeepCopy = ptr_copy T_JSON JSON_DeepCopyInto"

section \<open>The copies are deep\<close>

lemma Time_deep [deep_copies]: "flat T_Time" "copies_deep T_Time Time_DeepCopyInto"
  by (simp_all add: T_Time_def Time_DeepCopyInto_def deep_assign)

lemma json_deep_1 [deep_copies]:
  "copies_deep T_JSON JSON_DeepCopyInto"
  by (simp_all add: deep_struct fields_deep_def deep_copies T_JSON_def JSON_DeepCopyInto_def)

lemma meta_flat [deep_copies]: "flat T_MetaCondition" "flat T_ShardInfo" "flat T_TypeMeta"
  by (simp_all add: deep_copies T_MetaCondition_def T_ShardInfo_def T_TypeMeta_def)

lemma meta_deep_1 [deep_copies]:
  "copies_deep T_MetaCondition MetaCondition_DeepCopyInto"
  "copies_deep T_ShardInfo ShardInfo_DeepCopyInto"
  "copies_deep T_FieldsV1 FieldsV1_DeepCopyInto"
  "copies_deep T_OwnerReference OwnerReference_DeepCopyInto"
  by (simp_all add: deep_struct fields_deep_def deep_copies T_MetaCondition_def MetaCondition_DeepCopyInto_def
      T_ShardInfo_def ShardInfo_DeepCopyInto_def T_FieldsV1_def FieldsV1_DeepCopyInto_def T_OwnerReference_def
      OwnerReference_DeepCopyInto_def)

lemma meta_deep_2 [deep_copies]:
  "copies_deep T_ListMeta ListMeta_DeepCopyInto"
  "copies_deep T_ManagedFieldsEntry ManagedFieldsEntry_DeepCopyInto"
  by (simp_all add: deep_struct fields_deep_def deep_copies T_ListMeta_def ListMeta_DeepCopyInto_def
      T_ManagedFieldsEntry_def ManagedFieldsEntry_DeepCopyInto_def)

lemma meta_deep_3 [deep_copies]:
  "copies_deep T_ObjectMeta ObjectMeta_DeepCopyInto"
  by (simp_all add: deep_struct fields_deep_def deep_copies T_ObjectMeta_def ObjectMeta_DeepCopyInto_def)

end
