(* ===== verification/Deep_Copy_V1.thy ===== *)
theory Deep_Copy_V1
  imports Deep_Copy_Meta
begin

text \<open>
  The types of \<open>api/v1\<close> and their generated deep-copy functions (\<open>api/v1/zz_generated.deepcopy.go\<close>).
\<close>

section \<open>Types and functions\<close>

definition T_BaseBoardInfo :: gtype where
  "T_BaseBoardInfo = TStruct
     [(''Manufacturer'', TScalar), (''ProductName'', TScalar), (''Version'', TScalar), (''SerialNumber'', TScalar)]"

definition BaseBoardInfo_DeepCopyInto :: copier where
  "BaseBoardInfo_DeepCopyInto = struct_copy []"

definition BaseBoardInfo_DeepCopy :: copier where
  "BaseBoardInfo_DeepCopy = ptr_copy T_BaseBoardInfo BaseBoardInfo_DeepCopyInto"

definition T_HardwareInfo :: gtype where
  "T_HardwareInfo = TStruct
     [(''PCIAddress'', TScalar), (''VendorID'', TScalar), (''DeviceID'', TScalar), (''SubsystemVendorID'', TScalar),
      (''SubsystemDeviceID'', TScalar), (''FirmwareVersion'', TScalar), (''DriverVersion'', TScalar),
      (''LinkStatus'', TScalar), (''LinkSpeed'', TScalar), (''FEC'', TScalar), (''VPDIdentifierString'', TScalar),
      (''VPDPartNumber'', TScalar), (''VPDSerialNumber'', TScalar), (''VPDManufacturerID'', TScalar),
      (''VPDProductName'', TScalar), (''VPDVendorSpecific1'', TScalar), (''VPDVendorSpecific2'', TScalar)]"

definition HardwareInfo_DeepCopyInto :: copier where
  "HardwareInfo_DeepCopyInto = struct_copy []"

definition HardwareInfo_DeepCopy :: copier where
  "HardwareInfo_DeepCopy = ptr_copy T_HardwareInfo HardwareInfo_DeepCopyInto"

definition T_HwConfig :: gtype where
  "T_HwConfig = TStruct
     [(''DeviceID'', TScalar), (''VendorID'', TScalar), (''Failed'', TScalar), (''Status'', TScalar),
      (''Config'', TPtr T_JSON)]"

definition HwConfig_DeepCopyInto :: copier where
  "HwConfig_DeepCopyInto = struct_copy [(''Config'', ptr_copy T_JSON JSON_DeepCopyInto)]"

definition HwConfig_DeepCopy :: copier where
  "HwConfig_DeepCopy = ptr_copy T_HwConfig HwConfig_DeepCopyInto"

definition T_MatchRule :: gtype where
  "T_MatchRule = TStruct [(''NodeLabel'', TPtr TScalar), (''NodeName'', TPtr TScalar)]"

definition MatchRule_DeepCopyInto :: copier where
  "MatchRule_DeepCopyInto = struct_copy
     [(''NodeLabel'', ptr_copy TScalar assign), (''NodeName'', ptr_copy TScalar assign)]"

definition MatchRule_DeepCopy :: copier where
  "MatchRule_DeepCopy = ptr_copy T_MatchRule MatchRule_DeepCopyInto"

definition T_NodeMatchList :: gtype where
  "T_NodeMatchList = TStruct [(''NodeName'', TPtr TScalar), (''Profile'', TPtr TScalar)]"

definition NodeMatchList_DeepCopyInto :: copier where
  "NodeMatchList_DeepCopyInto = struct_copy [(''NodeName'', ptr_copy TScalar assign), (''Profile'', ptr_copy TScalar assign)]"

definition NodeMatchList_DeepCopy :: copier where
  "NodeMatchList_DeepCopy = ptr_copy T_NodeMatchList NodeMatchList_DeepCopyInto"

definition T_NodeProfileStatus :: gtype where
  "T_NodeProfileStatus = TStruct [(''Name'', TScalar), (''ClockType'', TScalar)]"

definition NodeProfileStatus_DeepCopyInto :: copier where
  "NodeProfileStatus_DeepCopyInto = struct_copy []"

definition NodeProfileStatus_DeepCopy :: copier where
  "NodeProfileStatus_DeepCopy = ptr_copy T_NodeProfileStatus NodeProfileStatus_DeepCopyInto"

definition T_NodePtpDeviceSpec :: gtype where
  "T_NodePtpDeviceSpec = TStruct []"

definition NodePtpDeviceSpec_DeepCopyInto :: copier where
  "NodePtpDeviceSpec_DeepCopyInto = struct_copy []"

definition NodePtpDeviceSpec_DeepCopy :: copier where
  "NodePtpDeviceSpec_DeepCopy = ptr_copy T_NodePtpDeviceSpec NodePtpDeviceSpec_DeepCopyInto"

definition T_PtpDevice :: gtype where
  "T_PtpDevice = TStruct
     [(''Name'', TScalar), (''Profile'', TScalar), (''HardwareInfo'', TPtr T_HardwareInfo)]"

definition PtpDevice_DeepCopyInto :: copier where
  "PtpDevice_DeepCopyInto = struct_copy [(''HardwareInfo'', ptr_copy T_HardwareInfo assign)]"

definition PtpDevice_DeepCopy :: copier where
  "PtpDevice_DeepCopy = ptr_copy T_PtpDevice PtpDevice_DeepCopyInto"

definition T_SyncStatus :: gtype where
  "T_SyncStatus = TStruct [(''Profiles'', TSlice T_NodeProfileStatus)]"

definition SyncStatus_DeepCopyInto :: copier where
  "SyncStatus_DeepCopyInto = struct_copy [(''Profiles'', slice_copy T_NodeProfileStatus assign)]"

definition SyncStatus_DeepCopy :: copier where
  "SyncStatus_DeepCopy = ptr_copy T_SyncStatus SyncStatus_DeepCopyInto"

definition T_SystemInfo :: gtype where
  "T_SystemInfo = TStruct
     [(''Manufacturer'', TScalar), (''ProductName'', TScalar), (''Version'', TScalar), (''SerialNumber'', TScalar),
      (''SKUNumber'', TScalar), (''Family'', TScalar)]"

definition SystemInfo_DeepCopyInto :: copier where
  "SystemInfo_DeepCopyInto = struct_copy []"

definition SystemInfo_DeepCopy :: copier where
  "SystemInfo_DeepCopy = ptr_copy T_SystemInfo SystemInfo_DeepCopyInto"

definition T_NodePtpDeviceStatus :: gtype where
  "T_NodePtpDeviceStatus = TStruct
     [(''Devices'', TSlice T_PtpDevice), (''Hwconfig'', TSlice T_HwConfig), (''SystemInfo'', TPtr T_SystemInfo),
      (''BaseBoardInfo'', TPtr T_BaseBoardInfo), (''Sync'', TPtr T_SyncStatus),
      (''Conditions'', TSlice T_MetaCondition)]"

definition NodePtpDeviceStatus_DeepCopyInto :: copier where
  "NodePtpDeviceStatus_DeepCopyInto = struct_copy
     [(''Devices'', slice_copy T_PtpDevice PtpDevice_DeepCopyInto),
      (''Hwconfig'', slice_copy T_HwConfig HwConfig_DeepCopyInto), (''SystemInfo'', ptr_copy T_SystemInfo assign),
      (''BaseBoardInfo'', ptr_copy T_BaseBoardInfo assign), (''Sync'', ptr_copy T_SyncStatus SyncStatus_DeepCopyInto),
      (''Conditions'', slice_copy T_MetaCondition MetaCondition_DeepCopyInto)]"

definition NodePtpDeviceStatus_DeepCopy :: copier where
  "NodePtpDeviceStatus_DeepCopy = ptr_copy T_NodePtpDeviceStatus NodePtpDeviceStatus_DeepCopyInto"

definition T_NodePtpDevice :: gtype where
  "T_NodePtpDevice = TStruct
     [(''TypeMeta'', T_TypeMeta), (''ObjectMeta'', T_ObjectMeta), (''Spec'', T_NodePtpDeviceSpec),
      (''Status'', T_NodePtpDeviceStatus)]"

definition NodePtpDevice_DeepCopyInto :: copier where
  "NodePtpDevice_DeepCopyInto = struct_copy
     [(''TypeMeta'', assign), (''ObjectMeta'', ObjectMeta_DeepCopyInto), (''Spec'', assign),
      (''Status'', NodePtpDeviceStatus_DeepCopyInto)]"

definition NodePtpDevice_DeepCopy :: copier where
  "NodePtpDevice_DeepCopy = ptr_copy T_NodePtpDevice NodePtpDevice_DeepCopyInto"

definition NodePtpDevice_DeepCopyObject :: copier where
  "NodePtpDevice_DeepCopyObject = object_copy NodePtpDevice_DeepCopy"

definition T_NodePtpDeviceList :: gtype where
  "T_NodePtpDeviceList = TStruct
     [(''TypeMeta'', T_TypeMeta), (''ListMeta'', T_ListMeta), (''Items'', TSlice T_NodePtpDevice)]"

definition NodePtpDeviceList_DeepCopyInto :: copier where
  "NodePtpDeviceList_DeepCopyInto = struct_copy
     [(''TypeMeta'', assign), (''ListMeta'', ListMeta_DeepCopyInto),
      (''Items'', slice_copy T_NodePtpDevice NodePtpDevice_DeepCopyInto)]"

definition NodePtpDeviceList_DeepCopy :: copier where
  "NodePtpDeviceList_DeepCopy = ptr_copy T_NodePtpDeviceList NodePtpDeviceList_DeepCopyInto"

definition NodePtpDeviceList_DeepCopyObject :: copier where
  "NodePtpDeviceList_DeepCopyObject = object_copy NodePtpDeviceList_DeepCopy"

definition T_ProcessDowntimeThresholds :: gtype where
  "T_ProcessDowntimeThresholds = TStruct
     [(''Ptp4l'', TPtr TScalar), (''Phc2sys'', TPtr TScalar), (''Ts2phc'', TPtr TScalar), (''Synce4l'', TPtr TScalar),
      (''Chronyd'', TPtr TScalar), (''Gpsd'', TPtr TScalar), (''Gpspipe'', TPtr TScalar)]"

definition ProcessDowntimeThresholds_DeepCopyInto :: copier where
  "ProcessDowntimeThresholds_DeepCopyInto = struct_copy
     [(''Ptp4l'', ptr_copy TScalar assign), (''Phc2sys'', ptr_copy TScalar assign),
      (''Ts2phc'', ptr_copy TScalar assign), (''Synce4l'', ptr_copy TScalar assign),
      (''Chronyd'', ptr_copy TScalar assign), (''Gpsd'', ptr_copy TScalar assign),
      (''Gpspipe'', ptr_copy TScalar assign)]"

definition ProcessDowntimeThresholds_DeepCopy :: copier where
  "ProcessDowntimeThresholds_DeepCopy = ptr_copy T_ProcessDowntimeThresholds ProcessDowntimeThresholds_DeepCopyInto"

definition T_ProfileStatus :: gtype where
  "T_ProfileStatus = TStruct
     [(''Name'', TScalar), (''ControlledBy'', TScalar), (''Controls'', TSlice TScalar),
      (''HaMembers'', TSlice TScalar), (''PartOfHa'', TScalar), (''HasPhc2sys'', TScalar), (''ClockType'', TScalar),
      (''AppliedOnNodes'', TSlice TScalar), (''HardwareConfigs'', TSlice TScalar)]"

definition ProfileStatus_DeepCopyInto :: copier where
  "ProfileStatus_DeepCopyInto = struct_copy
     [(''Controls'', slice_copy TScalar assign), (''HaMembers'', slice_copy TScalar assign),
      (''AppliedOnNodes'', slice_copy TScalar assign), (''HardwareConfigs'', slice_copy TScalar assign)]"

definition ProfileStatus_DeepCopy :: copier where
  "ProfileStatus_DeepCopy = ptr_copy T_ProfileStatus ProfileStatus_DeepCopyInto"

definition T_Ptp4lConfSection :: gtype where
  "T_Ptp4lConfSection = TStruct [(''options'', TMap TScalar)]"

definition Ptp4lConfSection_DeepCopyInto :: copier where
  "Ptp4lConfSection_DeepCopyInto = struct_copy [(''options'', map_copy assign)]"

definition Ptp4lConfSection_DeepCopy :: copier where
  "Ptp4lConfSection_DeepCopy = ptr_copy T_Ptp4lConfSection Ptp4lConfSection_DeepCopyInto"

definition T_Ptp4lConf :: gtype where
  "T_Ptp4lConf = TStruct [(''sections'', TMap T_Ptp4lConfSection), (''sectionOrder'', TSlice TScalar)]"

definition Ptp4lConf_DeepCopyInto :: copier where
  "Ptp4lConf_DeepCopyInto = struct_copy
     [(''sections'', map_copy (value_copy T_Ptp4lConfSection Ptp4lConfSection_DeepCopyInto)),
      (''sectionOrder'', slice_copy TScalar assign)]"

definition Ptp4lConf_DeepCopy :: copier where
  "Ptp4lConf_DeepCopy = ptr_copy T_Ptp4lConf Ptp4lConf_DeepCopyInto"

definition T_PtpClockThreshold :: gtype where
  "T_PtpClockThreshold = TStruct
     [(''HoldOverTimeout'', TScalar), (''MaxOffsetThreshold'', TScalar), (''MinOffsetThreshold'', TScalar),
      (''SysOffsetInSyncThreshold'', TPtr TScalar), (''SysOffsetOutOfSyncThreshold'', TPtr TScalar),
      (''SysOffsetSamples'', TPtr TScalar), (''ProcessDowntimeThresholds'', TPtr T_ProcessDowntimeThresholds),
      (''PtpSourceQualifiedThreshold'', TPtr TScalar), (''PtpSourceDisqualifiedThreshold'', TPtr TScalar),
      (''PtpSourceQualifiedSamples'', TPtr TScalar), (''PtpSourceDisqualifiedSamples'', TPtr TScalar),
      (''PtpSourceUseS3'', TScalar)]"

definition PtpClockThreshold_DeepCopyInto :: copier where
  "PtpClockThreshold_DeepCopyInto = struct_copy
     [(''SysOffsetInSyncThreshold'', ptr_copy TScalar assign),
      (''SysOffsetOutOfSyncThreshold'', ptr_copy TScalar assign), (''SysOffsetSamples'', ptr_copy TScalar assign),
      (''ProcessDowntimeThresholds'', ptr_copy T_ProcessDowntimeThresholds ProcessDowntimeThresholds_DeepCopyInto),
      (''PtpSourceQualifiedThreshold'', ptr_copy TScalar assign),
      (''PtpSourceDisqualifiedThreshold'', ptr_copy TScalar assign),
      (''PtpSourceQualifiedSamples'', ptr_copy TScalar assign),
      (''PtpSourceDisqualifiedSamples'', ptr_copy TScalar assign)]"

definition PtpClockThreshold_DeepCopy :: copier where
  "PtpClockThreshold_DeepCopy = ptr_copy T_PtpClockThreshold PtpClockThreshold_DeepCopyInto"

definition T_PtpProfile :: gtype where
  "T_PtpProfile = TStruct
     [(''Name'', TPtr TScalar), (''Interface'', TPtr TScalar), (''Ptp4lOpts'', TPtr TScalar),
      (''Phc2sysOpts'', TPtr TScalar), (''Ts2PhcOpts'', TPtr TScalar), (''Synce4lOpts'', TPtr TScalar),
      (''ChronydOpts'', TPtr TScalar), (''Ptp4lConf'', TPtr TScalar), (''Phc2sysConf'', TPtr TScalar),
      (''Ts2PhcConf'', TPtr TScalar), (''Synce4lConf'', TPtr TScalar), (''ChronydConf'', TPtr TScalar),
      (''PtpSchedulingPolicy'', TPtr TScalar), (''PtpSchedulingPriority'', TPtr TScalar),
      (''PtpClockThreshold'', TPtr T_PtpClockThreshold), (''PtpSettings'', TMap TScalar),
      (''Plugins'', TMap (TPtr T_JSON))]"

definition PtpProfile_DeepCopyInto :: copier where
  "PtpProfile_DeepCopyInto = struct_copy
     [(''Name'', ptr_copy TScalar assign), (''Interface'', ptr_copy TScalar assign),
      (''Ptp4lOpts'', ptr_copy TScalar assign), (''Phc2sysOpts'', ptr_copy TScalar assign),
      (''Ts2PhcOpts'', ptr_copy TScalar assign), (''Synce4lOpts'', ptr_copy TScalar assign),
      (''ChronydOpts'', ptr_copy TScalar assign), (''Ptp4lConf'', ptr_copy TScalar assign),
      (''Phc2sysConf'', ptr_copy TScalar assign), (''Ts2PhcConf'', ptr_copy TScalar assign),
      (''Synce4lConf'', ptr_copy TScalar assign), (''ChronydConf'', ptr_copy TScalar assign),
      (''PtpSchedulingPolicy'', ptr_copy TScalar assign), (''PtpSchedulingPriority'', ptr_copy TScalar assign),
      (''PtpClockThreshold'', ptr_copy T_PtpClockThreshold PtpClockThreshold_DeepCopyInto),
      (''PtpSettings'', map_copy assign), (''Plugins'', map_copy (ptr_copy T_JSON JSON_DeepCopyInto))]"

definition PtpProfile_DeepCopy :: copier where
  "PtpProfile_DeepCopy = ptr_copy T_PtpProfile PtpProfile_DeepCopyInto"

definition T_PtpRecommend :: gtype where
  "T_PtpRecommend = TStruct
     [(''Profile'', TPtr TScalar), (''Priority'', TPtr TScalar), (''Match'', TSlice T_MatchRule)]"

definition PtpRecommend_DeepCopyInto :: copier where
  "PtpRecommend_DeepCopyInto = struct_copy
     [(''Profile'', ptr_copy TScalar assign), (''Priority'', ptr_copy TScalar assign),
      (''Match'', slice_copy T_MatchRule MatchRule_DeepCopyInto)]"

definition PtpRecommend_DeepCopy :: copier where
  "PtpRecommend_DeepCopy = ptr_copy T_PtpRecommend PtpRecommend_DeepCopyInto"

definition T_PtpConfigSpec :: gtype where
  "T_PtpConfigSpec = TStruct [(''Profile'', TSlice T_PtpProfile), (''Recommend'', TSlice T_PtpRecommend)]"

definition PtpConfigSpec_DeepCopyInto :: copier where
  "PtpConfigSpec_DeepCopyInto = struct_copy
     [(''Profile'', slice_copy T_PtpProfile PtpProfile_DeepCopyInto),
      (''Recommend'', slice_copy T_PtpRecommend PtpRecommend_DeepCopyInto)]"

definition PtpConfigSpec_DeepCopy :: copier where
  "PtpConfigSpec_DeepCopy = ptr_copy T_PtpConfigSpec PtpConfigSpec_DeepCopyInto"

definition T_PtpConfigStatus :: gtype where
  "T_PtpConfigStatus = TStruct
     [(''MatchList'', TSlice T_NodeMatchList), (''ObservedGeneration'', TScalar),
      (''ProfileStatuses'', TSlice T_ProfileStatus), (''Warnings'', TSlice TScalar),
      (''Conditions'', TSlice T_MetaCondition)]"

definition PtpConfigStatus_DeepCopyInto :: copier where
  "PtpConfigStatus_DeepCopyInto = struct_copy
     [(''MatchList'', slice_copy T_NodeMatchList NodeMatchList_DeepCopyInto),
      (''ProfileStatuses'', slice_copy T_ProfileStatus ProfileStatus_DeepCopyInto),
      (''Warnings'', slice_copy TScalar assign),
      (''Conditions'', slice_copy T_MetaCondition MetaCondition_DeepCopyInto)]"

definition PtpConfigStatus_DeepCopy :: copier where
  "PtpConfigStatus_DeepCopy = ptr_copy T_PtpConfigStatus PtpConfigStatus_DeepCopyInto"

definition T_PtpConfig :: gtype where
  "T_PtpConfig = TStruct
     [(''TypeMeta'', T_TypeMeta), (''ObjectMeta'', T_ObjectMeta), (''Spec'', T_PtpConfigSpec),
      (''Status'', T_PtpConfigStatus)]"

definition PtpConfig_DeepCopyInto :: copier where
  "PtpConfig_DeepCopyInto = struct_copy
     [(''TypeMeta'', assign), (''ObjectMeta'', ObjectMeta_DeepCopyInto), (''Spec'', PtpConfigSpec_DeepCopyInto),
      (''Status'', PtpConfigStatus_DeepCopyInto)]"

definition PtpConfig_DeepCopy :: copier where
  "PtpConfig_DeepCopy = ptr_copy T_PtpConfig PtpConfig_DeepCopyInto"

definition PtpConfig_DeepCopyObject :: copier where
  "PtpConfig_DeepCopyObject = object_copy PtpConfig_DeepCopy"

definition T_PtpConfigList :: gtype where
  "T_PtpConfigList = TStruct
     [(''TypeMeta'', T_TypeMeta), (''ListMeta'', T_ListMeta), (''Items'', TSlice T_PtpConfig)]"

definition PtpConfigList_DeepCopyInto :: copier where
  "PtpConfigList_DeepCopyInto = struct_copy
     [(''TypeMeta'', assign), (''ListMeta'', ListMeta_DeepCopyInto),
      (''Items'', slice_copy T_PtpConfig PtpConfig_DeepCopyInto)]"

definition PtpConfigList_DeepCopy :: copier where
  "PtpConfigList_DeepCopy = ptr_copy T_PtpConfigList PtpConfigList_DeepCopyInto"

definition PtpConfigList_DeepCopyObject :: copier where
  "PtpConfigList_DeepCopyObject = object_copy PtpConfigList_DeepCopy"

definition T_PtpEventConfig :: gtype where
  "T_PtpEventConfig = TStruct
     [(''EnableEventPublisher'', TScalar), (''TransportHost'', TScalar), (''StorageType'', TScalar),
      (''ApiVersion'', TScalar)]"

definition PtpEventConfig_DeepCopyInto :: copier where
  "PtpEventConfig_DeepCopyInto = struct_copy []"

definition PtpEventConfig_DeepCopy :: copier where
  "PtpEventConfig_DeepCopy = ptr_copy T_PtpEventConfig PtpEventConfig_DeepCopyInto"

definition T_PtpOperatorConfigSpec :: gtype where
  "T_PtpOperatorConfigSpec = TStruct
     [(''DaemonNodeSelector'', TMap TScalar), (''EventConfig'', TPtr T_PtpEventConfig),
      (''EnabledPlugins'', TPtr (TMap (TPtr T_JSON)))]"

definition PtpOperatorConfigSpec_DeepCopyInto :: copier where
  "PtpOperatorConfigSpec_DeepCopyInto = struct_copy
     [(''DaemonNodeSelector'', map_copy assign), (''EventConfig'', ptr_copy T_PtpEventConfig assign),
      (''EnabledPlugins'', ptr_copy (TMap (TPtr T_JSON)) (map_copy (ptr_copy T_JSON JSON_DeepCopyInto)))]"

definition PtpOperatorConfigSpec_DeepCopy :: copier where
  "PtpOperatorConfigSpec_DeepCopy = ptr_copy T_PtpOperatorConfigSpec PtpOperatorConfigSpec_DeepCopyInto"

definition T_PtpOperatorConfigStatus :: gtype where
  "T_PtpOperatorConfigStatus = TStruct []"

definition PtpOperatorConfigStatus_DeepCopyInto :: copier where
  "PtpOperatorConfigStatus_DeepCopyInto = struct_copy []"

definition PtpOperatorConfigStatus_DeepCopy :: copier where
  "PtpOperatorConfigStatus_DeepCopy = ptr_copy T_PtpOperatorConfigStatus PtpOperatorConfigStatus_DeepCopyInto"

definition T_PtpOperatorConfig :: gtype where
  "T_PtpOperatorConfig = TStruct
     [(''TypeMeta'', T_TypeMeta), (''ObjectMeta'', T_ObjectMeta), (''Spec'', T_PtpOperatorConfigSpec),
      (''Status'', T_PtpOperatorConfigStatus)]"

definition PtpOperatorConfig_DeepCopyInto :: copier where
  "PtpOperatorConfig_DeepCopyInto = struct_copy
     [(''TypeMeta'', assign), (''ObjectMeta'', ObjectMeta_DeepCopyInto),
      (''Spec'', PtpOperatorConfigSpec_DeepCopyInto), (''Status'', assign)]"

definition PtpOperatorConfig_DeepCopy :: copier where
  "PtpOperatorConfig_DeepCopy = ptr_copy T_PtpOperatorConfig PtpOperatorConfig_DeepCopyInto"

definition PtpOperatorConfig_DeepCopyObject :: copier where
  "PtpOperatorConfig_DeepCopyObject = object_copy PtpOperatorConfig_DeepCopy"

definition T_PtpOperatorConfigList :: gtype where
  "T_PtpOperatorConfigList = TStruct
     [(''TypeMeta'', T_TypeMeta), (''ListMeta'', T_ListMeta), (''Items'', TSlice T_PtpOperatorConfig)]"

definition PtpOperatorConfigList_DeepCopyInto :: copier where
  "PtpOperatorConfigList_DeepCopyInto = struct_copy
     [(''TypeMeta'', assign), (''ListMeta'', ListMeta_DeepCopyInto),
      (''Items'', slice_copy T_PtpOperatorConfig PtpOperatorConfig_DeepCopyInto)]"

definition PtpOperatorConfigList_DeepCopy :: copier where
  "PtpOperatorConfigList_DeepCopy = ptr_copy T_PtpOperatorConfigList PtpOperatorConfigList_DeepCopyInto"

definition PtpOperatorConfigList_DeepCopyObject :: copier where
  "PtpOperatorConfigList_DeepCopyObject = object_copy PtpOperatorConfigList_DeepCopy"

text \<open>The functions with the types they copy.\<close>

definition v1_copiers :: "(gtype \<times> copier) list" where
  "v1_copiers =
     [(T_BaseBoardInfo, BaseBoardInfo_DeepCopyInto), (TPtr T_BaseBoardInfo, BaseBoardInfo_DeepCopy),
      (T_HardwareInfo, HardwareInfo_DeepCopyInto), (TPtr T_HardwareInfo, HardwareInfo_DeepCopy),
      (T_HwConfig, HwConfig_DeepCopyInto), (TPtr T_HwConfig, HwConfig_DeepCopy), (T_MatchRule, MatchRule_DeepCopyInto),
      (TPtr T_MatchRule, MatchRule_DeepCopy), (T_NodeMatchList, NodeMatchList_DeepCopyInto),
      (TPtr T_NodeMatchList, NodeMatchList_DeepCopy), (T_NodeProfileStatus, NodeProfileStatus_DeepCopyInto),
      (TPtr T_NodeProfileStatus, NodeProfileStatus_DeepCopy), (T_NodePtpDeviceSpec, NodePtpDeviceSpec_DeepCopyInto),
      (TPtr T_NodePtpDeviceSpec, NodePtpDeviceSpec_DeepCopy), (T_PtpDevice, PtpDevice_DeepCopyInto),
      (TPtr T_PtpDevice, PtpDevice_DeepCopy), (T_SyncStatus, SyncStatus_DeepCopyInto),
      (TPtr T_SyncStatus, SyncStatus_DeepCopy), (T_SystemInfo, SystemInfo_DeepCopyInto),
      (TPtr T_SystemInfo, SystemInfo_DeepCopy), (T_NodePtpDeviceStatus, NodePtpDeviceStatus_DeepCopyInto),
      (TPtr T_NodePtpDeviceStatus, NodePtpDeviceStatus_DeepCopy), (T_NodePtpDevice, NodePtpDevice_DeepCopyInto),
      (TPtr T_NodePtpDevice, NodePtpDevice_DeepCopy), (TPtr T_NodePtpDevice, NodePtpDevice_DeepCopyObject),
      (T_NodePtpDeviceList, NodePtpDeviceList_DeepCopyInto), (TPtr T_NodePtpDeviceList, NodePtpDeviceList_DeepCopy),
      (TPtr T_NodePtpDeviceList, NodePtpDeviceList_DeepCopyObject),
      (T_ProcessDowntimeThresholds, ProcessDowntimeThresholds_DeepCopyInto),
      (TPtr T_ProcessDowntimeThresholds, ProcessDowntimeThresholds_DeepCopy),
      (T_ProfileStatus, ProfileStatus_DeepCopyInto), (TPtr T_ProfileStatus, ProfileStatus_DeepCopy),
      (T_Ptp4lConfSection, Ptp4lConfSection_DeepCopyInto), (TPtr T_Ptp4lConfSection, Ptp4lConfSection_DeepCopy),
      (T_Ptp4lConf, Ptp4lConf_DeepCopyInto), (TPtr T_Ptp4lConf, Ptp4lConf_DeepCopy),
      (T_PtpClockThreshold, PtpClockThreshold_DeepCopyInto), (TPtr T_PtpClockThreshold, PtpClockThreshold_DeepCopy),
      (T_PtpProfile, PtpProfile_DeepCopyInto), (TPtr T_PtpProfile, PtpProfile_DeepCopy),
      (T_PtpRecommend, PtpRecommend_DeepCopyInto), (TPtr T_PtpRecommend, PtpRecommend_DeepCopy),
      (T_PtpConfigSpec, PtpConfigSpec_DeepCopyInto), (TPtr T_PtpConfigSpec, PtpConfigSpec_DeepCopy),
      (T_PtpConfigStatus, PtpConfigStatus_DeepCopyInto), (TPtr T_PtpConfigStatus, PtpConfigStatus_DeepCopy),
      (T_PtpConfig, PtpConfig_DeepCopyInto), (TPtr T_PtpConfig, PtpConfig_DeepCopy),
      (TPtr T_PtpConfig, PtpConfig_DeepCopyObject), (T_PtpConfigList, PtpConfigList_DeepCopyInto),
      (TPtr T_PtpConfigList, PtpConfigList_DeepCopy), (TPtr T_PtpConfigList, PtpConfigList_DeepCopyObject),
      (T_PtpEventConfig, PtpEventConfig_DeepCopyInto), (TPtr T_PtpEventConfig, PtpEventConfig_DeepCopy),
      (T_PtpOperatorConfigSpec, PtpOperatorConfigSpec_DeepCopyInto),
      (TPtr T_PtpOperatorConfigSpec, PtpOperatorConfigSpec_DeepCopy),
      (T_PtpOperatorConfigStatus, PtpOperatorConfigStatus_DeepCopyInto),
      (TPtr T_PtpOperatorConfigStatus, PtpOperatorConfigStatus_DeepCopy),
      (T_PtpOperatorConfig, PtpOperatorConfig_DeepCopyInto), (TPtr T_PtpOperatorConfig, PtpOperatorConfig_DeepCopy),
      (TPtr T_PtpOperatorConfig, PtpOperatorConfig_DeepCopyObject),
      (T_PtpOperatorConfigList, PtpOperatorConfigList_DeepCopyInto),
      (TPtr T_PtpOperatorConfigList, PtpOperatorConfigList_DeepCopy),
      (TPtr T_PtpOperatorConfigList, PtpOperatorConfigList_DeepCopyObject)]"

section \<open>The copies are deep\<close>

lemma v1_flat [deep_copies]: "flat T_BaseBoardInfo" "flat T_HardwareInfo" "flat T_NodeProfileStatus" "flat
      T_NodePtpDeviceSpec" "flat T_SystemInfo" "flat T_PtpEventConfig" "flat T_PtpOperatorConfigStatus"
  by (simp_all add: deep_copies T_BaseBoardInfo_def T_HardwareInfo_def T_NodeProfileStatus_def
      T_NodePtpDeviceSpec_def T_SystemInfo_def T_PtpEventConfig_def T_PtpOperatorConfigStatus_def)

lemma v1_deep_1 [deep_copies]:
  "copies_deep T_BaseBoardInfo BaseBoardInfo_DeepCopyInto"
  "copies_deep T_HardwareInfo HardwareInfo_DeepCopyInto"
  "copies_deep T_HwConfig HwConfig_DeepCopyInto"
  "copies_deep T_MatchRule MatchRule_DeepCopyInto"
  "copies_deep T_NodeMatchList NodeMatchList_DeepCopyInto"
  "copies_deep T_NodeProfileStatus NodeProfileStatus_DeepCopyInto"
  "copies_deep T_NodePtpDeviceSpec NodePtpDeviceSpec_DeepCopyInto"
  "copies_deep T_SystemInfo SystemInfo_DeepCopyInto"
  "copies_deep T_ProcessDowntimeThresholds ProcessDowntimeThresholds_DeepCopyInto"
  "copies_deep T_ProfileStatus ProfileStatus_DeepCopyInto"
  "copies_deep T_Ptp4lConfSection Ptp4lConfSection_DeepCopyInto"
  "copies_deep T_PtpEventConfig PtpEventConfig_DeepCopyInto"
  "copies_deep T_PtpOperatorConfigStatus PtpOperatorConfigStatus_DeepCopyInto"
  by (simp_all add: deep_struct fields_deep_def deep_copies T_BaseBoardInfo_def BaseBoardInfo_DeepCopyInto_def
      T_HardwareInfo_def HardwareInfo_DeepCopyInto_def T_HwConfig_def HwConfig_DeepCopyInto_def T_MatchRule_def
      MatchRule_DeepCopyInto_def T_NodeMatchList_def NodeMatchList_DeepCopyInto_def T_NodeProfileStatus_def
      NodeProfileStatus_DeepCopyInto_def T_NodePtpDeviceSpec_def NodePtpDeviceSpec_DeepCopyInto_def T_SystemInfo_def
      SystemInfo_DeepCopyInto_def T_ProcessDowntimeThresholds_def ProcessDowntimeThresholds_DeepCopyInto_def
      T_ProfileStatus_def ProfileStatus_DeepCopyInto_def T_Ptp4lConfSection_def Ptp4lConfSection_DeepCopyInto_def
      T_PtpEventConfig_def PtpEventConfig_DeepCopyInto_def T_PtpOperatorConfigStatus_def
      PtpOperatorConfigStatus_DeepCopyInto_def)

lemma v1_deep_2 [deep_copies]:
  "copies_deep T_PtpDevice PtpDevice_DeepCopyInto"
  "copies_deep T_SyncStatus SyncStatus_DeepCopyInto"
  "copies_deep T_Ptp4lConf Ptp4lConf_DeepCopyInto"
  "copies_deep T_PtpClockThreshold PtpClockThreshold_DeepCopyInto"
  "copies_deep T_PtpRecommend PtpRecommend_DeepCopyInto"
  "copies_deep T_PtpConfigStatus PtpConfigStatus_DeepCopyInto"
  "copies_deep T_PtpOperatorConfigSpec PtpOperatorConfigSpec_DeepCopyInto"
  by (simp_all add: deep_struct fields_deep_def deep_copies T_PtpDevice_def PtpDevice_DeepCopyInto_def
      T_SyncStatus_def SyncStatus_DeepCopyInto_def T_Ptp4lConf_def Ptp4lConf_DeepCopyInto_def T_PtpClockThreshold_def
      PtpClockThreshold_DeepCopyInto_def T_PtpRecommend_def PtpRecommend_DeepCopyInto_def T_PtpConfigStatus_def
      PtpConfigStatus_DeepCopyInto_def T_PtpOperatorConfigSpec_def PtpOperatorConfigSpec_DeepCopyInto_def)

lemma v1_deep_3 [deep_copies]:
  "copies_deep T_NodePtpDeviceStatus NodePtpDeviceStatus_DeepCopyInto"
  "copies_deep T_PtpProfile PtpProfile_DeepCopyInto"
  "copies_deep T_PtpOperatorConfig PtpOperatorConfig_DeepCopyInto"
  by (simp_all add: deep_struct fields_deep_def deep_copies T_NodePtpDeviceStatus_def
      NodePtpDeviceStatus_DeepCopyInto_def T_PtpProfile_def PtpProfile_DeepCopyInto_def T_PtpOperatorConfig_def
      PtpOperatorConfig_DeepCopyInto_def)

lemma v1_deep_4 [deep_copies]:
  "copies_deep T_NodePtpDevice NodePtpDevice_DeepCopyInto"
  "copies_deep T_PtpConfigSpec PtpConfigSpec_DeepCopyInto"
  "copies_deep T_PtpOperatorConfigList PtpOperatorConfigList_DeepCopyInto"
  by (simp_all add: deep_struct fields_deep_def deep_copies T_NodePtpDevice_def NodePtpDevice_DeepCopyInto_def
      T_PtpConfigSpec_def PtpConfigSpec_DeepCopyInto_def T_PtpOperatorConfigList_def
      PtpOperatorConfigList_DeepCopyInto_def)

lemma v1_deep_5 [deep_copies]:
  "copies_deep T_NodePtpDeviceList NodePtpDeviceList_DeepCopyInto"
  "copies_deep T_PtpConfig PtpConfig_DeepCopyInto"
  by (simp_all add: deep_struct fields_deep_def deep_copies T_NodePtpDeviceList_def
      NodePtpDeviceList_DeepCopyInto_def T_PtpConfig_def PtpConfig_DeepCopyInto_def)

lemma v1_deep_6 [deep_copies]:
  "copies_deep T_PtpConfigList PtpConfigList_DeepCopyInto"
  by (simp_all add: deep_struct fields_deep_def deep_copies T_PtpConfigList_def PtpConfigList_DeepCopyInto_def)

lemma v1_copiers_deep: "list_all (\<lambda>(t, c). copies_deep t c) v1_copiers"
  by (simp add: deep_copies v1_copiers_def BaseBoardInfo_DeepCopy_def HardwareInfo_DeepCopy_def HwConfig_DeepCopy_def
      MatchRule_DeepCopy_def NodeMatchList_DeepCopy_def NodeProfileStatus_DeepCopy_def NodePtpDeviceSpec_DeepCopy_def
      PtpDevice_DeepCopy_def SyncStatus_DeepCopy_def SystemInfo_DeepCopy_def NodePtpDeviceStatus_DeepCopy_def
      NodePtpDevice_DeepCopy_def NodePtpDeviceList_DeepCopy_def ProcessDowntimeThresholds_DeepCopy_def
      ProfileStatus_DeepCopy_def Ptp4lConfSection_DeepCopy_def Ptp4lConf_DeepCopy_def PtpClockThreshold_DeepCopy_def
      PtpProfile_DeepCopy_def PtpRecommend_DeepCopy_def PtpConfigSpec_DeepCopy_def PtpConfigStatus_DeepCopy_def
      PtpConfig_DeepCopy_def PtpConfigList_DeepCopy_def PtpEventConfig_DeepCopy_def
      PtpOperatorConfigSpec_DeepCopy_def PtpOperatorConfigStatus_DeepCopy_def PtpOperatorConfig_DeepCopy_def
      PtpOperatorConfigList_DeepCopy_def NodePtpDevice_DeepCopyObject_def NodePtpDeviceList_DeepCopyObject_def
      PtpConfig_DeepCopyObject_def PtpConfigList_DeepCopyObject_def PtpOperatorConfig_DeepCopyObject_def
      PtpOperatorConfigList_DeepCopyObject_def)

end
