(* ===== verification/Deep_Copy_V2alpha1.thy ===== *)
theory Deep_Copy_V2alpha1
  imports Deep_Copy_Meta
begin

text \<open>
  The types of \<open>api/v2alpha1\<close> and their generated deep-copy functions
  (\<open>api/v2alpha1/zz_generated.deepcopy.go\<close>).
\<close>

section \<open>Types and functions\<close>

definition T_ACPIDevice :: gtype where
  "T_ACPIDevice = TStruct [(''HID'', TScalar), (''UID'', TScalar)]"

definition ACPIDevice_DeepCopyInto :: copier where
  "ACPIDevice_DeepCopyInto = struct_copy []"

definition ACPIDevice_DeepCopy :: copier where
  "ACPIDevice_DeepCopy = ptr_copy T_ACPIDevice ACPIDevice_DeepCopyInto"

definition T_PinState :: gtype where
  "T_PinState = TStruct [(''Priority'', TPtr TScalar), (''State'', TScalar)]"

definition PinState_DeepCopyInto :: copier where
  "PinState_DeepCopyInto = struct_copy [(''Priority'', ptr_copy TScalar assign)]"

definition PinState_DeepCopy :: copier where
  "PinState_DeepCopy = ptr_copy T_PinState PinState_DeepCopyInto"

definition T_DPLLDesiredState :: gtype where
  "T_DPLLDesiredState = TStruct
     [(''Subsystem'', TScalar), (''BoardLabel'', TScalar), (''EEC'', TPtr T_PinState), (''PPS'', TPtr T_PinState)]"

definition DPLLDesiredState_DeepCopyInto :: copier where
  "DPLLDesiredState_DeepCopyInto = struct_copy
     [(''EEC'', ptr_copy T_PinState PinState_DeepCopyInto), (''PPS'', ptr_copy T_PinState PinState_DeepCopyInto)]"

definition DPLLDesiredState_DeepCopy :: copier where
  "DPLLDesiredState_DeepCopy = ptr_copy T_DPLLDesiredState DPLLDesiredState_DeepCopyInto"

definition T_PTPTimeSpec :: gtype where
  "T_PTPTimeSpec = TStruct [(''Sec'', TScalar), (''Nsec'', TScalar)]"

definition PTPTimeSpec_DeepCopyInto :: copier where
  "PTPTimeSpec_DeepCopyInto = struct_copy []"

definition PTPTimeSpec_DeepCopy :: copier where
  "PTPTimeSpec_DeepCopy = ptr_copy T_PTPTimeSpec PTPTimeSpec_DeepCopyInto"

definition T_PTPPeriodDesiredState :: gtype where
  "T_PTPPeriodDesiredState = TStruct
     [(''Index'', TScalar), (''Start'', TPtr T_PTPTimeSpec), (''Period'', TPtr T_PTPTimeSpec),
      (''SourceName'', TScalar), (''Description'', TScalar)]"

definition PTPPeriodDesiredState_DeepCopyInto :: copier where
  "PTPPeriodDesiredState_DeepCopyInto = struct_copy
     [(''Start'', ptr_copy T_PTPTimeSpec assign), (''Period'', ptr_copy T_PTPTimeSpec assign)]"

definition PTPPeriodDesiredState_DeepCopy :: copier where
  "PTPPeriodDesiredState_DeepCopy = ptr_copy T_PTPPeriodDesiredState PTPPeriodDesiredState_DeepCopyInto"

definition T_PTPPinDesiredState :: gtype where
  "T_PTPPinDesiredState = TStruct
     [(''Name'', TScalar), (''Func'', TScalar), (''Chan'', TScalar), (''SourceName'', TScalar),
      (''Description'', TScalar)]"

definition PTPPinDesiredState_DeepCopyInto :: copier where
  "PTPPinDesiredState_DeepCopyInto = struct_copy []"

definition PTPPinDesiredState_DeepCopy :: copier where
  "PTPPinDesiredState_DeepCopy = ptr_copy T_PTPPinDesiredState PTPPinDesiredState_DeepCopyInto"

definition T_DesiredState :: gtype where
  "T_DesiredState = TStruct
     [(''DPLL'', TPtr T_DPLLDesiredState), (''PTPPin'', TPtr T_PTPPinDesiredState),
      (''PTPPeriod'', TPtr T_PTPPeriodDesiredState)]"

definition DesiredState_DeepCopyInto :: copier where
  "DesiredState_DeepCopyInto = struct_copy
     [(''DPLL'', ptr_copy T_DPLLDesiredState DPLLDesiredState_DeepCopyInto),
      (''PTPPin'', ptr_copy T_PTPPinDesiredState assign),
      (''PTPPeriod'', ptr_copy T_PTPPeriodDesiredState PTPPeriodDesiredState_DeepCopyInto)]"

definition DesiredState_DeepCopy :: copier where
  "DesiredState_DeepCopy = ptr_copy T_DesiredState DesiredState_DeepCopyInto"

definition T_SourceState :: gtype where
  "T_SourceState = TStruct [(''SourceName'', TScalar), (''ConditionType'', TScalar)]"

definition SourceState_DeepCopyInto :: copier where
  "SourceState_DeepCopyInto = struct_copy []"

definition SourceState_DeepCopy :: copier where
  "SourceState_DeepCopy = ptr_copy T_SourceState SourceState_DeepCopyInto"

definition T_Condition :: gtype where
  "T_Condition = TStruct
     [(''Name'', TScalar), (''Triggers'', TSlice T_SourceState), (''DesiredStates'', TSlice T_DesiredState)]"

definition Condition_DeepCopyInto :: copier where
  "Condition_DeepCopyInto = struct_copy
     [(''Triggers'', slice_copy T_SourceState assign),
      (''DesiredStates'', slice_copy T_DesiredState DesiredState_DeepCopyInto)]"

definition Condition_DeepCopy :: copier where
  "Condition_DeepCopy = ptr_copy T_Condition Condition_DeepCopyInto"

definition T_GNSSSurveyParameters :: gtype where
  "T_GNSSSurveyParameters = TStruct [(''ObservationTime'', TScalar), (''Accuracy'', TScalar)]"

definition GNSSSurveyParameters_DeepCopyInto :: copier where
  "GNSSSurveyParameters_DeepCopyInto = struct_copy []"

definition GNSSSurveyParameters_DeepCopy :: copier where
  "GNSSSurveyParameters_DeepCopy = ptr_copy T_GNSSSurveyParameters GNSSSurveyParameters_DeepCopyInto"

definition T_UBLXCommand :: gtype where
  "T_UBLXCommand = TStruct [(''Args'', TSlice TScalar), (''Record'', TScalar)]"

definition UBLXCommand_DeepCopyInto :: copier where
  "UBLXCommand_DeepCopyInto = struct_copy [(''Args'', slice_copy TScalar assign)]"

definition UBLXCommand_DeepCopy :: copier where
  "UBLXCommand_DeepCopy = ptr_copy T_UBLXCommand UBLXCommand_DeepCopyInto"

definition T_GNSSInit :: gtype where
  "T_GNSSInit = TStruct
     [(''AntennaVoltage'', TScalar), (''Constellations'', TSlice TScalar), (''SurveyIn'', T_GNSSSurveyParameters),
      (''ExtraCommands'', TSlice T_UBLXCommand)]"

definition GNSSInit_DeepCopyInto :: copier where
  "GNSSInit_DeepCopyInto = struct_copy
     [(''Constellations'', slice_copy TScalar assign), (''SurveyIn'', assign),
      (''ExtraCommands'', slice_copy T_UBLXCommand UBLXCommand_DeepCopyInto)]"

definition GNSSInit_DeepCopy :: copier where
  "GNSSInit_DeepCopy = ptr_copy T_GNSSInit GNSSInit_DeepCopyInto"

definition T_EthernetDevice :: gtype where
  "T_EthernetDevice = TStruct
     [(''Name'', TScalar), (''PCIAddress'', TScalar), (''PermanentMACAddress'', TScalar), (''Slot'', TScalar),
      (''VendorID'', TScalar), (''DeviceID'', TScalar)]"

definition EthernetDevice_DeepCopyInto :: copier where
  "EthernetDevice_DeepCopyInto = struct_copy []"

definition EthernetDevice_DeepCopy :: copier where
  "EthernetDevice_DeepCopy = ptr_copy T_EthernetDevice EthernetDevice_DeepCopyInto"

definition T_SerialDevice :: gtype where
  "T_SerialDevice = TStruct [(''ACPI'', TPtr T_ACPIDevice)]"

definition SerialDevice_DeepCopyInto :: copier where
  "SerialDevice_DeepCopyInto = struct_copy [(''ACPI'', ptr_copy T_ACPIDevice assign)]"

definition SerialDevice_DeepCopy :: copier where
  "SerialDevice_DeepCopy = ptr_copy T_SerialDevice SerialDevice_DeepCopyInto"

definition T_USBDevice :: gtype where
  "T_USBDevice = TStruct [(''Vendor'', TScalar), (''Product'', TScalar), (''Path'', TScalar)]"

definition USBDevice_DeepCopyInto :: copier where
  "USBDevice_DeepCopyInto = struct_copy []"

definition USBDevice_DeepCopy :: copier where
  "USBDevice_DeepCopy = ptr_copy T_USBDevice USBDevice_DeepCopyInto"

definition T_GNSSMatcher :: gtype where
  "T_GNSSMatcher = TStruct
     [(''TTYDevice'', TScalar), (''SerialDevice'', TPtr T_SerialDevice), (''EthernetInterface'', TScalar),
      (''EthernetDevice'', TPtr T_EthernetDevice), (''USBDevice'', TPtr T_USBDevice)]"

definition GNSSMatcher_DeepCopyInto :: copier where
  "GNSSMatcher_DeepCopyInto = struct_copy
     [(''SerialDevice'', ptr_copy T_SerialDevice SerialDevice_DeepCopyInto),
      (''EthernetDevice'', ptr_copy T_EthernetDevice assign), (''USBDevice'', ptr_copy T_USBDevice assign)]"

definition GNSSMatcher_DeepCopy :: copier where
  "GNSSMatcher_DeepCopy = ptr_copy T_GNSSMatcher GNSSMatcher_DeepCopyInto"

definition T_GNSSConfig :: gtype where
  "T_GNSSConfig = TStruct [(''Init'', T_GNSSInit), (''Match'', TPtr T_GNSSMatcher)]"

definition GNSSConfig_DeepCopyInto :: copier where
  "GNSSConfig_DeepCopyInto = struct_copy
     [(''Init'', GNSSInit_DeepCopyInto), (''Match'', ptr_copy T_GNSSMatcher GNSSMatcher_DeepCopyInto)]"

definition GNSSConfig_DeepCopy :: copier where
  "GNSSConfig_DeepCopy = ptr_copy T_GNSSConfig GNSSConfig_DeepCopyInto"

definition T_SourceConfig :: gtype where
  "T_SourceConfig = TStruct
     [(''Name'', TScalar), (''Subsystem'', TScalar), (''SourceType'', TScalar), (''BoardLabel'', TScalar),
      (''PTPTimeReceivers'', TSlice TScalar), (''GNSSConfig'', TPtr T_GNSSConfig)]"

definition SourceConfig_DeepCopyInto :: copier where
  "SourceConfig_DeepCopyInto = struct_copy
     [(''PTPTimeReceivers'', slice_copy TScalar assign),
      (''GNSSConfig'', ptr_copy T_GNSSConfig GNSSConfig_DeepCopyInto)]"

definition SourceConfig_DeepCopy :: copier where
  "SourceConfig_DeepCopy = ptr_copy T_SourceConfig SourceConfig_DeepCopyInto"

definition T_Behavior :: gtype where
  "T_Behavior = TStruct [(''Sources'', TSlice T_SourceConfig), (''Conditions'', TSlice T_Condition)]"

definition Behavior_DeepCopyInto :: copier where
  "Behavior_DeepCopyInto = struct_copy
     [(''Sources'', slice_copy T_SourceConfig SourceConfig_DeepCopyInto),
      (''Conditions'', slice_copy T_Condition Condition_DeepCopyInto)]"

definition Behavior_DeepCopy :: copier where
  "Behavior_DeepCopy = ptr_copy T_Behavior Behavior_DeepCopyInto"

definition T_ESyncConfig :: gtype where
  "T_ESyncConfig = TStruct
     [(''TransferFrequency'', TScalar), (''EmbeddedSyncFrequency'', TScalar), (''DutyCyclePct'', TScalar)]"

definition ESyncConfig_DeepCopyInto :: copier where
  "ESyncConfig_DeepCopyInto = struct_copy []"

definition ESyncConfig_DeepCopy :: copier where
  "ESyncConfig_DeepCopy = ptr_copy T_ESyncConfig ESyncConfig_DeepCopyInto"

definition T_ESyncDefinition :: gtype where
  "T_ESyncDefinition = TStruct [(''Name'', TScalar), (''ESyncConfig'', T_ESyncConfig)]"

definition ESyncDefinition_DeepCopyInto :: copier where
  "ESyncDefinition_DeepCopyInto = struct_copy [(''ESyncConfig'', assign)]"

definition ESyncDefinition_DeepCopy :: copier where
  "ESyncDefinition_DeepCopy = ptr_copy T_ESyncDefinition ESyncDefinition_DeepCopyInto"

definition T_RefSyncDefinition :: gtype where
  "T_RefSyncDefinition = TStruct [(''Name'', TScalar), (''RelatedPinBoardLabel'', TScalar)]"

definition RefSyncDefinition_DeepCopyInto :: copier where
  "RefSyncDefinition_DeepCopyInto = struct_copy []"

definition RefSyncDefinition_DeepCopy :: copier where
  "RefSyncDefinition_DeepCopy = ptr_copy T_RefSyncDefinition RefSyncDefinition_DeepCopyInto"

definition T_CommonDefinitions :: gtype where
  "T_CommonDefinitions = TStruct
     [(''ESyncDefinitions'', TSlice T_ESyncDefinition), (''RefSyncDefinitions'', TSlice T_RefSyncDefinition)]"

definition CommonDefinitions_DeepCopyInto :: copier where
  "CommonDefinitions_DeepCopyInto = struct_copy
     [(''ESyncDefinitions'', slice_copy T_ESyncDefinition assign),
      (''RefSyncDefinitions'', slice_copy T_RefSyncDefinition assign)]"

definition CommonDefinitions_DeepCopy :: copier where
  "CommonDefinitions_DeepCopy = ptr_copy T_CommonDefinitions CommonDefinitions_DeepCopyInto"

definition T_HoldoverParameters :: gtype where
  "T_HoldoverParameters = TStruct
     [(''MaxInSpecOffset'', TScalar), (''LocalMaxHoldoverOffset'', TScalar), (''LocalHoldoverTimeout'', TScalar)]"

definition HoldoverParameters_DeepCopyInto :: copier where
  "HoldoverParameters_DeepCopyInto = struct_copy []"

definition HoldoverParameters_DeepCopy :: copier where
  "HoldoverParameters_DeepCopy = ptr_copy T_HoldoverParameters HoldoverParameters_DeepCopyInto"

definition T_PinConfig :: gtype where
  "T_PinConfig = TStruct
     [(''Connector'', TScalar), (''PhaseAdjustment'', TPtr TScalar), (''Frequency'', TPtr TScalar),
      (''ESyncConfigName'', TScalar), (''Description'', TScalar), (''ReferenceSync'', TScalar)]"

definition PinConfig_DeepCopyInto :: copier where
  "PinConfig_DeepCopyInto = struct_copy
     [(''PhaseAdjustment'', ptr_copy TScalar assign), (''Frequency'', ptr_copy TScalar assign)]"

definition PinConfig_DeepCopy :: copier where
  "PinConfig_DeepCopy = ptr_copy T_PinConfig PinConfig_DeepCopyInto"

definition T_DPLL :: gtype where
  "T_DPLL = TStruct
     [(''NetworkInterface'', TScalar), (''HoldoverParameters'', TPtr T_HoldoverParameters),
      (''PhaseInputs'', TMap T_PinConfig), (''PhaseOutputs'', TMap T_PinConfig),
      (''FrequencyInputs'', TMap T_PinConfig), (''FrequencyOutputs'', TMap T_PinConfig)]"

definition DPLL_DeepCopyInto :: copier where
  "DPLL_DeepCopyInto = struct_copy
     [(''HoldoverParameters'', ptr_copy T_HoldoverParameters assign),
      (''PhaseInputs'', map_copy (value_copy T_PinConfig PinConfig_DeepCopyInto)),
      (''PhaseOutputs'', map_copy (value_copy T_PinConfig PinConfig_DeepCopyInto)),
      (''FrequencyInputs'', map_copy (value_copy T_PinConfig PinConfig_DeepCopyInto)),
      (''FrequencyOutputs'', map_copy (value_copy T_PinConfig PinConfig_DeepCopyInto))]"

definition DPLL_DeepCopy :: copier where
  "DPLL_DeepCopy = ptr_copy T_DPLL DPLL_DeepCopyInto"

definition T_Ethernet :: gtype where
  "T_Ethernet = TStruct [(''Ports'', TSlice TScalar)]"

definition Ethernet_DeepCopyInto :: copier where
  "Ethernet_DeepCopyInto = struct_copy [(''Ports'', slice_copy TScalar assign)]"

definition Ethernet_DeepCopy :: copier where
  "Ethernet_DeepCopy = ptr_copy T_Ethernet Ethernet_DeepCopyInto"

definition T_Subsystem :: gtype where
  "T_Subsystem = TStruct
     [(''Name'', TScalar), (''HardwareSpecificDefinitions'', TScalar), (''DPLL'', T_DPLL),
      (''Ethernet'', TSlice T_Ethernet)]"

definition Subsystem_DeepCopyInto :: copier where
  "Subsystem_DeepCopyInto = struct_copy
     [(''DPLL'', DPLL_DeepCopyInto), (''Ethernet'', slice_copy T_Ethernet Ethernet_DeepCopyInto)]"

definition Subsystem_DeepCopy :: copier where
  "Subsystem_DeepCopy = ptr_copy T_Subsystem Subsystem_DeepCopyInto"

definition T_ClockChain :: gtype where
  "T_ClockChain = TStruct
     [(''CommonDefinitions'', TPtr T_CommonDefinitions), (''Structure'', TSlice T_Subsystem),
      (''Behavior'', TPtr T_Behavior)]"

definition ClockChain_DeepCopyInto :: copier where
  "ClockChain_DeepCopyInto = struct_copy
     [(''CommonDefinitions'', ptr_copy T_CommonDefinitions CommonDefinitions_DeepCopyInto),
      (''Structure'', slice_copy T_Subsystem Subsystem_DeepCopyInto),
      (''Behavior'', ptr_copy T_Behavior Behavior_DeepCopyInto)]"

definition ClockChain_DeepCopy :: copier where
  "ClockChain_DeepCopy = ptr_copy T_ClockChain ClockChain_DeepCopyInto"

definition T_GNSSStatus :: gtype where
  "T_GNSSStatus = TStruct [(''TTYDevice'', TScalar), (''MatchResult'', TScalar)]"

definition GNSSStatus_DeepCopyInto :: copier where
  "GNSSStatus_DeepCopyInto = struct_copy []"

definition GNSSStatus_DeepCopy :: copier where
  "GNSSStatus_DeepCopy = ptr_copy T_GNSSStatus GNSSStatus_DeepCopyInto"

definition T_HardwareProfile :: gtype where
  "T_HardwareProfile = TStruct
     [(''Name'', TPtr TScalar), (''ClockType'', TPtr TScalar), (''ClockChain'', TPtr T_ClockChain),
      (''Description'', TPtr TScalar)]"

definition HardwareProfile_DeepCopyInto :: copier where
  "HardwareProfile_DeepCopyInto = struct_copy
     [(''Name'', ptr_copy TScalar assign), (''ClockType'', ptr_copy TScalar assign),
      (''ClockChain'', ptr_copy T_ClockChain ClockChain_DeepCopyInto), (''Description'', ptr_copy TScalar assign)]"

definition HardwareProfile_DeepCopy :: copier where
  "HardwareProfile_DeepCopy = ptr_copy T_HardwareProfile HardwareProfile_DeepCopyInto"

definition T_HardwareConfigSpec :: gtype where
  "T_HardwareConfigSpec = TStruct [(''Profile'', T_HardwareProfile), (''RelatedPtpProfileName'', TScalar)]"

definition HardwareConfigSpec_DeepCopyInto :: copier where
  "HardwareConfigSpec_DeepCopyInto = struct_copy [(''Profile'', HardwareProfile_DeepCopyInto)]"

definition HardwareConfigSpec_DeepCopy :: copier where
  "HardwareConfigSpec_DeepCopy = ptr_copy T_HardwareConfigSpec HardwareConfigSpec_DeepCopyInto"

definition T_MatchedNode :: gtype where
  "T_MatchedNode = TStruct [(''NodeName'', TScalar), (''PtpProfile'', TScalar)]"

definition MatchedNode_DeepCopyInto :: copier where
  "MatchedNode_DeepCopyInto = struct_copy []"

definition MatchedNode_DeepCopy :: copier where
  "MatchedNode_DeepCopy = ptr_copy T_MatchedNode MatchedNode_DeepCopyInto"

definition T_SourceStatus :: gtype where
  "T_SourceStatus = TStruct [(''Name'', TScalar), (''Gnss'', TPtr T_GNSSStatus)]"

definition SourceStatus_DeepCopyInto :: copier where
  "SourceStatus_DeepCopyInto = struct_copy [(''Gnss'', ptr_copy T_GNSSStatus assign)]"

definition SourceStatus_DeepCopy :: copier where
  "SourceStatus_DeepCopy = ptr_copy T_SourceStatus SourceStatus_DeepCopyInto"

definition T_HardwareConfigStatus :: gtype where
  "T_HardwareConfigStatus = TStruct [(''MatchedNodes'', TSlice T_MatchedNode), (''Sources'', TSlice T_SourceStatus)]"

definition HardwareConfigStatus_DeepCopyInto :: copier where
  "HardwareConfigStatus_DeepCopyInto = struct_copy
     [(''MatchedNodes'', slice_copy T_MatchedNode assign),
      (''Sources'', slice_copy T_SourceStatus SourceStatus_DeepCopyInto)]"

definition HardwareConfigStatus_DeepCopy :: copier where
  "HardwareConfigStatus_DeepCopy = ptr_copy T_HardwareConfigStatus HardwareConfigStatus_DeepCopyInto"

definition T_HardwareConfig :: gtype where
  "T_HardwareConfig = TStruct
     [(''TypeMeta'', T_TypeMeta), (''ObjectMeta'', T_ObjectMeta), (''Spec'', T_HardwareConfigSpec),
      (''Status'', T_HardwareConfigStatus)]"

definition HardwareConfig_DeepCopyInto :: copier where
  "HardwareConfig_DeepCopyInto = struct_copy
     [(''TypeMeta'', assign), (''ObjectMeta'', ObjectMeta_DeepCopyInto), (''Spec'', HardwareConfigSpec_DeepCopyInto),
      (''Status'', HardwareConfigStatus_DeepCopyInto)]"

definition HardwareConfig_DeepCopy :: copier where
  "HardwareConfig_DeepCopy = ptr_copy T_HardwareConfig HardwareConfig_DeepCopyInto"

definition HardwareConfig_DeepCopyObject :: copier where
  "HardwareConfig_DeepCopyObject = object_copy HardwareConfig_DeepCopy"

definition T_HardwareConfigList :: gtype where
  "T_HardwareConfigList = TStruct
     [(''TypeMeta'', T_TypeMeta), (''ListMeta'', T_ListMeta), (''Items'', TSlice T_HardwareConfig)]"

definition HardwareConfigList_DeepCopyInto :: copier where
  "HardwareConfigList_DeepCopyInto = struct_copy
     [(''TypeMeta'', assign), (''ListMeta'', ListMeta_DeepCopyInto),
      (''Items'', slice_copy T_HardwareConfig HardwareConfig_DeepCopyInto)]"

definition HardwareConfigList_DeepCopy :: copier where
  "HardwareConfigList_DeepCopy = ptr_copy T_HardwareConfigList HardwareConfigList_DeepCopyInto"

definition HardwareConfigList_DeepCopyObject :: copier where
  "HardwareConfigList_DeepCopyObject = object_copy HardwareConfigList_DeepCopy"

definition T_PluginInfo :: gtype where
  "T_PluginInfo = TStruct
     [(''Name'', TScalar), (''Description'', TScalar), (''Version'', TScalar), (''Vendor'', TScalar)]"

definition PluginInfo_DeepCopyInto :: copier where
  "PluginInfo_DeepCopyInto = struct_copy []"

definition PluginInfo_DeepCopy :: copier where
  "PluginInfo_DeepCopy = ptr_copy T_PluginInfo PluginInfo_DeepCopyInto"

definition T_PluginPinDefaults :: gtype where
  "T_PluginPinDefaults = TStruct [(''Priority'', TPtr TScalar), (''State'', TScalar)]"

definition PluginPinDefaults_DeepCopyInto :: copier where
  "PluginPinDefaults_DeepCopyInto = struct_copy [(''Priority'', ptr_copy TScalar assign)]"

definition PluginPinDefaults_DeepCopy :: copier where
  "PluginPinDefaults_DeepCopy = ptr_copy T_PluginPinDefaults PluginPinDefaults_DeepCopyInto"

definition T_PinOverrides :: gtype where
  "T_PinOverrides = TStruct [(''EEC'', TPtr T_PluginPinDefaults), (''PPS'', TPtr T_PluginPinDefaults)]"

definition PinOverrides_DeepCopyInto :: copier where
  "PinOverrides_DeepCopyInto = struct_copy
     [(''EEC'', ptr_copy T_PluginPinDefaults PluginPinDefaults_DeepCopyInto),
      (''PPS'', ptr_copy T_PluginPinDefaults PluginPinDefaults_DeepCopyInto)]"

definition PinOverrides_DeepCopy :: copier where
  "PinOverrides_DeepCopy = ptr_copy T_PinOverrides PinOverrides_DeepCopyInto"

definition T_PluginSpecificDefaults :: gtype where
  "T_PluginSpecificDefaults = TMap (TPtr T_PinOverrides)"

text \<open>A named map: a nil map is copied to an empty one by the first function, which asks for one that is not nil,
  and to a nil map by the second.\<close>

definition PluginSpecificDefaults_DeepCopyInto :: copier where
  "PluginSpecificDefaults_DeepCopyInto v h =
     (case v of
        GRef a \<Rightarrow> map_copy (ptr_copy T_PinOverrides PinOverrides_DeepCopyInto) v h
      | _ \<Rightarrow> (case alloc (Entries []) h of (a', h1) \<Rightarrow> (GRef a', h1)))"

definition PluginSpecificDefaults_DeepCopy :: copier where
  "PluginSpecificDefaults_DeepCopy v h =
     (if v = GNil then (GNil, h)
      else value_copy T_PluginSpecificDefaults PluginSpecificDefaults_DeepCopyInto v h)"

definition T_HardwareOptionsConfig :: gtype where
  "T_HardwareOptionsConfig = TStruct
     [(''PluginInfo'', T_PluginInfo), (''SpecificDefaults'', T_PluginSpecificDefaults), (''BehaviorNotes'', TScalar)]"

definition HardwareOptionsConfig_DeepCopyInto :: copier where
  "HardwareOptionsConfig_DeepCopyInto = struct_copy
     [(''PluginInfo'', assign), (''SpecificDefaults'', map_copy (ptr_copy T_PinOverrides PinOverrides_DeepCopyInto))]"

definition HardwareOptionsConfig_DeepCopy :: copier where
  "HardwareOptionsConfig_DeepCopy = ptr_copy T_HardwareOptionsConfig HardwareOptionsConfig_DeepCopyInto"

text \<open>The functions with the types they copy.\<close>

definition v2alpha1_copiers :: "(gtype \<times> copier) list" where
  "v2alpha1_copiers =
     [(T_ACPIDevice, ACPIDevice_DeepCopyInto), (TPtr T_ACPIDevice, ACPIDevice_DeepCopy),
      (T_PinState, PinState_DeepCopyInto), (TPtr T_PinState, PinState_DeepCopy),
      (T_DPLLDesiredState, DPLLDesiredState_DeepCopyInto), (TPtr T_DPLLDesiredState, DPLLDesiredState_DeepCopy),
      (T_PTPTimeSpec, PTPTimeSpec_DeepCopyInto), (TPtr T_PTPTimeSpec, PTPTimeSpec_DeepCopy),
      (T_PTPPeriodDesiredState, PTPPeriodDesiredState_DeepCopyInto),
      (TPtr T_PTPPeriodDesiredState, PTPPeriodDesiredState_DeepCopy),
      (T_PTPPinDesiredState, PTPPinDesiredState_DeepCopyInto),
      (TPtr T_PTPPinDesiredState, PTPPinDesiredState_DeepCopy), (T_DesiredState, DesiredState_DeepCopyInto),
      (TPtr T_DesiredState, DesiredState_DeepCopy), (T_SourceState, SourceState_DeepCopyInto),
      (TPtr T_SourceState, SourceState_DeepCopy), (T_Condition, Condition_DeepCopyInto),
      (TPtr T_Condition, Condition_DeepCopy), (T_GNSSSurveyParameters, GNSSSurveyParameters_DeepCopyInto),
      (TPtr T_GNSSSurveyParameters, GNSSSurveyParameters_DeepCopy), (T_UBLXCommand, UBLXCommand_DeepCopyInto),
      (TPtr T_UBLXCommand, UBLXCommand_DeepCopy), (T_GNSSInit, GNSSInit_DeepCopyInto),
      (TPtr T_GNSSInit, GNSSInit_DeepCopy), (T_EthernetDevice, EthernetDevice_DeepCopyInto),
      (TPtr T_EthernetDevice, EthernetDevice_DeepCopy), (T_SerialDevice, SerialDevice_DeepCopyInto),
      (TPtr T_SerialDevice, SerialDevice_DeepCopy), (T_USBDevice, USBDevice_DeepCopyInto),
      (TPtr T_USBDevice, USBDevice_DeepCopy), (T_GNSSMatcher, GNSSMatcher_DeepCopyInto),
      (TPtr T_GNSSMatcher, GNSSMatcher_DeepCopy), (T_GNSSConfig, GNSSConfig_DeepCopyInto),
      (TPtr T_GNSSConfig, GNSSConfig_DeepCopy), (T_SourceConfig, SourceConfig_DeepCopyInto),
      (TPtr T_SourceConfig, SourceConfig_DeepCopy), (T_Behavior, Behavior_DeepCopyInto),
      (TPtr T_Behavior, Behavior_DeepCopy), (T_ESyncConfig, ESyncConfig_DeepCopyInto),
      (TPtr T_ESyncConfig, ESyncConfig_DeepCopy), (T_ESyncDefinition, ESyncDefinition_DeepCopyInto),
      (TPtr T_ESyncDefinition, ESyncDefinition_DeepCopy), (T_RefSyncDefinition, RefSyncDefinition_DeepCopyInto),
      (TPtr T_RefSyncDefinition, RefSyncDefinition_DeepCopy), (T_CommonDefinitions, CommonDefinitions_DeepCopyInto),
      (TPtr T_CommonDefinitions, CommonDefinitions_DeepCopy), (T_HoldoverParameters, HoldoverParameters_DeepCopyInto),
      (TPtr T_HoldoverParameters, HoldoverParameters_DeepCopy), (T_PinConfig, PinConfig_DeepCopyInto),
      (TPtr T_PinConfig, PinConfig_DeepCopy), (T_DPLL, DPLL_DeepCopyInto), (TPtr T_DPLL, DPLL_DeepCopy),
      (T_Ethernet, Ethernet_DeepCopyInto), (TPtr T_Ethernet, Ethernet_DeepCopy), (T_Subsystem, Subsystem_DeepCopyInto),
      (TPtr T_Subsystem, Subsystem_DeepCopy), (T_ClockChain, ClockChain_DeepCopyInto),
      (TPtr T_ClockChain, ClockChain_DeepCopy), (T_GNSSStatus, GNSSStatus_DeepCopyInto),
      (TPtr T_GNSSStatus, GNSSStatus_DeepCopy), (T_HardwareProfile, HardwareProfile_DeepCopyInto),
      (TPtr T_HardwareProfile, HardwareProfile_DeepCopy), (T_HardwareConfigSpec, HardwareConfigSpec_DeepCopyInto),
      (TPtr T_HardwareConfigSpec, HardwareConfigSpec_DeepCopy), (T_MatchedNode, MatchedNode_DeepCopyInto),
      (TPtr T_MatchedNode, MatchedNode_DeepCopy), (T_SourceStatus, SourceStatus_DeepCopyInto),
      (TPtr T_SourceStatus, SourceStatus_DeepCopy), (T_HardwareConfigStatus, HardwareConfigStatus_DeepCopyInto),
      (TPtr T_HardwareConfigStatus, HardwareConfigStatus_DeepCopy), (T_HardwareConfig, HardwareConfig_DeepCopyInto),
      (TPtr T_HardwareConfig, HardwareConfig_DeepCopy), (TPtr T_HardwareConfig, HardwareConfig_DeepCopyObject),
      (T_HardwareConfigList, HardwareConfigList_DeepCopyInto),
      (TPtr T_HardwareConfigList, HardwareConfigList_DeepCopy),
      (TPtr T_HardwareConfigList, HardwareConfigList_DeepCopyObject), (T_PluginInfo, PluginInfo_DeepCopyInto),
      (TPtr T_PluginInfo, PluginInfo_DeepCopy), (T_PluginPinDefaults, PluginPinDefaults_DeepCopyInto),
      (TPtr T_PluginPinDefaults, PluginPinDefaults_DeepCopy), (T_PinOverrides, PinOverrides_DeepCopyInto),
      (TPtr T_PinOverrides, PinOverrides_DeepCopy), (T_PluginSpecificDefaults, PluginSpecificDefaults_DeepCopy),
      (T_HardwareOptionsConfig, HardwareOptionsConfig_DeepCopyInto),
      (TPtr T_HardwareOptionsConfig, HardwareOptionsConfig_DeepCopy)]"

section \<open>The copies are deep\<close>

lemma v2alpha1_flat [deep_copies]: "flat T_ACPIDevice" "flat T_PTPTimeSpec" "flat T_PTPPinDesiredState" "flat
      T_SourceState" "flat T_GNSSSurveyParameters" "flat T_EthernetDevice" "flat T_USBDevice" "flat T_ESyncConfig"
      "flat T_ESyncDefinition" "flat T_RefSyncDefinition" "flat T_HoldoverParameters" "flat T_GNSSStatus" "flat
      T_MatchedNode" "flat T_PluginInfo"
  by (simp_all add: deep_copies T_ACPIDevice_def T_PTPTimeSpec_def T_PTPPinDesiredState_def T_SourceState_def
      T_GNSSSurveyParameters_def T_EthernetDevice_def T_USBDevice_def T_ESyncConfig_def T_ESyncDefinition_def
      T_RefSyncDefinition_def T_HoldoverParameters_def T_GNSSStatus_def T_MatchedNode_def T_PluginInfo_def)

lemma v2alpha1_deep_1 [deep_copies]:
  "copies_deep T_ACPIDevice ACPIDevice_DeepCopyInto"
  "copies_deep T_PinState PinState_DeepCopyInto"
  "copies_deep T_PTPTimeSpec PTPTimeSpec_DeepCopyInto"
  "copies_deep T_PTPPinDesiredState PTPPinDesiredState_DeepCopyInto"
  "copies_deep T_SourceState SourceState_DeepCopyInto"
  "copies_deep T_GNSSSurveyParameters GNSSSurveyParameters_DeepCopyInto"
  "copies_deep T_UBLXCommand UBLXCommand_DeepCopyInto"
  "copies_deep T_EthernetDevice EthernetDevice_DeepCopyInto"
  "copies_deep T_USBDevice USBDevice_DeepCopyInto"
  "copies_deep T_ESyncConfig ESyncConfig_DeepCopyInto"
  "copies_deep T_RefSyncDefinition RefSyncDefinition_DeepCopyInto"
  "copies_deep T_HoldoverParameters HoldoverParameters_DeepCopyInto"
  "copies_deep T_PinConfig PinConfig_DeepCopyInto"
  "copies_deep T_Ethernet Ethernet_DeepCopyInto"
  "copies_deep T_GNSSStatus GNSSStatus_DeepCopyInto"
  "copies_deep T_MatchedNode MatchedNode_DeepCopyInto"
  "copies_deep T_PluginInfo PluginInfo_DeepCopyInto"
  "copies_deep T_PluginPinDefaults PluginPinDefaults_DeepCopyInto"
  by (simp_all add: deep_struct fields_deep_def deep_copies T_ACPIDevice_def ACPIDevice_DeepCopyInto_def
      T_PinState_def PinState_DeepCopyInto_def T_PTPTimeSpec_def PTPTimeSpec_DeepCopyInto_def
      T_PTPPinDesiredState_def PTPPinDesiredState_DeepCopyInto_def T_SourceState_def SourceState_DeepCopyInto_def
      T_GNSSSurveyParameters_def GNSSSurveyParameters_DeepCopyInto_def T_UBLXCommand_def UBLXCommand_DeepCopyInto_def
      T_EthernetDevice_def EthernetDevice_DeepCopyInto_def T_USBDevice_def USBDevice_DeepCopyInto_def
      T_ESyncConfig_def ESyncConfig_DeepCopyInto_def T_RefSyncDefinition_def RefSyncDefinition_DeepCopyInto_def
      T_HoldoverParameters_def HoldoverParameters_DeepCopyInto_def T_PinConfig_def PinConfig_DeepCopyInto_def
      T_Ethernet_def Ethernet_DeepCopyInto_def T_GNSSStatus_def GNSSStatus_DeepCopyInto_def T_MatchedNode_def
      MatchedNode_DeepCopyInto_def T_PluginInfo_def PluginInfo_DeepCopyInto_def T_PluginPinDefaults_def
      PluginPinDefaults_DeepCopyInto_def)

lemma v2alpha1_deep_2 [deep_copies]:
  "copies_deep T_DPLLDesiredState DPLLDesiredState_DeepCopyInto"
  "copies_deep T_PTPPeriodDesiredState PTPPeriodDesiredState_DeepCopyInto"
  "copies_deep T_GNSSInit GNSSInit_DeepCopyInto"
  "copies_deep T_SerialDevice SerialDevice_DeepCopyInto"
  "copies_deep T_ESyncDefinition ESyncDefinition_DeepCopyInto"
  "copies_deep T_DPLL DPLL_DeepCopyInto"
  "copies_deep T_SourceStatus SourceStatus_DeepCopyInto"
  "copies_deep T_PinOverrides PinOverrides_DeepCopyInto"
  by (simp_all add: deep_struct fields_deep_def deep_copies T_DPLLDesiredState_def DPLLDesiredState_DeepCopyInto_def
      T_PTPPeriodDesiredState_def PTPPeriodDesiredState_DeepCopyInto_def T_GNSSInit_def GNSSInit_DeepCopyInto_def
      T_SerialDevice_def SerialDevice_DeepCopyInto_def T_ESyncDefinition_def ESyncDefinition_DeepCopyInto_def
      T_DPLL_def DPLL_DeepCopyInto_def T_SourceStatus_def SourceStatus_DeepCopyInto_def T_PinOverrides_def
      PinOverrides_DeepCopyInto_def)

lemma v2alpha1_deep_3 [deep_copies]:
  "copies_deep T_DesiredState DesiredState_DeepCopyInto"
  "copies_deep T_GNSSMatcher GNSSMatcher_DeepCopyInto"
  "copies_deep T_CommonDefinitions CommonDefinitions_DeepCopyInto"
  "copies_deep T_Subsystem Subsystem_DeepCopyInto"
  "copies_deep T_HardwareConfigStatus HardwareConfigStatus_DeepCopyInto"
  "copies_deep T_HardwareOptionsConfig HardwareOptionsConfig_DeepCopyInto"
  by (simp_all add: deep_struct fields_deep_def deep_copies T_DesiredState_def DesiredState_DeepCopyInto_def
      T_GNSSMatcher_def GNSSMatcher_DeepCopyInto_def T_CommonDefinitions_def CommonDefinitions_DeepCopyInto_def
      T_Subsystem_def Subsystem_DeepCopyInto_def T_HardwareConfigStatus_def HardwareConfigStatus_DeepCopyInto_def
      T_HardwareOptionsConfig_def HardwareOptionsConfig_DeepCopyInto_def T_PluginSpecificDefaults_def)

lemma v2alpha1_deep_4 [deep_copies]:
  "copies_deep T_Condition Condition_DeepCopyInto"
  "copies_deep T_GNSSConfig GNSSConfig_DeepCopyInto"
  by (simp_all add: deep_struct fields_deep_def deep_copies T_Condition_def Condition_DeepCopyInto_def
      T_GNSSConfig_def GNSSConfig_DeepCopyInto_def)

lemma v2alpha1_deep_5 [deep_copies]:
  "copies_deep T_SourceConfig SourceConfig_DeepCopyInto"
  by (simp_all add: deep_struct fields_deep_def deep_copies T_SourceConfig_def SourceConfig_DeepCopyInto_def)

lemma v2alpha1_deep_6 [deep_copies]:
  "copies_deep T_Behavior Behavior_DeepCopyInto"
  by (simp_all add: deep_struct fields_deep_def deep_copies T_Behavior_def Behavior_DeepCopyInto_def)

lemma v2alpha1_deep_7 [deep_copies]:
  "copies_deep T_ClockChain ClockChain_DeepCopyInto"
  by (simp_all add: deep_struct fields_deep_def deep_copies T_ClockChain_def ClockChain_DeepCopyInto_def)

lemma v2alpha1_deep_8 [deep_copies]:
  "copies_deep T_HardwareProfile HardwareProfile_DeepCopyInto"
  by (simp_all add: deep_struct fields_deep_def deep_copies T_HardwareProfile_def HardwareProfile_DeepCopyInto_def)

lemma v2alpha1_deep_9 [deep_copies]:
  "copies_deep T_HardwareConfigSpec HardwareConfigSpec_DeepCopyInto"
  by (simp_all add: deep_struct fields_deep_def deep_copies T_HardwareConfigSpec_def
      HardwareConfigSpec_DeepCopyInto_def)

lemma v2alpha1_deep_10 [deep_copies]:
  "copies_deep T_HardwareConfig HardwareConfig_DeepCopyInto"
  by (simp_all add: deep_struct fields_deep_def deep_copies T_HardwareConfig_def HardwareConfig_DeepCopyInto_def)

lemma v2alpha1_deep_11 [deep_copies]:
  "copies_deep T_HardwareConfigList HardwareConfigList_DeepCopyInto"
  by (simp_all add: deep_struct fields_deep_def deep_copies T_HardwareConfigList_def
      HardwareConfigList_DeepCopyInto_def)

lemma PluginSpecificDefaults_deep: "copies_deep T_PluginSpecificDefaults PluginSpecificDefaults_DeepCopy"
proof -
  have map: "copies_deep T_PluginSpecificDefaults (value_copy T_PluginSpecificDefaults (map_copy (ptr_copy T_PinOverrides PinOverrides_DeepCopyInto)))"
    by (simp add: T_PluginSpecificDefaults_def deep_copies)
  have "PluginSpecificDefaults_DeepCopy (GRef a) h =
      value_copy T_PluginSpecificDefaults (map_copy (ptr_copy T_PinOverrides PinOverrides_DeepCopyInto)) (GRef a) h" for a h
    by (simp add: PluginSpecificDefaults_DeepCopy_def PluginSpecificDefaults_DeepCopyInto_def value_copy_def)
  then have ref: "PluginSpecificDefaults_DeepCopy v h =
      value_copy T_PluginSpecificDefaults (map_copy (ptr_copy T_PinOverrides PinOverrides_DeepCopyInto)) v h"
    if "view h T_PluginSpecificDefaults v = Some r" "v \<noteq> GNil" for v h r
    using that by (auto simp: T_PluginSpecificDefaults_def view_map_iff)
  show ?thesis
    unfolding copies_deep_def
  proof (intro allI impI)
    fix h v T A v' h'
    assume ok: "heap_ok h" and v: "view h T_PluginSpecificDefaults v = Some (T, A)"
      and r: "PluginSpecificDefaults_DeepCopy v h = (v', h')"
    show "extends h h' \<and> (\<exists>A'. view h' T_PluginSpecificDefaults v' = Some (T, A') \<and> set A' \<subseteq> {hp_lim h ..< hp_lim h'})"
    proof (cases "v = GNil")
      case True
      with ok v r show ?thesis
        by (auto simp: PluginSpecificDefaults_DeepCopy_def T_PluginSpecificDefaults_def view_map_iff extends_refl)
    next
      case False
      from copies_deepD [OF map ok v r [unfolded ref [OF v False]]] show ?thesis by blast
    qed
  qed
qed

lemma v2alpha1_copiers_deep: "list_all (\<lambda>(t, c). copies_deep t c) v2alpha1_copiers"
  by (simp add: PluginSpecificDefaults_deep deep_copies v2alpha1_copiers_def ACPIDevice_DeepCopy_def PinState_DeepCopy_def
      DPLLDesiredState_DeepCopy_def PTPTimeSpec_DeepCopy_def PTPPeriodDesiredState_DeepCopy_def
      PTPPinDesiredState_DeepCopy_def DesiredState_DeepCopy_def SourceState_DeepCopy_def Condition_DeepCopy_def
      GNSSSurveyParameters_DeepCopy_def UBLXCommand_DeepCopy_def GNSSInit_DeepCopy_def EthernetDevice_DeepCopy_def
      SerialDevice_DeepCopy_def USBDevice_DeepCopy_def GNSSMatcher_DeepCopy_def GNSSConfig_DeepCopy_def
      SourceConfig_DeepCopy_def Behavior_DeepCopy_def ESyncConfig_DeepCopy_def ESyncDefinition_DeepCopy_def
      RefSyncDefinition_DeepCopy_def CommonDefinitions_DeepCopy_def HoldoverParameters_DeepCopy_def
      PinConfig_DeepCopy_def DPLL_DeepCopy_def Ethernet_DeepCopy_def Subsystem_DeepCopy_def ClockChain_DeepCopy_def
      GNSSStatus_DeepCopy_def HardwareProfile_DeepCopy_def HardwareConfigSpec_DeepCopy_def MatchedNode_DeepCopy_def
      SourceStatus_DeepCopy_def HardwareConfigStatus_DeepCopy_def HardwareConfig_DeepCopy_def
      HardwareConfigList_DeepCopy_def PluginInfo_DeepCopy_def PluginPinDefaults_DeepCopy_def
      PinOverrides_DeepCopy_def HardwareOptionsConfig_DeepCopy_def HardwareConfig_DeepCopyObject_def
      HardwareConfigList_DeepCopyObject_def)

end
