(* ===== verification/Deep_Copy.thy ===== *)
theory Deep_Copy
  imports Deep_Copy_V1 Deep_Copy_V2alpha1
begin

text \<open>
  What the generated deep copies guarantee: an object taken from a shared cache and its copy can be
  changed independently.
\<close>

definition content :: "heap \<Rightarrow> gtype \<Rightarrow> gv \<Rightarrow> tree option" where
  "content h t v = map_option fst (view h t v)"

text \<open>Any changes of cells, one after the other.\<close>

definition write_cells :: "(addr \<times> cell) list \<Rightarrow> heap \<Rightarrow> heap" where
  "write_cells ws h = fold (\<lambda>(a, c). write_cell a c) ws h"

lemma write_cells_other: "a \<notin> fst ` set ws \<Longrightarrow> hp_store (write_cells ws h) a = hp_store h a"
  unfolding write_cells_def by (induction ws arbitrary: h) auto

text \<open>Changes of other cells do not show.\<close>

lemma content_writes:
  assumes "view h t v = Some (T, A)" "set A \<inter> fst ` set ws = {}"
  shows "content (write_cells ws h) t v = Some T"
proof -
  have "\<forall>a \<in> set A. hp_store (write_cells ws h) a = hp_store h a" using assms(2) write_cells_other by blast
  from view_frame [OF assms(1) this] show ?thesis by (simp add: content_def)
qed

lemma copies_deep_isolated:
  assumes "copies_deep t c" "heap_ok h" "content h t v = Some T" "c v h = (v', h')"
  shows "content h' t v' = Some T"
    and "fst ` set ws \<subseteq> {..< hp_lim h} \<Longrightarrow> content (write_cells ws h') t v' = Some T"
    and "fst ` set ws \<subseteq> {hp_lim h ..} \<Longrightarrow> content (write_cells ws h') t v = Some T"
proof -
  from assms(3) obtain A where v: "view h t v = Some (T, A)" by (auto simp: content_def)
  from copies_deepD [OF assms(1,2) v assms(4)] obtain A' where A': "extends h h'" "view h' t v' = Some (T, A')"
    "set A' \<subseteq> {hp_lim h ..< hp_lim h'}" .
  from view_extends [OF assms(2) A'(1) v] have v': "view h' t v = Some (T, A)" .
  have A: "set A \<subseteq> {..< hp_lim h}" by (rule view_cells [OF assms(2) v])
  show "content h' t v' = Some T" using A'(2) by (simp add: content_def)
  show "fst ` set ws \<subseteq> {..< hp_lim h} \<Longrightarrow> content (write_cells ws h') t v' = Some T"
    using A'(3) by (intro content_writes [OF A'(2)]) fastforce
  show "fst ` set ws \<subseteq> {hp_lim h ..} \<Longrightarrow> content (write_cells ws h') t v = Some T"
    using A by (intro content_writes [OF v']) fastforce
qed

lemma registered_deep: "(t, c) \<in> set (v1_copiers @ v2alpha1_copiers) \<Longrightarrow> copies_deep t c"
  using v1_copiers_deep v2alpha1_copiers_deep by (auto simp: list_all_iff)

text \<open>C16: Deep copies are equal and isolated. Every generated deep-copy function of the API types gives a
  value with the content of the original; whatever is then written into cells that existed before the copy does not
  show in the copy, and whatever is written into new cells does not show in the original.\<close>

theorem deep_copies_isolated:
  assumes "(t, c) \<in> set (v1_copiers @ v2alpha1_copiers)" "heap_ok h" "content h t v = Some T" "c v h = (v', h')"
  shows "content h' t v' = Some T
    \<and> (\<forall>ws. fst ` set ws \<subseteq> {..< hp_lim h} \<longrightarrow> content (write_cells ws h') t v' = Some T)
    \<and> (\<forall>ws. fst ` set ws \<subseteq> {hp_lim h ..} \<longrightarrow> content (write_cells ws h') t v = Some T)"
  using copies_deep_isolated [OF registered_deep [OF assms(1)] assms(2-4)] by blast

text \<open>A rule that names a node; the copy keeps the name when the original's is overwritten.\<close>

definition wit_heap :: heap where
  "wit_heap = \<lparr>hp_store = [0 \<mapsto> Pointee (GScalar ''worker-0''),
     1 \<mapsto> Pointee (GStruct [(''NodeLabel'', GNil), (''NodeName'', GRef 0)])], hp_lim = 2\<rparr>"

definition wit_rule :: tree where
  "wit_rule = Box (Node [(''NodeLabel'', NilTree), (''NodeName'', Box (Leaf ''worker-0''))])"

theorem deep_copies_isolated_witness:
  "content (write_cells [(0, Pointee (GScalar ''other''))] (snd (MatchRule_DeepCopy (GRef 1) wit_heap))) (TPtr T_MatchRule)
     (fst (MatchRule_DeepCopy (GRef 1) wit_heap)) = Some wit_rule"
proof -
  have "(TPtr T_MatchRule, MatchRule_DeepCopy) \<in> set (v1_copiers @ v2alpha1_copiers)" by (simp add: v1_copiers_def)
  moreover have "heap_ok wit_heap" by (simp add: heap_ok_def wit_heap_def)
  moreover have "content wit_heap (TPtr T_MatchRule) (GRef 1) = Some wit_rule" by code_simp
  ultimately have "\<forall>ws. fst ` set ws \<subseteq> {..< hp_lim wit_heap} \<longrightarrow>
      content (write_cells ws (snd (MatchRule_DeepCopy (GRef 1) wit_heap))) (TPtr T_MatchRule)
        (fst (MatchRule_DeepCopy (GRef 1) wit_heap)) = Some wit_rule"
    using deep_copies_isolated prod.collapse by metis
  then show ?thesis by (simp add: wit_heap_def)
qed

end
