(* ===== verification/Rest_Client.thy ===== *)
theory Rest_Client
  imports Go_Strings "HOL-Library.Word"
begin

text \<open>
  The request builder of client-go (\<open>rest/request.go\<close>), as far as the generated clients use it, with
  \<open>path.Join\<close> and \<open>path.Clean\<close> of the standard library. A request collects its parts and the first error;
  \<open>Do\<close> and \<open>Watch\<close> send it unless an error is pending. Encoding of parameters and bodies, and the transport
  with its throttling and retries, are arguments.
\<close>

section \<open>Paths\<close>

text \<open>The segments of a cleaned path; \<open>acc\<close> holds those seen so far, the last one first.\<close>

fun clean_segs :: "bool \<Rightarrow> string list \<Rightarrow> string list \<Rightarrow> string list" where
  "clean_segs rooted acc [] = rev acc"
| "clean_segs rooted acc (s # ss) =
     (if s = '''' \<or> s = ''.'' then clean_segs rooted acc ss
      else if s = ''..'' then
        (case acc of
           [] \<Rightarrow> clean_segs rooted (if rooted then [] else [s]) ss
         | a # acc' \<Rightarrow> clean_segs rooted (if a = ''..'' then s # acc else acc') ss)
      else clean_segs rooted (s # acc) ss)"

definition Clean :: "string \<Rightarrow> string" where
  "Clean p =
     (let rooted = HasPrefix p ''/''; segs = clean_segs rooted [] (Split p ''/'') in
      if rooted then CHR ''/'' # Join segs ''/''
      else if segs = [] then ''.''
      else Join segs ''/'')"

definition Path_Join :: "string list \<Rightarrow> string" where
  "Path_Join elem =
     (let es = filter (\<lambda>e. e \<noteq> '''') elem in if es = [] then '''' else Clean (Join es ''/''))"

text \<open>A segment that cleaning keeps, and a rooted path with given segments.\<close>

definition plain :: "string \<Rightarrow> bool" where
  "plain s \<longleftrightarrow> s \<noteq> '''' \<and> s \<noteq> ''.'' \<and> s \<noteq> ''..'' \<and> CHR ''/'' \<notin> set s"

definition rooted_path :: "string list \<Rightarrow> string" where
  "rooted_path ss = CHR ''/'' # Join ss ''/''"

definition segs_of :: "string list \<Rightarrow> string list" where
  "segs_of xs = concat (map (\<lambda>x. Split x ''/'') xs)"

lemma segs_of_simps [simp]:
  "segs_of [] = []" "segs_of (x # xs) = Split x ''/'' @ segs_of xs"
  by (simp_all add: segs_of_def)

lemma clean_segs_append: "clean_segs r acc (xs @ ys) = clean_segs r (rev (clean_segs r acc xs)) ys"
  by (induction r acc xs rule: clean_segs.induct) (auto split: list.splits)

lemma clean_segs_nonempty: "clean_segs r acc (filter (\<lambda>s. s \<noteq> '''') xs) = clean_segs r acc xs"
  by (induction r acc xs rule: clean_segs.induct) (auto split: list.splits)

lemma clean_segs_plain:
  "list_all (\<lambda>s. s = '''' \<or> plain s) ss \<Longrightarrow> clean_segs r acc ss = rev acc @ filter (\<lambda>s. s \<noteq> '''') ss"
  by (induction ss arbitrary: acc) (auto simp: plain_def)

lemma rooted_clean_segs_plain:
  assumes "list_all plain acc" "\<And>s. s \<in> set ss \<Longrightarrow> CHR ''/'' \<notin> set s"
  shows "list_all plain (clean_segs True acc ss)"
  using assms
proof (induction ss arbitrary: acc)
  case Nil
  then show ?case by (simp add: list_all_iff)
next
  case (Cons s ss)
  have IH: "list_all plain acc' \<Longrightarrow> list_all plain (clean_segs True acc' ss)" for acc'
    by (rule Cons.IH) (simp_all add: Cons.prems(2))
  have s: "plain s" if "s \<noteq> ''''" "s \<noteq> ''.''" "s \<noteq> ''..''" using that Cons.prems(2) by (simp add: plain_def)
  have "a \<noteq> ''..''" if "acc = a # acc'" for a acc' using that Cons.prems(1) by (simp add: plain_def)
  with Cons.prems(1) IH s show ?case by (auto split: list.splits)
qed

lemma Split_concat: "Split (p @ CHR ''/'' # q) ''/'' = Split p ''/'' @ Split q ''/''"
proof -
  have "Join (Split p ''/'' @ Split q ''/'') ''/'' = p @ ''/'' @ q" (is "Join (?P @ ?Q) _ = _")
  proof -
    have "Join (xs @ ?Q) ''/'' = Join xs ''/'' @ ''/'' @ Join ?Q ''/''" if "xs \<noteq> []" for xs
      using that by (induction xs rule: list_nonempty_induct) (simp_all add: Join_Cons)
    from this [of ?P] show ?thesis by (simp add: Join_Split)
  qed
  moreover have "Split (Join (?P @ ?Q) ''/'') ''/'' = ?P @ ?Q" for P Q
    by (rule Split_Join) (auto dest: Split_parts)
  ultimately show ?thesis by simp
qed

lemma Split_Join_segs: "es \<noteq> [] \<Longrightarrow> Split (Join es ''/'') ''/'' = segs_of es"
proof (induction es rule: list_nonempty_induct)
  case (cons x xs)
  then show ?case using Split_concat [of x "Join xs ''/''"] by (simp add: Join_Cons)
qed simp

lemma HasPrefix_Join: "HasPrefix p ''/'' \<Longrightarrow> HasPrefix (Join (p # es) ''/'') ''/''"
  by (cases es) (auto simp: hd_append)

text \<open>Joining elements to a rooted path cleans the sequence of all their segments.\<close>

lemma Path_Join_rooted:
  assumes "HasPrefix p ''/''"
  shows "Path_Join (p # xs) = rooted_path (clean_segs True [] (segs_of (p # xs)))"
proof -
  let ?es = "filter (\<lambda>e. e \<noteq> '''') xs"
  have p: "p \<noteq> ''''" using assms by auto
  have "filter (\<lambda>s. s \<noteq> '''') (segs_of ?es) = filter (\<lambda>s. s \<noteq> '''') (segs_of xs)"
    by (induction xs) (simp_all add: Split_no_sep)
  then have "clean_segs True acc (segs_of ?es) = clean_segs True acc (segs_of xs)" for acc
    by (metis clean_segs_nonempty)
  then have "clean_segs True [] (segs_of (p # ?es)) = clean_segs True [] (segs_of (p # xs))"
    by (simp add: clean_segs_append)
  then show ?thesis using p HasPrefix_Join [OF assms, of ?es] Split_Join_segs [of "p # ?es"]
    by (simp add: Path_Join_def Clean_def rooted_path_def Let_def)
qed

lemma Split_rooted_path: "list_all plain ss \<Longrightarrow> filter (\<lambda>s. s \<noteq> '''') (Split (rooted_path ss) ''/'') = ss"
proof -
  assume ss: "list_all plain ss"
  have "filter (\<lambda>s. s \<noteq> '''') (Split (Join ss ''/'') ''/'') = ss"
  proof (cases "ss = []")
    case False
    have "segs_of ss = ss" using ss by (induction ss) (simp_all add: Split_no_sep plain_def)
    with False ss show ?thesis by (auto simp: Split_Join_segs filter_id_conv list_all_iff plain_def)
  qed (simp add: Split_no_sep)
  moreover have "Split (rooted_path ss) ''/'' = '''' # Split (Join ss ''/'') ''/''"
    using Split_append [of "CHR ''/''" "''''" "Join ss ''/''"] by (simp add: rooted_path_def)
  ultimately show ?thesis by simp
qed

lemma Path_Join_segments:
  assumes "list_all plain ss" "list_all (\<lambda>s. s = '''' \<or> plain s) (segs_of xs)"
  shows "Path_Join (rooted_path ss # xs) = rooted_path (ss @ filter (\<lambda>s. s \<noteq> '''') (segs_of xs))"
proof -
  have "clean_segs True [] (Split (rooted_path ss) ''/'') = clean_segs True [] ss"
    using Split_rooted_path [OF assms(1)] clean_segs_nonempty by metis
  also have "\<dots> = ss" using assms(1) clean_segs_plain [of ss True "[]"]
    by (simp add: list_all_iff plain_def filter_id_conv)
  finally have ss: "clean_segs True [] (Split (rooted_path ss) ''/'') = ss" .
  have "HasPrefix (rooted_path ss) ''/''" by (simp add: rooted_path_def)
  from Path_Join_rooted [OF this] show ?thesis using ss clean_segs_plain [OF assms(2)] by (simp add: clean_segs_append)
qed

section \<open>Durations\<close>

type_synonym duration = "64 word"

definition Second :: duration where
  "Second = 1000000000"

text \<open>\<open>Duration.String\<close>: a fraction with \<open>prec\<close> digits loses its trailing zeros, and its point with the last
  of them.\<close>

fun low_digits :: "nat \<Rightarrow> nat \<Rightarrow> string" where
  "low_digits 0 v = ''''"
| "low_digits (Suc prec) v = low_digits prec (v div 10) @ [char_of (48 + v mod 10)]"

definition fmtFrac :: "nat \<Rightarrow> nat \<Rightarrow> string" where
  "fmtFrac prec v =
     (let ds = rev (dropWhile (\<lambda>c. c = CHR ''0'') (rev (low_digits prec v))) in
      if ds = '''' then '''' else CHR ''.'' # ds)"

definition Duration_String :: "duration \<Rightarrow> string" where
  "Duration_String d =
     (let neg = sint d < 0; u = nat \<bar>sint d\<bar>;
          body =
            (if u = 0 then ''0s''
             else if u < 1000 then nat_digits u @ ''ns''
             else if u < 1000000 then nat_digits (u div 1000) @ fmtFrac 3 u @ [char_of (194 :: nat), char_of (181 :: nat)] @ ''s''
             else if u < 1000000000 then nat_digits (u div 1000000) @ fmtFrac 6 u @ ''ms''
             else
               (let secs = u div 1000000000; mins = secs div 60; hours = mins div 60;
                    s = nat_digits (secs mod 60) @ fmtFrac 9 u @ ''s'' in
                if mins = 0 then s
                else if hours = 0 then nat_digits (mins mod 60) @ ''m'' @ s
                else nat_digits hours @ ''h'' @ nat_digits (mins mod 60) @ ''m'' @ s)) in
      if neg then CHR ''-'' # body else body)"

section \<open>Requests\<close>

datatype 'e request_error =
    InvalidSegment string
  | AlreadySet string
  | EmptyName
  | EmptyNamespaceInCreate
  | EmptyNamespaceWithName
  | External 'e

type_synonym url_values = "string list gmap"

text \<open>What is sent: the URL by its path and its query before encoding, the headers, and the timeout
  of the context, if any.\<close>

record http_request =
  hr_Method :: string
  hr_Path :: string
  hr_Query :: "url_values"
  hr_Header :: "url_values"
  hr_Body :: "string option"
  hr_Deadline :: "duration option"

record ('e, 'b, 'r, 's) rest_client =
  rc_basePath :: string
  rc_versionedAPIPath :: string
  rc_AcceptContentTypes :: string
  rc_ContentType :: string
  rc_GroupVersion :: "string \<times> string"
  rc_Timeout :: duration
  rc_Encode :: "'b \<Rightarrow> 'e + string"
  rc_Send :: "http_request \<Rightarrow> 's \<Rightarrow> ('e + 'r) \<times> 's"
  rc_fold :: "string \<Rightarrow> string"

record 'e request =
  rq_timeout :: duration
  rq_verb :: string
  rq_pathPrefix :: string
  rq_subpath :: string
  rq_params :: "url_values"
  rq_headers :: "url_values"
  rq_namespace :: string
  rq_namespaceSet :: bool
  rq_resource :: string
  rq_resourceName :: string
  rq_subresource :: string
  rq_err :: "'e request_error option"
  rq_bodyBytes :: "string option"

definition IsValidPathSegmentName :: "string \<Rightarrow> string list" where
  "IsValidPathSegmentName name =
     (if name \<in> set [''.'', ''..''] then [''may not be '' @ name]
      else map (\<lambda>s. ''may not contain '' @ s) (filter (\<lambda>s. Contains name s) [''/'', ''%'']))"

definition SetHeader :: "string \<Rightarrow> string list \<Rightarrow> 'e request \<Rightarrow> 'e request" where
  "SetHeader key vs r = r\<lparr>rq_headers := gset (rq_headers r) key vs\<rparr>"

definition NewRequest :: "('e, 'b, 'r, 's) rest_client \<Rightarrow> 'e request" where
  "NewRequest c =
     (let r = \<lparr>rq_timeout = rc_Timeout c, rq_verb = '''',
               rq_pathPrefix = Path_Join [''/'', rc_basePath c, rc_versionedAPIPath c],
               rq_subpath = '''', rq_params = [], rq_headers = [], rq_namespace = '''', rq_namespaceSet = False,
               rq_resource = '''', rq_resourceName = '''', rq_subresource = '''', rq_err = None,
               rq_bodyBytes = None\<rparr> in
      if rc_AcceptContentTypes c \<noteq> '''' then SetHeader ''Accept'' [rc_AcceptContentTypes c] r
      else if rc_ContentType c \<noteq> '''' then SetHeader ''Accept'' [rc_ContentType c @ '', */*''] r
      else r)"

definition Verb :: "('e, 'b, 'r, 's) rest_client \<Rightarrow> string \<Rightarrow> 'e request" where
  "Verb c verb = (NewRequest c)\<lparr>rq_verb := verb\<rparr>"

text \<open>The setters do nothing once an error is pending.\<close>

definition unless_err :: "('e request \<Rightarrow> 'e request) \<Rightarrow> 'e request \<Rightarrow> 'e request" where
  "unless_err f r = (if rq_err r \<noteq> None then r else f r)"

definition failed :: "'e request_error \<Rightarrow> 'e request \<Rightarrow> 'e request" where
  "failed e r = r\<lparr>rq_err := Some e\<rparr>"

definition Namespace :: "string \<Rightarrow> 'e request \<Rightarrow> 'e request" where
  "Namespace namespace = unless_err (\<lambda>r.
     if rq_namespaceSet r then failed (AlreadySet (rq_namespace r)) r
     else if IsValidPathSegmentName namespace \<noteq> [] then failed (InvalidSegment namespace) r
     else r\<lparr>rq_namespaceSet := True, rq_namespace := namespace\<rparr>)"

definition Resource :: "string \<Rightarrow> 'e request \<Rightarrow> 'e request" where
  "Resource resource = unless_err (\<lambda>r.
     if rq_resource r \<noteq> '''' then failed (AlreadySet (rq_resource r)) r
     else if IsValidPathSegmentName resource \<noteq> [] then failed (InvalidSegment resource) r
     else r\<lparr>rq_resource := resource\<rparr>)"

definition Name :: "string \<Rightarrow> 'e request \<Rightarrow> 'e request" where
  "Name resourceName = unless_err (\<lambda>r.
     if resourceName = '''' then failed EmptyName r
     else if rq_resourceName r \<noteq> '''' then failed (AlreadySet (rq_resourceName r)) r
     else if IsValidPathSegmentName resourceName \<noteq> [] then failed (InvalidSegment resourceName) r
     else r\<lparr>rq_resourceName := resourceName\<rparr>)"

definition SubResource :: "string list \<Rightarrow> 'e request \<Rightarrow> 'e request" where
  "SubResource subresources = unless_err (\<lambda>r.
     if rq_subresource r \<noteq> '''' then failed (AlreadySet (rq_subresource r)) r
     else case find (\<lambda>s. IsValidPathSegmentName s \<noteq> []) subresources of
            Some s \<Rightarrow> failed (InvalidSegment s) r
          | None \<Rightarrow> r\<lparr>rq_subresource := Path_Join subresources\<rparr>)"

definition append_values :: "url_values \<Rightarrow> string \<times> string list \<Rightarrow> url_values" where
  "append_values m kv = gset m (fst kv) ((case gget m (fst kv) of None \<Rightarrow> [] | Some vs \<Rightarrow> vs) @ snd kv)"

text \<open>\<open>codec\<close> stands for \<open>EncodeParameters\<close> of the parameter codec.\<close>

definition VersionedParams ::
  "(string \<times> string \<Rightarrow> 'p \<Rightarrow> 'e + url_values) \<Rightarrow> ('e, 'b, 'r, 's) rest_client \<Rightarrow> 'p \<Rightarrow> 'e request \<Rightarrow> 'e request" where
  "VersionedParams codec c obj = unless_err (\<lambda>r.
     case codec (rc_GroupVersion c) obj of
       Inl e \<Rightarrow> failed (External e) r
     | Inr params \<Rightarrow> r\<lparr>rq_params := foldl append_values (rq_params r) params\<rparr>)"

definition Timeout :: "duration \<Rightarrow> 'e request \<Rightarrow> 'e request" where
  "Timeout d = unless_err (\<lambda>r. r\<lparr>rq_timeout := d\<rparr>)"

text \<open>A body is a byte slice or an object, which may be nil.\<close>

datatype 'b body = BytesBody string | ObjectBody "'b option"

definition Body :: "('e, 'b, 'r, 's) rest_client \<Rightarrow> 'b body \<Rightarrow> 'e request \<Rightarrow> 'e request" where
  "Body c obj = unless_err (\<lambda>r.
     case obj of
       BytesBody t \<Rightarrow> r\<lparr>rq_bodyBytes := Some t\<rparr>
     | ObjectBody None \<Rightarrow> r
     | ObjectBody (Some t) \<Rightarrow>
         (case rc_Encode c t of
            Inl e \<Rightarrow> failed (External e) r
          | Inr data \<Rightarrow> SetHeader ''Content-Type'' [rc_ContentType c] (r\<lparr>rq_bodyBytes := Some data\<rparr>)))"

definition URL_path :: "('e, 'b, 'r, 's) rest_client \<Rightarrow> 'e request \<Rightarrow> string" where
  "URL_path c r =
     (let p0 = rq_pathPrefix r;
          p1 = (if rq_namespaceSet r \<and> rq_namespace r \<noteq> '''' then Path_Join [p0, ''namespaces'', rq_namespace r] else p0);
          p2 = (if rq_resource r \<noteq> '''' then Path_Join [p1, ToLower (rc_fold c) (rq_resource r)] else p1) in
      if rq_resourceName r \<noteq> '''' \<or> rq_subpath r \<noteq> '''' \<or> rq_subresource r \<noteq> ''''
      then Path_Join [p2, rq_resourceName r, rq_subresource r, rq_subpath r] else p2)"

definition URL_query :: "'e request \<Rightarrow> url_values" where
  "URL_query r =
     (let query = filter (\<lambda>(key, vs). vs \<noteq> []) (rq_params r) in
      if rq_timeout r \<noteq> 0 then gset query ''timeout'' [Duration_String (rq_timeout r)] else query)"

definition requestPreflightCheck :: "'e request \<Rightarrow> 'e request_error option" where
  "requestPreflightCheck r =
     (if \<not> rq_namespaceSet r then None
      else if rq_namespace r \<noteq> '''' then None
      else if rq_verb r = ''POST'' then Some EmptyNamespaceInCreate
      else if rq_verb r \<in> set [''GET'', ''PUT'', ''DELETE''] \<and> rq_resourceName r \<noteq> '''' then Some EmptyNamespaceWithName
      else None)"

definition newHTTPRequest :: "('e, 'b, 'r, 's) rest_client \<Rightarrow> 'e request \<Rightarrow> duration option \<Rightarrow> http_request" where
  "newHTTPRequest c r deadline =
     \<lparr>hr_Method = rq_verb r, hr_Path = URL_path c r, hr_Query = URL_query r, hr_Header = rq_headers r,
      hr_Body = rq_bodyBytes r, hr_Deadline = deadline\<rparr>"

definition external :: "('e + 'r) \<times> 's \<Rightarrow> ('e request_error + 'r) \<times> 's" where
  "external = map_prod (map_sum External (\<lambda>r. r)) (\<lambda>s. s)"

text \<open>The transport sends the request, again where it may be retried, and gives the response.\<close>

definition Do :: "('e, 'b, 'r, 's) rest_client \<Rightarrow> 'e request \<Rightarrow> 's \<Rightarrow> ('e request_error + 'r) \<times> 's" where
  "Do c r s =
     (case rq_err r of
        Some e \<Rightarrow> (Inl e, s)
      | None \<Rightarrow>
          (case requestPreflightCheck r of
             Some e \<Rightarrow> (Inl e, s)
           | None \<Rightarrow>
               external (rc_Send c (newHTTPRequest c r (if 0 <s rq_timeout r then Some (rq_timeout r) else None)) s)))"

definition Watch :: "('e, 'b, 'r, 's) rest_client \<Rightarrow> 'e request \<Rightarrow> 's \<Rightarrow> ('e request_error + 'r) \<times> 's" where
  "Watch c r s =
     (case rq_err r of
        Some e \<Rightarrow> (Inl e, s)
      | None \<Rightarrow> external (rc_Send c (newHTTPRequest c r None) s))"

text \<open>\<open>Into\<close> decodes the response into an object, which stays as it is on an error.\<close>

definition Into :: "('r \<Rightarrow> 'o \<Rightarrow> 'e option \<times> 'o) \<Rightarrow> 'o \<Rightarrow> ('e request_error + 'r) \<times> 's \<Rightarrow> ('o \<times> 'e request_error option) \<times> 's" where
  "Into decode result res =
     (case res of
        (Inl e, s) \<Rightarrow> ((result, Some e), s)
      | (Inr resp, s) \<Rightarrow> (case decode resp result of (e, obj) \<Rightarrow> ((obj, map_option External e), s)))"

definition Error :: "('e request_error + 'r) \<times> 's \<Rightarrow> 'e request_error option \<times> 's" where
  "Error res = (case res of (Inl e, s) \<Rightarrow> (Some e, s) | (Inr resp, s) \<Rightarrow> (None, s))"

section \<open>What a request addresses\<close>

abbreviation seg_ok :: "string \<Rightarrow> bool" where
  "seg_ok s \<equiv> IsValidPathSegmentName s = []"

lemma Contains_single: "Contains s [c] \<longleftrightarrow> c \<in> set s"
  using find_sub_None_single [of s c] by (auto simp: Contains_def Index_def split: option.splits)

lemma seg_ok_iff: "seg_ok s \<longleftrightarrow> s \<noteq> ''.'' \<and> s \<noteq> ''..'' \<and> CHR ''/'' \<notin> set s \<and> CHR ''%'' \<notin> set s"
  by (auto simp: IsValidPathSegmentName_def Contains_single)

lemma seg_ok_plain: "seg_ok s \<Longrightarrow> s = '''' \<or> plain s"
  by (auto simp: seg_ok_iff plain_def)

lemma seg_ok_Split: "seg_ok s \<Longrightarrow> Split s ''/'' = [s]"
  by (simp add: seg_ok_iff Split_no_sep)

lemma segs_of_seg_ok: "list_all seg_ok xs \<Longrightarrow> segs_of xs = xs \<and> list_all (\<lambda>s. s = '''' \<or> plain s) xs"
  by (induction xs) (use seg_ok_plain in \<open>auto simp: seg_ok_Split\<close>)

text \<open>The segments of several subresources joined to a path.\<close>

lemma Path_Join_subresources:
  assumes "list_all seg_ok subs"
  shows "filter (\<lambda>s. s \<noteq> '''') (Split (Path_Join subs) ''/'') = filter (\<lambda>s. s \<noteq> '''') subs"
    and "list_all (\<lambda>s. s = '''' \<or> plain s) (Split (Path_Join subs) ''/'')"
    and "Path_Join subs = '''' \<longleftrightarrow> filter (\<lambda>s. s \<noteq> '''') subs = []"
    and "Path_Join subs = Join (filter (\<lambda>s. s \<noteq> '''') subs) ''/''"
proof -
  let ?es = "filter (\<lambda>s. s \<noteq> '''') subs"
  have ok: "list_all seg_ok ?es" using assms by (auto simp: list_all_iff)
  have plain: "list_all plain ?es" using segs_of_seg_ok [OF ok] by (auto simp: list_all_iff)
  have *: "Path_Join subs = Join ?es ''/''"
  proof (cases "?es = []")
    case False
    note ne = this
    have segs: "Split (Join ?es ''/'') ''/'' = ?es" using Split_Join_segs [OF ne] segs_of_seg_ok [OF ok] by simp
    obtain e es where e: "?es = e # es" using ne by (meson list.exhaust)
    have "\<not> HasPrefix (Join ?es ''/'') ''/''"
      using plain unfolding e by (cases es; cases e) (auto simp: plain_def)
    moreover have "clean_segs False [] ?es = ?es"
      using plain clean_segs_plain [of ?es False "[]"] by (auto simp: list_all_iff)
    ultimately show ?thesis using ne segs by (simp add: Path_Join_def Clean_def Let_def del: HasPrefix_single)
  qed (simp add: Path_Join_def)
  then show "Path_Join subs = Join ?es ''/''" .
  have segs: "Split (Path_Join subs) ''/'' = (if ?es = [] then [''''] else ?es)"
    using * Split_Join_segs [of ?es] segs_of_seg_ok [OF ok] by (simp add: Path_Join_def Split_no_sep)
  show "filter (\<lambda>s. s \<noteq> '''') (Split (Path_Join subs) ''/'') = ?es" unfolding segs by simp
  show "list_all (\<lambda>s. s = '''' \<or> plain s) (Split (Path_Join subs) ''/'')"
    unfolding segs using plain by (simp add: list_all_iff)
  show "Path_Join subs = '''' \<longleftrightarrow> ?es = []"
  proof (cases "?es = []")
    case False
    with segs have "Split (Path_Join subs) ''/'' = ?es" by simp
    moreover have "'''' \<notin> set ?es" by simp
    then have "[''''] \<noteq> ?es" by (metis list.set_intros(1))
    ultimately show ?thesis using False by (metis Split_no_sep list.set(1) empty_iff)
  qed (simp add: Path_Join_def)
qed

text \<open>The segments in front of the namespace and the resource.\<close>

definition prefix_segs :: "('e, 'b, 'r, 's) rest_client \<Rightarrow> string list" where
  "prefix_segs c = clean_segs True [] (segs_of [''/'', rc_basePath c, rc_versionedAPIPath c])"

lemma prefix_segs_plain: "list_all plain (prefix_segs c)"
proof -
  have "CHR ''/'' \<notin> set s" if "s \<in> set (segs_of [''/'', rc_basePath c, rc_versionedAPIPath c])" for s
    using that Split_parts by (auto simp: segs_of_def)
  then show ?thesis unfolding prefix_segs_def by (intro rooted_clean_segs_plain) auto
qed

lemma pathPrefix_segs: "Path_Join [''/'', rc_basePath c, rc_versionedAPIPath c] = rooted_path (prefix_segs c)"
  unfolding prefix_segs_def by (rule Path_Join_rooted) simp

lemma rooted_path_inj:
  assumes "list_all plain ss" "list_all plain ts" "rooted_path ss = rooted_path ts"
  shows "ss = ts"
  using assms Split_rooted_path by metis

text \<open>The path of a URL lists the namespace, the resource, the name and the subresources.\<close>

lemma URL_path_segs:
  assumes "rq_pathPrefix r = rooted_path B" "list_all plain B" "rq_subpath r = ''''"
    and "seg_ok (rq_namespace r)" "seg_ok (rq_resourceName r)" "rq_resource r \<noteq> ''''"
    and "plain (ToLower (rc_fold c) (rq_resource r))" "rq_subresource r = Path_Join subs" "list_all seg_ok subs"
  shows "URL_path c r = rooted_path
    (B @ (if rq_namespaceSet r \<and> rq_namespace r \<noteq> '''' then [''namespaces'', rq_namespace r] else [])
       @ [ToLower (rc_fold c) (rq_resource r)]
       @ (if rq_resourceName r \<noteq> '''' then [rq_resourceName r] else []) @ filter (\<lambda>s. s \<noteq> '''') subs)"
proof -
  let ?res = "ToLower (rc_fold c) (rq_resource r)"
  let ?N = "if rq_namespaceSet r \<and> rq_namespace r \<noteq> '''' then [''namespaces'', rq_namespace r] else []"
  have N: "list_all plain ?N" and name: "list_all plain (if rq_resourceName r \<noteq> '''' then [rq_resourceName r] else [])"
    using assms(4,5) seg_ok_plain by (auto simp: plain_def)
  have res: "Split ?res ''/'' = [?res]" using assms(7) by (simp add: plain_def Split_no_sep)
  note sub = Path_Join_subresources [OF assms(9)]
  have ns: "segs_of [''namespaces'', rq_namespace r] = [''namespaces'', rq_namespace r]"
    using assms(4) by (simp add: seg_ok_Split Split_no_sep)
  have p1: "(if rq_namespaceSet r \<and> rq_namespace r \<noteq> '''' then Path_Join [rooted_path B, ''namespaces'', rq_namespace r]
      else rooted_path B) = rooted_path (B @ ?N)"
    using Path_Join_segments [OF assms(2), of "[''namespaces'', rq_namespace r]"] N unfolding ns
    by (auto simp: plain_def)
  have B1: "list_all plain (B @ ?N)" using assms(2) N by simp
  have p2: "Path_Join [rooted_path (B @ ?N), ?res] = rooted_path ((B @ ?N) @ [?res])"
    using Path_Join_segments [OF B1, of "[?res]"] assms(7) res by (simp add: plain_def)
  have B2: "list_all plain ((B @ ?N) @ [?res])" using B1 assms(7) by simp
  have "list_all (\<lambda>s. s = '''' \<or> plain s) (segs_of [rq_resourceName r, rq_subresource r, ''''])"
    using seg_ok_plain [OF assms(5)] sub(2) assms(5,8) by (simp add: seg_ok_Split Split_no_sep)
  from Path_Join_segments [OF B2 this] have p3: "Path_Join [rooted_path ((B @ ?N) @ [?res]), rq_resourceName r, rq_subresource r, '''']
      = rooted_path (((B @ ?N) @ [?res]) @ (if rq_resourceName r \<noteq> '''' then [rq_resourceName r] else []) @ filter (\<lambda>s. s \<noteq> '''') subs)"
    using sub(1) assms(5,8) by (simp add: seg_ok_Split Split_no_sep)
  show ?thesis
    using assms(6) sub(3) p3 unfolding URL_path_def Let_def assms(1,3) p1 p2 by (auto simp: assms(8) p2)
qed

end
