(* ===== verification/Typed_Client.thy ===== *)
theory Typed_Client
  imports Rest_Client
begin

text \<open>
  The generated client of the API group (\<open>pkg/client/clientset/versioned\<close>): its typed clients for
  \<open>NodePtpDevice\<close>, \<open>PtpConfig\<close> and \<open>PtpOperatorConfig\<close> and how they are made from a configuration. The
  three typed clients are one generated text for three resources, so that each method is one definition over the
  resource. A Go interface is a record of its methods.
\<close>

section \<open>Objects and options\<close>

text \<open>An API object with what the clients look at; \<open>ao_Kind\<close> is its Go type.\<close>

record 'c api_object =
  ao_Kind :: string
  ao_Name :: string
  ao_Labels :: "string gmap"
  ao_Content :: 'c

record 'c api_list =
  al_Kind :: string
  al_ListMeta :: string
  al_Items :: "'c api_object list"

record GetOptions =
  go_ResourceVersion :: string

record ListOptions =
  lo_LabelSelector :: string
  lo_FieldSelector :: string
  lo_Watch :: bool
  lo_AllowWatchBookmarks :: bool
  lo_ResourceVersion :: string
  lo_ResourceVersionMatch :: string
  lo_TimeoutSeconds :: "64 word option"
  lo_Limit :: "64 word"
  lo_Continue :: string
  lo_SendInitialEvents :: "bool option"
  lo_ShardSelector :: string

record CreateOptions =
  co_DryRun :: "string list"
  co_FieldManager :: string
  co_FieldValidation :: string

record UpdateOptions =
  uo_DryRun :: "string list"
  uo_FieldManager :: string
  uo_FieldValidation :: string

record PatchOptions =
  po_DryRun :: "string list"
  po_Force :: "bool option"
  po_FieldManager :: string
  po_FieldValidation :: string

record DeleteOptions =
  do_GracePeriodSeconds :: "64 word option"
  do_Preconditions :: "(string option \<times> string option) option"
  do_OrphanDependents :: "bool option"
  do_PropagationPolicy :: "string option"
  do_DryRun :: "string list"
  do_IgnoreStoreReadError :: "bool option"

text \<open>What the parameter codec and the body encoder are given.\<close>

datatype options =
    GetParams GetOptions
  | ListParams ListOptions
  | CreateParams CreateOptions
  | UpdateParams UpdateOptions
  | PatchParams PatchOptions

datatype 'c payload = ApiObject "'c api_object" | DeleteBody DeleteOptions

text \<open>The codecs of the scheme: encoding of parameters, decoding of a response into an object or a list, and the
  zero content of a Go type.\<close>

record ('e, 'c, 'r) codecs =
  cd_EncodeParameters :: "string \<times> string \<Rightarrow> options \<Rightarrow> 'e + url_values"
  cd_DecodeObject :: "'r \<Rightarrow> 'c api_object \<Rightarrow> 'e option \<times> 'c api_object"
  cd_DecodeList :: "'r \<Rightarrow> 'c api_list \<Rightarrow> 'e option \<times> 'c api_list"
  cd_Zero :: "string \<Rightarrow> 'c"

text \<open>A resource and the Go type of its objects.\<close>

record resource_type =
  rt_Resource :: string
  rt_Kind :: string

definition nodeptpdevices :: resource_type where
  "nodeptpdevices = \<lparr>rt_Resource = ''nodeptpdevices'', rt_Kind = ''NodePtpDevice''\<rparr>"

definition ptpconfigs :: resource_type where
  "ptpconfigs = \<lparr>rt_Resource = ''ptpconfigs'', rt_Kind = ''PtpConfig''\<rparr>"

definition ptpoperatorconfigs :: resource_type where
  "ptpoperatorconfigs = \<lparr>rt_Resource = ''ptpoperatorconfigs'', rt_Kind = ''PtpOperatorConfig''\<rparr>"

definition zero_object :: "(string \<Rightarrow> 'c) \<Rightarrow> resource_type \<Rightarrow> 'c api_object" where
  "zero_object zero rt = \<lparr>ao_Kind = rt_Kind rt, ao_Name = '''', ao_Labels = [], ao_Content = zero (rt_Kind rt)\<rparr>"

definition zero_list :: "resource_type \<Rightarrow> 'c api_list" where
  "zero_list rt = \<lparr>al_Kind = rt_Kind rt @ ''List'', al_ListMeta = '''', al_Items = []\<rparr>"

section \<open>Interfaces\<close>

text \<open>What a method gives: a panic, or its results and the new state. Pointers and interfaces may be nil.\<close>

type_synonym ('a, 's) outcome = "panic + ('a \<times> 's)"

record ('c, 'w, 'e, 's) resource_interface =
  if_Create :: "'c api_object option \<Rightarrow> CreateOptions \<Rightarrow> 's \<Rightarrow> ('c api_object option \<times> 'e option, 's) outcome"
  if_Update :: "'c api_object option \<Rightarrow> UpdateOptions \<Rightarrow> 's \<Rightarrow> ('c api_object option \<times> 'e option, 's) outcome"
  if_UpdateStatus :: "'c api_object option \<Rightarrow> UpdateOptions \<Rightarrow> 's \<Rightarrow> ('c api_object option \<times> 'e option, 's) outcome"
  if_Delete :: "string \<Rightarrow> DeleteOptions \<Rightarrow> 's \<Rightarrow> ('e option, 's) outcome"
  if_DeleteCollection :: "DeleteOptions \<Rightarrow> ListOptions \<Rightarrow> 's \<Rightarrow> ('e option, 's) outcome"
  if_Get :: "string \<Rightarrow> GetOptions \<Rightarrow> 's \<Rightarrow> ('c api_object option \<times> 'e option, 's) outcome"
  if_List :: "ListOptions \<Rightarrow> 's \<Rightarrow> ('c api_list option \<times> 'e option, 's) outcome"
  if_Watch :: "ListOptions \<Rightarrow> 's \<Rightarrow> ('w option \<times> 'e option, 's) outcome"
  if_Patch :: "string \<Rightarrow> string \<Rightarrow> string \<Rightarrow> PatchOptions \<Rightarrow> string list \<Rightarrow> 's \<Rightarrow> ('c api_object option \<times> 'e option, 's) outcome"

record ('c, 'w, 'e, 's) PtpV1Interface =
  pi_NodePtpDevices :: "string \<Rightarrow> ('c, 'w, 'e, 's) resource_interface"
  pi_PtpConfigs :: "string \<Rightarrow> ('c, 'w, 'e, 's) resource_interface"
  pi_PtpOperatorConfigs :: "string \<Rightarrow> ('c, 'w, 'e, 's) resource_interface"

section \<open>The methods of a typed client\<close>

record ('e, 'c, 'r, 's) typed_client =
  tc_client :: "('e, 'c payload, 'r, 's) rest_client option"
  tc_ns :: string

text \<open>The chained calls on a request, in their order.\<close>

fun chain :: "'e request \<Rightarrow> ('e request \<Rightarrow> 'e request) list \<Rightarrow> 'e request" where
  "chain r [] = r"
| "chain r (f # fs) = chain (f r) fs"

text \<open>A call on a nil client.\<close>

definition on_client :: "('e, 'c, 'r, 's) typed_client \<Rightarrow> (('e, 'c payload, 'r, 's) rest_client \<Rightarrow> 'a \<times> 's) \<Rightarrow> ('a, 's) outcome" where
  "on_client c f = (case tc_client c of None \<Rightarrow> Inl NilDeref | Some client \<Rightarrow> Inr (f client))"

definition list_timeout :: "ListOptions \<Rightarrow> duration" where
  "list_timeout opts = (case lo_TimeoutSeconds opts of None \<Rightarrow> 0 | Some n \<Rightarrow> n * Second)"

definition some_result :: "('o \<times> 'e option) \<times> 's \<Rightarrow> ('o option \<times> 'e option) \<times> 's" where
  "some_result = map_prod (map_prod Some (\<lambda>e. e)) (\<lambda>s. s)"

definition watch_result :: "('e + 'w) \<times> 's \<Rightarrow> ('w option \<times> 'e option) \<times> 's" where
  "watch_result = map_prod (\<lambda>r. case r of Inl e \<Rightarrow> (None, Some e) | Inr w \<Rightarrow> (Some w, None)) (\<lambda>s. s)"

definition typed_Get where
  "typed_Get rt cd c name options s = on_client c (\<lambda>client. some_result
     (Into (cd_DecodeObject cd) (zero_object (cd_Zero cd) rt)
       (Do client
         (chain (Verb client ''GET'')
           [Namespace (tc_ns c), Resource (rt_Resource rt), Name name,
            VersionedParams (cd_EncodeParameters cd) client (GetParams options)]) s)))"

definition typed_List where
  "typed_List rt cd c opts s = on_client c (\<lambda>client. some_result
     (Into (cd_DecodeList cd) (zero_list rt)
       (Do client
         (chain (Verb client ''GET'')
           [Namespace (tc_ns c), Resource (rt_Resource rt),
            VersionedParams (cd_EncodeParameters cd) client (ListParams opts), Timeout (list_timeout opts)]) s)))"

definition typed_Watch where
  "typed_Watch rt cd c opts s = on_client c (\<lambda>client. watch_result
     (Watch client
       (chain (Verb client ''GET'')
         [Namespace (tc_ns c), Resource (rt_Resource rt),
          VersionedParams (cd_EncodeParameters cd) client (ListParams (opts\<lparr>lo_Watch := True\<rparr>)),
          Timeout (list_timeout opts)]) s))"

definition typed_Create where
  "typed_Create rt cd c obj opts s = on_client c (\<lambda>client. some_result
     (Into (cd_DecodeObject cd) (zero_object (cd_Zero cd) rt)
       (Do client
         (chain (Verb client ''POST'')
           [Namespace (tc_ns c), Resource (rt_Resource rt),
            VersionedParams (cd_EncodeParameters cd) client (CreateParams opts),
            Body client (ObjectBody (map_option ApiObject obj))]) s)))"

text \<open>\<open>Update\<close> and \<open>UpdateStatus\<close> read the name through the pointer.\<close>

definition typed_Update where
  "typed_Update rt cd c obj opts s =
     (case obj of
        None \<Rightarrow> Inl NilDeref
      | Some o1 \<Rightarrow> on_client c (\<lambda>client. some_result
          (Into (cd_DecodeObject cd) (zero_object (cd_Zero cd) rt)
            (Do client
              (chain (Verb client ''PUT'')
                [Namespace (tc_ns c), Resource (rt_Resource rt), Name (ao_Name o1),
                 VersionedParams (cd_EncodeParameters cd) client (UpdateParams opts),
                 Body client (ObjectBody (Some (ApiObject o1)))]) s))))"

definition typed_UpdateStatus where
  "typed_UpdateStatus rt cd c obj opts s =
     (case obj of
        None \<Rightarrow> Inl NilDeref
      | Some o1 \<Rightarrow> on_client c (\<lambda>client. some_result
          (Into (cd_DecodeObject cd) (zero_object (cd_Zero cd) rt)
            (Do client
              (chain (Verb client ''PUT'')
                [Namespace (tc_ns c), Resource (rt_Resource rt), Name (ao_Name o1), SubResource [''status''],
                 VersionedParams (cd_EncodeParameters cd) client (UpdateParams opts),
                 Body client (ObjectBody (Some (ApiObject o1)))]) s))))"

definition typed_Delete where
  "typed_Delete rt cd c name opts s = on_client c (\<lambda>client.
     Error (Do client
       (chain (Verb client ''DELETE'')
         [Namespace (tc_ns c), Resource (rt_Resource rt), Name name, Body client (ObjectBody (Some (DeleteBody opts)))]) s))"

definition typed_DeleteCollection where
  "typed_DeleteCollection rt cd c opts listOpts s = on_client c (\<lambda>client.
     Error (Do client
       (chain (Verb client ''DELETE'')
         [Namespace (tc_ns c), Resource (rt_Resource rt),
          VersionedParams (cd_EncodeParameters cd) client (ListParams listOpts), Timeout (list_timeout listOpts),
          Body client (ObjectBody (Some (DeleteBody opts)))]) s))"

definition typed_Patch where
  "typed_Patch rt cd c name pt data opts subresources s = on_client c (\<lambda>client. some_result
     (Into (cd_DecodeObject cd) (zero_object (cd_Zero cd) rt)
       (Do client
         (chain (SetHeader ''Content-Type'' [pt] (Verb client ''PATCH''))
           [Namespace (tc_ns c), Resource (rt_Resource rt), Name name, SubResource subresources,
            VersionedParams (cd_EncodeParameters cd) client (PatchParams opts), Body client (BytesBody data)]) s)))"

section \<open>The three typed clients\<close>

record ('e, 'c, 'r, 's) PtpV1Client =
  pv_restClient :: "('e, 'c payload, 'r, 's) rest_client option"

definition RESTClient :: "('e, 'c, 'r, 's) PtpV1Client option \<Rightarrow> ('e, 'c payload, 'r, 's) rest_client option" where
  "RESTClient c = (case c of None \<Rightarrow> None | Some pc \<Rightarrow> pv_restClient pc)"

definition newNodePtpDevices :: "('e, 'c, 'r, 's) PtpV1Client option \<Rightarrow> string \<Rightarrow> ('e, 'c, 'r, 's) typed_client" where
  "newNodePtpDevices c namespace = \<lparr>tc_client = RESTClient c, tc_ns = namespace\<rparr>"

definition nodePtpDevices_Get where
  "nodePtpDevices_Get = typed_Get nodeptpdevices"

definition nodePtpDevices_List where
  "nodePtpDevices_List = typed_List nodeptpdevices"

definition nodePtpDevices_Watch where
  "nodePtpDevices_Watch = typed_Watch nodeptpdevices"

definition nodePtpDevices_Create where
  "nodePtpDevices_Create = typed_Create nodeptpdevices"

definition nodePtpDevices_Update where
  "nodePtpDevices_Update = typed_Update nodeptpdevices"

definition nodePtpDevices_UpdateStatus where
  "nodePtpDevices_UpdateStatus = typed_UpdateStatus nodeptpdevices"

definition nodePtpDevices_Delete where
  "nodePtpDevices_Delete = typed_Delete nodeptpdevices"

definition nodePtpDevices_DeleteCollection where
  "nodePtpDevices_DeleteCollection = typed_DeleteCollection nodeptpdevices"

definition nodePtpDevices_Patch where
  "nodePtpDevices_Patch = typed_Patch nodeptpdevices"

definition NodePtpDevices ::
  "('e, 'c, 'r) codecs \<Rightarrow> ('e, 'c, 'r, 's) PtpV1Client option \<Rightarrow> string \<Rightarrow> ('c, 'r, 'e request_error, 's) resource_interface" where
  "NodePtpDevices cd pc namespace =
     (let c = newNodePtpDevices pc namespace in
      \<lparr>if_Create = nodePtpDevices_Create cd c, if_Update = nodePtpDevices_Update cd c, if_UpdateStatus = nodePtpDevices_UpdateStatus cd c,
       if_Delete = nodePtpDevices_Delete cd c, if_DeleteCollection = nodePtpDevices_DeleteCollection cd c, if_Get = nodePtpDevices_Get cd c,
       if_List = nodePtpDevices_List cd c, if_Watch = nodePtpDevices_Watch cd c, if_Patch = nodePtpDevices_Patch cd c\<rparr>)"

definition newPtpConfigs :: "('e, 'c, 'r, 's) PtpV1Client option \<Rightarrow> string \<Rightarrow> ('e, 'c, 'r, 's) typed_client" where
  "newPtpConfigs c namespace = \<lparr>tc_client = RESTClient c, tc_ns = namespace\<rparr>"

definition ptpConfigs_Get where
  "ptpConfigs_Get = typed_Get ptpconfigs"

definition ptpConfigs_List where
  "ptpConfigs_List = typed_List ptpconfigs"

definition ptpConfigs_Watch where
  "ptpConfigs_Watch = typed_Watch ptpconfigs"

definition ptpConfigs_Create where
  "ptpConfigs_Create = typed_Create ptpconfigs"

definition ptpConfigs_Update where
  "ptpConfigs_Update = typed_Update ptpconfigs"

definition ptpConfigs_UpdateStatus where
  "ptpConfigs_UpdateStatus = typed_UpdateStatus ptpconfigs"

definition ptpConfigs_Delete where
  "ptpConfigs_Delete = typed_Delete ptpconfigs"

definition ptpConfigs_DeleteCollection where
  "ptpConfigs_DeleteCollection = typed_DeleteCollection ptpconfigs"

definition ptpConfigs_Patch where
  "ptpConfigs_Patch = typed_Patch ptpconfigs"

definition PtpConfigs ::
  "('e, 'c, 'r) codecs \<Rightarrow> ('e, 'c, 'r, 's) PtpV1Client option \<Rightarrow> string \<Rightarrow> ('c, 'r, 'e request_error, 's) resource_interface" where
  "PtpConfigs cd pc namespace =
     (let c = newPtpConfigs pc namespace in
      \<lparr>if_Create = ptpConfigs_Create cd c, if_Update = ptpConfigs_Update cd c, if_UpdateStatus = ptpConfigs_UpdateStatus cd c,
       if_Delete = ptpConfigs_Delete cd c, if_DeleteCollection = ptpConfigs_DeleteCollection cd c, if_Get = ptpConfigs_Get cd c,
       if_List = ptpConfigs_List cd c, if_Watch = ptpConfigs_Watch cd c, if_Patch = ptpConfigs_Patch cd c\<rparr>)"

definition newPtpOperatorConfigs :: "('e, 'c, 'r, 's) PtpV1Client option \<Rightarrow> string \<Rightarrow> ('e, 'c, 'r, 's) typed_client" where
  "newPtpOperatorConfigs c namespace = \<lparr>tc_client = RESTClient c, tc_ns = namespace\<rparr>"

definition ptpOperatorConfigs_Get where
  "ptpOperatorConfigs_Get = typed_Get ptpoperatorconfigs"

definition ptpOperatorConfigs_List where
  "ptpOperatorConfigs_List = typed_List ptpoperatorconfigs"

definition ptpOperatorConfigs_Watch where
  "ptpOperatorConfigs_Watch = typed_Watch ptpoperatorconfigs"

definition ptpOperatorConfigs_Create where
  "ptpOperatorConfigs_Create = typed_Create ptpoperatorconfigs"

definition ptpOperatorConfigs_Update where
  "ptpOperatorConfigs_Update = typed_Update ptpoperatorconfigs"

definition ptpOperatorConfigs_UpdateStatus where
  "ptpOperatorConfigs_UpdateStatus = typed_UpdateStatus ptpoperatorconfigs"

definition ptpOperatorConfigs_Delete where
  "ptpOperatorConfigs_Delete = typed_Delete ptpoperatorconfigs"

definition ptpOperatorConfigs_DeleteCollection where
  "ptpOperatorConfigs_DeleteCollection = typed_DeleteCollection ptpoperatorconfigs"

definition ptpOperatorConfigs_Patch where
  "ptpOperatorConfigs_Patch = typed_Patch ptpoperatorconfigs"

definition PtpOperatorConfigs ::
  "('e, 'c, 'r) codecs \<Rightarrow> ('e, 'c, 'r, 's) PtpV1Client option \<Rightarrow> string \<Rightarrow> ('c, 'r, 'e request_error, 's) resource_interface" where
  "PtpOperatorConfigs cd pc namespace =
     (let c = newPtpOperatorConfigs pc namespace in
      \<lparr>if_Create = ptpOperatorConfigs_Create cd c, if_Update = ptpOperatorConfigs_Update cd c, if_UpdateStatus = ptpOperatorConfigs_UpdateStatus cd c,
       if_Delete = ptpOperatorConfigs_Delete cd c, if_DeleteCollection = ptpOperatorConfigs_DeleteCollection cd c, if_Get = ptpOperatorConfigs_Get cd c,
       if_List = ptpOperatorConfigs_List cd c, if_Watch = ptpOperatorConfigs_Watch cd c, if_Patch = ptpOperatorConfigs_Patch cd c\<rparr>)"

definition PtpV1Client_interface ::
  "('e, 'c, 'r) codecs \<Rightarrow> ('e, 'c, 'r, 's) PtpV1Client option \<Rightarrow> ('c, 'r, 'e request_error, 's) PtpV1Interface" where
  "PtpV1Client_interface cd pc =
     \<lparr>pi_NodePtpDevices = NodePtpDevices cd pc, pi_PtpConfigs = PtpConfigs cd pc,
      pi_PtpOperatorConfigs = PtpOperatorConfigs cd pc\<rparr>"

lemmas typed_client_defs =
  nodePtpDevices_Create_def nodePtpDevices_Update_def nodePtpDevices_UpdateStatus_def nodePtpDevices_Delete_def nodePtpDevices_DeleteCollection_def nodePtpDevices_Get_def nodePtpDevices_List_def nodePtpDevices_Watch_def nodePtpDevices_Patch_def
  ptpConfigs_Create_def ptpConfigs_Update_def ptpConfigs_UpdateStatus_def ptpConfigs_Delete_def ptpConfigs_DeleteCollection_def ptpConfigs_Get_def ptpConfigs_List_def ptpConfigs_Watch_def ptpConfigs_Patch_def
  ptpOperatorConfigs_Create_def ptpOperatorConfigs_Update_def ptpOperatorConfigs_UpdateStatus_def ptpOperatorConfigs_Delete_def ptpOperatorConfigs_DeleteCollection_def ptpOperatorConfigs_Get_def ptpOperatorConfigs_List_def ptpOperatorConfigs_Watch_def ptpOperatorConfigs_Patch_def

end
