(* ===== verification/Client_Config.thy ===== *)
theory Client_Config
  imports Typed_Client Complex_Main
begin

text \<open>
  How the generated clients are made from a \<open>rest.Config\<close>: \<open>ptp_client.go\<close>, \<open>clientset.go\<close> and the
  part of client-go that turns the configuration into a REST client. URLs, HTTP transports, rate limiters,
  serializers and the discovery client come from an environment.
\<close>

definition SchemeGroupVersion :: "string \<times> string" where
  "SchemeGroupVersion = (''ptp.openshift.io'', ''v1'')"

text \<open>\<open>cf_Other\<close> holds the settings of the transport; \<open>QPS\<close> is a number that is not NaN.\<close>

record ('n, 'l, 'x) Config =
  cf_Host :: string
  cf_APIPath :: string
  cf_GroupVersion :: "(string \<times> string) option"
  cf_AcceptContentTypes :: string
  cf_ContentType :: string
  cf_NegotiatedSerializer :: "'n option"
  cf_UserAgent :: string
  cf_QPS :: rat
  cf_Burst :: int
  cf_RateLimiter :: "'l option"
  cf_Other :: 'x

datatype 'e config_error =
    GroupVersionRequired
  | NegotiatedSerializerRequired
  | BurstRequired
  | ConfigFault 'e

text \<open>\<open>ev_HTTPClientFor\<close> gives the transport, used under the rate limiter, and the timeout of the HTTP client.\<close>

record ('e, 'c, 'r, 's, 'n, 'l, 'x, 'd) client_env =
  ev_ServerPath :: "('n, 'l, 'x) Config \<Rightarrow> 'e + string"
  ev_HTTPClientFor :: "('n, 'l, 'x) Config \<Rightarrow> 'e + ('l option \<Rightarrow> http_request \<Rightarrow> 's \<Rightarrow> ('e + 'r) \<times> 's) \<times> duration"
  ev_Encoder :: "'n \<Rightarrow> string \<times> string \<Rightarrow> string \<Rightarrow> 'c payload \<Rightarrow> 'e + string"
  ev_WithoutConversion :: 'n
  ev_UserAgent :: string
  ev_NewRateLimiter :: "rat \<Rightarrow> int \<Rightarrow> 'l"
  ev_Scrub :: "string \<Rightarrow> string"
  ev_Discovery :: "('n, 'l, 'x) Config \<Rightarrow> 'e + 'd"
  ev_NewDiscovery :: "('e, 'c payload, 'r, 's) rest_client option \<Rightarrow> 'd"
  ev_fold :: "string \<Rightarrow> string"

definition DefaultVersionedAPIPath :: "string \<Rightarrow> string \<times> string \<Rightarrow> string" where
  "DefaultVersionedAPIPath apiPath gv =
     (let p = Path_Join [''/'', apiPath] in
      if fst gv \<noteq> '''' then Path_Join [p, fst gv, snd gv] else Path_Join [p, snd gv])"

definition default_limiter :: "('e, 'c, 'r, 's, 'n, 'l, 'x, 'd) client_env \<Rightarrow> ('n, 'l, 'x) Config \<Rightarrow> 'l option" where
  "default_limiter env config =
     (case cf_RateLimiter config of
        Some l \<Rightarrow> Some l
      | None \<Rightarrow>
          (let qps = (if cf_QPS config = 0 then 5 else cf_QPS config);
               burst = (if cf_Burst config = 0 then 10 else cf_Burst config) in
           if 0 < qps then Some (ev_NewRateLimiter env qps burst) else None))"

definition RESTClientFor ::
  "('e, 'c, 'r, 's, 'n, 'l, 'x, 'd) client_env \<Rightarrow> ('n, 'l, 'x) Config \<Rightarrow> 'e config_error + ('e, 'c payload, 'r, 's) rest_client" where
  "RESTClientFor env config =
     (case cf_GroupVersion config of
        None \<Rightarrow> Inl GroupVersionRequired
      | Some gv \<Rightarrow>
          (case cf_NegotiatedSerializer config of
             None \<Rightarrow> Inl NegotiatedSerializerRequired
           | Some ser \<Rightarrow>
               (case ev_ServerPath env config of
                  Inl e \<Rightarrow> Inl (ConfigFault e)
                | Inr path \<Rightarrow>
                    (case ev_HTTPClientFor env config of
                       Inl e \<Rightarrow> Inl (ConfigFault e)
                     | Inr (send, timeout) \<Rightarrow>
                         (let contentType = ev_Scrub env (cf_ContentType config) in
                          Inr \<lparr>rc_basePath = (if HasSuffix path ''/'' then path else path @ ''/''),
                               rc_versionedAPIPath = DefaultVersionedAPIPath (cf_APIPath config) gv,
                               rc_AcceptContentTypes = ev_Scrub env (cf_AcceptContentTypes config),
                               rc_ContentType = contentType, rc_GroupVersion = gv, rc_Timeout = timeout,
                               rc_Encode = ev_Encoder env ser gv contentType,
                               rc_Send = send (default_limiter env config), rc_fold = ev_fold env\<rparr>)))))"

section \<open>The client of the API group\<close>

definition setConfigDefaults ::
  "('e, 'c, 'r, 's, 'n, 'l, 'x, 'd) client_env \<Rightarrow> ('n, 'l, 'x) Config \<Rightarrow> ('n, 'l, 'x) Config" where
  "setConfigDefaults env config =
     (let config1 = config\<lparr>cf_GroupVersion := Some SchemeGroupVersion, cf_APIPath := ''/apis'',
                           cf_NegotiatedSerializer := Some (ev_WithoutConversion env)\<rparr> in
      if cf_UserAgent config1 = '''' then config1\<lparr>cf_UserAgent := ev_UserAgent env\<rparr> else config1)"

definition ptpv1_NewForConfig ::
  "('e, 'c, 'r, 's, 'n, 'l, 'x, 'd) client_env \<Rightarrow> ('n, 'l, 'x) Config \<Rightarrow> 'e config_error + ('e, 'c, 'r, 's) PtpV1Client" where
  "ptpv1_NewForConfig env c =
     (case RESTClientFor env (setConfigDefaults env c) of
        Inl e \<Rightarrow> Inl e
      | Inr client \<Rightarrow> Inr \<lparr>pv_restClient = Some client\<rparr>)"

definition ptpv1_NewForConfigOrDie ::
  "('e, 'c, 'r, 's, 'n, 'l, 'x, 'd) client_env \<Rightarrow> ('n, 'l, 'x) Config \<Rightarrow> panic + ('e, 'c, 'r, 's) PtpV1Client" where
  "ptpv1_NewForConfigOrDie env c = (case ptpv1_NewForConfig env c of Inl e \<Rightarrow> Inl ExplicitPanic | Inr client \<Rightarrow> Inr client)"

definition ptpv1_New :: "('e, 'c payload, 'r, 's) rest_client option \<Rightarrow> ('e, 'c, 'r, 's) PtpV1Client" where
  "ptpv1_New c = \<lparr>pv_restClient = c\<rparr>"

section \<open>The clientset\<close>

record ('e, 'c, 'r, 's, 'd) Clientset =
  cs_DiscoveryClient :: 'd
  cs_ptpV1 :: "('e, 'c, 'r, 's) PtpV1Client"

text \<open>A method of the embedded or stored client through a nil clientset.\<close>

definition Clientset_PtpV1 :: "('e, 'c, 'r, 's, 'd) Clientset option \<Rightarrow> panic + ('e, 'c, 'r, 's) PtpV1Client" where
  "Clientset_PtpV1 c = (case c of None \<Rightarrow> Inl NilDeref | Some cs \<Rightarrow> Inr (cs_ptpV1 cs))"

definition Clientset_Discovery :: "('e, 'c, 'r, 's, 'd) Clientset option \<Rightarrow> 'd option" where
  "Clientset_Discovery c = (case c of None \<Rightarrow> None | Some cs \<Rightarrow> Some (cs_DiscoveryClient cs))"

definition versioned_NewForConfig ::
  "('e, 'c, 'r, 's, 'n, 'l, 'x, 'd) client_env \<Rightarrow> ('n, 'l, 'x) Config \<Rightarrow> 'e config_error + ('e, 'c, 'r, 's, 'd) Clientset" where
  "versioned_NewForConfig env c =
     (if cf_RateLimiter c = None \<and> 0 < cf_QPS c \<and> cf_Burst c \<le> 0 then Inl BurstRequired
      else
        (let copy = (if cf_RateLimiter c = None \<and> 0 < cf_QPS c
                     then c\<lparr>cf_RateLimiter := Some (ev_NewRateLimiter env (cf_QPS c) (cf_Burst c))\<rparr> else c) in
         case ptpv1_NewForConfig env copy of
           Inl e \<Rightarrow> Inl e
         | Inr ptpV1 \<Rightarrow>
             (case ev_Discovery env copy of
                Inl e \<Rightarrow> Inl (ConfigFault e)
              | Inr d \<Rightarrow> Inr \<lparr>cs_DiscoveryClient = d, cs_ptpV1 = ptpV1\<rparr>)))"

definition versioned_NewForConfigOrDie ::
  "('e, 'c, 'r, 's, 'n, 'l, 'x, 'd) client_env \<Rightarrow> ('n, 'l, 'x) Config \<Rightarrow> panic + ('e, 'c, 'r, 's, 'd) Clientset" where
  "versioned_NewForConfigOrDie env c =
     (case ptpv1_NewForConfigOrDie env c of
        Inl p \<Rightarrow> Inl p
      | Inr ptpV1 \<Rightarrow>
          (case ev_Discovery env c of
             Inl e \<Rightarrow> Inl ExplicitPanic
           | Inr d \<Rightarrow> Inr \<lparr>cs_DiscoveryClient = d, cs_ptpV1 = ptpV1\<rparr>))"

definition versioned_New ::
  "('e, 'c, 'r, 's, 'n, 'l, 'x, 'd) client_env \<Rightarrow> ('e, 'c payload, 'r, 's) rest_client option \<Rightarrow> ('e, 'c, 'r, 's, 'd) Clientset" where
  "versioned_New env c = \<lparr>cs_DiscoveryClient = ev_NewDiscovery env c, cs_ptpV1 = ptpv1_New c\<rparr>"

section \<open>What the clients address\<close>

text \<open>The segments of the server's own path.\<close>

definition server_segs :: "('e, 'b, 'r, 's) rest_client \<Rightarrow> string list" where
  "server_segs c = clean_segs True [] (segs_of [''/'', rc_basePath c])"

lemma ptp_versioned_path: "DefaultVersionedAPIPath ''/apis'' SchemeGroupVersion = ''/apis/ptp.openshift.io/v1''"
  by code_simp

lemma ptp_version_segs: "Split ''/apis/ptp.openshift.io/v1'' ''/'' = ['''', ''apis'', ''ptp.openshift.io'', ''v1'']"
  by code_simp

text \<open>Whatever the configuration says, a client made from it addresses the group and version of the API.\<close>

lemma NewForConfig_prefix:
  assumes "ptpv1_NewForConfig env c = Inr pc"
  shows "\<exists>rc. pc = \<lparr>pv_restClient = Some rc\<rparr> \<and> rc_GroupVersion rc = SchemeGroupVersion
    \<and> prefix_segs rc = server_segs rc @ [''apis'', ''ptp.openshift.io'', ''v1'']"
proof -
  from assms obtain rc where rc: "RESTClientFor env (setConfigDefaults env c) = Inr rc" "pc = \<lparr>pv_restClient = Some rc\<rparr>"
    by (auto simp: ptpv1_NewForConfig_def split: sum.splits)
  have cfg: "cf_GroupVersion (setConfigDefaults env c) = Some SchemeGroupVersion"
    "cf_APIPath (setConfigDefaults env c) = ''/apis''"
    by (simp_all add: setConfigDefaults_def Let_def)
  from rc(1) have "rc_versionedAPIPath rc = ''/apis/ptp.openshift.io/v1''" "rc_GroupVersion rc = SchemeGroupVersion"
    by (auto simp: RESTClientFor_def cfg ptp_versioned_path Let_def split: option.splits sum.splits)
  moreover have "clean_segs True acc ['''', ''apis'', ''ptp.openshift.io'', ''v1''] = rev acc @ [''apis'', ''ptp.openshift.io'', ''v1'']" for acc
    by simp
  ultimately show ?thesis using rc(2) by (simp add: prefix_segs_def server_segs_def ptp_version_segs clean_segs_append)
qed

lemma NewForConfig_transport:
  assumes "ptpv1_NewForConfig env c = Inr pc" "pv_restClient pc = Some rc"
  obtains send d limiter where "ev_HTTPClientFor env (setConfigDefaults env c) = Inr (send, d)" "rc_Send rc = send limiter"
  using assms by (auto simp: ptpv1_NewForConfig_def RESTClientFor_def Let_def split: option.splits sum.splits prod.splits)

lemma server_segs_plain: "list_all plain (server_segs c)"
proof -
  have "CHR ''/'' \<notin> set s" if "s \<in> set (segs_of [''/'', rc_basePath c])" for s
    using that Split_parts by (auto simp: segs_of_def)
  then show ?thesis unfolding server_segs_def by (intro rooted_clean_segs_plain) auto
qed

section \<open>The two constructors\<close>

text \<open>Without a rate limit in the configuration \<open>NewForConfigOrDie\<close> gives what \<open>NewForConfig\<close> gives and panics where it
  fails. With a rate and no burst \<open>NewForConfig\<close> refuses the configuration, and \<open>NewForConfigOrDie\<close> does not look.\<close>

lemma or_die_without_rate:
  "cf_RateLimiter c \<noteq> None \<or> cf_QPS c \<le> 0 \<Longrightarrow>
   versioned_NewForConfigOrDie env c = (case versioned_NewForConfig env c of Inl e \<Rightarrow> Inl ExplicitPanic | Inr cs \<Rightarrow> Inr cs)"
  by (auto simp: versioned_NewForConfigOrDie_def versioned_NewForConfig_def ptpv1_NewForConfigOrDie_def split: sum.splits)

lemma or_die_without_burst:
  assumes "cf_RateLimiter c = None" "0 < cf_QPS c" "cf_Burst c \<le> 0" "ptpv1_NewForConfig env c = Inr pc" "ev_Discovery env c = Inr d"
  shows "versioned_NewForConfig env c = Inl BurstRequired"
    and "versioned_NewForConfigOrDie env c = Inr \<lparr>cs_DiscoveryClient = d, cs_ptpV1 = pc\<rparr>"
  using assms by (simp_all add: versioned_NewForConfigOrDie_def versioned_NewForConfig_def ptpv1_NewForConfigOrDie_def)

section \<open>Timeouts\<close>

text \<open>The timeout of a list is the number of seconds asked for as long as it fits into 64 bits of nanoseconds.\<close>

lemma list_timeout_exact:
  assumes "lo_TimeoutSeconds opts = Some n" "\<bar>sint n\<bar> \<le> 9223372036"
  shows "sint (list_timeout opts) = sint n * 1000000000"
proof -
  have s: "sint Second = 1000000000" by (simp add: Second_def)
  have "sint (n * Second) = signed_take_bit 63 (sint n * sint Second)" by (simp add: sint_word_ariths)
  also have "\<dots> = sint n * 1000000000" unfolding s using assms(2) by (intro signed_take_bit_int_eq_self) auto
  finally show ?thesis using assms(1) by (simp add: list_timeout_def)
qed

end
