(* ===== verification/Fake_Client.thy ===== *)
theory Fake_Client
  imports Typed_Client
begin

text \<open>
  The generated fake client (\<open>pkg/client/clientset/versioned/fake\<close> and \<open>typed/ptp/v1/fake\<close>) with
  the recorder it is built on (client-go \<open>testing\<close>): every call becomes an action, which is recorded and offered to a
  chain of reactors. Selectors and the object tracker are arguments.
\<close>

section \<open>Actions\<close>

type_synonym GroupVersionResource = "string \<times> string \<times> string"

definition ptp_resource :: "resource_type \<Rightarrow> GroupVersionResource" where
  "ptp_resource rt = (''ptp.openshift.io'', ''v1'', rt_Resource rt)"

datatype ('c, 'l, 'f) action_data =
    GetData string GetOptions
  | ListData string 'l 'f ListOptions
  | WatchData 'l 'f string ListOptions
  | CreateData string "'c api_object option" CreateOptions
  | UpdateData "'c api_object option" UpdateOptions
  | DeleteData string DeleteOptions
  | DeleteCollectionData 'l 'f DeleteOptions ListOptions
  | PatchData string string string PatchOptions

record ('c, 'l, 'f) Action =
  ac_Namespace :: string
  ac_Verb :: string
  ac_Resource :: GroupVersionResource
  ac_Subresource :: string
  ac_Data :: "('c, 'l, 'f) action_data"

text \<open>Label and field selectors.\<close>

record ('l, 'f) selectors =
  se_ParseLabels :: "string \<Rightarrow> 'l option"
  se_ParseFields :: "string \<Rightarrow> 'f option"
  se_Matches :: "'l \<Rightarrow> string gmap \<Rightarrow> bool"
  se_LabelString :: "'l \<Rightarrow> string"
  se_FieldString :: "'f \<Rightarrow> string"

definition zero_GetOptions :: GetOptions where
  "zero_GetOptions = \<lparr>go_ResourceVersion = ''''\<rparr>"

definition zero_CreateOptions :: CreateOptions where
  "zero_CreateOptions = \<lparr>co_DryRun = [], co_FieldManager = '''', co_FieldValidation = ''''\<rparr>"

definition zero_UpdateOptions :: UpdateOptions where
  "zero_UpdateOptions = \<lparr>uo_DryRun = [], uo_FieldManager = '''', uo_FieldValidation = ''''\<rparr>"

definition zero_PatchOptions :: PatchOptions where
  "zero_PatchOptions = \<lparr>po_DryRun = [], po_Force = None, po_FieldManager = '''', po_FieldValidation = ''''\<rparr>"

definition zero_DeleteOptions :: DeleteOptions where
  "zero_DeleteOptions =
     \<lparr>do_GracePeriodSeconds = None, do_Preconditions = None, do_OrphanDependents = None, do_PropagationPolicy = None,
      do_DryRun = [], do_IgnoreStoreReadError = None\<rparr>"

definition zero_ListOptions :: ListOptions where
  "zero_ListOptions =
     \<lparr>lo_LabelSelector = '''', lo_FieldSelector = '''', lo_Watch = False, lo_AllowWatchBookmarks = False,
      lo_ResourceVersion = '''', lo_ResourceVersionMatch = '''', lo_TimeoutSeconds = None, lo_Limit = 0, lo_Continue = '''',
      lo_SendInitialEvents = None, lo_ShardSelector = ''''\<rparr>"

text \<open>A selector that does not parse is a panic.\<close>

definition ExtractFromListOptions :: "('l, 'f) selectors \<Rightarrow> ListOptions \<Rightarrow> panic + 'l \<times> 'f \<times> string" where
  "ExtractFromListOptions sl opts =
     (case se_ParseLabels sl (lo_LabelSelector opts) of
        None \<Rightarrow> Inl ExplicitPanic
      | Some labelSelector \<Rightarrow>
          (case se_ParseFields sl (lo_FieldSelector opts) of
             None \<Rightarrow> Inl ExplicitPanic
           | Some fieldSelector \<Rightarrow> Inr (labelSelector, fieldSelector, lo_ResourceVersion opts)))"

definition plain_action :: "string \<Rightarrow> GroupVersionResource \<Rightarrow> string \<Rightarrow> string \<Rightarrow> ('c, 'l, 'f) action_data \<Rightarrow> ('c, 'l, 'f) Action" where
  "plain_action verb resource namespace subresource data =
     \<lparr>ac_Namespace = namespace, ac_Verb = verb, ac_Resource = resource, ac_Subresource = subresource, ac_Data = data\<rparr>"

definition NewGetAction :: "GroupVersionResource \<Rightarrow> string \<Rightarrow> string \<Rightarrow> ('c, 'l, 'f) Action" where
  "NewGetAction resource namespace name = plain_action ''get'' resource namespace '''' (GetData name zero_GetOptions)"

definition NewListAction ::
  "('l, 'f) selectors \<Rightarrow> GroupVersionResource \<Rightarrow> string \<Rightarrow> string \<Rightarrow> ListOptions \<Rightarrow> panic + ('c, 'l, 'f) Action" where
  "NewListAction sl resource kind namespace opts =
     map_sum (\<lambda>p. p) (\<lambda>(l, f, rv). plain_action ''list'' resource namespace ''''
       (ListData kind l f
         (zero_ListOptions\<lparr>lo_LabelSelector := se_LabelString sl l, lo_FieldSelector := se_FieldString sl f\<rparr>)))
       (ExtractFromListOptions sl opts)"

definition NewWatchAction ::
  "('l, 'f) selectors \<Rightarrow> GroupVersionResource \<Rightarrow> string \<Rightarrow> ListOptions \<Rightarrow> panic + ('c, 'l, 'f) Action" where
  "NewWatchAction sl resource namespace opts =
     map_sum (\<lambda>p. p) (\<lambda>(l, f, rv). plain_action ''watch'' resource namespace '''' (WatchData l f rv opts))
       (ExtractFromListOptions sl opts)"

definition NewCreateAction :: "GroupVersionResource \<Rightarrow> string \<Rightarrow> 'c api_object option \<Rightarrow> ('c, 'l, 'f) Action" where
  "NewCreateAction resource namespace object =
     plain_action ''create'' resource namespace '''' (CreateData '''' object zero_CreateOptions)"

definition NewUpdateAction :: "GroupVersionResource \<Rightarrow> string \<Rightarrow> 'c api_object option \<Rightarrow> ('c, 'l, 'f) Action" where
  "NewUpdateAction resource namespace object =
     plain_action ''update'' resource namespace '''' (UpdateData object zero_UpdateOptions)"

definition NewUpdateSubresourceAction ::
  "GroupVersionResource \<Rightarrow> string \<Rightarrow> string \<Rightarrow> 'c api_object option \<Rightarrow> ('c, 'l, 'f) Action" where
  "NewUpdateSubresourceAction resource subresource namespace object =
     plain_action ''update'' resource namespace subresource (UpdateData object zero_UpdateOptions)"

definition NewDeleteAction :: "GroupVersionResource \<Rightarrow> string \<Rightarrow> string \<Rightarrow> ('c, 'l, 'f) Action" where
  "NewDeleteAction resource namespace name = plain_action ''delete'' resource namespace '''' (DeleteData name zero_DeleteOptions)"

definition NewDeleteCollectionAction ::
  "('l, 'f) selectors \<Rightarrow> GroupVersionResource \<Rightarrow> string \<Rightarrow> ListOptions \<Rightarrow> panic + ('c, 'l, 'f) Action" where
  "NewDeleteCollectionAction sl resource namespace listOpts =
     map_sum (\<lambda>p. p) (\<lambda>(l, f, rv). plain_action ''delete-collection'' resource namespace ''''
       (DeleteCollectionData l f zero_DeleteOptions listOpts))
       (ExtractFromListOptions sl listOpts)"

definition NewPatchSubresourceAction ::
  "GroupVersionResource \<Rightarrow> string \<Rightarrow> string \<Rightarrow> string \<Rightarrow> string \<Rightarrow> string list \<Rightarrow> ('c, 'l, 'f) Action" where
  "NewPatchSubresourceAction resource namespace name pt patch subresources =
     plain_action ''patch'' resource namespace (Path_Join subresources) (PatchData name pt patch zero_PatchOptions)"

section \<open>The recorder\<close>

text \<open>A runtime object: a single object or a list.\<close>

datatype 'c robj = SingleObj "'c api_object" | ListObj "'c api_list"

record ('a, 'x, 'e, 't) reactor =
  re_Verb :: string
  re_Resource :: string
  re_Reaction :: "'a \<Rightarrow> 't \<Rightarrow> (bool \<times> 'x option \<times> 'e option) \<times> 't"

text \<open>\<open>fk_tracker\<close> is the state that the reactors share.\<close>

record ('c, 'l, 'f, 'w, 'e, 't) Fake =
  fk_actions :: "('c, 'l, 'f) Action list"
  fk_ReactionChain :: "(('c, 'l, 'f) Action, 'c robj, 'e, 't) reactor list"
  fk_WatchReactionChain :: "(('c, 'l, 'f) Action, 'w, 'e, 't) reactor list"
  fk_tracker :: 't

definition resourceCovers :: "string \<Rightarrow> ('c, 'l, 'f) Action \<Rightarrow> bool" where
  "resourceCovers resource action \<longleftrightarrow>
     resource = ''*'' \<or> resource = snd (snd (ac_Resource action))
     \<or> (case find_sub resource ''/'' of
          None \<Rightarrow> False
        | Some i \<Rightarrow> take i resource = snd (snd (ac_Resource action)) \<and> drop (i + 1) resource = ac_Subresource action)"

definition Handles :: "(('c, 'l, 'f) Action, 'x, 'e, 't) reactor \<Rightarrow> ('c, 'l, 'f) Action \<Rightarrow> bool" where
  "Handles r action \<longleftrightarrow> (re_Verb r = ''*'' \<or> re_Verb r = ac_Verb action) \<and> resourceCovers (re_Resource r) action"

definition WatchHandles :: "(('c, 'l, 'f) Action, 'x, 'e, 't) reactor \<Rightarrow> ('c, 'l, 'f) Action \<Rightarrow> bool" where
  "WatchHandles r action = resourceCovers (re_Resource r) action"

text \<open>The first reactor that says it has handled the action decides.\<close>

fun react ::
  "(('a, 'x, 'e, 't) reactor \<Rightarrow> 'a \<Rightarrow> bool) \<Rightarrow> ('a, 'x, 'e, 't) reactor list \<Rightarrow> 'a \<Rightarrow> 't
    \<Rightarrow> ('x option \<times> 'e option) option \<times> 't" where
  "react handles [] action t = (None, t)"
| "react handles (r # rs) action t =
     (if \<not> handles r action then react handles rs action t
      else case re_Reaction r action t of
             ((handled, ret, e), t1) \<Rightarrow> if handled then (Some (ret, e), t1) else react handles rs action t1)"

definition Invokes ::
  "('c, 'l, 'f) Action \<Rightarrow> 'c robj \<Rightarrow> ('c, 'l, 'f, 'w, 'e, 't) Fake
    \<Rightarrow> ('c robj option \<times> 'e option) \<times> ('c, 'l, 'f, 'w, 'e, 't) Fake" where
  "Invokes action defaultReturnObj c =
     (case react Handles (fk_ReactionChain c) action (fk_tracker c) of
        (res, t) \<Rightarrow>
          (case res of None \<Rightarrow> (Some defaultReturnObj, None) | Some re \<Rightarrow> re,
           c\<lparr>fk_actions := fk_actions c @ [action], fk_tracker := t\<rparr>))"

text \<open>\<open>unhandled\<close> is the error for a watch that no reactor handles.\<close>

definition InvokesWatch ::
  "'e \<Rightarrow> ('c, 'l, 'f) Action \<Rightarrow> ('c, 'l, 'f, 'w, 'e, 't) Fake \<Rightarrow> ('w option \<times> 'e option) \<times> ('c, 'l, 'f, 'w, 'e, 't) Fake" where
  "InvokesWatch unhandled action c =
     (case react WatchHandles (fk_WatchReactionChain c) action (fk_tracker c) of
        (res, t) \<Rightarrow>
          (case res of None \<Rightarrow> (None, Some unhandled) | Some re \<Rightarrow> re,
           c\<lparr>fk_actions := fk_actions c @ [action], fk_tracker := t\<rparr>))"

section \<open>The methods of a fake client\<close>

text \<open>The type assertions \<open>obj.(*T)\<close> and \<open>obj.(*TList)\<close>.\<close>

definition as_object :: "resource_type \<Rightarrow> 'c robj \<Rightarrow> panic + 'c api_object" where
  "as_object rt x = (case x of SingleObj o1 \<Rightarrow> if ao_Kind o1 = rt_Kind rt then Inr o1 else Inl TypeAssertion | ListObj l \<Rightarrow> Inl TypeAssertion)"

definition as_list :: "resource_type \<Rightarrow> 'c robj \<Rightarrow> panic + 'c api_list" where
  "as_list rt x = (case x of SingleObj o1 \<Rightarrow> Inl TypeAssertion | ListObj l \<Rightarrow> if al_Kind l = rt_Kind rt @ ''List'' then Inr l else Inl TypeAssertion)"

definition object_result :: "resource_type \<Rightarrow> ('c robj option \<times> 'e option) \<times> 's \<Rightarrow> ('c api_object option \<times> 'e option, 's) outcome" where
  "object_result rt res =
     (case res of ((obj, e), c) \<Rightarrow>
        (case obj of
           None \<Rightarrow> Inr ((None, e), c)
         | Some x \<Rightarrow> (case as_object rt x of Inl p \<Rightarrow> Inl p | Inr o1 \<Rightarrow> Inr ((Some o1, e), c))))"

definition fake_Get where
  "fake_Get rt zero sl ns name options c =
     object_result rt (Invokes (NewGetAction (ptp_resource rt) ns name) (SingleObj (zero_object zero rt)) c)"

definition fake_List where
  "fake_List rt zero sl ns opts c =
     (case NewListAction sl (ptp_resource rt) (rt_Kind rt) ns opts of
        Inl p \<Rightarrow> Inl p
      | Inr action \<Rightarrow>
          (case Invokes action (ListObj (zero_list rt)) c of
             ((obj, e), c1) \<Rightarrow>
               (case obj of
                  None \<Rightarrow> Inr ((None, e), c1)
                | Some x \<Rightarrow>
                    (case ExtractFromListOptions sl opts of
                       Inl p \<Rightarrow> Inl p
                     | Inr (label, f, rv) \<Rightarrow>
                         (case as_list rt x of
                            Inl p \<Rightarrow> Inl p
                          | Inr l \<Rightarrow>
                              Inr ((Some \<lparr>al_Kind = rt_Kind rt @ ''List'', al_ListMeta = al_ListMeta l,
                                          al_Items = filter (\<lambda>item. se_Matches sl label (ao_Labels item)) (al_Items l)\<rparr>, e), c1))))))"

definition fake_Watch where
  "fake_Watch unhandled rt zero sl ns opts c =
     (case NewWatchAction sl (ptp_resource rt) ns opts of
        Inl p \<Rightarrow> Inl p
      | Inr action \<Rightarrow> Inr (InvokesWatch unhandled action c))"

definition fake_Create where
  "fake_Create rt zero sl ns obj opts c =
     object_result rt (Invokes (NewCreateAction (ptp_resource rt) ns obj) (SingleObj (zero_object zero rt)) c)"

definition fake_Update where
  "fake_Update rt zero sl ns obj opts c =
     object_result rt (Invokes (NewUpdateAction (ptp_resource rt) ns obj) (SingleObj (zero_object zero rt)) c)"

definition fake_UpdateStatus where
  "fake_UpdateStatus rt zero sl ns obj opts c =
     object_result rt (Invokes (NewUpdateSubresourceAction (ptp_resource rt) ''status'' ns obj) (SingleObj (zero_object zero rt)) c)"

definition fake_Delete where
  "fake_Delete rt zero sl ns name opts c =
     (case Invokes (NewDeleteAction (ptp_resource rt) ns name) (SingleObj (zero_object zero rt)) c of
        ((obj, e), c1) \<Rightarrow> Inr (e, c1))"

definition fake_DeleteCollection where
  "fake_DeleteCollection rt zero sl ns opts listOpts c =
     (case NewDeleteCollectionAction sl (ptp_resource rt) ns listOpts of
        Inl p \<Rightarrow> Inl p
      | Inr action \<Rightarrow> (case Invokes action (ListObj (zero_list rt)) c of ((obj, e), c1) \<Rightarrow> Inr (e, c1)))"

definition fake_Patch where
  "fake_Patch rt zero sl ns name pt data opts subresources c =
     object_result rt
       (Invokes (NewPatchSubresourceAction (ptp_resource rt) ns name pt data subresources) (SingleObj (zero_object zero rt)) c)"

section \<open>The three fake clients\<close>

definition FakeNodePtpDevices_Get where
  "FakeNodePtpDevices_Get = fake_Get nodeptpdevices"

definition FakeNodePtpDevices_List where
  "FakeNodePtpDevices_List = fake_List nodeptpdevices"

definition FakeNodePtpDevices_Watch where
  "FakeNodePtpDevices_Watch unhandled = fake_Watch unhandled nodeptpdevices"

definition FakeNodePtpDevices_Create where
  "FakeNodePtpDevices_Create = fake_Create nodeptpdevices"

definition FakeNodePtpDevices_Update where
  "FakeNodePtpDevices_Update = fake_Update nodeptpdevices"

definition FakeNodePtpDevices_UpdateStatus where
  "FakeNodePtpDevices_UpdateStatus = fake_UpdateStatus nodeptpdevices"

definition FakeNodePtpDevices_Delete where
  "FakeNodePtpDevices_Delete = fake_Delete nodeptpdevices"

definition FakeNodePtpDevices_DeleteCollection where
  "FakeNodePtpDevices_DeleteCollection = fake_DeleteCollection nodeptpdevices"

definition FakeNodePtpDevices_Patch where
  "FakeNodePtpDevices_Patch = fake_Patch nodeptpdevices"

definition FakeNodePtpDevices ::
  "'e \<Rightarrow> (string \<Rightarrow> 'c) \<Rightarrow> ('l, 'f) selectors \<Rightarrow> string \<Rightarrow> ('c, 'w, 'e, ('c, 'l, 'f, 'w, 'e, 't) Fake) resource_interface" where
  "FakeNodePtpDevices unhandled zero sl ns =
     \<lparr>if_Create = FakeNodePtpDevices_Create zero sl ns, if_Update = FakeNodePtpDevices_Update zero sl ns,
      if_UpdateStatus = FakeNodePtpDevices_UpdateStatus zero sl ns, if_Delete = FakeNodePtpDevices_Delete zero sl ns,
      if_DeleteCollection = FakeNodePtpDevices_DeleteCollection zero sl ns, if_Get = FakeNodePtpDevices_Get zero sl ns,
      if_List = FakeNodePtpDevices_List zero sl ns, if_Watch = FakeNodePtpDevices_Watch unhandled zero sl ns,
      if_Patch = FakeNodePtpDevices_Patch zero sl ns\<rparr>"

definition FakePtpConfigs_Get where
  "FakePtpConfigs_Get = fake_Get ptpconfigs"

definition FakePtpConfigs_List where
  "FakePtpConfigs_List = fake_List ptpconfigs"

definition FakePtpConfigs_Watch where
  "FakePtpConfigs_Watch unhandled = fake_Watch unhandled ptpconfigs"

definition FakePtpConfigs_Create where
  "FakePtpConfigs_Create = fake_Create ptpconfigs"

definition FakePtpConfigs_Update where
  "FakePtpConfigs_Update = fake_Update ptpconfigs"

definition FakePtpConfigs_UpdateStatus where
  "FakePtpConfigs_UpdateStatus = fake_UpdateStatus ptpconfigs"

definition FakePtpConfigs_Delete where
  "FakePtpConfigs_Delete = fake_Delete ptpconfigs"

definition FakePtpConfigs_DeleteCollection where
  "FakePtpConfigs_DeleteCollection = fake_DeleteCollection ptpconfigs"

definition FakePtpConfigs_Patch where
  "FakePtpConfigs_Patch = fake_Patch ptpconfigs"

definition FakePtpConfigs ::
  "'e \<Rightarrow> (string \<Rightarrow> 'c) \<Rightarrow> ('l, 'f) selectors \<Rightarrow> string \<Rightarrow> ('c, 'w, 'e, ('c, 'l, 'f, 'w, 'e, 't) Fake) resource_interface" where
  "FakePtpConfigs unhandled zero sl ns =
     \<lparr>if_Create = FakePtpConfigs_Create zero sl ns, if_Update = FakePtpConfigs_Update zero sl ns,
      if_UpdateStatus = FakePtpConfigs_UpdateStatus zero sl ns, if_Delete = FakePtpConfigs_Delete zero sl ns,
      if_DeleteCollection = FakePtpConfigs_DeleteCollection zero sl ns, if_Get = FakePtpConfigs_Get zero sl ns,
      if_List = FakePtpConfigs_List zero sl ns, if_Watch = FakePtpConfigs_Watch unhandled zero sl ns,
      if_Patch = FakePtpConfigs_Patch zero sl ns\<rparr>"

definition FakePtpOperatorConfigs_Get where
  "FakePtpOperatorConfigs_Get = fake_Get ptpoperatorconfigs"

definition FakePtpOperatorConfigs_List where
  "FakePtpOperatorConfigs_List = fake_List ptpoperatorconfigs"

definition FakePtpOperatorConfigs_Watch where
  "FakePtpOperatorConfigs_Watch unhandled = fake_Watch unhandled ptpoperatorconfigs"

definition FakePtpOperatorConfigs_Create where
  "FakePtpOperatorConfigs_Create = fake_Create ptpoperatorconfigs"

definition FakePtpOperatorConfigs_Update where
  "FakePtpOperatorConfigs_Update = fake_Update ptpoperatorconfigs"

definition FakePtpOperatorConfigs_UpdateStatus where
  "FakePtpOperatorConfigs_UpdateStatus = fake_UpdateStatus ptpoperatorconfigs"

definition FakePtpOperatorConfigs_Delete where
  "FakePtpOperatorConfigs_Delete = fake_Delete ptpoperatorconfigs"

definition FakePtpOperatorConfigs_DeleteCollection where
  "FakePtpOperatorConfigs_DeleteCollection = fake_DeleteCollection ptpoperatorconfigs"

definition FakePtpOperatorConfigs_Patch where
  "FakePtpOperatorConfigs_Patch = fake_Patch ptpoperatorconfigs"

definition FakePtpOperatorConfigs ::
  "'e \<Rightarrow> (string \<Rightarrow> 'c) \<Rightarrow> ('l, 'f) selectors \<Rightarrow> string \<Rightarrow> ('c, 'w, 'e, ('c, 'l, 'f, 'w, 'e, 't) Fake) resource_interface" where
  "FakePtpOperatorConfigs unhandled zero sl ns =
     \<lparr>if_Create = FakePtpOperatorConfigs_Create zero sl ns, if_Update = FakePtpOperatorConfigs_Update zero sl ns,
      if_UpdateStatus = FakePtpOperatorConfigs_UpdateStatus zero sl ns, if_Delete = FakePtpOperatorConfigs_Delete zero sl ns,
      if_DeleteCollection = FakePtpOperatorConfigs_DeleteCollection zero sl ns, if_Get = FakePtpOperatorConfigs_Get zero sl ns,
      if_List = FakePtpOperatorConfigs_List zero sl ns, if_Watch = FakePtpOperatorConfigs_Watch unhandled zero sl ns,
      if_Patch = FakePtpOperatorConfigs_Patch zero sl ns\<rparr>"

definition FakePtpV1 ::
  "'e \<Rightarrow> (string \<Rightarrow> 'c) \<Rightarrow> ('l, 'f) selectors \<Rightarrow> ('c, 'w, 'e, ('c, 'l, 'f, 'w, 'e, 't) Fake) PtpV1Interface" where
  "FakePtpV1 unhandled zero sl =
     \<lparr>pi_NodePtpDevices = FakeNodePtpDevices unhandled zero sl, pi_PtpConfigs = FakePtpConfigs unhandled zero sl,
      pi_PtpOperatorConfigs = FakePtpOperatorConfigs unhandled zero sl\<rparr>"

lemmas fake_client_defs =
  FakeNodePtpDevices_Create_def FakeNodePtpDevices_Update_def FakeNodePtpDevices_UpdateStatus_def FakeNodePtpDevices_Delete_def FakeNodePtpDevices_DeleteCollection_def FakeNodePtpDevices_Get_def FakeNodePtpDevices_List_def FakeNodePtpDevices_Watch_def FakeNodePtpDevices_Patch_def
  FakePtpConfigs_Create_def FakePtpConfigs_Update_def FakePtpConfigs_UpdateStatus_def FakePtpConfigs_Delete_def FakePtpConfigs_DeleteCollection_def FakePtpConfigs_Get_def FakePtpConfigs_List_def FakePtpConfigs_Watch_def FakePtpConfigs_Patch_def
  FakePtpOperatorConfigs_Create_def FakePtpOperatorConfigs_Update_def FakePtpOperatorConfigs_UpdateStatus_def FakePtpOperatorConfigs_Delete_def FakePtpOperatorConfigs_DeleteCollection_def FakePtpOperatorConfigs_Get_def FakePtpOperatorConfigs_List_def FakePtpOperatorConfigs_Watch_def FakePtpOperatorConfigs_Patch_def

section \<open>The simple clientset\<close>

text \<open>The object tracker: adding an object, opening a watch, and the operation that an action asks for.\<close>

record ('c, 'l, 'f, 'w, 'e, 't) tracker =
  tr_Add :: "'c robj \<Rightarrow> 't \<Rightarrow> 'e option \<times> 't"
  tr_Watch :: "GroupVersionResource \<Rightarrow> string \<Rightarrow> 't \<Rightarrow> ('e + 'w) \<times> 't"
  tr_React :: "('c, 'l, 'f) Action \<Rightarrow> 't \<Rightarrow> ('c robj option \<times> 'e option) \<times> 't"
  tr_NotImplemented :: 'e

text \<open>Watching and deleting a collection are not among the reactions.\<close>

definition ObjectReaction ::
  "('c, 'l, 'f, 'w, 'e, 't) tracker \<Rightarrow> ('c, 'l, 'f) Action \<Rightarrow> 't \<Rightarrow> (bool \<times> 'c robj option \<times> 'e option) \<times> 't" where
  "ObjectReaction tr action t =
     (if (case ac_Data action of WatchData _ _ _ _ \<Rightarrow> True | DeleteCollectionData _ _ _ _ \<Rightarrow> True | _ \<Rightarrow> False)
      then ((False, None, Some (tr_NotImplemented tr)), t)
      else case tr_React tr action t of ((obj, e), t1) \<Rightarrow> ((True, obj, e), t1))"

definition watch_reaction ::
  "('c, 'l, 'f, 'w, 'e, 't) tracker \<Rightarrow> ('c, 'l, 'f) Action \<Rightarrow> 't \<Rightarrow> (bool \<times> 'w option \<times> 'e option) \<times> 't" where
  "watch_reaction tr action t =
     (case tr_Watch tr (ac_Resource action) (ac_Namespace action) t of
        (Inl e, t1) \<Rightarrow> ((False, None, Some e), t1)
      | (Inr w, t1) \<Rightarrow> ((True, Some w, None), t1))"

fun add_objects :: "('c, 'l, 'f, 'w, 'e, 't) tracker \<Rightarrow> 'c robj list \<Rightarrow> 't \<Rightarrow> panic + 't" where
  "add_objects tr [] t = Inr t"
| "add_objects tr (obj # objs) t =
     (case tr_Add tr obj t of (Some e, t1) \<Rightarrow> Inl ExplicitPanic | (None, t1) \<Rightarrow> add_objects tr objs t1)"

definition NewSimpleClientset ::
  "('c, 'l, 'f, 'w, 'e, 't) tracker \<Rightarrow> 't \<Rightarrow> 'c robj list \<Rightarrow> panic + ('c, 'l, 'f, 'w, 'e, 't) Fake" where
  "NewSimpleClientset tr t0 objects =
     map_sum (\<lambda>p. p) (\<lambda>t.
       \<lparr>fk_actions = [],
        fk_ReactionChain = [\<lparr>re_Verb = ''*'', re_Resource = ''*'', re_Reaction = ObjectReaction tr\<rparr>],
        fk_WatchReactionChain = [\<lparr>re_Verb = ''*'', re_Resource = ''*'', re_Reaction = watch_reaction tr\<rparr>],
        fk_tracker = t\<rparr>)
       (add_objects tr objects t0)"

text \<open>Deleting a collection on a simple clientset reports success and leaves every object in place.\<close>

lemma simple_DeleteCollection:
  assumes "NewSimpleClientset tr t0 objects = Inr c" "ExtractFromListOptions sl listOpts = Inr sel"
  shows "\<exists>c1. fake_DeleteCollection rt zero sl ns opts listOpts c = Inr (None, c1) \<and> fk_tracker c1 = fk_tracker c"
proof -
  obtain l f rv where sel: "sel = (l, f, rv)" by (cases sel)
  from assms(1) have "fk_ReactionChain c = [\<lparr>re_Verb = ''*'', re_Resource = ''*'', re_Reaction = ObjectReaction tr\<rparr>]"
    by (auto simp: NewSimpleClientset_def map_sum_def split: sum.splits)
  then show ?thesis using assms(2)
    by (simp add: sel fake_DeleteCollection_def NewDeleteCollectionAction_def plain_action_def Invokes_def Handles_def
        resourceCovers_def ObjectReaction_def)
qed

end
