(* ===== verification/Request_Info.thy ===== *)
theory Request_Info
  imports Rest_Client
begin

text \<open>
  How an API server reads a request (the vendored \<open>k8s.io/apiserver/pkg/endpoints/request/requestinfo.go\<close>): verb, group,
  version, namespace, resource, name and subresource, from the method, the path and the query.
\<close>

section \<open>Data\<close>

record RequestInfo =
  ri_IsResourceRequest :: bool
  ri_Path :: string
  ri_Verb :: string
  ri_APIPrefix :: string
  ri_APIGroup :: string
  ri_APIVersion :: string
  ri_Namespace :: string
  ri_Resource :: string
  ri_Subresource :: string
  ri_Name :: string
  ri_Parts :: "string list"
  ri_FieldSelector :: string
  ri_LabelSelector :: string

text \<open>The prefixes, and what is taken from outside: the decoding of list options, of which the \<open>watch\<close> flag and the name
  that the field selector requires exactly are used, the feature gate for selectors, and lower case outside ASCII.\<close>

record RequestInfoFactory =
  rf_APIPrefixes :: "string list"
  rf_GrouplessAPIPrefixes :: "string list"
  rf_DecodeParameters :: "url_values \<Rightarrow> (bool \<times> string option) option"
  rf_AuthorizeWithSelectors :: bool
  rf_ulower :: "string \<Rightarrow> string"

definition specialVerbs :: "string list" where "specialVerbs = [''proxy'', ''watch'']"
definition specialVerbsNoSubresources :: "string list" where "specialVerbsNoSubresources = [''proxy'']"
definition namespaceSubresources :: "string list" where "namespaceSubresources = [''status'', ''finalize'']"
definition verbsWithSelectors :: "string list" where "verbsWithSelectors = [''list'', ''watch'', ''deletecollection'']"

section \<open>NewRequestInfo\<close>

definition splitPath :: "string \<Rightarrow> string list" where
  "splitPath path =
     (let p = rev (dropWhile (\<lambda>c. c = CHR ''/'') (rev (dropWhile (\<lambda>c. c = CHR ''/'') path)))
      in if p = '''' then [] else Split p ''/'')"

definition method_verb :: "string \<Rightarrow> string" where
  "method_verb method =
     (if method = ''POST'' then ''create''
      else if method = ''GET'' \<or> method = ''HEAD'' then ''get''
      else if method = ''PUT'' then ''update''
      else if method = ''PATCH'' then ''patch''
      else if method = ''DELETE'' then ''delete''
      else '''')"

text \<open>The namespace, and the parts from the resource on.\<close>

definition read_namespace :: "string list \<Rightarrow> RequestInfo \<Rightarrow> RequestInfo" where
  "read_namespace currentParts info =
     (if hd currentParts = ''namespaces'' then
        (if length currentParts > 1 then
           info\<lparr>ri_Namespace := currentParts ! 1,
             ri_Parts := (if length currentParts > 2 \<and> currentParts ! 2 \<notin> set namespaceSubresources
                          then drop 2 currentParts else currentParts)\<rparr>
         else info\<lparr>ri_Parts := currentParts\<rparr>)
      else info\<lparr>ri_Namespace := '''', ri_Parts := currentParts\<rparr>)"

text \<open>The switch on the number of parts, whose cases fall through.\<close>

definition read_parts :: "RequestInfo \<Rightarrow> RequestInfo" where
  "read_parts info =
     (let parts = ri_Parts info;
          info1 = (if 3 \<le> length parts \<and> ri_Verb info \<notin> set specialVerbsNoSubresources
                   then info\<lparr>ri_Subresource := parts ! 2\<rparr> else info);
          info2 = (if 2 \<le> length parts then info1\<lparr>ri_Name := parts ! 1\<rparr> else info1)
      in if 1 \<le> length parts then info2\<lparr>ri_Resource := parts ! 0\<rparr> else info2)"

text \<open>The list options of a query. When they cannot be decoded, only \<open>watch\<close> is looked at.\<close>

definition list_options :: "RequestInfoFactory \<Rightarrow> url_values \<Rightarrow> bool \<times> string option" where
  "list_options r query =
     (case rf_DecodeParameters r query of
        Some opts \<Rightarrow> opts
      | None \<Rightarrow>
          (case gget query ''watch'' of
             Some (v # vs) \<Rightarrow> (ToLower (rf_ulower r) v \<notin> {''false'', ''0''}, None)
           | _ \<Rightarrow> (False, None)))"

definition read_verb :: "RequestInfoFactory \<Rightarrow> url_values \<Rightarrow> RequestInfo \<Rightarrow> RequestInfo" where
  "read_verb r query info =
     (let info1 =
        (if ri_Name info = '''' \<and> ri_Verb info = ''get'' then
           (let opts = list_options r query;
                info1 = info\<lparr>ri_Verb := if fst opts then ''watch'' else ''list''\<rparr>
            in case snd opts of
                 None \<Rightarrow> info1
               | Some name \<Rightarrow> if seg_ok name then info1\<lparr>ri_Name := name\<rparr> else info1)
         else info)
      in if ri_Name info1 = '''' \<and> ri_Verb info1 = ''delete'' then info1\<lparr>ri_Verb := ''deletecollection''\<rparr> else info1)"

definition first_value :: "url_values \<Rightarrow> string \<Rightarrow> string" where
  "first_value query k = (case gget query k of Some (v # vs) \<Rightarrow> v | _ \<Rightarrow> '''')"

definition read_selectors :: "RequestInfoFactory \<Rightarrow> bool \<Rightarrow> url_values \<Rightarrow> RequestInfo \<Rightarrow> RequestInfo" where
  "read_selectors r verbViaPathPrefix query info =
     (if rf_AuthorizeWithSelectors r \<and> \<not> verbViaPathPrefix \<and> ri_Verb info \<in> set verbsWithSelectors
      then info\<lparr>ri_FieldSelector := first_value query ''fieldSelector'', ri_LabelSelector := first_value query ''labelSelector''\<rparr>
      else info)"

text \<open>The result comes with whether there was no error.\<close>

definition NewRequestInfo :: "RequestInfoFactory \<Rightarrow> http_request \<Rightarrow> bool \<times> RequestInfo" where
  "NewRequestInfo r req =
     (let info = \<lparr>ri_IsResourceRequest = False, ri_Path = hr_Path req, ri_Verb = ToLower (rf_ulower r) (hr_Method req), ri_APIPrefix = '''',
            ri_APIGroup = '''', ri_APIVersion = '''', ri_Namespace = '''', ri_Resource = '''', ri_Subresource = '''', ri_Name = '''',
            ri_Parts = [], ri_FieldSelector = '''', ri_LabelSelector = ''''\<rparr>;
          parts = splitPath (hr_Path req)
      in if length parts < 3 \<or> hd parts \<notin> set (rf_APIPrefixes r) then (True, info)
         else
           (let info1 = info\<lparr>ri_APIPrefix := hd parts\<rparr>;
                parts1 = tl parts;
                groupless = hd parts \<in> set (rf_GrouplessAPIPrefixes r)
            in if \<not> groupless \<and> length parts1 < 3 then (True, info1)
               else
                 (let info2 = (if groupless then info1 else info1\<lparr>ri_APIGroup := hd parts1\<rparr>);
                      parts2 = (if groupless then parts1 else tl parts1);
                      info3 = info2\<lparr>ri_IsResourceRequest := True, ri_APIVersion := hd parts2\<rparr>;
                      parts3 = tl parts2;
                      viaPath = hd parts3 \<in> set specialVerbs
                  in if viaPath \<and> length parts3 < 2 then (False, info3)
                     else
                       (let info4 = info3\<lparr>ri_Verb := if viaPath then hd parts3 else method_verb (hr_Method req)\<rparr>;
                            parts4 = (if viaPath then tl parts3 else parts3)
                        in (True, read_selectors r viaPath (hr_Query req) (read_verb r (hr_Query req)
                              (read_parts (read_namespace parts4 info4))))))))"

section \<open>Lemmas\<close>

text \<open>A path below the path of a server.\<close>

lemma Join_append: "xs \<noteq> [] \<Longrightarrow> ys \<noteq> [] \<Longrightarrow> Join (xs @ ys) sep = Join xs sep @ sep @ Join ys sep"
proof (induction xs)
  case (Cons x xs)
  then show ?case by (cases "xs = []") (simp_all add: Join_Cons)
qed simp

lemma splitPath_plain:
  assumes "list_all plain ss" "ss \<noteq> []" "pre \<in> {'''', ''/''}"
  shows "splitPath (pre @ Join ss ''/'') = ss"
proof -
  have no: "\<forall>s \<in> set ss. s \<noteq> '''' \<and> CHR ''/'' \<notin> set s" using assms(1) by (auto simp: list_all_iff plain_def)
  have j: "Join ss ''/'' \<noteq> '''' \<and> hd (Join ss ''/'') \<noteq> CHR ''/'' \<and> last (Join ss ''/'') \<noteq> CHR ''/''"
    using assms(2) no
  proof (induction ss)
    case (Cons s ss)
    then have s: "s \<noteq> ''''" "hd s \<noteq> CHR ''/''" "last s \<noteq> CHR ''/''" by (auto dest: hd_in_set last_in_set)
    show ?case
    proof (cases "ss = []")
      case False
      with Cons s show ?thesis by (simp add: Join_Cons)
    qed (use s in simp)
  qed simp
  then have d: "dropWhile (\<lambda>c. c = CHR ''/'') (pre @ Join ss ''/'') = Join ss ''/''"
    using assms(3) by (cases "Join ss ''/''") auto
  have "rev (dropWhile (\<lambda>c. c = CHR ''/'') (rev (Join ss ''/''))) = Join ss ''/''"
    using j by (cases "Join ss ''/''" rule: rev_cases) auto
  with d j show ?thesis using Split_Join [OF assms(2), of "CHR ''/''"] no by (simp add: splitPath_def)
qed

lemma splitPath_below:
  assumes "list_all plain ss" "ss \<noteq> []"
  shows "splitPath (TrimPrefix (rooted_path (base @ ss)) (rooted_path base)) = ss"
proof (cases "base = []")
  case True
  then have "TrimPrefix (rooted_path (base @ ss)) (rooted_path base) = '''' @ Join ss ''/''"
    by (simp add: rooted_path_def TrimPrefix_def HasPrefix_iff)
  then show ?thesis using splitPath_plain [OF assms, of "''''"] by simp
next
  case False
  then have "rooted_path (base @ ss) = rooted_path base @ ''/'' @ Join ss ''/''"
    by (simp add: rooted_path_def Join_append [OF False assms(2)])
  then have "TrimPrefix (rooted_path (base @ ss)) (rooted_path base) = ''/'' @ Join ss ''/''"
    by (simp add: TrimPrefix_def HasPrefix_iff)
  then show ?thesis using splitPath_plain [OF assms, of "''/''"] by simp
qed

text \<open>A request for a resource of a group.\<close>

lemma NewRequestInfo_group:
  assumes "splitPath (hr_Path req) = pfx # g # v # x # xs" "pfx \<in> set (rf_APIPrefixes r)" "pfx \<notin> set (rf_GrouplessAPIPrefixes r)"
    and "x \<notin> set specialVerbs"
  shows "NewRequestInfo r req = (True, read_selectors r False (hr_Query req) (read_verb r (hr_Query req) (read_parts (read_namespace (x # xs)
    \<lparr>ri_IsResourceRequest = True, ri_Path = hr_Path req, ri_Verb = method_verb (hr_Method req), ri_APIPrefix = pfx,
      ri_APIGroup = g, ri_APIVersion = v, ri_Namespace = '''', ri_Resource = '''', ri_Subresource = '''', ri_Name = '''',
      ri_Parts = [], ri_FieldSelector = '''', ri_LabelSelector = ''''\<rparr>))))"
  using assms by (simp add: NewRequestInfo_def Let_def)

lemma read_namespace_cases:
  "x \<noteq> ''namespaces'' \<Longrightarrow> read_namespace (x # xs) info = info\<lparr>ri_Namespace := '''', ri_Parts := x # xs\<rparr>"
  "x \<notin> set namespaceSubresources \<Longrightarrow>
     read_namespace (''namespaces'' # ns # x # xs) info = info\<lparr>ri_Namespace := ns, ri_Parts := x # xs\<rparr>"
  by (simp_all add: read_namespace_def)

lemma read_parts_cases:
  "ri_Parts info = [res] \<Longrightarrow> read_parts info = info\<lparr>ri_Resource := res\<rparr>"
  "ri_Parts info = [res, name] \<Longrightarrow> read_parts info = info\<lparr>ri_Name := name, ri_Resource := res\<rparr>"
  "ri_Parts info = [res, name, sub] \<Longrightarrow> ri_Verb info \<notin> set specialVerbsNoSubresources \<Longrightarrow>
     read_parts info = info\<lparr>ri_Subresource := sub, ri_Name := name, ri_Resource := res\<rparr>"
  by (simp_all add: read_parts_def)

lemma read_selectors_fields [simp]:
  "ri_IsResourceRequest (read_selectors r b query info) = ri_IsResourceRequest info" "ri_Verb (read_selectors r b query info) = ri_Verb info"
  "ri_APIGroup (read_selectors r b query info) = ri_APIGroup info" "ri_APIVersion (read_selectors r b query info) = ri_APIVersion info"
  "ri_Namespace (read_selectors r b query info) = ri_Namespace info" "ri_Resource (read_selectors r b query info) = ri_Resource info"
  "ri_Name (read_selectors r b query info) = ri_Name info" "ri_Subresource (read_selectors r b query info) = ri_Subresource info"
  by (simp_all add: read_selectors_def)

lemma method_verb_subresources: "method_verb m \<notin> set specialVerbsNoSubresources"
  by (simp add: method_verb_def specialVerbsNoSubresources_def)

end
