(* ===== verification/Client_Calls.thy ===== *)
theory Client_Calls
  imports Client_Config Fake_Client Request_Info
begin

text \<open>
  The real and the fake client side by side: for the same sequence of calls, the requests that reach the server
  ask for the operations that the fake records.
\<close>

section \<open>Calls\<close>


datatype target = Devices | Configs | OperatorConfigs






section \<open>Operations of the API\<close>







text \<open>The fake spells the verb of a collection's deletion in its own way.\<close>

definition server_verb :: "string \<Rightarrow> string" where
  "server_verb v = (if v = ''delete-collection'' then ''deletecollection'' else v)"

lemma server_verb_simps [simp]:
  "server_verb ''get'' = ''get''" "server_verb ''list'' = ''list''" "server_verb ''watch'' = ''watch''" "server_verb ''create'' = ''create''"
  "server_verb ''update'' = ''update''" "server_verb ''delete'' = ''delete''" "server_verb ''patch'' = ''patch''"
  "server_verb ''delete-collection'' = ''deletecollection''"
  by (simp_all add: server_verb_def)


text \<open>The operation that a call stands for.\<close>

fun target_type :: "target \<Rightarrow> resource_type" where
  "target_type Devices = nodeptpdevices"
| "target_type Configs = ptpconfigs"
| "target_type OperatorConfigs = ptpoperatorconfigs"



section \<open>Calls that can be made\<close>







section \<open>What the real client sends\<close>




lemmas target_types = nodeptpdevices_def ptpconfigs_def ptpoperatorconfigs_def

lemma target_resource:
  "seg_ok (rt_Resource (target_type tg))" "plain (rt_Resource (target_type tg))"
  "rt_Resource (target_type tg) \<noteq> ''namespaces''" "rt_Resource (target_type tg) \<noteq> ''''"
  by (cases tg; simp add: target_types seg_ok_iff plain_def)+



text \<open>The parts of a request while it is built: as long as \<open>ok\<close> holds they are as given, else an error is
  pending. Parts are the verb, the namespace if set, the resource, the name, the subresource and the parameters.\<close>

fun parts :: "('e, 'b, 'r, 's) rest_client \<Rightarrow> 'e request \<Rightarrow> string \<times> string option \<times> string \<times> string \<times> string \<times> url_values \<Rightarrow> bool \<Rightarrow> bool" where
  "parts c r (verb, ns, res, name, sub, m) ok \<longleftrightarrow>
     (if ok then
        rq_err r = None \<and> rq_verb r = verb \<and> rq_pathPrefix r = rooted_path (prefix_segs c) \<and> rq_subpath r = ''''
        \<and> rq_namespaceSet r = (ns \<noteq> None) \<and> (ns \<noteq> None \<longrightarrow> rq_namespace r = the ns) \<and> rq_resource r = res
        \<and> rq_resourceName r = name \<and> rq_subresource r = sub \<and> rq_params r = m
      else rq_err r \<noteq> None)"

lemmas setter_simps = unless_err_def failed_def SetHeader_def

lemma parts_Verb: "parts c (Verb c verb) (verb, None, '''', '''', Path_Join [], []) True"
  by (simp add: Verb_def NewRequest_def SetHeader_def Let_def pathPrefix_segs Path_Join_def [of "[]"])


lemma parts_Namespace:
  "parts c r (verb, None, res, name, sub, m) ok \<Longrightarrow> parts c (Namespace ns r) (verb, Some ns, res, name, sub, m) (ok \<and> seg_ok ns)"
  by (cases ok) (simp_all add: Namespace_def setter_simps)

lemma parts_Resource:
  "parts c r (verb, ns, '''', name, sub, m) ok
    \<Longrightarrow> parts c (Resource (rt_Resource (target_type tg)) r) (verb, ns, rt_Resource (target_type tg), name, sub, m) ok"
  using target_resource(1) [of tg] by (cases ok) (simp_all add: Resource_def setter_simps)
























lemmas parts_start = parts_Resource [OF parts_Namespace [OF parts_Verb]]












section \<open>What the fake client records\<close>


















section \<open>Sequences of calls\<close>







section \<open>A parameter codec\<close>













section \<open>A run\<close>











end
