(* ===== verification/Validate_Crds.thy ===== *)
theory Validate_Crds
  imports Rest_Client
begin

text \<open>
  The tool \<open>hack/validate-crds\<close>, which validates every CRD file of a directory. The file system, the YAML and
  JSON decoders, the conversion, the quoting of strings (\<open>%q\<close>) and the validator of the API server are arguments.
\<close>

record crd_version =
  cv_Name :: string
  cv_Storage :: bool

text \<open>A CRD in the internal form; \<open>crd_Rest\<close> is what the tool does not touch.\<close>

record ('n, 'x) crd =
  crd_Names :: 'n
  crd_Versions :: "crd_version list"
  crd_AcceptedNames :: 'n
  crd_StoredVersions :: "string list"
  crd_Rest :: 'x

record ('j, 'v, 'n, 'x) crd_env =
  ce_ReadDir :: "string \<Rightarrow> string + (string \<times> bool) list"
  ce_ReadFile :: "string \<Rightarrow> string + string"
  ce_ToJSON :: "string \<Rightarrow> string + 'j"
  ce_Unmarshal :: "'j \<Rightarrow> string + 'v"
  ce_Convert :: "'v \<Rightarrow> string + ('n, 'x) crd"
  ce_Validate :: "('n, 'x) crd \<Rightarrow> string list"
  ce_Quote :: "string \<Rightarrow> string"

text \<open>\<open>filepath.Ext\<close>: from the last dot after the last slash on.\<close>

fun ext_rev :: "string \<Rightarrow> string \<Rightarrow> string" where
  "ext_rev acc [] = ''''"
| "ext_rev acc (c # s) =
     (if c = CHR ''/'' then '''' else if c = CHR ''.'' then c # acc else ext_rev (c # acc) s)"

definition Ext :: "string \<Rightarrow> string" where
  "Ext path = ext_rev '''' (rev path)"

definition create_object :: "('n, 'x) crd \<Rightarrow> ('n, 'x) crd" where
  "create_object internal = internal
     \<lparr>crd_AcceptedNames := crd_Names internal,
      crd_StoredVersions := crd_StoredVersions internal @ map cv_Name (filter cv_Storage (crd_Versions internal))\<rparr>"

text \<open>Outcomes are an error text, or nothing.\<close>

definition validateFile :: "('j, 'v, 'n, 'x) crd_env \<Rightarrow> string \<Rightarrow> string option" where
  "validateFile env path =
     (case ce_ReadFile env path of
        Inl e \<Rightarrow> Some (''read '' @ path @ '': '' @ e)
      | Inr data \<Rightarrow>
          (case ce_ToJSON env data of
             Inl e \<Rightarrow> Some (''parse '' @ path @ '' as YAML: '' @ e)
           | Inr jsonData \<Rightarrow>
               (case ce_Unmarshal env jsonData of
                  Inl e \<Rightarrow> Some (''decode '' @ path @ '' as a CRD: '' @ e)
                | Inr versioned \<Rightarrow>
                    (case ce_Convert env versioned of
                       Inl e \<Rightarrow> Some (''convert '' @ path @ '' to the internal CRD type: '' @ e)
                     | Inr internal \<Rightarrow>
                         (let errs = ce_Validate env (create_object internal) in
                          if errs \<noteq> [] then Some (path @ '':'' @ [CHR 0x0A] @ ''  '' @ Join errs ([CHR 0x0A] @ ''  '')) else None)))))"

definition crd_paths :: "string \<Rightarrow> (string \<times> bool) list \<Rightarrow> string list" where
  "crd_paths directory entries =
     map (\<lambda>(name, isDir). Path_Join [directory, name])
       (filter (\<lambda>(name, isDir). \<not> (isDir \<or> name = ''_.yaml'') \<and> Ext name \<in> set [''.yaml'', ''.yml'']) entries)"

definition validateDirectory :: "('j, 'v, 'n, 'x) crd_env \<Rightarrow> string \<Rightarrow> string option" where
  "validateDirectory env directory =
     (case ce_ReadDir env directory of
        Inl e \<Rightarrow> Some (''read CRD directory '' @ ce_Quote env directory @ '': '' @ e)
      | Inr entries \<Rightarrow>
          (let paths = crd_paths directory entries; validationErrors = List.map_filter (validateFile env) paths in
           if paths = [] then Some (''no CRD YAML files found in '' @ ce_Quote env directory)
           else if validationErrors \<noteq> [] then Some (Join validationErrors [CHR 0x0A])
           else None))"

definition validate_crds_main :: "('j, 'v, 'n, 'x) crd_env \<Rightarrow> string list \<Rightarrow> nat" where
  "validate_crds_main env args =
     (case args of
        [prog, directory] \<Rightarrow> if validateDirectory env directory \<noteq> None then 1 else 0
      | _ \<Rightarrow> 2)"

text \<open>A file passes exactly when it decodes to a CRD in which the validator finds nothing.\<close>

lemma validateFile_ok_iff:
  "validateFile env path = None \<longleftrightarrow>
     (\<exists>data j v crd. ce_ReadFile env path = Inr data \<and> ce_ToJSON env data = Inr j \<and> ce_Unmarshal env j = Inr v
       \<and> ce_Convert env v = Inr crd \<and> ce_Validate env (create_object crd) = [])"
  by (auto simp: validateFile_def Let_def split: sum.splits)

text \<open>The tool succeeds exactly when the directory has CRD files and all of them pass: the first invalid file does not hide
  the others and an empty directory is not a success.\<close>

lemma validate_crds_success_iff:
  "validate_crds_main env [prog, directory] = 0 \<longleftrightarrow>
     (\<exists>entries. ce_ReadDir env directory = Inr entries \<and> crd_paths directory entries \<noteq> []
       \<and> (\<forall>path \<in> set (crd_paths directory entries). validateFile env path = None))"
proof -
  have "List.map_filter (validateFile env) ps = [] \<longleftrightarrow> (\<forall>p \<in> set ps. validateFile env p = None)" for ps
    by (induction ps) (auto simp: List.map_filter_simps split: option.splits)
  then show ?thesis by (auto simp: validate_crds_main_def validateDirectory_def Let_def split: sum.splits)
qed

end
