(* ===== verification/Operator_Reconcile.thy ===== *)
theory Operator_Reconcile
  imports Operator_Controller
begin

text \<open>
  A whole run of the PtpOperatorConfig controller: what its steps have established when it
  succeeds, and that no step undoes what an earlier one did. The contracts of the stores the steps work on
  are put together with the fact that a call about one type of object leaves the other types alone.
\<close>

section \<open>Merging keeps the kind\<close>

lemma kind_frame: "NestedFieldNoCopy o2 [''kind''] = NestedFieldNoCopy o1 [''kind''] \<Longrightarrow> GetKind o2 = GetKind o1"
  unfolding GetKind_def by (rule readers_frame(6))

lemma merge_kind:
  assumes "MergeObjectForUpdate norm source c u = Inr r"
  shows "GetKind r = GetKind u"
  by (rule kind_frame, rule merge_keeps_field [OF assms]) simp

lemma SetControllerReference_kind: "SetControllerReference_obj scheme owner o1 = Inr o2 \<Longrightarrow> GetKind o2 = GetKind o1"
  by (auto simp: SetControllerReference_obj_def bind_go_eq_Inr SetOwnerReferences_def intro!: kind_frame setNestedField_frame)

section \<open>The contract of the API server\<close>

text \<open>The types of objects that the controller writes through typed calls.\<close>

definition typed_kinds :: "string list" where
  "typed_kinds = [''NodePtpDevice'', ''ConfigMap'', ''NetworkPolicy'']"

text \<open>An object of the daemon's manifest as it is applied.\<close>

definition prepared :: "'s op_env \<Rightarrow> PtpOperatorConfig \<Rightarrow> obj \<Rightarrow> (op_error, obj) go" where
  "prepared env cfg x = bind_go (setDaemonNodeSelector env cfg x)
     (\<lambda>y. wrap_err SetOwnerFailed (SetControllerReference_obj (oe_scheme env) (oc_Meta cfg) y))"

text \<open>The manifests hold no objects of the typed kinds, and the conversion of a DaemonSet gives a DaemonSet.\<close>

definition service_data :: "'s op_env \<Rightarrow> PtpOperatorConfig \<Rightarrow> Node \<Rightarrow> tdata" where
  "service_data env cfg node = gset (daemon_data env cfg) ''NodeName'' (TStr (hd (Split (node_Name node) ''.'')))"

definition untyped_objects :: "(objkey \<rightharpoonup> obj) \<Rightarrow> (objkey \<rightharpoonup> obj)" where
  "untyped_objects m = m |` {k. gvk_Kind (fst k) \<notin> set typed_kinds}"

definition untyped_templates :: "'s op_env \<Rightarrow> bool" where
  "untyped_templates env \<longleftrightarrow>
     (\<forall>d objs. RenderTemplate (oe_render env) daemon_manifest d = Inr objs \<or> RenderTemplate (oe_render env) service_manifest d = Inr objs
        \<longrightarrow> (\<forall>x \<in> set objs. GetKind x \<notin> set typed_kinds))
     \<and> (\<forall>ds x. oe_fromDS env ds = Some x \<longrightarrow> GetKind x = ''DaemonSet'')"

definition events_enabled :: "PtpOperatorConfig \<Rightarrow> bool" where
  "events_enabled cfg = (case op_EventConfig (oc_Spec cfg) of None \<Rightarrow> False | Some ev \<Rightarrow> ev_EnableEventPublisher ev)"

text \<open>The objects a run applies, in order, each with the controller its context names: those of the daemon's manifest with the
  node selector and the owner set and, when events are published, those of every node's event service.\<close>

definition run_objects :: "'s op_env \<Rightarrow> PtpOperatorConfig \<Rightarrow> Node list \<Rightarrow> (string \<times> obj) list \<Rightarrow> bool" where
  "run_objects env cfg nodes objs \<longleftrightarrow>
     (\<exists>xs ys services. RenderTemplate (oe_render env) daemon_manifest (daemon_data env cfg) = Inr xs
        \<and> list_all2 (\<lambda>x y. prepared env cfg x = Inr y) xs ys
        \<and> (if events_enabled cfg
           then list_all2 (\<lambda>node zs. RenderTemplate (oe_render env) service_manifest (service_data env cfg node) = Inr zs) nodes services
           else services = [])
        \<and> objs = map (Pair SourcePtpOperatorConfig) ys @ map (Pair '''') (concat services))"

text \<open>Policies after a run, by those before: every wanted policy is there with its spec and belongs to the owner; of the
  others, the owner's removable ones are gone and the rest is as before.\<close>

definition policies_as_wanted ::
  "NetworkPolicy gmap \<Rightarrow> ObjectMeta \<Rightarrow> (string \<Rightarrow> NetworkPolicy option) \<Rightarrow> (string \<Rightarrow> NetworkPolicy option) \<Rightarrow> bool" where
  "policies_as_wanted desired owner before after \<longleftrightarrow>
     (\<forall>n. case gget desired n of
        Some np \<Rightarrow> (\<exists>p. after n = Some p \<and> np_Spec p = np_Spec np \<and> IsControlledBy (np_Meta p) owner)
      | None \<Rightarrow> after n = (case before n of
          Some p \<Rightarrow> if IsControlledBy (np_Meta p) owner \<and> n \<in> set removable_policies then None else Some p
        | None \<Rightarrow> None))"

text \<open>What a run from \<open>s\<close> to \<open>s'\<close> with a configuration and nodes is for.\<close>

definition established ::
  "'s op_env \<Rightarrow> ('s \<Rightarrow> string \<Rightarrow> NodePtpDevice option) \<Rightarrow> ('s \<Rightarrow> string \<Rightarrow> ConfigMap option) \<Rightarrow>
     ('s \<Rightarrow> string \<Rightarrow> NetworkPolicy option) \<Rightarrow> ('s \<Rightarrow> objkey \<Rightarrow> obj option) \<Rightarrow>
     (obj \<Rightarrow> obj \<Rightarrow> bool) \<Rightarrow> PtpOperatorConfig \<Rightarrow> Node list \<Rightarrow> 's \<Rightarrow> 's \<Rightarrow> bool" where
  "established env dev cms pol stored admits cfg nodes s s' \<longleftrightarrow>
     (\<forall>node \<in> set nodes. dev s' (node_Name node) \<noteq> None)
     \<and> (\<forall>n. dev s n \<noteq> None \<or> n \<notin> node_Name ` set nodes \<longrightarrow> dev s' n = dev s n)
     \<and> cms s' DefaultPTPConfigMapName \<noteq> None \<and> cms s' DefaultLeapConfigMapName \<noteq> None
     \<and> (\<forall>n. cms s n \<noteq> None \<longrightarrow> cms s' n = cms s n)
     \<and> (\<exists>desired. wanted_policies (policy_env env cfg) (oe_toJSON env) (oe_unmarshal env) (oe_readFile env policy_manifest) s = Some desired
          \<and> policies_as_wanted desired (oc_Meta cfg) (pol s) (pol s'))
     \<and> (\<exists>objs. run_objects env cfg nodes objs
          \<and> applied_all (oe_norm env) admits objs (untyped_objects (stored s)) (untyped_objects (stored s')))"

lemma then_do_Inr: "then_do r f = (Inr q, s') \<longleftrightarrow> (\<exists>s1. r = (Inr (), s1) \<and> f s1 = (Inr q, s'))"
  by (cases r) (auto simp: then_do_def split: sum.splits)

text \<open>A run that succeeds either created the missing configuration or went through the five steps.\<close>

lemma reconcile_runs:
  assumes "PtpOperatorConfig_Reconcile env s = (Inr q, s')"
  shows "case oe_GetConfig env \<lparr>nn_Namespace = oe_ns env, nn_Name = DefaultOperatorConfigName\<rparr> s of
      Inl e \<Rightarrow> e = NotFound \<and> q = NoRequeue \<and> oe_CreateConfig env (default_config (oe_ns env)) s = (None, s')
    | Inr cfg \<Rightarrow> q = RequeueAfter ResyncPeriod \<and> (\<exists>nodes s1 s2 s3 s4. oe_ListNodes env s = Inr nodes
        \<and> syncNodePtpDevice env nodes s = (Inr (), s1) \<and> create_config_map DefaultPTPConfigMapName env cfg s1 = (Inr (), s2)
        \<and> create_config_map DefaultLeapConfigMapName env cfg s2 = (Inr (), s3) \<and> sync_policies env cfg s3 = (Inr (), s4)
        \<and> syncLinuxptpDaemon env cfg nodes s4 = (Inr (), s'))"
proof (cases "oe_GetConfig env \<lparr>nn_Namespace = oe_ns env, nn_Name = DefaultOperatorConfigName\<rparr> s")
  case (Inl e)
  with assms show ?thesis
    by (auto simp: PtpOperatorConfig_Reconcile_def then_do_Inr ends_with_def split: api_error.splits prod.splits option.splits)
next
  case (Inr cfg)
  with assms show ?thesis
    by (auto simp: PtpOperatorConfig_Reconcile_def then_do_Inr createPTPConfigMap_def createLeapConfigMap_def split: sum.splits)
qed

lemma prepared_untyped:
  assumes "untyped_templates env" "prepared env cfg x = Inr y" "GetKind x \<notin> set typed_kinds"
  shows "GetKind y \<notin> set typed_kinds"
proof -
  from assms(2) obtain z where z: "setDaemonNodeSelector env cfg x = Inr z"
    "SetControllerReference_obj (oe_scheme env) (oc_Meta cfg) z = Inr y" by (auto simp: prepared_def bind_go_eq_Inr)
  have "GetKind z = GetKind x \<or> GetKind z = ''DaemonSet''"
    using z(1) assms(1) by (auto simp: setDaemonNodeSelector_def untyped_templates_def split: if_splits option.splits)
  then show ?thesis using SetControllerReference_kind [OF z(2)] assms(3) by (auto simp: typed_kinds_def)
qed

lemma list_all2_from:
  assumes "list_all2 R xs ys" "y \<in> set ys"
  obtains x where "x \<in> set xs" "R x y"
proof -
  from assms(2) obtain i where "i < length ys" "ys ! i = y" by (auto simp: in_set_conv_nth)
  with assms(1) that [of "xs ! i"] show ?thesis by (auto simp: list_all2_conv_all_nth)
qed

lemma untyped_key: "GetKind x \<notin> set typed_kinds \<Longrightarrow> gvk_Kind (fst (key_of x)) \<notin> set typed_kinds"
  by (auto simp: key_of_def gvk_of_def typed_kinds_def split: option.splits)

text \<open>A successful last step is two loops of applications.\<close>

lemma each_st_expands:
  assumes "\<And>x t t'. f x t = (Inr (), t') \<Longrightarrow> \<exists>ys. R x ys \<and> each_st g ys t = (Inr (), t')"
  shows "each_st f xs s = (Inr (), s') \<Longrightarrow> \<exists>yss. list_all2 R xs yss \<and> each_st g (concat yss) s = (Inr (), s')"
proof (induction xs arbitrary: s)
  case (Cons x xs)
  then obtain s1 where x: "f x s = (Inr (), s1)" and xs: "each_st f xs s1 = (Inr (), s')" by (auto simp: each_st_Cons_ok)
  from assms [OF x] Cons.IH [OF xs] obtain ys yss where "R x ys" "each_st g ys s = (Inr (), s1)"
    "list_all2 R xs yss" "each_st g (concat yss) s1 = (Inr (), s')" by blast
  then show ?case by (intro exI [of _ "ys # yss"]) (simp add: each_st_append)
next
  case Nil
  then show ?case by simp
qed

lemma daemon_run:
  assumes "syncLinuxptpDaemon env cfg nodes s = (Inr (), s')"
  obtains xs ys services s1 where "RenderTemplate (oe_render env) daemon_manifest (daemon_data env cfg) = Inr xs"
    "list_all2 (\<lambda>x y. prepared env cfg x = Inr y) xs ys" "each_st (apply_object env SourcePtpOperatorConfig) ys s = (Inr (), s1)"
    "if events_enabled cfg
     then list_all2 (\<lambda>node zs. RenderTemplate (oe_render env) service_manifest (service_data env cfg node) = Inr zs) nodes services
     else services = []" "each_st (apply_object env '''') (concat services) s1 = (Inr (), s')"
proof -
  from assms obtain xs s1 where r: "RenderTemplate (oe_render env) daemon_manifest (daemon_data env cfg) = Inr xs"
    and d: "each_st (apply_daemon_object env cfg) xs s = (Inr (), s1)"
    and e: "if events_enabled cfg then each_st (sync_event_service env (daemon_data env cfg)) nodes s1 = (Inr (), s') else s' = s1"
    by (auto simp: syncLinuxptpDaemon_def Let_def events_enabled_def split: sum.splits prod.splits option.splits if_splits)
  have "\<exists>ys. list_all2 (\<lambda>x y. prepared env cfg x = Inr y) xs ys \<and> each_st (apply_object env SourcePtpOperatorConfig) ys s = (Inr (), s1)"
    using d
  proof (induction xs arbitrary: s)
    case (Cons x xs)
    then obtain s2 where x: "apply_daemon_object env cfg x s = (Inr (), s2)"
      and xs: "each_st (apply_daemon_object env cfg) xs s2 = (Inr (), s1)" by (auto simp: each_st_Cons_ok)
    from x obtain y where "prepared env cfg x = Inr y" "apply_object env SourcePtpOperatorConfig y s = (Inr (), s2)"
      by (auto simp: apply_daemon_object_def prepared_def split: sum.splits)
    with xs Cons.IH [of s2] show ?case by (auto simp: each_st_Cons_ok list_all2_Cons1)
  qed simp
  then obtain ys where y: "list_all2 (\<lambda>x y. prepared env cfg x = Inr y) xs ys"
    "each_st (apply_object env SourcePtpOperatorConfig) ys s = (Inr (), s1)" by blast
  let ?R = "\<lambda>node zs. RenderTemplate (oe_render env) service_manifest (service_data env cfg node) = Inr zs"
  have step: "\<exists>zs. ?R node zs \<and> each_st (apply_object env '''') zs t = (Inr (), t')"
    if "sync_event_service env (daemon_data env cfg) node t = (Inr (), t')" for node t t'
    using that by (auto simp: sync_event_service_def service_data_def split: sum.splits)
  show ?thesis
  proof (cases "events_enabled cfg")
    case True
    with e each_st_expands [of "sync_event_service env (daemon_data env cfg)" ?R, OF step] obtain services where
      "list_all2 ?R nodes services" "each_st (apply_object env '''') (concat services) s1 = (Inr (), s')" by fastforce
    with True show ?thesis using that [OF r y, of services] by simp
  next
    case False
    with e show ?thesis using that [OF r y, of "[]"] by simp
  qed
qed

text \<open>\<open>dev\<close>, \<open>cms\<close> and \<open>pol\<close> are the devices, config maps and policies of the operator's namespace by name, and
  \<open>stored\<close> are the objects by key.\<close>

locale operator_cluster = device_store env dev
  for env :: "'s op_env" and dev :: "'s \<Rightarrow> string \<Rightarrow> NodePtpDevice option" +
  fixes cms :: "'s \<Rightarrow> string \<Rightarrow> ConfigMap option"
    and pol :: "'s \<Rightarrow> string \<Rightarrow> NetworkPolicy option"
    and stored :: "'s \<Rightarrow> objkey \<Rightarrow> obj option"
    and admits :: "obj \<Rightarrow> obj \<Rightarrow> bool"
  assumes policies: "policy_store (policy_env env cfg) pol"
    and objects: "object_store (oe_objects env) stored admits"
    and cm_missing: "oe_GetConfigMap env \<lparr>nn_Namespace = oe_ns env, nn_Name = n\<rparr> s = Inl NotFound \<Longrightarrow> cms s n = None"
    and cm_found: "oe_GetConfigMap env \<lparr>nn_Namespace = oe_ns env, nn_Name = n\<rparr> s = Inr c \<Longrightarrow> cms s n = Some c"
    and cm_create: "oe_CreateConfigMap env c s = (None, s') \<Longrightarrow> cm_Namespace c = oe_ns env \<Longrightarrow>
      \<exists>c'. cms s' = (cms s)(cm_Name c \<mapsto> c')"
    and device_frame: "oe_CreateDevice env d s = (e, s') \<Longrightarrow> untyped_objects (stored s') = untyped_objects (stored s)
      \<and> cms s' = cms s \<and> pol s' = pol s \<and> np_ListConfigs (oe_policies env) ns s' = np_ListConfigs (oe_policies env) ns s"
    and cm_frame: "oe_CreateConfigMap env c s = (e, s') \<Longrightarrow> untyped_objects (stored s') = untyped_objects (stored s)
      \<and> dev s' = dev s \<and> pol s' = pol s \<and> np_ListConfigs (oe_policies env) ns s' = np_ListConfigs (oe_policies env) ns s"
    and policy_frame: "np_Create (oe_policies env) p s = (e, s') \<or> np_Update (oe_policies env) p s = (e, s')
        \<or> np_Delete (oe_policies env) p s = (e, s') \<Longrightarrow>
      dev s' = dev s \<and> cms s' = cms s \<and> untyped_objects (stored s') = untyped_objects (stored s)"
    and object_frame: "kc_Create (oe_objects env) x s = (e, s') \<or> kc_Update (oe_objects env) x s = (e, s') \<Longrightarrow>
      GetKind x \<notin> set typed_kinds \<Longrightarrow> dev s' = dev s \<and> cms s' = cms s \<and> pol s' = pol s"
    and read_frame: "kc_Get (oe_objects env) g n nm s = (r, s') \<Longrightarrow> dev s' = dev s \<and> cms s' = cms s \<and> pol s' = pol s"
begin

lemma devices_keep:
  assumes "syncNodePtpDevice env nodes s = (r, s')"
  shows "untyped_objects (stored s') = untyped_objects (stored s) \<and> cms s' = cms s \<and> pol s' = pol s
    \<and> np_ListConfigs (oe_policies env) ns s' = np_ListConfigs (oe_policies env) ns s"
proof -
  let ?P = "\<lambda>t. untyped_objects (stored t) = untyped_objects (stored s) \<and> cms t = cms s \<and> pol t = pol s \<and> np_ListConfigs (oe_policies env) ns t = np_ListConfigs (oe_policies env) ns s"
  have "?P t'" if "?P t" "sync_device env node t = (r', t')" for node t r' t'
    using that device_frame [of "new_device (oe_ns env) (node_Name node)" t _ _ ns]
    by (auto simp: sync_device_def ends_with_def split: sum.splits api_error.splits prod.splits option.splits)
  from each_st_keeps [where P = ?P, OF this _ assms [unfolded syncNodePtpDevice_def]] show ?thesis by simp
qed

lemma config_map_step:
  assumes "create_config_map name env cfg s = (Inr (), s')"
  shows "cms s' name \<noteq> None \<and> (\<forall>n. cms s n \<noteq> None \<longrightarrow> cms s' n = cms s n)
    \<and> untyped_objects (stored s') = untyped_objects (stored s) \<and> dev s' = dev s \<and> pol s' = pol s
    \<and> np_ListConfigs (oe_policies env) ns s' = np_ListConfigs (oe_policies env) ns s"
proof (cases "oe_GetConfigMap env \<lparr>nn_Namespace = oe_ns env, nn_Name = name\<rparr> s")
  case (Inr c)
  with assms cm_found [OF Inr] show ?thesis by (simp add: create_config_map_def)
next
  case (Inl e)
  with assms obtain refs where e: "e = NotFound"
    and c: "oe_CreateConfigMap env \<lparr>cm_Name = name, cm_Namespace = oe_ns env, cm_OwnerReferences = refs, cm_Data = []\<rparr> s = (None, s')"
    by (auto simp: create_config_map_def ends_with_def split: api_error.splits sum.splits prod.splits option.splits)
  from Inl e cm_missing have "cms s name = None" by blast
  moreover from cm_create [OF c] obtain c' where "cms s' = (cms s)(name \<mapsto> c')" by auto
  ultimately show ?thesis using cm_frame [OF c, of ns] by auto
qed

lemma policy_writes:
  "np_Create (oe_policies env) p s = (e, s') \<Longrightarrow> dev s' = dev s \<and> cms s' = cms s \<and> untyped_objects (stored s') = untyped_objects (stored s)"
  "np_Update (oe_policies env) p s = (e, s') \<Longrightarrow> dev s' = dev s \<and> cms s' = cms s \<and> untyped_objects (stored s') = untyped_objects (stored s)"
  "np_Delete (oe_policies env) p s = (e, s') \<Longrightarrow> dev s' = dev s \<and> cms s' = cms s \<and> untyped_objects (stored s') = untyped_objects (stored s)"
  using policy_frame [of p s e s'] by simp_all

lemma policies_keep:
  assumes "applyNetworkPoliciesFromYaml (policy_env env cfg) toJSON unmarshal file s = (r, s')"
  shows "dev s' = dev s \<and> cms s' = cms s \<and> untyped_objects (stored s') = untyped_objects (stored s)"
proof -
  let ?P = "\<lambda>t. dev t = dev s \<and> cms t = cms s \<and> untyped_objects (stored t) = untyped_objects (stored s)"
  have a: "?P t'" if "?P t" "apply_policy (policy_env env cfg) desired n t = (r', t')" for desired n t r' t'
    using that
    by (auto simp: apply_policy_def policy_env_def ends_with_def dest!: policy_writes
        split: option.splits sum.splits api_error.splits prod.splits if_splits)
  have p: "?P t'" if "?P t" "prune_policy (policy_env env cfg) desired p t = (r', t')" for desired p t r' t'
    using that
    by (auto simp: prune_policy_def policy_env_def dest!: policy_writes split: option.splits api_error.splits prod.splits if_splits)
  have d: "?P s'" if "apply_desired (policy_env env cfg) desired s = (r, s')" for desired
  proof -
    obtain r1 s1 where f: "each_st (apply_policy (policy_env env cfg) desired) policy_order s = (r1, s1)" by fastforce
    have s1: "?P s1" by (rule each_st_keeps [where P = ?P, OF a _ f]) simp_all
    have "?P s'" if "each_st (prune_policy (policy_env env cfg) desired) ps s1 = (r, s')" for ps
      by (rule each_st_keeps [where P = ?P, OF p s1 that])
    with that f s1 show ?thesis by (auto simp: apply_desired_def split: sum.splits)
  qed
  show ?thesis using assms d
    by (auto simp: applyNetworkPoliciesFromYaml_def split: option.splits sum.splits)
qed

text \<open>Applying an object that is not of a typed kind.\<close>

lemma object_writes:
  "kc_Create (oe_objects env) x s = (e, s') \<Longrightarrow> GetKind x \<notin> set typed_kinds \<Longrightarrow> dev s' = dev s \<and> cms s' = cms s \<and> pol s' = pol s"
  "kc_Update (oe_objects env) x s = (e, s') \<Longrightarrow> GetKind x \<notin> set typed_kinds \<Longrightarrow> dev s' = dev s \<and> cms s' = cms s \<and> pol s' = pol s"
  using object_frame [of x s e s'] by simp_all

lemma apply_object_step:
  assumes "apply_object env source x s = (Inr (), s')" "GetKind x \<notin> set typed_kinds"
  shows "dev s' = dev s \<and> cms s' = cms s \<and> pol s' = pol s"
    and "applied_all (oe_norm env) admits [(source, x)] (untyped_objects (stored s)) (untyped_objects (stored s'))"
proof -
  let ?c = "oe_objects env"
  from assms have a: "ApplyObject (oe_norm env) source ?c x s = (None, s')"
    by (auto simp: apply_object_def split: prod.splits option.splits)
  from object_store.apply_applied [OF objects a] untyped_key [OF assms(2)]
  show "applied_all (oe_norm env) admits [(source, x)] (untyped_objects (stored s)) (untyped_objects (stored s'))"
    by (fastforce simp: untyped_objects_def)
  obtain r s1 where g: "kc_Get ?c (gvk_of x) (GetNamespace x) (GetName x) s = (r, s1)" by fastforce
  consider "s' = s1" | "kc_Create ?c x s1 = (None, s')"
    | old m where "MergeObjectForUpdate (oe_norm env) source old x = Inr m" "kc_Update ?c m s1 = (None, s')"
    using a g by (auto simp: ApplyObject_def split: if_splits option.splits sum.splits prod.splits api_error.splits)
  then have "dev s' = dev s1 \<and> cms s' = cms s1 \<and> pol s' = pol s1"
  proof cases
    case 2
    show ?thesis by (rule object_writes(1) [OF 2 assms(2)])
  next
    case (3 old m)
    show ?thesis by (rule object_writes(2) [OF 3(2)]) (use merge_kind [OF 3(1)] assms(2) in simp)
  qed simp
  with read_frame [OF g] show "dev s' = dev s \<and> cms s' = cms s \<and> pol s' = pol s" by simp
qed

lemma apply_objects_steps:
  assumes "each_st (apply_object env source) xs s = (Inr (), s')" "\<And>x. x \<in> set xs \<Longrightarrow> GetKind x \<notin> set typed_kinds"
  shows "dev s' = dev s \<and> cms s' = cms s \<and> pol s' = pol s
    \<and> applied_all (oe_norm env) admits (map (Pair source) xs) (untyped_objects (stored s)) (untyped_objects (stored s'))"
  using assms
proof (induction xs arbitrary: s)
  case (Cons x xs)
  from Cons.prems(1) obtain s1 where x: "apply_object env source x s = (Inr (), s1)"
    and xs: "each_st (apply_object env source) xs s1 = (Inr (), s')" by (auto simp: each_st_Cons_ok)
  have k: "GetKind x \<notin> set typed_kinds" using Cons.prems(2) by simp
  from apply_object_step [OF x k] Cons.IH [OF xs] Cons.prems(2) show ?case by auto
qed simp

text \<open>The last step applies the objects of the run in order.\<close>

lemma daemon_step:
  assumes "untyped_templates env" "syncLinuxptpDaemon env cfg nodes s = (Inr (), s')"
  shows "dev s' = dev s \<and> cms s' = cms s \<and> pol s' = pol s
    \<and> (\<exists>objs. run_objects env cfg nodes objs
        \<and> applied_all (oe_norm env) admits objs (untyped_objects (stored s)) (untyped_objects (stored s')))"
proof -
  obtain xs ys services s1 where r: "RenderTemplate (oe_render env) daemon_manifest (daemon_data env cfg) = Inr xs"
    and y: "list_all2 (\<lambda>x y. prepared env cfg x = Inr y) xs ys" "each_st (apply_object env SourcePtpOperatorConfig) ys s = (Inr (), s1)"
    and z: "if events_enabled cfg
      then list_all2 (\<lambda>node zs. RenderTemplate (oe_render env) service_manifest (service_data env cfg node) = Inr zs) nodes services
      else services = []" "each_st (apply_object env '''') (concat services) s1 = (Inr (), s')"
    by (rule daemon_run [OF assms(2)])
  have u: "GetKind x \<notin> set typed_kinds" if "x \<in> set xs" for x using assms(1) r that by (auto simp: untyped_templates_def)
  have "GetKind y \<notin> set typed_kinds" if "y \<in> set ys" for y
  proof -
    from y(1) that obtain x where "x \<in> set xs" "prepared env cfg x = Inr y" by (rule list_all2_from)
    with prepared_untyped [OF assms(1)] u show ?thesis by blast
  qed
  note d = apply_objects_steps [OF y(2) this]
  have "GetKind x \<notin> set typed_kinds" if "x \<in> set (concat services)" for x
  proof -
    from that obtain zs where zs: "zs \<in> set services" "x \<in> set zs" by auto
    with z(1) have "list_all2 (\<lambda>node zs. RenderTemplate (oe_render env) service_manifest (service_data env cfg node) = Inr zs) nodes services"
      by (auto split: if_splits)
    then obtain node where "RenderTemplate (oe_render env) service_manifest (service_data env cfg node) = Inr zs"
      by (rule list_all2_from [OF _ zs(1)])
    with assms(1) zs(2) show ?thesis by (auto simp: untyped_templates_def)
  qed
  note e = apply_objects_steps [OF z(2) this]
  have "run_objects env cfg nodes (map (Pair SourcePtpOperatorConfig) ys @ map (Pair '''') (concat services))"
    using r y(1) z(1) unfolding run_objects_def by blast
  with d e show ?thesis using applied_all_append by fastforce
qed

lemma policy_step:
  assumes "sync_policies env cfg s = (Inr (), s')"
  shows "\<exists>desired. wanted_policies (policy_env env cfg) (oe_toJSON env) (oe_unmarshal env) (oe_readFile env policy_manifest) s = Some desired
      \<and> policies_as_wanted desired (oc_Meta cfg) (pol s) (pol s')"
    and "dev s' = dev s \<and> cms s' = cms s \<and> untyped_objects (stored s') = untyped_objects (stored s)"
proof -
  let ?e = "policy_env env cfg" and ?f = "oe_readFile env policy_manifest"
  from assms have a: "applyNetworkPoliciesFromYaml ?e (oe_toJSON env) (oe_unmarshal env) ?f s = (Inr (), s')"
    by (cases "applyNetworkPoliciesFromYaml ?e (oe_toJSON env) (oe_unmarshal env) ?f s") (auto simp: sync_policies_def)
  show "dev s' = dev s \<and> cms s' = cms s \<and> untyped_objects (stored s') = untyped_objects (stored s)" by (rule policies_keep [OF a])
  obtain desired where w: "wanted_policies ?e (oe_toJSON env) (oe_unmarshal env) ?f s = Some desired"
    using a apply_unwanted [of ?e "oe_toJSON env" "oe_unmarshal env" ?f s] by fastforce
  from apply_wanted [OF w] a have d: "desired_ok (ne_ns ?e) desired" "apply_desired ?e desired s = (Inr (), s')" by simp_all
  note conv = policy_store.converge [OF policies d]
  have o: "ne_owner ?e = oc_Meta cfg" by (simp add: policy_env_def)
  have "\<exists>p. pol s' n = Some p \<and> np_Spec p = np_Spec np \<and> IsControlledBy (np_Meta p) (oc_Meta cfg)" if "gget desired n = Some np" for n np
    using conv(1) [of n] that by (simp add: policy_store.in_place_def [OF policies] o)
  moreover note conv(2) [unfolded o]
  ultimately have "policies_as_wanted desired (oc_Meta cfg) (pol s) (pol s')"
    by (simp add: policies_as_wanted_def split: option.split)
  with w show "\<exists>desired. wanted_policies ?e (oe_toJSON env) (oe_unmarshal env) ?f s = Some desired
      \<and> policies_as_wanted desired (oc_Meta cfg) (pol s) (pol s')" by blast
qed

lemma wanted_frame:
  "np_ListConfigs (oe_policies env) (oe_ns env) t = np_ListConfigs (oe_policies env) (oe_ns env) s \<Longrightarrow>
     wanted_policies (policy_env env cfg) toJSON unmarshal manifest t = wanted_policies (policy_env env cfg) toJSON unmarshal manifest s"
  by (cases manifest) (simp_all add: wanted_policies_def policy_env_def)

text \<open>The five steps in a row.\<close>

lemma steps_establish:
  assumes "untyped_templates env"
    and dv: "syncNodePtpDevice env nodes s = (Inr (), s1)"
    and c1: "create_config_map DefaultPTPConfigMapName env cfg s1 = (Inr (), s2)"
    and c2: "create_config_map DefaultLeapConfigMapName env cfg s2 = (Inr (), s3)"
    and np: "sync_policies env cfg s3 = (Inr (), s4)"
    and dm: "syncLinuxptpDaemon env cfg nodes s4 = (Inr (), s')"
  shows "established env dev cms pol stored admits cfg nodes s s'"
proof -
  let ?ns = "oe_ns env"
  note k = devices_keep [OF dv, of ?ns] config_map_step [OF c1, of ?ns] config_map_step [OF c2, of ?ns]
    policy_step(2) [OF np] daemon_step [OF assms(1) dm]
  then have d: "dev s' = dev s1" and p: "pol s3 = pol s" "pol s' = pol s4" and c: "cms s' = cms s3"
    and u: "untyped_objects (stored s4) = untyped_objects (stored s)"
    and l: "np_ListConfigs (oe_policies env) ?ns s3 = np_ListConfigs (oe_policies env) ?ns s" by simp_all
  have "\<forall>node \<in> set nodes. dev s' (node_Name node) \<noteq> None" unfolding d using devices_all [OF dv] by blast
  moreover have "\<forall>n. dev s n \<noteq> None \<or> n \<notin> node_Name ` set nodes \<longrightarrow> dev s' n = dev s n" unfolding d using devices_frame [OF dv] by blast
  moreover have "cms s' DefaultPTPConfigMapName \<noteq> None" "cms s' DefaultLeapConfigMapName \<noteq> None"
    "\<forall>n. cms s n \<noteq> None \<longrightarrow> cms s' n = cms s n" unfolding c using k(1,2,3) by auto
  moreover note policy_step(1) [OF np, unfolded wanted_frame [OF l] p(1), folded p(2)]
    conjunct2 [OF conjunct2 [OF conjunct2 [OF k(5)]], unfolded u]
  ultimately show ?thesis unfolding established_def by (intro conjI)
qed

end

section \<open>A cluster in memory\<close>

definition mem_cms :: "mem_operator \<Rightarrow> string \<Rightarrow> ConfigMap option" where
  "mem_cms s n = find (\<lambda>c. cm_key c = \<lparr>nn_Namespace = ''openshift-ptp'', nn_Name = n\<rparr>) (mo_ConfigMaps s)"

text \<open>The environment of before, with a manifest that holds the DaemonSet.\<close>

definition wit_namespaced :: obj where
  "wit_namespaced = fmap_of_list
     [(''apiVersion'', JStr ''apps/v1''), (''kind'', JStr ''DaemonSet''),
      (''metadata'', JObj (fmap_of_list [(''name'', JStr ''linuxptp-daemon''), (''namespace'', JStr ''openshift-ptp'')]))]"

definition wit_full_env :: "mem_operator op_env" where
  "wit_full_env = wit_op_env\<lparr>oe_render := \<lparr>re_read = Some, re_parses = \<lambda>t. True, re_execute = \<lambda>t d. Some t,
     re_decode = \<lambda>t. if t = daemon_manifest then [Some wit_namespaced] else []\<rparr>\<rparr>"

lemma on_policies_eq: "on_policies f s = (e, s') \<longleftrightarrow> (\<exists>p. f (mo_Policies s) = (e, p) \<and> s' = s\<lparr>mo_Policies := p\<rparr>)"
  by (cases "f (mo_Policies s)") (auto simp: on_policies_def)

lemma on_objects_eq: "on_objects f s = (e, s') \<longleftrightarrow> (\<exists>p. f (mo_Objects s) = (e, p) \<and> s' = s\<lparr>mo_Objects := p\<rparr>)"
  by (cases "f (mo_Objects s)") (auto simp: on_objects_def)

lemma full_env_fields:
  "oe_ns wit_full_env = ''openshift-ptp''" "oe_policies wit_full_env = mem_op_policies" "oe_objects wit_full_env = mem_op_objects"
  "policy_env wit_full_env cfg = \<lparr>ne_client = mem_op_policies, ne_ns = ''openshift-ptp'', ne_scheme = Some wit_gvk, ne_owner = oc_Meta cfg\<rparr>"
  "oe_GetDevice wit_full_env k s = found (mem_dev s (nn_Name k))"
  "oe_CreateDevice wit_full_env d s = (None, s\<lparr>mo_Devices := d # mo_Devices s\<rparr>)"
  "oe_GetConfigMap wit_full_env k s = found (find (\<lambda>c. cm_key c = k) (mo_ConfigMaps s))"
  "oe_CreateConfigMap wit_full_env c s = (None, s\<lparr>mo_ConfigMaps := c # mo_ConfigMaps s\<rparr>)"
  by (simp_all add: wit_full_env_def wit_op_env_def policy_env_def cm_key_def)

lemma mem_op_calls:
  fixes s :: mem_operator
  defines "c \<equiv> mem_np_client ''openshift-ptp''"
  shows "np_Get mem_op_policies k s = np_Get c k (mo_Policies s)" "np_List mem_op_policies n s = np_List c n (mo_Policies s)"
    "np_ListConfigs mem_op_policies n s = np_ListConfigs c n (mo_Policies s)"
    "np_Create mem_op_policies p s = (e, s') \<longleftrightarrow> (\<exists>t. np_Create c p (mo_Policies s) = (e, t) \<and> s' = s\<lparr>mo_Policies := t\<rparr>)"
    "np_Update mem_op_policies p s = (e, s') \<longleftrightarrow> (\<exists>t. np_Update c p (mo_Policies s) = (e, t) \<and> s' = s\<lparr>mo_Policies := t\<rparr>)"
    "np_Delete mem_op_policies p s = (e, s') \<longleftrightarrow> (\<exists>t. np_Delete c p (mo_Policies s) = (e, t) \<and> s' = s\<lparr>mo_Policies := t\<rparr>)"
    "kc_Get mem_op_objects g ns nm s = (case mo_Objects s (g, ns, nm) of None \<Rightarrow> Inl NotFound | Some x \<Rightarrow> Inr x, s)"
    "kc_Create mem_op_objects x s = (e, s') \<longleftrightarrow> (\<exists>t. kc_Create mem_client x (mo_Objects s) = (e, t) \<and> s' = s\<lparr>mo_Objects := t\<rparr>)"
    "kc_Update mem_op_objects x s = (e, s') \<longleftrightarrow> (\<exists>t. kc_Update mem_client x (mo_Objects s) = (e, t) \<and> s' = s\<lparr>mo_Objects := t\<rparr>)"
  by (simp_all add: mem_op_policies_def mem_op_objects_def Let_def on_policies_eq on_objects_eq c_def mem_client_def)

lemma mem_policies_store: "policy_store (policy_env wit_full_env cfg) (\<lambda>s. mem_pol (mo_Policies s))"
proof -
  let ?ns = "''openshift-ptp''"
  have c: "ne_client (mem_np_env ?ns sch ow) = mem_np_client ?ns" "ne_ns (mem_np_env ?ns sch ow) = ?ns" for sch ow
    by (simp_all add: mem_np_env_def)
  note g = memp.get_missing [of ?ns, unfolded c] memp.get_found [of ?ns, unfolded c] memp.list_ok [of ?ns, unfolded c]
  note w = memp.create_ok [of ?ns, unfolded c] memp.create_err [of ?ns, unfolded c] memp.update_ok [of ?ns, unfolded c]
    memp.update_err [of ?ns, unfolded c] memp.delete_ok [of ?ns, unfolded c] memp.delete_err [of ?ns, unfolded c]
  show ?thesis
    unfolding full_env_fields
    by (rule policy_store.intro) (auto simp: mem_op_calls w(3) dest: g w memp.pol_name)
qed

lemma mem_objects_store: "object_store mem_op_objects mo_Objects (=)"
  by (rule object_store.intro) (auto simp: mem_op_calls dest: mem.create mem.update mem.create_failed mem.update_failed split: option.splits)

interpretation memr: operator_cluster wit_full_env mem_dev mem_cms "\<lambda>s. mem_pol (mo_Policies s)" mo_Objects "(=)"
proof (rule operator_cluster.intro)
  show "device_store wit_full_env mem_dev"
    by unfold_locales (auto simp: full_env_fields found_def mem_dev_def fun_eq_iff split: option.splits)
  show "operator_cluster_axioms wit_full_env mem_dev mem_cms (\<lambda>s. mem_pol (mo_Policies s)) mo_Objects (=)"
    by (rule operator_cluster_axioms.intro)
      (auto simp: mem_policies_store [unfolded full_env_fields] mem_objects_store full_env_fields mem_op_calls mem_np_client_def
        found_def mem_dev_def mem_cms_def cm_key_def fun_eq_iff split: option.splits)
qed

section \<open>Property\<close>

text \<open>C6: When a run of the PtpOperatorConfig controller ends without an error, then either there was no
  PtpOperatorConfig, and the default one was created, or the run is repeated after two minutes and all its steps hold together in
  the cluster it leaves: every node has its NodePtpDevice, both config maps are there, the network policies are the wanted
  ones, and the other objects are those from before with the objects of the daemon's manifest, with the node selector and the owner
  set, and then, when events are published, those of every node's event service applied in order: an object that was not there
  is what the server makes of the desired one, an object that was there is what the server makes of the
  merge of both, and every other object is as before. Devices and
  config maps that were there before are as they were, and no later step undoes an earlier one. It holds over every API server that
  meets the contracts of the stores, for manifests without NodePtpDevices, ConfigMaps and NetworkPolicies.\<close>

theorem operator_reconcile_establishes:
  assumes "operator_cluster env dev cms pol stored admits" "untyped_templates env"
    and "PtpOperatorConfig_Reconcile env s = (Inr q, s')"
  shows "case oe_GetConfig env \<lparr>nn_Namespace = oe_ns env, nn_Name = DefaultOperatorConfigName\<rparr> s of
      Inl e \<Rightarrow> e = NotFound \<and> q = NoRequeue \<and> oe_CreateConfig env (default_config (oe_ns env)) s = (None, s')
    | Inr cfg \<Rightarrow> q = RequeueAfter 120
        \<and> (\<exists>nodes. oe_ListNodes env s = Inr nodes \<and> established env dev cms pol stored admits cfg nodes s s')"
proof (cases "oe_GetConfig env \<lparr>nn_Namespace = oe_ns env, nn_Name = DefaultOperatorConfigName\<rparr> s")
  case (Inl e)
  with reconcile_runs [OF assms(3)] show ?thesis by simp
next
  case (Inr cfg)
  with reconcile_runs [OF assms(3)] operator_cluster.steps_establish [OF assms(1,2)] show ?thesis
    by (fastforce simp: ResyncPeriod_def)
qed

lemma full_env_untyped: "untyped_templates wit_full_env"
proof -
  have "GetKind wit_namespaced = ''DaemonSet''" by code_simp
  then show ?thesis
    by (auto simp: untyped_templates_def wit_full_env_def wit_op_env_def RenderTemplate_def typed_kinds_def split: if_splits)
qed

text \<open>The DaemonSet is already there, without an owner.\<close>

definition wit_stale_state :: mem_operator where
  "wit_stale_state = wit_op_state\<lparr>mo_Objects := [key_of wit_namespaced \<mapsto> wit_namespaced]\<rparr>"

theorem operator_reconcile_establishes_witness:
  "\<exists>nodes. oe_ListNodes wit_full_env wit_stale_state = Inr nodes
     \<and> established wit_full_env mem_dev mem_cms (\<lambda>s. mem_pol (mo_Policies s)) mo_Objects (=) wit_op_config nodes wit_stale_state
         (snd (PtpOperatorConfig_Reconcile wit_full_env wit_stale_state))
     \<and> mo_Objects (snd (PtpOperatorConfig_Reconcile wit_full_env wit_stale_state)) (key_of wit_namespaced) \<notin> {None, Some wit_namespaced}"
proof -
  have "fst (PtpOperatorConfig_Reconcile wit_full_env wit_stale_state) = Inr (RequeueAfter 120)" by code_simp
  then have run: "PtpOperatorConfig_Reconcile wit_full_env wit_stale_state
      = (Inr (RequeueAfter 120), snd (PtpOperatorConfig_Reconcile wit_full_env wit_stale_state))" by (simp add: prod_eq_iff)
  have "oe_GetConfig wit_full_env \<lparr>nn_Namespace = oe_ns wit_full_env, nn_Name = DefaultOperatorConfigName\<rparr> wit_stale_state
      = Inr wit_op_config" by code_simp
  moreover have "mo_Objects (snd (PtpOperatorConfig_Reconcile wit_full_env wit_stale_state)) (key_of wit_namespaced)
      \<notin> {None, Some wit_namespaced}" by code_simp
  ultimately show ?thesis
    using operator_reconcile_establishes [OF memr.operator_cluster_axioms full_env_untyped run] by simp
qed

end
