(* ===== verification/Daemon_Writers.thy ===== *)
theory Daemon_Writers
  imports Apply
begin

text \<open>
  The two controllers that write the linuxptp-daemon DaemonSet, interleaved. \<open>ApplyObject\<close> reads the
  object in one call to the API server and writes it in another; between the two, other writers may run. The
  API server rejects an update whose resource version is not the current one. The theory splits
  \<open>ApplyObject\<close> at its calls, lets any number of writers take turns in any order, fail and stop at any
  point, and shows what the DaemonSet holds in every state that can be reached.
\<close>

section \<open>ApplyObject, one call at a time\<close>

text \<open>The write that is left to do after the object was read.\<close>

datatype call = CallCreate obj | CallUpdate obj

fun sent :: "call \<Rightarrow> obj" where
  "sent (CallCreate x) = x"
| "sent (CallUpdate x) = x"

text \<open>Up to the write: the end of the run, with or without an error, or the write to do.\<close>

definition apply_read ::
  "(string \<Rightarrow> string) \<Rightarrow> string \<Rightarrow> 's kclient \<Rightarrow> obj \<Rightarrow> 's \<Rightarrow> (apply_error option + call) \<times> 's" where
  "apply_read norm source client o1 s =
     (if GetName o1 = '''' then (Inl (Some ObjectHasNoName), s)
      else case IsObjectSupported o1 of
        Some e \<Rightarrow> (Inl (Some (ObjectUnsupported e)), s)
      | None \<Rightarrow>
          (case kc_Get client (gvk_of o1) (GetNamespace o1) (GetName o1) s of
             (Inl NotFound, s1) \<Rightarrow> (Inr (CallCreate o1), s1)
           | (Inl e, s1) \<Rightarrow> (Inl (Some (CouldNotRetrieve e)), s1)
           | (Inr existing, s1) \<Rightarrow>
               (case MergeObjectForUpdate norm source existing o1 of
                  Inl e \<Rightarrow> (Inl (Some (CouldNotMerge e)), s1)
                | Inr merged \<Rightarrow> (if existing \<noteq> merged then Inr (CallUpdate merged) else Inl None, s1))))"

fun apply_write :: "'s kclient \<Rightarrow> call \<Rightarrow> 's \<Rightarrow> apply_error option \<times> 's" where
  "apply_write client (CallCreate x) s =
     (case kc_Create client x s of (Some e, s1) \<Rightarrow> (Some (CouldNotCreate e), s1) | (None, s1) \<Rightarrow> (None, s1))"
| "apply_write client (CallUpdate x) s =
     (case kc_Update client x s of (Some e, s1) \<Rightarrow> (Some (CouldNotUpdate e), s1) | (None, s1) \<Rightarrow> (None, s1))"

text \<open>Without interference the two halves are the whole.\<close>

lemma ApplyObject_halves:
  "ApplyObject norm source client o1 s =
     (case apply_read norm source client o1 s of (Inl e, s1) \<Rightarrow> (e, s1) | (Inr c, s1) \<Rightarrow> apply_write client c s1)"
  by (auto simp: ApplyObject_def apply_read_def split: option.splits sum.splits prod.splits api_error.splits)

section \<open>What the controllers share\<close>

text \<open>The security items of a DaemonSet belong to the PtpConfig controller, the others to the template.\<close>

record items =
  it_Volumes :: "json list"
  it_Annotations :: strmap
  it_Mounts :: "json list"

definition security_items :: "obj \<Rightarrow> items" where
  "security_items x = \<lparr>it_Volumes = extractSecurityVolumes (getVolumesFromCurrent x),
     it_Annotations = extractSecurityAnnotations (getAnnotationsFromCurrent x),
     it_Mounts = extractSecurityMounts (getMountsFromCurrent x)\<rparr>"

definition template_items :: "obj \<Rightarrow> items" where
  "template_items x = \<lparr>it_Volumes = filterNonSecurityVolumes (getVolumesFromCurrent x),
     it_Annotations = filterNonSecurityAnnotations (getAnnotationsFromCurrent x),
     it_Mounts = filterNonSecurityMounts (getMountsFromCurrent x)\<rparr>"

text \<open>An object that the controllers apply as the DaemonSet with key \<open>k\<close>.\<close>

definition daemon_object :: "objkey \<Rightarrow> obj \<Rightarrow> bool" where
  "daemon_object k u \<longleftrightarrow> is_daemon u \<and> has_daemon (containers_of u) \<and> key_of u = k"

lemma named_meta_ok: "GetName u \<noteq> '''' \<Longrightarrow> meta_ok u"
  by (auto simp: GetName_def getNestedString_def NestedString_def NestedFieldNoCopy_def meta_ok_def
      split: option.splits json.splits)

lemma daemon_named: "is_daemon u \<Longrightarrow> GetName u \<noteq> ''''"
  by (simp add: is_daemon_def)

lemma daemon_supported: "is_daemon u \<Longrightarrow> IsObjectSupported u = None"
  using plain_daemon by (simp add: IsObjectSupported_def plain_def)

lemma merged_items:
  assumes "is_daemon u" "has_daemon (containers_of u)" "MergeObjectForUpdate norm source c u = Inr r"
  shows "security_items r = security_items (if source = SourcePtpOperatorConfig then c else u)"
    and "template_items r = template_items u"
    and "GetResourceVersion r = GetResourceVersion c" and "key_of r = key_of u"
proof -
  obtain r0 where r0: "MergeDaemonSetForUpdate source c u = Inr r0" and r: "r = MergeMetadataForUpdate norm c r0"
    by (rule merge_plain_Inr [OF plain_daemon [OF assms(1)] assms(3)])
  show "security_items r = security_items (if source = SourcePtpOperatorConfig then c else u)"
    unfolding r by (rule merged_daemon [OF assms(1) r0])
      (simp add: security_items_def metadata_template current_of_updated assms(2))
  show "template_items r = template_items u"
    unfolding r by (rule merged_daemon [OF assms(1) r0])
      (simp add: template_items_def metadata_template current_of_updated assms(2))
  have "NestedFieldNoCopy r0 (meta ''name'') = NestedFieldNoCopy u (meta ''name'')"
    by (rule daemon_frame [OF r0]) simp_all
  then have "GetName r0 = GetName u" unfolding GetName_def by (rule readers_frame)
  then have "meta_ok r0" using named_meta_ok daemon_named [OF assms(1)] by simp
  then show "GetResourceVersion r = GetResourceVersion c" unfolding r by (rule MergeMetadata_reads)
  show "key_of r = key_of u" using merge_key [OF plain_daemon [OF assms(1)] assms(3)] by (simp add: key_of_def)
qed

section \<open>The contract of the API server\<close>

text \<open>\<open>sv_stored\<close> are the objects of a state by key, \<open>sv_issued\<close> the resource versions that were ever given
  out; \<open>sv_volume\<close> and \<open>sv_mount\<close> fill in the defaults of a volume and of a mount.\<close>

record 's server =
  sv_client :: "'s kclient"
  sv_stored :: "'s \<Rightarrow> objkey \<Rightarrow> obj option"
  sv_issued :: "'s \<Rightarrow> string set"
  sv_volume :: "json \<Rightarrow> json"
  sv_mount :: "json \<Rightarrow> json"

definition served_items :: "'s server \<Rightarrow> items \<Rightarrow> items" where
  "served_items sv i = i\<lparr>it_Volumes := map (sv_volume sv) (it_Volumes i), it_Mounts := map (sv_mount sv) (it_Mounts i)\<rparr>"

text \<open>What is stored for an object that was sent: it has the same key, annotations, and volumes and mounts with
  their defaults; the server may set anything else.\<close>

definition served :: "'s server \<Rightarrow> obj \<Rightarrow> obj \<Rightarrow> bool" where
  "served sv x y \<longleftrightarrow> key_of y = key_of x \<and> getAnnotationsFromCurrent y = getAnnotationsFromCurrent x
     \<and> getVolumesFromCurrent y = map (sv_volume sv) (getVolumesFromCurrent x)
     \<and> getMountsFromCurrent y = map (sv_mount sv) (getMountsFromCurrent x)"

text \<open>Every stored object has a version of its own; an update is accepted only when it carries the version of the stored
  object, and then either changes nothing or gets a version that was never given out; a name can be created once.\<close>

locale versioned_store =
  fixes sv :: "'s server"
  assumes v_get: "kc_Get (sv_client sv) g ns n s =
      ((case sv_stored sv s (g, ns, n) of None \<Rightarrow> Inl NotFound | Some x \<Rightarrow> Inr x), s)"
    and v_kept: "sv_stored sv s k = Some x \<Longrightarrow>
      key_of x = k \<and> GetResourceVersion x \<in> sv_issued sv s \<and> GetResourceVersion x \<noteq> '''' \<and> served sv x x"
    and v_create: "kc_Create (sv_client sv) x s = (None, s') \<Longrightarrow>
      sv_stored sv s (key_of x) = None \<and> sv_issued sv s \<subseteq> sv_issued sv s' \<and>
      (\<exists>y. served sv x y \<and> GetResourceVersion y \<notin> sv_issued sv s \<and> sv_stored sv s' = (sv_stored sv s)(key_of x \<mapsto> y))"
    and v_update: "kc_Update (sv_client sv) x s = (None, s') \<Longrightarrow> GetResourceVersion x \<noteq> '''' \<Longrightarrow>
      sv_issued sv s \<subseteq> sv_issued sv s' \<and>
      (\<exists>old y. sv_stored sv s (key_of x) = Some old \<and> GetResourceVersion x = GetResourceVersion old \<and> served sv x y
         \<and> (y = old \<or> GetResourceVersion y \<notin> sv_issued sv s) \<and> sv_stored sv s' = (sv_stored sv s)(key_of x \<mapsto> y))"
    and v_failed: "kc_Create (sv_client sv) x s = (Some e, s') \<or> kc_Update (sv_client sv) x s = (Some e, s') \<Longrightarrow>
      sv_stored sv s' = sv_stored sv s \<and> sv_issued sv s \<subseteq> sv_issued sv s'"
    and v_names: "item_name (sv_volume sv v) = item_name v" "item_name (sv_mount sv v) = item_name v"
begin

lemma names_security: "security (sv_volume sv v) = security v" "security (sv_mount sv v) = security v"
  by (simp_all add: security_def v_names)

lemma served_security: "served sv x y \<Longrightarrow> security_items y = served_items sv (security_items x)"
  and served_template: "served sv x y \<Longrightarrow> template_items y = served_items sv (template_items x)"
  by (simp_all add: served_def security_items_def template_items_def served_items_def extractSecurityVolumes_def
      extractSecurityMounts_def filterNonSecurityVolumes_def filterNonSecurityMounts_def filter_map comp_def names_security)

lemma stored_served:
  assumes "sv_stored sv s k = Some x"
  shows "served_items sv (security_items x) = security_items x" "served_items sv (template_items x) = template_items x"
  using served_security served_template v_kept [OF assms] by metis+

end

section \<open>Writers taking turns\<close>

text \<open>A writer is idle or has read the object and is about to write. \<open>sy_Secrets\<close> records the security items
  that the PtpConfig controller wrote last, or with which the DaemonSet was created.\<close>

datatype phase = Idle | Calling string call

record 's system =
  sy_Cluster :: 's
  sy_Phase :: "nat \<Rightarrow> phase"
  sy_Secrets :: items

definition read_turn :: "(string \<Rightarrow> string) \<Rightarrow> 's server \<Rightarrow> nat \<Rightarrow> string \<Rightarrow> obj \<Rightarrow> 's system \<Rightarrow> 's system" where
  "read_turn norm sv p source u y =
     (case apply_read norm source (sv_client sv) u (sy_Cluster y) of
        (Inl e, s) \<Rightarrow> y\<lparr>sy_Cluster := s\<rparr>
      | (Inr c, s) \<Rightarrow> y\<lparr>sy_Cluster := s, sy_Phase := (sy_Phase y)(p := Calling source c)\<rparr>)"

text \<open>The write that decides on the security items: each but an update by the PtpOperatorConfig controller.\<close>

fun decides :: "string \<Rightarrow> call \<Rightarrow> bool" where
  "decides source (CallCreate x) = True"
| "decides source (CallUpdate x) = (source \<noteq> SourcePtpOperatorConfig)"

definition write_turn :: "'s server \<Rightarrow> nat \<Rightarrow> string \<Rightarrow> call \<Rightarrow> 's system \<Rightarrow> 's system" where
  "write_turn sv p source c y =
     (case apply_write (sv_client sv) c (sy_Cluster y) of
        (e, s) \<Rightarrow> y\<lparr>sy_Cluster := s, sy_Phase := (sy_Phase y)(p := Idle),
          sy_Secrets := if e = None \<and> decides source c then served_items sv (security_items (sent c)) else sy_Secrets y\<rparr>)"

text \<open>What others may do: delete the DaemonSet, or change it, under a new version, outside of the security items. Other
  objects are theirs.\<close>

definition others :: "'s server \<Rightarrow> objkey \<Rightarrow> 's \<Rightarrow> 's \<Rightarrow> bool" where
  "others sv k s s' \<longleftrightarrow> sv_issued sv s \<subseteq> sv_issued sv s' \<and>
     (case sv_stored sv s' k of
        None \<Rightarrow> True
      | Some y \<Rightarrow> (case sv_stored sv s k of None \<Rightarrow> False
          | Some x \<Rightarrow> y = x \<or> security_items y = security_items x \<and> GetResourceVersion y \<notin> sv_issued sv s))"

inductive turn :: "(string \<Rightarrow> string) \<Rightarrow> 's server \<Rightarrow> objkey \<Rightarrow> 's system \<Rightarrow> 's system \<Rightarrow> bool"
  for norm sv k where
  reads: "sy_Phase y p = Idle \<Longrightarrow> source \<in> {SourcePtpConfig, SourcePtpOperatorConfig} \<Longrightarrow> daemon_object k u \<Longrightarrow>
    turn norm sv k y (read_turn norm sv p source u y)"
| writes: "sy_Phase y p = Calling source c \<Longrightarrow> turn norm sv k y (write_turn sv p source c y)"
| stops: "turn norm sv k y (y\<lparr>sy_Phase := (sy_Phase y)(p := Idle)\<rparr>)"
| other: "others sv k (sy_Cluster y) s \<Longrightarrow> turn norm sv k y (y\<lparr>sy_Cluster := s\<rparr>)"

text \<open>Before the first turn nothing is under way.\<close>

definition initial :: "'s server \<Rightarrow> objkey \<Rightarrow> 's system \<Rightarrow> bool" where
  "initial sv k y \<longleftrightarrow> (\<forall>p. sy_Phase y p = Idle) \<and> (\<forall>x. sv_stored sv (sy_Cluster y) k = Some x \<longrightarrow> security_items x = sy_Secrets y)"

section \<open>The invariant\<close>

text \<open>A pending write is about the DaemonSet; a pending update of the PtpOperatorConfig controller has the security
  items of the stored object, unless its version is outdated, and no version that is yet to come.\<close>

definition pending_ok :: "'s server \<Rightarrow> objkey \<Rightarrow> 's \<Rightarrow> phase \<Rightarrow> bool" where
  "pending_ok sv k s ph \<longleftrightarrow> (\<forall>source c. ph = Calling source c \<longrightarrow> key_of (sent c) = k
     \<and> (\<forall>m. c = CallUpdate m \<longrightarrow> GetResourceVersion m \<in> sv_issued sv s \<and> GetResourceVersion m \<noteq> ''''
         \<and> (source = SourcePtpOperatorConfig \<longrightarrow>
             (\<forall>x. sv_stored sv s k = Some x \<and> GetResourceVersion x = GetResourceVersion m \<longrightarrow> security_items x = security_items m))))"

definition system_ok :: "'s server \<Rightarrow> objkey \<Rightarrow> 's system \<Rightarrow> bool" where
  "system_ok sv k y \<longleftrightarrow> (\<forall>x. sv_stored sv (sy_Cluster y) k = Some x \<longrightarrow> security_items x = sy_Secrets y)
     \<and> (\<forall>p. pending_ok sv k (sy_Cluster y) (sy_Phase y p))"

text \<open>The stored object stays as it is, goes away, or gets a version that was never given out.\<close>

definition moves :: "'s server \<Rightarrow> objkey \<Rightarrow> 's \<Rightarrow> 's \<Rightarrow> bool" where
  "moves sv k s s' \<longleftrightarrow> sv_issued sv s \<subseteq> sv_issued sv s' \<and>
     (\<forall>y. sv_stored sv s' k = Some y \<longrightarrow> sv_stored sv s k = Some y \<or> GetResourceVersion y \<notin> sv_issued sv s)"

lemma pending_moves: "moves sv k s s' \<Longrightarrow> pending_ok sv k s ph \<Longrightarrow> pending_ok sv k s' ph"
  unfolding moves_def pending_ok_def by (metis subsetD)

lemma pending_Idle [simp]: "pending_ok sv k s Idle"
  by (simp add: pending_ok_def)

lemma others_moves: "others sv k s s' \<Longrightarrow> moves sv k s s'"
  by (auto simp: others_def moves_def split: option.splits)

context versioned_store
begin

lemma read_result:
  assumes "daemon_object k u" "apply_read norm source (sv_client sv) u s = (r, s')"
  shows "s' = s" and "case sv_stored sv s k of
      None \<Rightarrow> r = Inr (CallCreate u)
    | Some x \<Rightarrow> (case MergeObjectForUpdate norm source x u of
        Inl e \<Rightarrow> r = Inl (Some (CouldNotMerge e))
      | Inr m \<Rightarrow> r = (if x \<noteq> m then Inr (CallUpdate m) else Inl None))"
  using assms daemon_named [of u] daemon_supported [of u]
  by (auto simp: daemon_object_def apply_read_def v_get key_of_def split: option.splits sum.splits)

lemma read_pending:
  assumes "daemon_object k u" "apply_read norm source (sv_client sv) u s = (Inr c, s')"
  shows "pending_ok sv k s (Calling source c)"
proof (cases "sv_stored sv s k")
  case None
  with read_result(2) [OF assms] assms(1) show ?thesis by (simp add: pending_ok_def daemon_object_def)
next
  case (Some x)
  with read_result(2) [OF assms] obtain m where m: "MergeObjectForUpdate norm source x u = Inr m" "c = CallUpdate m"
    by (auto split: sum.splits if_splits)
  have "is_daemon u" "has_daemon (containers_of u)" "key_of u = k" using assms(1) by (simp_all add: daemon_object_def)
  with merged_items [OF _ _ m(1)] v_kept [OF Some] m(2) Some show ?thesis by (simp add: pending_ok_def)
qed

lemma create_effect:
  assumes "kc_Create (sv_client sv) u s = (None, s')"
  shows "moves sv (key_of u) s s'"
    and "sv_stored sv s' (key_of u) = Some x \<Longrightarrow> security_items x = served_items sv (security_items u)"
  using v_create [OF assms] by (auto simp: moves_def served_security)

lemma update_effect:
  assumes "kc_Update (sv_client sv) m s = (None, s')" "GetResourceVersion m \<noteq> ''''"
  shows "moves sv (key_of m) s s'"
    and "\<exists>old y. sv_stored sv s (key_of m) = Some old \<and> GetResourceVersion old = GetResourceVersion m
      \<and> sv_stored sv s' (key_of m) = Some y \<and> served sv m y"
  using v_update [OF assms] by (auto simp: moves_def)

lemma failed_effect:
  assumes "apply_write (sv_client sv) c s = (Some e, s')"
  shows "moves sv k s s'" "sv_stored sv s' = sv_stored sv s"
  using assms v_failed by (cases c; fastforce simp: moves_def split: prod.splits option.splits)+

lemma write_effect:
  assumes "pending_ok sv k s (Calling source c)" "apply_write (sv_client sv) c s = (e, s')"
  shows "moves sv k s s' \<and> (\<forall>x. sv_stored sv s' k = Some x \<longrightarrow>
      (if e = None \<and> decides source c then security_items x = served_items sv (security_items (sent c))
       else \<exists>old. sv_stored sv s k = Some old \<and> security_items x = security_items old))"
proof (cases e)
  case (Some f)
  with failed_effect [OF assms(2) [unfolded Some]] show ?thesis by simp
next
  case None
  show ?thesis
  proof (cases c)
    case (CallCreate u)
    with assms None have "key_of u = k" "kc_Create (sv_client sv) u s = (None, s')"
      by (auto simp: pending_ok_def split: prod.splits option.splits)
    with create_effect [of u s s'] None CallCreate show ?thesis by simp
  next
    case (CallUpdate m)
    with assms None have k: "key_of m = k" and rv: "GetResourceVersion m \<noteq> ''''"
      and u: "kc_Update (sv_client sv) m s = (None, s')"
      and o: "source = SourcePtpOperatorConfig \<Longrightarrow> sv_stored sv s k = Some x \<Longrightarrow>
        GetResourceVersion x = GetResourceVersion m \<Longrightarrow> security_items x = security_items m" for x
      by (auto simp: pending_ok_def split: prod.splits option.splits)
    from update_effect(2) [OF u rv] k obtain old y where y: "sv_stored sv s k = Some old"
      "GetResourceVersion old = GetResourceVersion m" "sv_stored sv s' k = Some y" "served sv m y" by blast
    have "security_items y = security_items old" if "source = SourcePtpOperatorConfig"
      using served_security [OF y(4)] o [OF that y(1,2)] stored_served(1) [OF y(1)] by simp
    with y update_effect(1) [OF u rv] k served_security [OF y(4)] CallUpdate None show ?thesis by auto
  qed
qed

lemma turn_ok:
  assumes "turn norm sv k y y'" "system_ok sv k y"
  shows "system_ok sv k y'"
  using assms
proof (induction rule: turn.induct)
  case (reads y p source u)
  obtain r s where r: "apply_read norm source (sv_client sv) u (sy_Cluster y) = (r, s)" by fastforce
  with reads.prems read_result(1) [OF reads.hyps(3) r] read_pending [OF reads.hyps(3), of norm source "sy_Cluster y"]
  show ?case by (auto simp: read_turn_def system_ok_def split: sum.splits)
next
  case (writes y p source c)
  obtain e s where w: "apply_write (sv_client sv) c (sy_Cluster y) = (e, s)" by fastforce
  from writes have p: "pending_ok sv k (sy_Cluster y) (Calling source c)" by (metis system_ok_def)
  note eff = write_effect [OF p w]
  have "security_items x = sy_Secrets (write_turn sv p source c y)" if "sv_stored sv s k = Some x" for x
    using eff that writes.prems by (auto simp: write_turn_def w system_ok_def split: if_splits)
  with pending_moves [OF conjunct1 [OF eff]] writes.prems show ?case by (auto simp: write_turn_def w system_ok_def)
next
  case (other y s)
  with pending_moves [OF others_moves [OF other.hyps]] show ?case
    by (fastforce simp: system_ok_def others_def split: option.splits)
qed (simp add: system_ok_def)

lemma run_ok:
  assumes "(turn norm sv k)\<^sup>*\<^sup>* y y'" "initial sv k y"
  shows "system_ok sv k y'"
  using assms
proof (induction rule: rtranclp_induct)
  case base
  then show ?case by (simp add: initial_def system_ok_def)
next
  case (step y' y'')
  then show ?case by (blast intro: turn_ok)
qed

end

context versioned_store
begin

text \<open>A writer that is not disturbed between its two calls.\<close>

lemma apply_items:
  assumes d: "daemon_object k u" and a: "ApplyObject norm source (sv_client sv) u s = (None, s')"
  shows "\<exists>z. sv_stored sv s' k = Some z \<and> template_items z = served_items sv (template_items u)
    \<and> security_items z = (case sv_stored sv s k of
        Some x \<Rightarrow> if source = SourcePtpOperatorConfig then security_items x else served_items sv (security_items u)
      | None \<Rightarrow> served_items sv (security_items u))"
proof -
  obtain r s1 where r: "apply_read norm source (sv_client sv) u s = (r, s1)" by fastforce
  note res = read_result [OF d r]
  have u: "is_daemon u" "has_daemon (containers_of u)" "key_of u = k" using d by (simp_all add: daemon_object_def)
  show ?thesis
  proof (cases "sv_stored sv s k")
    case None
    with a r res have "kc_Create (sv_client sv) u s = (None, s')"
      by (auto simp: ApplyObject_halves split: prod.splits option.splits)
    from v_create [OF this] None u show ?thesis by (auto simp: served_security served_template)
  next
    case (Some x)
    with a r res obtain m where m: "MergeObjectForUpdate norm source x u = Inr m"
      and w: "if x = m then s' = s else kc_Update (sv_client sv) m s = (None, s')"
      by (auto simp: ApplyObject_halves split: prod.splits option.splits sum.splits if_splits)
    note mi = merged_items [OF u(1,2) m]
    have "\<exists>z. sv_stored sv s' k = Some z \<and> template_items z = served_items sv (template_items m)
      \<and> security_items z = served_items sv (security_items m)"
    proof (cases "x = m")
      case True
      with w Some stored_served [OF Some] show ?thesis by simp
    next
      case False
      with w update_effect(2) [of m s s'] mi(3,4) u(3) v_kept [OF Some] show ?thesis
        by (auto simp: served_security served_template)
    qed
    with mi(1,2) stored_served(1) [OF Some] Some show ?thesis by auto
  qed
qed

end

section \<open>Properties\<close>

text \<open>C4: However the writers of the two controllers take turns, with any number of each, calls that fail, writers that
  stop half-way and others that change or delete the DaemonSet meanwhile: in every state that is
  reached the DaemonSet has exactly the security volumes, secret hashes and security mounts that the PtpConfig
  controller wrote last or that it was created with. No update of the PtpOperatorConfig controller brings back
  old ones, because it carries the version it was computed from.\<close>

theorem interleaving_keeps_secrets:
  assumes "versioned_store sv" "initial sv k y" "(turn norm sv k)\<^sup>*\<^sup>* y y'"
    and "sv_stored sv (sy_Cluster y') k = Some x"
  shows "security_items x = sy_Secrets y'"
  using versioned_store.run_ok [OF assms(1,3,2)] assms(4) by (simp add: system_ok_def)

text \<open>C11: After any such run, a writer that is not disturbed and does not fail leaves the DaemonSet with the items of the
  object it applied, other than that the PtpOperatorConfig controller keeps the security items that
  the PtpConfig controller wrote last.\<close>

theorem undisturbed_apply_exact:
  assumes "versioned_store sv" "initial sv k y" "(turn norm sv k)\<^sup>*\<^sup>* y y'" "daemon_object k u"
    and "ApplyObject norm source (sv_client sv) u (sy_Cluster y') = (None, s)"
  shows "\<exists>z. sv_stored sv s k = Some z \<and> template_items z = served_items sv (template_items u)
    \<and> security_items z = (if source = SourcePtpOperatorConfig \<and> sv_stored sv (sy_Cluster y') k \<noteq> None
        then sy_Secrets y' else served_items sv (security_items u))"
  using versioned_store.apply_items [OF assms(1,4,5)] versioned_store.run_ok [OF assms(1,3,2)]
  by (auto simp: system_ok_def split: option.splits)

section \<open>A server in memory\<close>

text \<open>The objects that were written, the last one first; the version of an object is its place.\<close>

type_synonym written = "obj list"

definition version :: "nat \<Rightarrow> string" where
  "version n = replicate (Suc n) CHR ''1''"

definition mem_issued :: "written \<Rightarrow> string set" where
  "mem_issued s = version ` {..<length s}"

fun mem_stored :: "written \<Rightarrow> objkey \<Rightarrow> obj option" where
  "mem_stored [] k = None"
| "mem_stored (x # s) k = (if meta_ok x \<and> key_of x = k then Some (SetResourceVersion x (version (length s))) else mem_stored s k)"

definition mem_put :: "obj \<Rightarrow> written \<Rightarrow> api_error option \<times> written" where
  "mem_put x s = (if meta_ok x then (None, x # s) else (Some (OtherError ''invalid''), s))"

definition mem_server :: "written server" where
  "mem_server = \<lparr>sv_client = \<lparr>
       kc_Get = \<lambda>g ns n s. (case mem_stored s (g, ns, n) of None \<Rightarrow> Inl NotFound | Some x \<Rightarrow> Inr x, s),
       kc_Create = \<lambda>x s. if mem_stored s (key_of x) = None then mem_put x s else (Some (OtherError ''exists''), s),
       kc_Update = \<lambda>x s. (case mem_stored s (key_of x) of None \<Rightarrow> (Some NotFound, s)
         | Some old \<Rightarrow> if GetResourceVersion x \<in> {'''', GetResourceVersion old} then mem_put x s else (Some (OtherError ''conflict''), s))\<rparr>,
     sv_stored = mem_stored, sv_issued = mem_issued, sv_volume = \<lambda>v. v, sv_mount = \<lambda>v. v\<rparr>"

lemma version_issued: "version n \<in> mem_issued s \<longleftrightarrow> n < length s"
  by (auto simp: mem_issued_def version_def)

lemma version_nonempty: "version n \<noteq> ''''"
  by (simp add: version_def)

lemma mem_issued_mono: "mem_issued s \<subseteq> mem_issued (x # s)"
  by (auto simp: mem_issued_def)

lemma SetResourceVersion_reads:
  assumes "meta_ok x"
  shows "GetResourceVersion (SetResourceVersion x v) = v" "served mem_server x (SetResourceVersion x v)"
proof -
  show "GetResourceVersion (SetResourceVersion x v) = v"
    by (simp add: GetResourceVersion_def SetResourceVersion_def get_set_string [OF assms])
  have f: "NestedFieldNoCopy (SetResourceVersion x v) q = NestedFieldNoCopy x q" if "apart (meta ''resourceVersion'') q" for q
    using set_meta_frame(1) [OF that] by (simp add: SetResourceVersion_def)
  have "gvk_of (SetResourceVersion x v) = gvk_of x" by (rule gvk_frame; rule f) simp_all
  then show "served mem_server x (SetResourceVersion x v)"
    by (simp add: served_def mem_server_def key_of_def GetName_def GetNamespace_def getVolumesFromCurrent_def
        getAnnotationsFromCurrent_def getMountsFromCurrent_def readers_frame [OF f])
qed

lemma mem_stored_kept:
  "mem_stored s k = Some x \<Longrightarrow> key_of x = k \<and> GetResourceVersion x \<in> mem_issued s \<and> GetResourceVersion x \<noteq> ''''"
proof (induction s)
  case (Cons y s)
  then show ?case
    using SetResourceVersion_reads [of y] mem_issued_mono [of s y]
    by (auto simp: version_issued version_nonempty served_def split: if_splits)
qed simp

lemma mem_put_effect:
  assumes "mem_put x s = (None, s')"
  shows "mem_issued s \<subseteq> mem_issued s' \<and>
    (\<exists>y. served mem_server x y \<and> GetResourceVersion y \<notin> mem_issued s \<and> mem_stored s' = (mem_stored s)(key_of x \<mapsto> y))"
proof -
  from assms have x: "meta_ok x" "s' = x # s" by (auto simp: mem_put_def split: if_splits)
  let ?y = "SetResourceVersion x (version (length s))"
  have "mem_stored s' = (mem_stored s)(key_of x \<mapsto> ?y)" using x by (auto simp: fun_eq_iff)
  with SetResourceVersion_reads [OF x(1)] mem_issued_mono x(2) show ?thesis by (metis version_issued less_irrefl)
qed

interpretation memv: versioned_store mem_server
proof
  fix x k s s' e
  show "sv_stored mem_server s k = Some x \<Longrightarrow>
      key_of x = k \<and> GetResourceVersion x \<in> sv_issued mem_server s \<and> GetResourceVersion x \<noteq> '''' \<and> served mem_server x x"
    using mem_stored_kept [of s k x] by (simp add: mem_server_def served_def)
  show "kc_Create (sv_client mem_server) x s = (None, s') \<Longrightarrow>
      sv_stored mem_server s (key_of x) = None \<and> sv_issued mem_server s \<subseteq> sv_issued mem_server s' \<and>
      (\<exists>y. served mem_server x y \<and> GetResourceVersion y \<notin> sv_issued mem_server s
         \<and> sv_stored mem_server s' = (sv_stored mem_server s)(key_of x \<mapsto> y))"
    using mem_put_effect [of x s s'] by (simp add: mem_server_def split: if_splits)
  show "kc_Update (sv_client mem_server) x s = (None, s') \<Longrightarrow> GetResourceVersion x \<noteq> '''' \<Longrightarrow>
      sv_issued mem_server s \<subseteq> sv_issued mem_server s' \<and>
      (\<exists>old y. sv_stored mem_server s (key_of x) = Some old \<and> GetResourceVersion x = GetResourceVersion old \<and> served mem_server x y
         \<and> (y = old \<or> GetResourceVersion y \<notin> sv_issued mem_server s) \<and> sv_stored mem_server s' = (sv_stored mem_server s)(key_of x \<mapsto> y))"
    using mem_put_effect [of x s s'] by (auto simp: mem_server_def split: option.splits if_splits)
  show "kc_Create (sv_client mem_server) x s = (Some e, s') \<or> kc_Update (sv_client mem_server) x s = (Some e, s') \<Longrightarrow>
      sv_stored mem_server s' = sv_stored mem_server s \<and> sv_issued mem_server s \<subseteq> sv_issued mem_server s'"
    by (auto simp: mem_server_def mem_put_def split: option.splits if_splits)
qed (simp_all add: mem_server_def)

section \<open>Witnesses\<close>

text \<open>The DaemonSet is in the cluster with one secret. The PtpOperatorConfig controller reads it; the PtpConfig controller reads it and
  replaces the secret; the update of the first is then rejected, and so the new secret stays. After reading again
  the first controller writes its template.\<close>

definition wit_key :: objkey where
  "wit_key = key_of wit_updated"

definition wit_rotated :: obj where
  "wit_rotated = wit_daemon [''config'', ''other-tlv-auth'']"

definition wit_start :: "written system" where
  "wit_start = \<lparr>sy_Cluster = [wit_current], sy_Phase = (\<lambda>p. Idle), sy_Secrets = security_items wit_current\<rparr>"

text \<open>The turn of a writer, by what it is about to do.\<close>

definition next_turn :: "string \<Rightarrow> obj \<Rightarrow> nat \<Rightarrow> written system \<Rightarrow> written system" where
  "next_turn source u p y = (case sy_Phase y p of
     Idle \<Rightarrow> read_turn (\<lambda>t. t) mem_server p source u y
   | Calling src c \<Rightarrow> write_turn mem_server p src c y)"

definition wit_rejected :: "written system" where
  "wit_rejected = (let op = next_turn SourcePtpOperatorConfig wit_updated 0; pc = next_turn SourcePtpConfig wit_rotated 1
     in op (pc (pc (op wit_start))))"

lemma next_turn_turn:
  assumes "source \<in> {SourcePtpConfig, SourcePtpOperatorConfig}" "daemon_object k u"
  shows "turn (\<lambda>t. t) mem_server k y (next_turn source u p y)"
  using assms by (auto simp: next_turn_def intro: turn.intros split: phase.split)

lemma wit_daemon_objects: "daemon_object wit_key wit_updated" "daemon_object wit_key wit_rotated"
  by code_simp+

lemma wit_initial: "initial mem_server wit_key wit_start"
proof -
  have "sv_stored mem_server [wit_current] wit_key = mem_stored [wit_current] wit_key" by (simp add: mem_server_def)
  moreover have "security_items (SetResourceVersion wit_current (version 0)) = security_items wit_current" by code_simp
  ultimately show ?thesis by (auto simp: initial_def wit_start_def split: if_splits)
qed

lemma wit_run: "(turn (\<lambda>t. t) mem_server wit_key)\<^sup>*\<^sup>* wit_start wit_rejected"
proof -
  have s: "(turn (\<lambda>t. t) mem_server wit_key)\<^sup>*\<^sup>* wit_start (next_turn source u p y)"
    if "(turn (\<lambda>t. t) mem_server wit_key)\<^sup>*\<^sup>* wit_start y" "source \<in> {SourcePtpConfig, SourcePtpOperatorConfig}"
      "daemon_object wit_key u" for source u p y
    by (rule rtranclp.rtrancl_into_rtrancl [OF that(1) next_turn_turn [OF that(2,3)]])
  show ?thesis unfolding wit_rejected_def Let_def by (intro s rtranclp.rtrancl_refl wit_daemon_objects) simp_all
qed

text \<open>Two objects were written, the one at the start and the one of the PtpConfig controller.\<close>

lemma wit_conflict: "length (sy_Cluster wit_rejected) = 2" "sy_Phase wit_rejected 0 = Idle"
  by code_simp+

theorem interleaving_keeps_secrets_witness:
  "\<exists>x. sv_stored mem_server (sy_Cluster wit_rejected) wit_key = Some x
     \<and> it_Volumes (security_items x) = [named ''other-tlv-auth'']"
proof -
  have "sv_stored mem_server (sy_Cluster wit_rejected) wit_key \<noteq> None" by code_simp
  then obtain x where x: "sv_stored mem_server (sy_Cluster wit_rejected) wit_key = Some x" by auto
  have "it_Volumes (sy_Secrets wit_rejected) = [named ''other-tlv-auth'']" by code_simp
  with interleaving_keeps_secrets [OF memv.versioned_store_axioms wit_initial wit_run x] x show ?thesis by auto
qed

theorem undisturbed_apply_exact_witness:
  "\<exists>s z. ApplyObject (\<lambda>t. t) SourcePtpOperatorConfig (sv_client mem_server) wit_updated (sy_Cluster wit_rejected) = (None, s)
     \<and> sv_stored mem_server s wit_key = Some z \<and> it_Volumes (template_items z) = [named ''config'', named ''new'']
     \<and> it_Volumes (security_items z) = [named ''other-tlv-auth'']"
proof -
  let ?a = "ApplyObject (\<lambda>t. t) SourcePtpOperatorConfig (sv_client mem_server) wit_updated (sy_Cluster wit_rejected)"
  have "fst ?a = None" by code_simp
  then have a: "?a = (None, snd ?a)" by (simp add: prod_eq_iff)
  have "sv_stored mem_server (sy_Cluster wit_rejected) wit_key \<noteq> None" by code_simp
  moreover have "it_Volumes (sy_Secrets wit_rejected) = [named ''other-tlv-auth'']" by code_simp
  moreover have "it_Volumes (served_items mem_server (template_items wit_updated)) = [named ''config'', named ''new'']" by code_simp
  moreover note undisturbed_apply_exact [OF memv.versioned_store_axioms wit_initial wit_run wit_daemon_objects(1) a]
  ultimately show ?thesis using a by (metis (no_types, lifting))
qed

text \<open>The PtpConfig controller prepares its object from a DaemonSet that it read earlier. When the template was
  written in between, its write is not rejected, since \<open>ApplyObject\<close> takes the version of its own read, and brings back
  the items of the older template; the next run of the PtpOperatorConfig controller restores them.\<close>

definition template_volumes :: "written \<Rightarrow> json list option" where
  "template_volumes s = map_option (\<lambda>x. it_Volumes (template_items x)) (mem_stored s wit_key)"

lemma stale_prepared_object_reverts_template:
  fixes run defines "run \<equiv> \<lambda>source u s. ApplyObject (\<lambda>t. t) source (sv_client mem_server) u s"
  defines "s1 \<equiv> snd (run SourcePtpOperatorConfig wit_updated [wit_current])"
  defines "s2 \<equiv> snd (run SourcePtpConfig wit_rotated s1)"
  shows "template_volumes s1 = Some [named ''config'', named ''new'']" "fst (run SourcePtpConfig wit_rotated s1) = None"
    "template_volumes s2 = Some [named ''config'']"
    "template_volumes (snd (run SourcePtpOperatorConfig wit_updated s2)) = Some [named ''config'', named ''new'']"
  unfolding s2_def s1_def run_def by code_simp+

end
