(* ===== verification/Scheme_Registration.thy ===== *)
theory Scheme_Registration
  imports Owner_References
begin

text \<open>
  Registration of the API types: the vendored \<open>runtime.Scheme\<close> with its panics, \<open>metav1.AddToGroupVersion\<close> and the
  scheme builder of controller-runtime, \<open>api/*/groupversion_info.go\<close> with the \<open>init\<close> functions of the API packages, the
  \<open>init\<close> of \<open>main.go\<close>, and the schemes of the generated client and its fake. The registrations of client-go and
  of OpenShift's \<open>configv1\<close> are parameters.
\<close>

section \<open>The scheme\<close>

text \<open>A Go struct type, by the path of its package and its name.\<close>

record GoType =
  gt_Pkg :: string
  gt_Name :: string

record Scheme =
  gvkToType :: "GroupVersionKind \<Rightarrow> GoType option"
  typeToGVK :: "GoType \<Rightarrow> GroupVersionKind list"
  unversionedTypes :: "GoType \<Rightarrow> GroupVersionKind option"
  unversionedKinds :: "string \<Rightarrow> GoType option"
  observedVersions :: "(string \<times> string) list"

definition NewScheme :: Scheme where
  "NewScheme = \<lparr>gvkToType = \<lambda>g. None, typeToGVK = \<lambda>t. [], unversionedTypes = \<lambda>t. None, unversionedKinds = \<lambda>k. None,
     observedVersions = []\<rparr>"

definition APIVersionInternal :: string where "APIVersionInternal = ''__internal''"

definition WithKind :: "string \<times> string \<Rightarrow> string \<Rightarrow> GroupVersionKind" where
  "WithKind gv k = \<lparr>gvk_Group = fst gv, gvk_Version = snd gv, gvk_Kind = k\<rparr>"

definition addObservedVersion :: "string \<times> string \<Rightarrow> Scheme \<Rightarrow> Scheme" where
  "addObservedVersion gv s =
     (if snd gv = '''' \<or> snd gv = APIVersionInternal \<or> gv \<in> set (observedVersions s) then s
      else s\<lparr>observedVersions := observedVersions s @ [gv]\<rparr>)"

text \<open>
  \<open>obj\<close> is always a pointer to a struct here, and is given by the type of the struct. The source ends by
  registering the conversion of a type that has \<open>DeepCopyInto\<close> to itself; that call fails only
  for types that are not pointers, and conversions are no part of the model.
\<close>

definition AddKnownTypeWithName :: "GroupVersionKind \<Rightarrow> GoType \<Rightarrow> Scheme \<Rightarrow> (string, Scheme) go" where
  "AddKnownTypeWithName gvk t s0 =
     (let s = addObservedVersion (gvk_Group gvk, gvk_Version gvk) s0 in
      if gvk_Version gvk = '''' then panic ExplicitPanic
      else if gvkToType s gvk \<noteq> None \<and> gvkToType s gvk \<noteq> Some t then panic ExplicitPanic
      else let s1 = s\<lparr>gvkToType := (gvkToType s)(gvk \<mapsto> t)\<rparr> in
        if gvk \<in> set (typeToGVK s1 t) then Inr s1
        else Inr (s1\<lparr>typeToGVK := (typeToGVK s1)(t := typeToGVK s1 t @ [gvk])\<rparr>))"

definition AddKnownTypes :: "string \<times> string \<Rightarrow> GoType list \<Rightarrow> Scheme \<Rightarrow> (string, Scheme) go" where
  "AddKnownTypes gv types s =
     fold_go (\<lambda>s t. AddKnownTypeWithName (WithKind gv (gt_Name t)) t s) (addObservedVersion gv s) types"

definition add_unversioned :: "string \<times> string \<Rightarrow> Scheme \<Rightarrow> GoType \<Rightarrow> (string, Scheme) go" where
  "add_unversioned gv s t =
     (let s1 = s\<lparr>unversionedTypes := (unversionedTypes s)(t \<mapsto> WithKind gv (gt_Name t))\<rparr>;
          old = unversionedKinds s1 (gt_Name t) in
      if old \<noteq> None \<and> old \<noteq> Some t then panic ExplicitPanic
      else Inr (s1\<lparr>unversionedKinds := (unversionedKinds s1)(gt_Name t \<mapsto> t)\<rparr>))"

definition AddUnversionedTypes :: "string \<times> string \<Rightarrow> GoType list \<Rightarrow> Scheme \<Rightarrow> (string, Scheme) go" where
  "AddUnversionedTypes gv types s =
     bind_go (AddKnownTypes gv types (addObservedVersion gv s)) (\<lambda>s1. fold_go (add_unversioned gv) s1 types)"

text \<open>\<open>ObjectKinds\<close> and \<open>apiutil.GVKForObject\<close> of a typed object; \<open>current\<close> is the kind that the object itself carries.\<close>

datatype kind_error = NotRegistered | UnversionedType | ManyKinds

definition ObjectKinds :: "Scheme \<Rightarrow> GoType \<Rightarrow> (kind_error, GroupVersionKind list \<times> bool) go" where
  "ObjectKinds s t =
     (if typeToGVK s t = [] then err NotRegistered else Inr (typeToGVK s t, unversionedTypes s t \<noteq> None))"

definition GVKForObject :: "Scheme \<Rightarrow> GoType \<Rightarrow> GroupVersionKind \<Rightarrow> (kind_error, GroupVersionKind) go" where
  "GVKForObject s t current =
     bind_go (ObjectKinds s t) (\<lambda>(gvks, isUnversioned).
       if isUnversioned then err UnversionedType
       else if length gvks < 1 then err NotRegistered
       else if length gvks > 1 then
         (if current \<noteq> \<lparr>gvk_Group = '''', gvk_Version = '''', gvk_Kind = ''''\<rparr> \<and> current \<in> set gvks then Inr current
          else err ManyKinds)
       else Inr (hd gvks))"

section \<open>The kinds of every group\<close>

definition metav1 :: "string \<Rightarrow> GoType" where
  "metav1 n = \<lparr>gt_Pkg = ''k8s.io/apimachinery/pkg/apis/meta/v1'', gt_Name = n\<rparr>"

definition WatchEventKind :: string where "WatchEventKind = ''WatchEvent''"

definition optionsTypes :: "string list" where
  "optionsTypes = [''ListOptions'', ''GetOptions'', ''DeleteOptions'', ''CreateOptions'', ''UpdateOptions'', ''PatchOptions'']"

definition unversioned_names :: "string list" where
  "unversioned_names = [''Status'', ''APIVersions'', ''APIGroupList'', ''APIGroup'', ''APIResourceList'']"

text \<open>
  The two \<open>Must\<close> calls at the end of the source, which register conversions and defaulting functions, are left
  out: they fail only for types that are not pointers, and the types they are given are fixed.
\<close>

definition AddToGroupVersion :: "string \<times> string \<Rightarrow> Scheme \<Rightarrow> (string, Scheme) go" where
  "AddToGroupVersion gv s =
     bind_go (AddKnownTypeWithName (WithKind gv WatchEventKind) (metav1 ''WatchEvent'') s) (\<lambda>s1.
     bind_go (AddKnownTypeWithName (WithKind (fst gv, APIVersionInternal) WatchEventKind) (metav1 ''InternalEvent'') s1) (\<lambda>s2.
     bind_go (AddKnownTypes gv (map metav1 optionsTypes) s2) (\<lambda>s3.
     AddUnversionedTypes ('''', ''v1'') (map metav1 unversioned_names) s3)))"

section \<open>Builders\<close>

text \<open>A builder of controller-runtime: its group version and the lists it was given to register.\<close>

record Builder =
  bld_GroupVersion :: "string \<times> string"
  bld_Registered :: "GoType list list"

definition Register :: "GoType list \<Rightarrow> Builder \<Rightarrow> Builder" where
  "Register objects bld = bld\<lparr>bld_Registered := bld_Registered bld @ [objects]\<rparr>"

definition AddToScheme :: "Builder \<Rightarrow> Scheme \<Rightarrow> (string, Scheme) go" where
  "AddToScheme bld s =
     fold_go (\<lambda>s objects. bind_go (AddKnownTypes (bld_GroupVersion bld) objects s) (AddToGroupVersion (bld_GroupVersion bld)))
       s (bld_Registered bld)"

section \<open>The API packages\<close>

definition ptpv1_GroupVersion :: "string \<times> string" where
  "ptpv1_GroupVersion = (''ptp.openshift.io'', ''v1'')"

definition ptpv2alpha1_GroupVersion :: "string \<times> string" where
  "ptpv2alpha1_GroupVersion = (''ptp.openshift.io'', ''v2alpha1'')"

definition api_package :: "string \<Rightarrow> string" where
  "api_package version = ''github.com/k8snetworkplumbingwg/ptp-operator/api/'' @ version"

definition api_type :: "string \<times> string \<Rightarrow> string \<Rightarrow> GoType" where
  "api_type gv n = \<lparr>gt_Pkg = api_package (snd gv), gt_Name = n\<rparr>"

text \<open>The \<open>init\<close> functions of a package run in the order of the file names.\<close>

definition nodeptpdevice_init :: "Builder \<Rightarrow> Builder" where
  "nodeptpdevice_init = Register (map (api_type ptpv1_GroupVersion) [''NodePtpDevice'', ''NodePtpDeviceList''])"

definition ptpconfig_init :: "Builder \<Rightarrow> Builder" where
  "ptpconfig_init = Register (map (api_type ptpv1_GroupVersion) [''PtpConfig'', ''PtpConfigList''])"

definition ptpoperatorconfig_init :: "Builder \<Rightarrow> Builder" where
  "ptpoperatorconfig_init = Register (map (api_type ptpv1_GroupVersion) [''PtpOperatorConfig'', ''PtpOperatorConfigList''])"

definition hardwareconfig_init :: "Builder \<Rightarrow> Builder" where
  "hardwareconfig_init = Register (map (api_type ptpv2alpha1_GroupVersion) [''HardwareConfig'', ''HardwareConfigList''])"

definition ptpv1_SchemeBuilder :: Builder where
  "ptpv1_SchemeBuilder = ptpoperatorconfig_init (ptpconfig_init (nodeptpdevice_init
     \<lparr>bld_GroupVersion = ptpv1_GroupVersion, bld_Registered = []\<rparr>))"

definition ptpv2alpha1_SchemeBuilder :: Builder where
  "ptpv2alpha1_SchemeBuilder = hardwareconfig_init \<lparr>bld_GroupVersion = ptpv2alpha1_GroupVersion, bld_Registered = []\<rparr>"

section \<open>The schemes of the program\<close>

definition Must :: "('e, 'a) go \<Rightarrow> ('e, 'a) go" where
  "Must r = (case r of Inl e \<Rightarrow> panic ExplicitPanic | Inr a \<Rightarrow> Inr a)"

text \<open>\<open>clientgo\<close> and \<open>configv1\<close> are the registrations of client-go and of OpenShift's configuration API.\<close>

definition main_init :: "(Scheme \<Rightarrow> (string, Scheme) go) \<Rightarrow> (Scheme \<Rightarrow> (string, Scheme) go) \<Rightarrow> (string, Scheme) go" where
  "main_init clientgo configv1 =
     bind_go (Must (clientgo NewScheme)) (\<lambda>s1.
     bind_go (Must (AddToScheme ptpv1_SchemeBuilder s1)) (\<lambda>s2.
     bind_go (Must (AddToScheme ptpv2alpha1_SchemeBuilder s2)) (\<lambda>s3.
     Must (configv1 s3))))"

text \<open>The scheme of the generated client, and that of its fake, which is built alike.\<close>

definition clientset_scheme_init :: "(string, Scheme) go" where
  "clientset_scheme_init =
     bind_go (AddToGroupVersion ('''', ''v1'') NewScheme) (\<lambda>s. Must (AddToScheme ptpv1_SchemeBuilder s))"

definition fake_scheme_init :: "(string, Scheme) go" where
  "fake_scheme_init =
     bind_go (AddToGroupVersion ('''', ''v1'') NewScheme) (\<lambda>s. Must (AddToScheme ptpv1_SchemeBuilder s))"

section \<open>What may be registered where\<close>

definition meta_kinds :: "string list" where
  "meta_kinds = WatchEventKind # optionsTypes @ unversioned_names"

text \<open>The type of a kind in the operator's group, and of the kinds of \<open>metav1\<close> in the core group.\<close>

definition expected :: "GroupVersionKind \<Rightarrow> GoType" where
  "expected g = (if gvk_Kind g = WatchEventKind \<and> gvk_Version g = APIVersionInternal then metav1 ''InternalEvent''
     else if gvk_Kind g \<in> set meta_kinds then metav1 (gvk_Kind g)
     else \<lparr>gt_Pkg = api_package (gvk_Version g), gt_Name = gvk_Kind g\<rparr>)"

definition ours :: "GroupVersionKind \<Rightarrow> bool" where
  "ours g \<longleftrightarrow> gvk_Group g = ''ptp.openshift.io'' \<or> gvk_Group g = '''' \<and> gvk_Kind g \<in> set meta_kinds"

definition own_type :: "GoType \<Rightarrow> bool" where
  "own_type t \<longleftrightarrow> (\<exists>v. gt_Pkg t = api_package v)"

definition scheme_ok :: "Scheme \<Rightarrow> bool" where
  "scheme_ok s \<longleftrightarrow> (\<forall>g. ours g \<longrightarrow> gvkToType s g = None \<or> gvkToType s g = Some (expected g))
     \<and> (\<forall>k \<in> set unversioned_names. unversionedKinds s k = None \<or> unversionedKinds s k = Some (metav1 k))
     \<and> (\<forall>t. own_type t \<longrightarrow> unversionedTypes s t = None \<and> distinct (typeToGVK s t)
          \<and> (\<forall>g \<in> set (typeToGVK s t). ours g \<and> expected g = t))"

text \<open>Registrations of others: no types of the API packages, nothing in the operator's group, and under the names
  of \<open>metav1\<close> only the types of \<open>metav1\<close>.\<close>

definition foreign :: "(Scheme \<Rightarrow> (string, Scheme) go) \<Rightarrow> bool" where
  "foreign reg \<longleftrightarrow> (\<forall>s s'. reg s = Inr s' \<longrightarrow>
     (\<forall>t. own_type t \<longrightarrow> typeToGVK s' t = typeToGVK s t \<and> unversionedTypes s' t = unversionedTypes s t)
     \<and> (\<forall>g. gvk_Group g = ''ptp.openshift.io'' \<longrightarrow> gvkToType s' g = gvkToType s g)
     \<and> (\<forall>g. gvk_Group g = '''' \<and> gvk_Kind g \<in> set meta_kinds \<longrightarrow> gvkToType s' g \<in> {gvkToType s g, Some (expected g)})
     \<and> (\<forall>k \<in> set unversioned_names. unversionedKinds s' k \<in> {unversionedKinds s k, Some (metav1 k)}))"

section \<open>Lemmas\<close>

lemma observed_simps [simp]:
  "gvkToType (addObservedVersion gv s) = gvkToType s" "typeToGVK (addObservedVersion gv s) = typeToGVK s"
  "unversionedTypes (addObservedVersion gv s) = unversionedTypes s" "unversionedKinds (addObservedVersion gv s) = unversionedKinds s"
  by (simp_all add: addObservedVersion_def)

lemma observed_ok [simp]: "scheme_ok (addObservedVersion gv s) = scheme_ok s"
  by (simp add: scheme_ok_def)

lemma WithKind_simps [simp]:
  "gvk_Group (WithKind gv k) = fst gv" "gvk_Version (WithKind gv k) = snd gv" "gvk_Kind (WithKind gv k) = k"
  by (simp_all add: WithKind_def)

lemma gt_Name_simps [simp]: "gt_Name (metav1 n) = n" "gt_Name (api_type gv n) = n"
  by (simp_all add: metav1_def api_type_def)

lemma not_own_metav1 [simp]: "\<not> own_type (metav1 n)"
  by (simp add: own_type_def metav1_def api_package_def)

lemma expected_own:
  assumes "own_type t" "ours g" "expected g = t"
  shows "g = \<lparr>gvk_Group = ''ptp.openshift.io'', gvk_Version = gvk_Version g, gvk_Kind = gt_Name t\<rparr>
    \<and> gt_Pkg t = api_package (gvk_Version g)"
  using assms not_own_metav1 by (cases g) (auto simp: expected_def ours_def split: if_splits)

lemma expected_inj: "own_type t \<Longrightarrow> ours g \<Longrightarrow> ours h \<Longrightarrow> expected g = t \<Longrightarrow> expected h = t \<Longrightarrow> g = h"
  using expected_own [of t g] expected_own [of t h] by (auto simp: api_package_def)

text \<open>What is registered stays registered.\<close>

definition grows :: "Scheme \<Rightarrow> Scheme \<Rightarrow> bool" where
  "grows s s' \<longleftrightarrow> (\<forall>t. own_type t \<longrightarrow> set (typeToGVK s t) \<subseteq> set (typeToGVK s' t))
     \<and> (\<forall>g. ours g \<and> gvkToType s g \<noteq> None \<longrightarrow> gvkToType s' g \<noteq> None)"

lemma grows_refl [simp]: "grows s s"
  by (simp add: grows_def)

lemma grows_trans [trans]: "grows s s' \<Longrightarrow> grows s' s'' \<Longrightarrow> grows s s''"
  unfolding grows_def by (metis subset_trans)

lemma grows_observed [simp]: "grows (addObservedVersion gv s) s' = grows s s'"
  by (simp add: grows_def)

definition registered :: "GroupVersionKind \<Rightarrow> Scheme \<Rightarrow> bool" where
  "registered g s \<longleftrightarrow> gvkToType s g \<noteq> None \<and> (own_type (expected g) \<longrightarrow> g \<in> set (typeToGVK s (expected g)))"

lemma registered_grows: "grows s s' \<Longrightarrow> ours g \<Longrightarrow> registered g s \<Longrightarrow> registered g s'"
  by (auto simp: grows_def registered_def)

text \<open>A registration that leads from a good scheme to a good one.\<close>

definition extends :: "GroupVersionKind set \<Rightarrow> (Scheme \<Rightarrow> (string, Scheme) go) \<Rightarrow> bool" where
  "extends G reg \<longleftrightarrow> (\<forall>s. scheme_ok s \<longrightarrow>
     (\<exists>s'. reg s = Inr s' \<and> scheme_ok s' \<and> grows s s' \<and> (\<forall>g \<in> G. registered g s')))"

lemma extends_subset: "extends G reg \<Longrightarrow> H \<subseteq> G \<Longrightarrow> extends H reg"
  unfolding extends_def by (meson subsetD)

lemma extends_bind:
  assumes "extends G f" "extends H h" "\<And>g. g \<in> G \<Longrightarrow> ours g"
  shows "extends (G \<union> H) (\<lambda>s. bind_go (f s) h)"
  unfolding extends_def
proof (intro allI impI)
  fix s assume "scheme_ok s"
  with assms(1) obtain s1 where 1: "f s = Inr s1" "scheme_ok s1" "grows s s1" "\<forall>g \<in> G. registered g s1"
    unfolding extends_def by blast
  with assms(2) obtain s2 where 2: "h s1 = Inr s2" "scheme_ok s2" "grows s1 s2" "\<forall>g \<in> H. registered g s2"
    unfolding extends_def by blast
  from 1 2 assms(3) registered_grows [OF 2(3)] grows_trans [OF 1(3) 2(3)]
  show "\<exists>s'. bind_go (f s) h = Inr s' \<and> scheme_ok s' \<and> grows s s' \<and> (\<forall>g \<in> G \<union> H. registered g s')" by auto
qed

lemma extends_fold:
  assumes "\<And>x. x \<in> set xs \<Longrightarrow> extends (G x) (\<lambda>s. f s x)" "\<And>x g. x \<in> set xs \<Longrightarrow> g \<in> G x \<Longrightarrow> ours g"
  shows "extends (\<Union>x \<in> set xs. G x) (\<lambda>s. fold_go f s xs)"
  using assms
proof (induction xs)
  case Nil
  show ?case by (simp add: extends_def)
next
  case (Cons x xs)
  have "extends (G x \<union> (\<Union>y \<in> set xs. G y)) (\<lambda>s. bind_go (f s x) (\<lambda>s. fold_go f s xs))"
    by (rule extends_bind) (use Cons in auto)
  then show ?case by simp
qed

lemma extends_known:
  assumes "ours g" "expected g = t" "gvk_Version g \<noteq> ''''"
  shows "extends {g} (AddKnownTypeWithName g t)"
  unfolding extends_def
proof (intro allI impI)
  fix s assume ok: "scheme_ok s"
  let ?s = "addObservedVersion (gvk_Group g, gvk_Version g) s"
  let ?s1 = "?s\<lparr>gvkToType := (gvkToType s)(g \<mapsto> t)\<rparr>"
  let ?s2 = "?s1\<lparr>typeToGVK := (typeToGVK s)(t := typeToGVK s t @ [g])\<rparr>"
  from ok assms(1,2) have "gvkToType s g = None \<or> gvkToType s g = Some t" by (auto simp: scheme_ok_def)
  with assms(3) have r: "AddKnownTypeWithName g t s = Inr (if g \<in> set (typeToGVK s t) then ?s1 else ?s2)"
    by (auto simp: AddKnownTypeWithName_def Let_def)
  have "scheme_ok (if g \<in> set (typeToGVK s t) then ?s1 else ?s2)" using ok assms by (auto simp: scheme_ok_def)
  moreover have "grows s (if g \<in> set (typeToGVK s t) then ?s1 else ?s2)" by (auto simp: grows_def)
  moreover have "registered g (if g \<in> set (typeToGVK s t) then ?s1 else ?s2)" using assms by (auto simp: registered_def)
  ultimately show "\<exists>s'. AddKnownTypeWithName g t s = Inr s' \<and> scheme_ok s' \<and> grows s s' \<and> (\<forall>g \<in> {g}. registered g s')"
    using r by auto
qed

lemma extends_observed: "extends G reg \<Longrightarrow> extends G (\<lambda>s. reg (addObservedVersion gv s))"
  by (auto simp: extends_def) (metis grows_observed observed_ok)

lemma extends_known_types:
  assumes "\<And>t. t \<in> set ts \<Longrightarrow> ours (WithKind gv (gt_Name t)) \<and> expected (WithKind gv (gt_Name t)) = t" "snd gv \<noteq> ''''"
  shows "extends ((\<lambda>t. WithKind gv (gt_Name t)) ` set ts) (AddKnownTypes gv ts)"
proof -
  have "extends (\<Union>t \<in> set ts. {WithKind gv (gt_Name t)})
      (\<lambda>s. fold_go (\<lambda>s t. AddKnownTypeWithName (WithKind gv (gt_Name t)) t s) s ts)"
    by (rule extends_fold) (use assms in \<open>auto intro: extends_known\<close>)
  from extends_observed [OF this, of gv] show ?thesis
    unfolding AddKnownTypes_def [abs_def] by (simp add: UNION_singleton_eq_range)
qed

lemma extends_unversioned:
  assumes "set ns \<subseteq> set unversioned_names"
  shows "extends {} (AddUnversionedTypes ('''', ''v1'') (map metav1 ns))"
proof -
  have u: "extends {} (\<lambda>s. add_unversioned gv s (metav1 n))" if "n \<in> set ns" for n gv
    unfolding extends_def
  proof (intro allI impI)
    fix s assume ok: "scheme_ok s"
    have "unversionedKinds s n = None \<or> unversionedKinds s n = Some (metav1 n)" using ok that assms by (auto simp: scheme_ok_def)
    then show "\<exists>s'. add_unversioned gv s (metav1 n) = Inr s' \<and> scheme_ok s' \<and> grows s s' \<and> (\<forall>g \<in> {}. registered g s')"
      using ok by (auto simp: add_unversioned_def Let_def scheme_ok_def grows_def)
  qed
  have "extends ((\<lambda>t. WithKind ('''', ''v1'') (gt_Name t)) ` set (map metav1 ns)) (AddKnownTypes ('''', ''v1'') (map metav1 ns))"
    by (rule extends_known_types)
      (use assms in \<open>auto simp: ours_def expected_def meta_kinds_def APIVersionInternal_def\<close>)
  moreover have "extends (\<Union>t \<in> set (map metav1 ns). {}) (\<lambda>s. fold_go (add_unversioned ('''', ''v1'')) s (map metav1 ns))"
    by (rule extends_fold) (use u in auto)
  ultimately have "extends ({} \<union> {}) (\<lambda>s. bind_go (AddKnownTypes ('''', ''v1'') (map metav1 ns) s)
      (\<lambda>s1. fold_go (add_unversioned ('''', ''v1'')) s1 (map metav1 ns)))"
    by (intro extends_bind) (auto elim: extends_subset)
  then have "extends {} (\<lambda>s. bind_go (AddKnownTypes ('''', ''v1'') (map metav1 ns) s)
      (\<lambda>s1. fold_go (add_unversioned ('''', ''v1'')) s1 (map metav1 ns)))" by simp
  from extends_observed [OF this] show ?thesis unfolding AddUnversionedTypes_def [abs_def] .
qed

lemma extends_group_version:
  assumes "fst gv = ''ptp.openshift.io'' \<or> fst gv = ''''" "snd gv \<noteq> ''''" "snd gv \<noteq> APIVersionInternal"
  shows "extends {} (AddToGroupVersion gv)"
proof -
  let ?w = "WithKind gv WatchEventKind" and ?i = "WithKind (fst gv, APIVersionInternal) WatchEventKind"
  have o: "ours (WithKind (fst gv, v) k)" "ours (WithKind gv k)" if "k \<in> set meta_kinds" for k v
    using assms(1) that by (auto simp: ours_def)
  have k: "WatchEventKind \<in> set meta_kinds" "set optionsTypes \<subseteq> set meta_kinds" by (auto simp: meta_kinds_def)
  have e: "expected ?w = metav1 ''WatchEvent''" "expected ?i = metav1 ''InternalEvent''" using assms(3) k
    by (simp_all add: expected_def) (simp add: WatchEventKind_def)
  have opt: "expected (WithKind gv n) = metav1 n" if "n \<in> set optionsTypes" for n
    using that assms(3) k by (auto simp: expected_def)
  have "extends {?w} (AddKnownTypeWithName ?w (metav1 ''WatchEvent''))" by (rule extends_known) (use assms o k e in auto)
  moreover have "extends {?i} (AddKnownTypeWithName ?i (metav1 ''InternalEvent''))"
    by (rule extends_known) (use o k e in \<open>auto simp: APIVersionInternal_def\<close>)
  moreover have "extends ((\<lambda>t. WithKind gv (gt_Name t)) ` set (map metav1 optionsTypes)) (AddKnownTypes gv (map metav1 optionsTypes))"
    by (rule extends_known_types) (use assms o k opt in auto)
  moreover have "extends {} (AddUnversionedTypes ('''', ''v1'') (map metav1 unversioned_names))" by (rule extends_unversioned) simp
  ultimately have "extends ({} \<union> ({} \<union> ({} \<union> {}))) (AddToGroupVersion gv)"
    unfolding AddToGroupVersion_def [abs_def] by (intro extends_bind) (auto elim: extends_subset)
  then show ?thesis by simp
qed

text \<open>A builder whose types have the names of no type of \<open>metav1\<close>.\<close>

definition builder_ok :: "Builder \<Rightarrow> bool" where
  "builder_ok bld \<longleftrightarrow> (let gv = bld_GroupVersion bld in fst gv = ''ptp.openshift.io'' \<and> snd gv \<noteq> '''' \<and> snd gv \<noteq> APIVersionInternal
     \<and> (\<forall>ts \<in> set (bld_Registered bld). \<forall>t \<in> set ts. t = api_type gv (gt_Name t) \<and> gt_Name t \<notin> set meta_kinds))"

lemma expected_api:
  assumes "fst gv = ''ptp.openshift.io''" "n \<notin> set meta_kinds"
  shows "ours (WithKind gv n)" "expected (WithKind gv n) = api_type gv n"
proof -
  have "n \<noteq> WatchEventKind" using assms(2) by (auto simp: meta_kinds_def)
  then show "ours (WithKind gv n)" "expected (WithKind gv n) = api_type gv n"
    using assms by (auto simp: ours_def expected_def api_type_def)
qed

lemma extends_builder:
  assumes "builder_ok bld"
  shows "extends (\<Union>ts \<in> set (bld_Registered bld). (\<lambda>t. WithKind (bld_GroupVersion bld) (gt_Name t)) ` set ts) (AddToScheme bld)"
  unfolding AddToScheme_def [abs_def]
proof (rule extends_fold)
  let ?gv = "bld_GroupVersion bld"
  fix ts assume ts: "ts \<in> set (bld_Registered bld)"
  have b: "fst ?gv = ''ptp.openshift.io''" "snd ?gv \<noteq> ''''" "snd ?gv \<noteq> APIVersionInternal"
    "\<And>t. t \<in> set ts \<Longrightarrow> t = api_type ?gv (gt_Name t) \<and> gt_Name t \<notin> set meta_kinds"
    using assms ts by (auto simp: builder_ok_def Let_def)
  have o: "ours (WithKind ?gv (gt_Name t)) \<and> expected (WithKind ?gv (gt_Name t)) = t" if "t \<in> set ts" for t
    using expected_api [OF b(1), of "gt_Name t"] b(4) [OF that] by simp
  have "extends ((\<lambda>t. WithKind ?gv (gt_Name t)) ` set ts \<union> {})
      (\<lambda>s. bind_go (AddKnownTypes ?gv ts s) (AddToGroupVersion ?gv))"
    by (rule extends_bind [OF extends_known_types extends_group_version]) (use o b in auto)
  then show "extends ((\<lambda>t. WithKind ?gv (gt_Name t)) ` set ts)
      (\<lambda>s. bind_go (AddKnownTypes ?gv ts s) (AddToGroupVersion ?gv))" by simp
  show "ours g" if "g \<in> (\<lambda>t. WithKind ?gv (gt_Name t)) ` set ts" for g using that o by auto
qed

lemma distinct_one: "distinct xs \<Longrightarrow> set xs = {x} \<Longrightarrow> xs = [x]"
  by (cases xs rule: remdups_adj.cases) auto

lemma registered_known:
  assumes "scheme_ok s" "registered g s" "ours g" "own_type (expected g)"
  shows "GVKForObject s (expected g) current = Inr g" "gvkToType s g = Some (expected g)"
proof -
  have t: "unversionedTypes s (expected g) = None" "distinct (typeToGVK s (expected g))"
    "\<And>h. h \<in> set (typeToGVK s (expected g)) \<Longrightarrow> ours h \<and> expected h = expected g"
    using assms(1,4) unfolding scheme_ok_def by blast+
  have "g \<in> set (typeToGVK s (expected g))" using assms(2,4) by (simp add: registered_def)
  moreover have "h = g" if "h \<in> set (typeToGVK s (expected g))" for h
    using expected_inj [OF assms(4) _ assms(3) _ refl] t(3) [OF that] by blast
  ultimately have "set (typeToGVK s (expected g)) = {g}" by blast
  with t(2) have "typeToGVK s (expected g) = [g]" by (rule distinct_one)
  with t(1) show "GVKForObject s (expected g) current = Inr g" by (simp add: GVKForObject_def ObjectKinds_def)
  from assms(2) have "gvkToType s g \<noteq> None" by (simp add: registered_def)
  with assms(1,3) show "gvkToType s g = Some (expected g)" unfolding scheme_ok_def by metis
qed

lemma foreign_keeps:
  assumes "foreign reg" "reg s = Inr s'" "scheme_ok s"
  shows "scheme_ok s'" and "grows s s'"
proof -
  note F = assms(1) [unfolded foreign_def, THEN spec, THEN spec, THEN mp, OF assms(2)]
  have t: "typeToGVK s' t = typeToGVK s t" "unversionedTypes s' t = unversionedTypes s t" if "own_type t" for t
    using F that by blast+
  have g: "gvkToType s' g = gvkToType s g \<or> gvkToType s' g = Some (expected g)" if "ours g" for g
    using F that unfolding ours_def by blast
  have k: "unversionedKinds s' k = unversionedKinds s k \<or> unversionedKinds s' k = Some (metav1 k)" if "k \<in> set unversioned_names" for k
    using F that by blast
  from assms(3) t g k show "scheme_ok s'" unfolding scheme_ok_def by metis
  from t g show "grows s s'" unfolding grows_def by (metis option.simps(3) order_refl)
qed

section \<open>Property\<close>

definition v1_kinds :: "string list" where
  "v1_kinds = [''NodePtpDevice'', ''NodePtpDeviceList'', ''PtpConfig'', ''PtpConfigList'', ''PtpOperatorConfig'', ''PtpOperatorConfigList'']"

definition v2alpha1_kinds :: "string list" where
  "v2alpha1_kinds = [''HardwareConfig'', ''HardwareConfigList'']"

text \<open>Both directions: the one kind of a type, and the type of the kind.\<close>

definition knows :: "string \<times> string \<Rightarrow> string list \<Rightarrow> Scheme \<Rightarrow> bool" where
  "knows gv names s \<longleftrightarrow> (\<forall>n \<in> set names.
     (\<forall>current. GVKForObject s (api_type gv n) current = Inr (WithKind gv n))
     \<and> gvkToType s (WithKind gv n) = Some (api_type gv n))"

lemma ptp_builders:
  "builder_ok ptpv1_SchemeBuilder" "builder_ok ptpv2alpha1_SchemeBuilder"
  "set (concat (bld_Registered ptpv1_SchemeBuilder)) = api_type ptpv1_GroupVersion ` set v1_kinds"
  "set (concat (bld_Registered ptpv2alpha1_SchemeBuilder)) = api_type ptpv2alpha1_GroupVersion ` set v2alpha1_kinds"
  "bld_GroupVersion ptpv1_SchemeBuilder = ptpv1_GroupVersion" "bld_GroupVersion ptpv2alpha1_SchemeBuilder = ptpv2alpha1_GroupVersion"
  by code_simp+

lemma ptp_names: "set v1_kinds \<inter> set meta_kinds = {}" "set v2alpha1_kinds \<inter> set meta_kinds = {}"
  by code_simp+

lemma registered_knows:
  assumes "scheme_ok s" "fst gv = ''ptp.openshift.io''" "set names \<inter> set meta_kinds = {}"
    and "\<And>n. n \<in> set names \<Longrightarrow> registered (WithKind gv n) s"
  shows "knows gv names s"
  unfolding knows_def
proof
  fix n assume n: "n \<in> set names"
  with assms(3) have "n \<notin> set meta_kinds" by blast
  note e = expected_api [OF assms(2) this]
  have "own_type (expected (WithKind gv n))" unfolding e by (auto simp: own_type_def api_type_def)
  with registered_known [OF assms(1) assms(4) [OF n] e(1)]
  show "(\<forall>current. GVKForObject s (api_type gv n) current = Inr (WithKind gv n)) \<and> gvkToType s (WithKind gv n) = Some (api_type gv n)"
    unfolding e by simp
qed

lemma extends_ptp:
  "extends (WithKind ptpv1_GroupVersion ` set v1_kinds) (AddToScheme ptpv1_SchemeBuilder)"
  "extends (WithKind ptpv2alpha1_GroupVersion ` set v2alpha1_kinds) (AddToScheme ptpv2alpha1_SchemeBuilder)"
proof -
  have image: "(\<Union>ts \<in> set (bld_Registered b). (\<lambda>t. WithKind (bld_GroupVersion b) (gt_Name t)) ` set ts) = WithKind gv ` set ns"
    if "set (concat (bld_Registered b)) = api_type gv ` set ns" "bld_GroupVersion b = gv" for b gv ns
  proof -
    have "(\<Union>ts \<in> set (bld_Registered b). (\<lambda>t. WithKind (bld_GroupVersion b) (gt_Name t)) ` set ts)
        = (\<lambda>t. WithKind gv (gt_Name t)) ` set (concat (bld_Registered b))" using that(2) by auto
    then show ?thesis unfolding that(1) image_image gt_Name_simps .
  qed
  show "extends (WithKind ptpv1_GroupVersion ` set v1_kinds) (AddToScheme ptpv1_SchemeBuilder)"
    by (rule extends_builder [OF ptp_builders(1), unfolded image [OF ptp_builders(3,5)]])
  show "extends (WithKind ptpv2alpha1_GroupVersion ` set v2alpha1_kinds) (AddToScheme ptpv2alpha1_SchemeBuilder)"
    by (rule extends_builder [OF ptp_builders(2), unfolded image [OF ptp_builders(4,6)]])
qed

lemma new_scheme_ok: "scheme_ok NewScheme"
  by (simp add: scheme_ok_def NewScheme_def)

lemma v1_ours: "n \<in> set v1_kinds \<Longrightarrow> ours (WithKind ptpv1_GroupVersion n)"
  and v2_ours: "n \<in> set v2alpha1_kinds \<Longrightarrow> ours (WithKind ptpv2alpha1_GroupVersion n)"
  by (simp_all add: ours_def ptpv1_GroupVersion_def ptpv2alpha1_GroupVersion_def)

text \<open>The generated client's scheme.\<close>

lemma clientset_scheme_knows: "\<exists>s. clientset_scheme_init = Inr s \<and> fake_scheme_init = Inr s \<and> knows ptpv1_GroupVersion v1_kinds s"
proof -
  have "extends {} (AddToGroupVersion ('''', ''v1''))" by (rule extends_group_version) (simp_all add: APIVersionInternal_def)
  then obtain s1 where s1: "AddToGroupVersion ('''', ''v1'') NewScheme = Inr s1" "scheme_ok s1"
    using new_scheme_ok unfolding extends_def by blast
  then obtain s where s: "AddToScheme ptpv1_SchemeBuilder s1 = Inr s" "scheme_ok s" "\<And>n. n \<in> set v1_kinds \<Longrightarrow>
      registered (WithKind ptpv1_GroupVersion n) s" using extends_ptp(1) unfolding extends_def by blast
  have "knows ptpv1_GroupVersion v1_kinds s"
    by (rule registered_knows [OF s(2) _ ptp_names(1) s(3)]) (simp_all add: ptpv1_GroupVersion_def)
  with s1 s show ?thesis by (simp add: clientset_scheme_init_def fake_scheme_init_def Must_def)
qed

text \<open>C19: When the registrations of client-go and of OpenShift's configuration API succeed and keep to their own groups and
  packages, the start of the program registers the API types without a panic, and its scheme then knows each of the eight
  types under exactly one kind of the operator's group, so that owner references to them can be made. The schemes
  of the generated client and its fake are built without a panic and know the six types of \<open>v1\<close>.\<close>

theorem scheme_knows_api_types:
  assumes "foreign clientgo" "foreign configv1" "clientgo NewScheme = Inr s1"
  shows "(\<exists>s3. main_init clientgo configv1 = Must (configv1 s3)
      \<and> (\<forall>s. configv1 s3 = Inr s \<longrightarrow> knows ptpv1_GroupVersion v1_kinds s \<and> knows ptpv2alpha1_GroupVersion v2alpha1_kinds s))
    \<and> (\<exists>s. clientset_scheme_init = Inr s \<and> fake_scheme_init = Inr s \<and> knows ptpv1_GroupVersion v1_kinds s)"
proof -
  have "scheme_ok s1" by (rule foreign_keeps [OF assms(1,3) new_scheme_ok])
  then obtain s2 where s2: "AddToScheme ptpv1_SchemeBuilder s1 = Inr s2" "scheme_ok s2"
    "\<And>n. n \<in> set v1_kinds \<Longrightarrow> registered (WithKind ptpv1_GroupVersion n) s2" using extends_ptp(1) unfolding extends_def by blast
  then obtain s3 where s3: "AddToScheme ptpv2alpha1_SchemeBuilder s2 = Inr s3" "scheme_ok s3" "grows s2 s3"
    "\<And>n. n \<in> set v2alpha1_kinds \<Longrightarrow> registered (WithKind ptpv2alpha1_GroupVersion n) s3"
    using extends_ptp(2) unfolding extends_def by blast
  have "knows ptpv1_GroupVersion v1_kinds s \<and> knows ptpv2alpha1_GroupVersion v2alpha1_kinds s" if "configv1 s3 = Inr s" for s
  proof -
    note k = foreign_keeps [OF assms(2) that s3(2)]
    show ?thesis
      using registered_knows [OF k(1) _ ptp_names(1)] registered_knows [OF k(1) _ ptp_names(2)]
        registered_grows [OF grows_trans [OF s3(3) k(2)] v1_ours s2(3)] registered_grows [OF k(2) v2_ours s3(4)]
      by (simp add: ptpv1_GroupVersion_def ptpv2alpha1_GroupVersion_def)
  qed
  then show ?thesis using assms(3) s2(1) s3(1) clientset_scheme_knows by (auto simp: main_init_def Must_def)
qed

text \<open>A registration of the kinds of the core group.\<close>

definition wit_core :: "Scheme \<Rightarrow> (string, Scheme) go" where
  "wit_core = AddKnownTypes ('''', ''v1'') [\<lparr>gt_Pkg = ''k8s.io/api/core/v1'', gt_Name = ''Node''\<rparr>]"

lemma wit_core_foreign: "foreign wit_core"
  by (auto simp: foreign_def wit_core_def bind_go_eq_Inr AddKnownTypes_def AddKnownTypeWithName_def Let_def own_type_def api_package_def WithKind_def
      meta_kinds_def WatchEventKind_def optionsTypes_def unversioned_names_def split: if_splits)

theorem scheme_knows_api_types_witness:
  "\<exists>s. main_init wit_core Inr = Inr s \<and> GVKForObject s (api_type ptpv1_GroupVersion ''PtpOperatorConfig'')
     \<lparr>gvk_Group = '''', gvk_Version = '''', gvk_Kind = ''''\<rparr> = Inr (WithKind ptpv1_GroupVersion ''PtpOperatorConfig'')"
proof -
  have f: "foreign (Inr :: Scheme \<Rightarrow> (string, Scheme) go)" by (simp add: foreign_def)
  obtain s1 where s1: "wit_core NewScheme = Inr s1"
    by (simp add: wit_core_def AddKnownTypes_def AddKnownTypeWithName_def Let_def NewScheme_def WithKind_def)
  from scheme_knows_api_types [OF wit_core_foreign f s1] obtain s
    where s: "main_init wit_core Inr = Must (Inr s)" "knows ptpv1_GroupVersion v1_kinds s" by blast
  moreover have "''PtpOperatorConfig'' \<in> set v1_kinds" by (simp add: v1_kinds_def)
  ultimately show ?thesis unfolding knows_def Must_def by auto
qed

end
