(* ===== verification/Watches.thy ===== *)
theory Watches
  imports Daemon_Secrets HardwareConfig_Controller Scheme_Registration Daemon_Writers
begin

text \<open>
  Which events wake which controller: the three \<open>SetupWithManager\<close> functions, with the vendored event handlers and
  predicates of controller-runtime that they use. An event carries the metadata of the object before and
  after it. What reading a list returns and which kinds are namespaced are parameters.
\<close>

section \<open>Events and handlers of controller-runtime\<close>

datatype event = Created ObjectMeta | Updated ObjectMeta ObjectMeta | Deleted ObjectMeta | Generic ObjectMeta

text \<open>A predicate made from a filter looks at the new object of an update.\<close>

fun NewPredicateFuncs :: "(ObjectMeta \<Rightarrow> bool) \<Rightarrow> event \<Rightarrow> bool" where
  "NewPredicateFuncs keep (Created m) = keep m"
| "NewPredicateFuncs keep (Updated old new) = keep new"
| "NewPredicateFuncs keep (Deleted m) = keep m"
| "NewPredicateFuncs keep (Generic m) = keep m"

fun EnqueueRequestForObject :: "event \<Rightarrow> request list" where
  "EnqueueRequestForObject (Created m) = [request_of m]"
| "EnqueueRequestForObject (Updated old new) = [request_of new]"
| "EnqueueRequestForObject (Deleted m) = [request_of m]"
| "EnqueueRequestForObject (Generic m) = [request_of m]"

text \<open>A request is added once for an event; the requests are listed in the order in which they are found. The function is called on both objects of an update, the old one first.\<close>

fun mapAndEnqueue :: "request list \<Rightarrow> request list \<Rightarrow> request list" where
  "mapAndEnqueue [] reqs = reqs"
| "mapAndEnqueue (r # rs) reqs = mapAndEnqueue rs (if r \<in> set reqs then reqs else reqs @ [r])"

fun EnqueueRequestsFromMapFunc :: "(ObjectMeta \<Rightarrow> request list) \<Rightarrow> event \<Rightarrow> request list" where
  "EnqueueRequestsFromMapFunc fn (Created m) = mapAndEnqueue (fn m) []"
| "EnqueueRequestsFromMapFunc fn (Updated old new) = mapAndEnqueue (fn new) (mapAndEnqueue (fn old) [])"
| "EnqueueRequestsFromMapFunc fn (Deleted m) = mapAndEnqueue (fn m) []"
| "EnqueueRequestsFromMapFunc fn (Generic m) = mapAndEnqueue (fn m) []"

text \<open>The handler for owned objects: the group and kind of the owner's type, and only the controller reference.
  \<open>scope\<close> is what the mapper says of a version of the kind: whether it is namespaced, or nothing if unknown.\<close>

datatype owner_handler_error = OwnerTypeUnknown kind_error | OwnerTypeNotOneKind

definition parseOwnerTypeGroupKind :: "Scheme \<Rightarrow> GoType \<Rightarrow> (owner_handler_error, string \<times> string) go" where
  "parseOwnerTypeGroupKind s t =
     bind_go (wrap_err OwnerTypeUnknown (ObjectKinds s t)) (\<lambda>(kinds, _).
       if length kinds \<noteq> 1 then err OwnerTypeNotOneKind
       else Inr (gvk_Group (hd kinds), gvk_Kind (hd kinds)))"

definition getOwnersReferences :: "ObjectMeta \<Rightarrow> OwnerReference list" where
  "getOwnersReferences m = (case GetControllerOf (om_OwnerReferences m) of None \<Rightarrow> [] | Some ref \<Rightarrow> [ref])"

fun owner_requests ::
  "(string \<times> string \<Rightarrow> string \<Rightarrow> bool option) \<Rightarrow> string \<times> string \<Rightarrow> string \<Rightarrow> OwnerReference list \<Rightarrow> request list \<Rightarrow> request list" where
  "owner_requests scope gk ns [] reqs = reqs"
| "owner_requests scope gk ns (ref # refs) reqs =
     (case ParseGroupVersion (ref_APIVersion ref) of
        None \<Rightarrow> reqs
      | Some (g, v) \<Rightarrow>
          if ref_Kind ref = snd gk \<and> g = fst gk then
            (case scope gk v of
               None \<Rightarrow> reqs
             | Some namespaced \<Rightarrow> owner_requests scope gk ns refs
                 (mapAndEnqueue [\<lparr>nn_Namespace = if namespaced then ns else '''', nn_Name = ref_Name ref\<rparr>] reqs))
          else owner_requests scope gk ns refs reqs)"

definition getOwnerReconcileRequest ::
  "(string \<times> string \<Rightarrow> string \<Rightarrow> bool option) \<Rightarrow> string \<times> string \<Rightarrow> ObjectMeta \<Rightarrow> request list \<Rightarrow> request list" where
  "getOwnerReconcileRequest scope gk m reqs = owner_requests scope gk (om_Namespace m) (getOwnersReferences m) reqs"

fun enqueueRequestForOwner ::
  "(string \<times> string \<Rightarrow> string \<Rightarrow> bool option) \<Rightarrow> string \<times> string \<Rightarrow> event \<Rightarrow> request list" where
  "enqueueRequestForOwner scope gk (Created m) = getOwnerReconcileRequest scope gk m []"
| "enqueueRequestForOwner scope gk (Updated old new) =
     getOwnerReconcileRequest scope gk new (getOwnerReconcileRequest scope gk old [])"
| "enqueueRequestForOwner scope gk (Deleted m) = getOwnerReconcileRequest scope gk m []"
| "enqueueRequestForOwner scope gk (Generic m) = getOwnerReconcileRequest scope gk m []"

text \<open>Making the handler panics when the owner's type does not have exactly one kind.\<close>

definition EnqueueRequestForOwner ::
  "(string \<times> string \<Rightarrow> string \<Rightarrow> bool option) \<Rightarrow> Scheme \<Rightarrow> GoType \<Rightarrow> (unit, event \<Rightarrow> request list) go" where
  "EnqueueRequestForOwner scope s ownerType =
     (case parseOwnerTypeGroupKind s ownerType of
        Inl e \<Rightarrow> panic ExplicitPanic
      | Inr gk \<Rightarrow> Inr (enqueueRequestForOwner scope gk))"

section \<open>The PtpConfig controller\<close>

datatype ptpconfig_watch = OnPtpConfig event | OnSecret event | OnNodePtpDevice event | OnHardwareConfig event

fun secret_event_of :: "event \<Rightarrow> secret_event" where
  "secret_event_of (Created m) = SecretCreated (om_Name m)"
| "secret_event_of (Updated old new) = SecretUpdated (om_Name new)"
| "secret_event_of (Deleted m) = SecretDeleted (om_Name m)"
| "secret_event_of (Generic m) = SecretGeneric (om_Name m)"

text \<open>\<open>listed\<close> is what listing the PtpConfigs gives when the handler runs for the given object.\<close>

definition PtpConfig_SetupWithManager ::
  "string \<Rightarrow> (ObjectMeta \<Rightarrow> api_error + PtpConfigList) \<Rightarrow> ptpconfig_watch \<Rightarrow> (sync_error, request list) go" where
  "PtpConfig_SetupWithManager ns listed w =
     (let kept = NewPredicateFuncs (inNamespace ns) in
      case w of
        OnPtpConfig e \<Rightarrow> Inr (if kept e then EnqueueRequestForObject e else [])
      | OnSecret e \<Rightarrow> (if kept e then
          (case e of
             Created m \<Rightarrow> secretEventHandler (listed m) (secret_event_of e)
           | Updated old new \<Rightarrow> secretEventHandler (listed new) (secret_event_of e)
           | Deleted m \<Rightarrow> secretEventHandler (listed m) (secret_event_of e)
           | Generic m \<Rightarrow> secretEventHandler (listed m) (secret_event_of e)) else Inr [])
      | OnNodePtpDevice e \<Rightarrow> Inr (if kept e then EnqueueRequestsFromMapFunc (\<lambda>m. enqueuePtpConfigs (listed m)) e else [])
      | OnHardwareConfig e \<Rightarrow> Inr (if kept e then EnqueueRequestsFromMapFunc (\<lambda>m. enqueuePtpConfigs (listed m)) e else []))"

section \<open>The PtpOperatorConfig controller\<close>

datatype operator_watch = OnOperatorConfig event | OnDaemonSet event

definition PtpOperatorConfig_SetupWithManager ::
  "(string \<times> string \<Rightarrow> string \<Rightarrow> bool option) \<Rightarrow> Scheme \<Rightarrow> (unit, operator_watch \<Rightarrow> request list) go" where
  "PtpOperatorConfig_SetupWithManager scope s =
     bind_go (EnqueueRequestForOwner scope s (api_type ptpv1_GroupVersion ''PtpOperatorConfig'')) (\<lambda>owned.
       Inr (\<lambda>w. case w of OnOperatorConfig e \<Rightarrow> EnqueueRequestForObject e | OnDaemonSet e \<Rightarrow> owned e))"

section \<open>The HardwareConfig controller\<close>

datatype hardware_watch = OnHardware event | OnConfig event

fun config_event_of :: "event \<Rightarrow> config_event" where
  "config_event_of (Created m) = ConfigCreated"
| "config_event_of (Updated old new) = ConfigUpdated"
| "config_event_of (Deleted m) = ConfigDeleted"
| "config_event_of (Generic m) = ConfigGeneric"

definition HardwareConfig_SetupWithManager :: "api_error + HardwareConfig list \<Rightarrow> hardware_watch \<Rightarrow> request list" where
  "HardwareConfig_SetupWithManager listed w =
     (case w of
        OnHardware e \<Rightarrow> EnqueueRequestForObject e
      | OnConfig e \<Rightarrow> HardwareConfigPtpConfigHandler listed (config_event_of e))"

section \<open>Lemmas\<close>

fun event_objects :: "event \<Rightarrow> ObjectMeta list" where
  "event_objects (Created m) = [m]"
| "event_objects (Updated old new) = [old, new]"
| "event_objects (Deleted m) = [m]"
| "event_objects (Generic m) = [m]"

lemma mapAndEnqueue_set: "set (mapAndEnqueue rs reqs) = set rs \<union> set reqs"
  by (induction rs reqs rule: mapAndEnqueue.induct) auto

lemma mapAndEnqueue_distinct: "distinct reqs \<Longrightarrow> distinct (mapAndEnqueue rs reqs)"
  by (induction rs reqs rule: mapAndEnqueue.induct) auto

lemma map_func_requests:
  "set (EnqueueRequestsFromMapFunc fn e) = (\<Union>m \<in> set (event_objects e). set (fn m)) \<and> distinct (EnqueueRequestsFromMapFunc fn e)"
  by (cases e) (auto simp: mapAndEnqueue_set mapAndEnqueue_distinct)

text \<open>A change of a device or a hardware configuration in the operator's namespace wakes every PtpConfig once, a change
  elsewhere none.\<close>

lemma device_event_wakes:
  assumes "\<And>m. listed m = Inr items"
  shows "PtpConfig_SetupWithManager ns listed (OnHardwareConfig e) = PtpConfig_SetupWithManager ns listed (OnNodePtpDevice e)"
    and "\<exists>rs. PtpConfig_SetupWithManager ns listed (OnNodePtpDevice e) = Inr rs \<and> distinct rs
      \<and> set rs = (if NewPredicateFuncs (inNamespace ns) e then (\<lambda>cfg. request_of (cfg_Meta cfg)) ` set items else {})"
proof -
  have "event_objects e \<noteq> []" by (cases e) simp_all
  then show "\<exists>rs. PtpConfig_SetupWithManager ns listed (OnNodePtpDevice e) = Inr rs \<and> distinct rs
      \<and> set rs = (if NewPredicateFuncs (inNamespace ns) e then (\<lambda>cfg. request_of (cfg_Meta cfg)) ` set items else {})"
    using assms map_func_requests [of "\<lambda>m. enqueuePtpConfigs (listed m)" e]
    by (auto simp: PtpConfig_SetupWithManager_def enqueuePtpConfigs_def)
qed (simp add: PtpConfig_SetupWithManager_def)

text \<open>References of an unstructured object read back as they were set.\<close>

lemma extract_reference: "\<exists>m. reference_json r = JObj m \<and> extractOwnerReference m = r"
  by (cases r; cases "ref_Controller r"; cases "ref_BlockOwnerDeletion r")
    (auto simp: reference_json_def set_bool_def extractOwnerReference_def bool_field_def NestedBool_def getNestedString_def
      NestedString_def NestedFieldNoCopy_def)

lemma get_set_owner_references:
  assumes "meta_ok x"
  shows "GetOwnerReferences (SetOwnerReferences x refs) = refs"
proof -
  have "NestedFieldNoCopy (SetOwnerReferences x refs) [''metadata'', ''ownerReferences''] = Inr (Some (JArr (map reference_json refs)))"
    using get_set_field [OF assms] by (simp add: SetOwnerReferences_def)
  moreover have "map ((\<lambda>x. extractOwnerReference (the (json_obj x))) \<circ> reference_json) refs = refs"
    by (rule map_idI) (metis comp_apply extract_reference json_obj.simps(1) option.sel)
  moreover have "json_obj (reference_json r) \<noteq> None" for r using extract_reference [of r] by auto
  ultimately show ?thesis by (simp add: GetOwnerReferences_def list_all_iff)
qed

lemma owner_request:
  assumes "GetControllerOf (om_OwnerReferences m) = Some (owner_ref gvk owner)" "gvk_ok gvk"
    and "scope (gvk_Group gvk, gvk_Kind gvk) (gvk_Version gvk) = Some True"
  shows "getOwnerReconcileRequest scope (gvk_Group gvk, gvk_Kind gvk) m reqs
    = mapAndEnqueue [\<lparr>nn_Namespace = om_Namespace m, nn_Name = om_Name owner\<rparr>] reqs"
  using ParseGroupVersion_gv_string [OF assms(2)] assms(1,3)
  by (auto simp: getOwnerReconcileRequest_def getOwnersReferences_def owner_ref_def)

lemma set_reference_result:
  assumes "SetControllerReference_obj (Some gvk) owner x = Inr y" "GetName x \<noteq> ''''" "om_Namespace owner \<noteq> ''''"
  shows "GetControllerOf (GetOwnerReferences y) = Some (owner_ref gvk owner)" "GetNamespace y = om_Namespace owner"
proof -
  from assms(1) obtain refs where r: "controller_refs (Some gvk) owner (GetNamespace x) (GetOwnerReferences x) = Inr refs"
    and y: "y = SetOwnerReferences x refs" by (auto simp: SetControllerReference_obj_def bind_go_eq_Inr)
  have "meta_ok x" by (rule named_meta_ok [OF assms(2)])
  then show "GetControllerOf (GetOwnerReferences y) = Some (owner_ref gvk owner)"
    unfolding y by (simp add: get_set_owner_references) (rule controller_refs_result [OF r], simp)
  have "NestedFieldNoCopy y (meta ''namespace'') = NestedFieldNoCopy x (meta ''namespace'')"
    unfolding y SetOwnerReferences_def by (rule setNestedField_frame) simp
  then have "GetNamespace y = GetNamespace x" unfolding GetNamespace_def by (rule readers_frame)
  with r assms(3) show "GetNamespace y = om_Namespace owner"
    by (auto simp: controller_refs_def bind_go_eq_Inr validateOwner_def split: if_splits)
qed

text \<open>The kind under which the scheme knows the owner.\<close>

definition operator_gvk :: GroupVersionKind where
  "operator_gvk = WithKind ptpv1_GroupVersion ''PtpOperatorConfig''"

section \<open>Property\<close>

text \<open>The request for the PtpOperatorConfig that controls an object, if one does, in the object's namespace.\<close>

definition operator_requests :: "(string \<times> string \<Rightarrow> string \<Rightarrow> bool option) \<Rightarrow> ObjectMeta \<Rightarrow> request set" where
  "operator_requests scope m = {\<lparr>nn_Namespace = om_Namespace m, nn_Name = ref_Name ref\<rparr> | ref v.
     GetControllerOf (om_OwnerReferences m) = Some ref \<and> ref_Kind ref = ''PtpOperatorConfig''
     \<and> ParseGroupVersion (ref_APIVersion ref) = Some (''ptp.openshift.io'', v)
     \<and> scope (''ptp.openshift.io'', ''PtpOperatorConfig'') v \<noteq> None}"

lemma owner_requests_exact:
  fixes m :: ObjectMeta
  assumes "\<And>v. scope (''ptp.openshift.io'', ''PtpOperatorConfig'') v \<noteq> Some False" "distinct reqs"
  defines "res \<equiv> getOwnerReconcileRequest scope (''ptp.openshift.io'', ''PtpOperatorConfig'') m reqs"
  shows "set res = set reqs \<union> operator_requests scope m \<and> distinct res"
proof (cases "GetControllerOf (om_OwnerReferences m)")
  case None
  with assms(2) show ?thesis by (simp add: res_def getOwnerReconcileRequest_def getOwnersReferences_def operator_requests_def)
next
  case (Some ref)
  have ns: "scope (''ptp.openshift.io'', ''PtpOperatorConfig'') v = Some b \<longrightarrow> b" for v b using assms(1) [of v] by (cases b) auto
  with Some assms(2) show ?thesis
    by (auto simp: res_def getOwnerReconcileRequest_def getOwnersReferences_def operator_requests_def split: option.splits)
qed

text \<open>C18: With a scheme that knows the API types, and a mapper that knows PtpOperatorConfig as a namespaced kind, the PtpOperatorConfig
  controller is set up without a panic, and an event of a DaemonSet wakes it once for
  every PtpOperatorConfig that is the controller of one of the event's objects, and for nothing else: of the object of a create, delete or
  generic event, and of the old and the new object of an update, so that an update that takes the reference away still wakes the
  former owner, and one that changes the owner wakes both. The owner of an object to which the controller has given its reference
  is the PtpOperatorConfig it was given for.\<close>

theorem daemon_events_wake_operator:
  assumes "knows ptpv1_GroupVersion v1_kinds s"
    and "scope (''ptp.openshift.io'', ''PtpOperatorConfig'') ''v1'' = Some True"
    and "\<And>v. scope (''ptp.openshift.io'', ''PtpOperatorConfig'') v \<noteq> Some False"
    and "SetControllerReference_obj (Some operator_gvk) owner x = Inr y" "GetName x \<noteq> ''''" "om_Namespace owner \<noteq> ''''"
    and "om_OwnerReferences m = GetOwnerReferences y" "om_Namespace m = GetNamespace y"
  shows "\<exists>h. PtpOperatorConfig_SetupWithManager scope s = Inr h
    \<and> (\<forall>e. distinct (h (OnDaemonSet e))
         \<and> set (h (OnDaemonSet e)) = (\<Union>o1 \<in> set (event_objects e). operator_requests scope o1))
    \<and> operator_requests scope m = {request_of owner}"
proof -
  let ?t = "api_type ptpv1_GroupVersion ''PtpOperatorConfig''" and ?gk = "(gvk_Group operator_gvk, gvk_Kind operator_gvk)"
  have gk: "?gk = (''ptp.openshift.io'', ''PtpOperatorConfig'')" by (simp add: operator_gvk_def ptpv1_GroupVersion_def)
  have "GVKForObject s ?t \<lparr>gvk_Group = '''', gvk_Version = '''', gvk_Kind = ''''\<rparr> = Inr operator_gvk" using assms(1) by (simp add: knows_def v1_kinds_def operator_gvk_def)
  then have "parseOwnerTypeGroupKind s ?t = Inr ?gk"
    by (cases "typeToGVK s ?t") (auto simp: GVKForObject_def parseOwnerTypeGroupKind_def bind_go_eq_Inr ObjectKinds_def split: if_splits)
  then have watches: "PtpOperatorConfig_SetupWithManager scope s = Inr (\<lambda>w. case w of
      OnOperatorConfig e \<Rightarrow> EnqueueRequestForObject e | OnDaemonSet e \<Rightarrow> enqueueRequestForOwner scope ?gk e)"
    by (simp add: PtpOperatorConfig_SetupWithManager_def EnqueueRequestForOwner_def)
  have ok: "gvk_ok operator_gvk" "gvk_Version operator_gvk = ''v1''" by (simp_all add: operator_gvk_def gvk_ok_def ptpv1_GroupVersion_def)
  note r = set_reference_result [OF assms(4-6)] and exact = owner_requests_exact [where scope = scope, OF assms(3)]
  have "getOwnerReconcileRequest scope ?gk m [] = [request_of owner]"
    using owner_request [OF _ ok(1), of m owner scope "[]"] r assms(2,7,8) ok(2) unfolding gk by (simp add: request_of_def)
  then have one: "operator_requests scope m = {request_of owner}" using exact [of "[]" m] unfolding gk by simp
  have "distinct (enqueueRequestForOwner scope ?gk e)
      \<and> set (enqueueRequestForOwner scope ?gk e) = (\<Union>o1 \<in> set (event_objects e). operator_requests scope o1)" for e
    unfolding gk using exact [of "[]"] exact by (cases e) auto
  with watches one show ?thesis by simp
qed

section \<open>Witness\<close>

definition wit_daemon_set :: obj where
  "wit_daemon_set = fmap_of_list
     [(''apiVersion'', JStr ''apps/v1''), (''kind'', JStr ''DaemonSet''),
      (''metadata'', JObj (fmap_of_list [(''name'', JStr ''linuxptp-daemon''), (''namespace'', JStr ''openshift-ptp'')]))]"

definition wit_config_meta :: ObjectMeta where
  "wit_config_meta = \<lparr>om_Name = ''default'', om_Namespace = ''openshift-ptp'', om_Generation = 1, om_UID = ''u'',
     om_ResourceVersion = ''7'', om_OwnerReferences = []\<rparr>"

definition wit_owned :: obj where
  "wit_owned = SetOwnerReferences wit_daemon_set [owner_ref operator_gvk wit_config_meta]"

definition wit_event_meta :: ObjectMeta where
  "wit_event_meta = wit_config_meta\<lparr>om_Name := ''linuxptp-daemon'', om_OwnerReferences := GetOwnerReferences wit_owned\<rparr>"

theorem daemon_events_wake_operator_witness:
  "\<exists>s h. knows ptpv1_GroupVersion v1_kinds s \<and> PtpOperatorConfig_SetupWithManager (\<lambda>gk v. Some True) s = Inr h
     \<and> set (h (OnDaemonSet (Updated wit_event_meta (wit_event_meta\<lparr>om_OwnerReferences := []\<rparr>))))
         = {\<lparr>nn_Namespace = ''openshift-ptp'', nn_Name = ''default''\<rparr>}"
proof -
  obtain s where s: "knows ptpv1_GroupVersion v1_kinds s" using clientset_scheme_knows by blast
  have "controller_refs (Some operator_gvk) wit_config_meta (GetNamespace wit_daemon_set) (GetOwnerReferences wit_daemon_set)
      = Inr [owner_ref operator_gvk wit_config_meta]" by code_simp
  then have o: "SetControllerReference_obj (Some operator_gvk) wit_config_meta wit_daemon_set = Inr wit_owned"
    by (simp add: SetControllerReference_obj_def wit_owned_def)
  have n: "GetName wit_daemon_set \<noteq> ''''" "om_Namespace wit_config_meta \<noteq> ''''" by code_simp+
  have m: "om_OwnerReferences wit_event_meta = GetOwnerReferences wit_owned" "om_Namespace wit_event_meta = GetNamespace wit_owned"
    by code_simp+
  have "operator_requests (\<lambda>gk v. Some True) (wit_event_meta\<lparr>om_OwnerReferences := []\<rparr>) = {}"
    by (simp add: operator_requests_def GetControllerOf_def)
  with daemon_events_wake_operator [OF s _ _ o n m, of "\<lambda>gk v. Some True"] s show ?thesis
    by (auto simp: request_of_def wit_config_meta_def)
qed

end
