(* ===== verification/Spec2Isabelle.thy ===== *)
theory Spec2Isabelle
  imports PtpConfig_Controller HardwareConfig_Controller Startup Hardware_Validate Deep_Copy Client_Calls Validate_Crds
    Operator_Reconcile Daemon_Writers Watches
begin

text \<open>
  Verification of the PTP operator, a Kubernetes operator that configures Precision Time
  Protocol daemons (linuxptp) on the nodes of a cluster.

  \<^bold>\<open>The program.\<close> Users write \<open>PtpConfig\<close> resources (profiles of the daemon, and sections that
  recommend a profile to nodes), \<open>HardwareConfig\<close> resources (chains of clock hardware that belong to a
  profile) and one \<open>PtpOperatorConfig\<close>. An admission webhook checks what is written. Three
  controllers react: the PtpOperatorConfig controller renders and applies the daemon's
  DaemonSet, the network policies and a \<open>NodePtpDevice\<close> per node; the PtpConfig controller decides which
  profiles each node runs, publishes them in a config map, mounts the referenced secrets into the
  DaemonSet and reports a status; the HardwareConfig controller reports on which nodes a
  profile's hardware is used. Both of the first two write the DaemonSet: \<open>pkg/apply\<close> merges so that neither
  undoes the other's part. \<open>main.go\<close> starts all of this.

  \<^bold>\<open>Theories and sources.\<close> File names are under \<open>src/\<close>; definitions have the names of the Go functions
  where HOL allows it, and the fields of a record carry a prefix for their type.

  \<^item> \<open>Prelude\<close>: outcomes of Go calls (a value, an error, or a panic), loops that stop at an
    error, with and without a state, and Go maps as association lists. \<open>Go_Strings\<close>, \<open>Go_Regexp\<close> and
    \<open>Go_Sort\<close>: the parts of Go's library the program uses; \<open>sort.Slice\<close> is unstable and is a parameter.
  \<^item> \<open>Ptp_Types\<close>: \<open>api/v1/*_types.go\<close>. \<open>Ptp4l_Conf\<close> and \<open>Ptp_Webhook\<close>: \<open>api/v1/ptpconfig_webhook.go\<close>, the
    parser of ptp4l configurations and the validation; \<open>Ptp_Webhook\<close> also has
    \<open>api/v1/ptpoperatorconfig_webhook.go\<close>.
  \<^item> \<open>Recommend\<close>: \<open>controllers/recommend.go\<close>, the profiles of a node. \<open>Profile_Status\<close>:
    \<open>controllers/profile_status.go\<close>, the status and its warnings.
  \<^item> \<open>Hardware_Types\<close> and \<open>Hardware_Validate\<close>: \<open>api/v2alpha1/hardwareconfig_types.go\<close>.
  \<^item> \<open>Unstructured\<close> and \<open>Owner_References\<close>: the vendored accessors of untyped objects and controller references.
    \<open>Merge\<close> and \<open>Apply\<close>: \<open>pkg/apply\<close>. \<open>Daemon_Writers\<close>: its two API calls as separate steps, and both controllers
    writing the DaemonSet in any interleaving. \<open>Render\<close>: \<open>pkg/render\<close>.
  \<^item> \<open>Status_Conditions\<close>: \<open>controllers/status_helpers.go\<close>, \<open>daemon_verbosity.go\<close> and the vendored conditions.
  \<^item> \<open>Cluster\<close>: the objects and the client of the PtpConfig controller; \<open>Memory_Cluster\<close>: a cluster in
    memory that meets the contracts. \<open>Daemon_Secrets\<close> and \<open>PtpConfig_Controller\<close>:
    \<open>controllers/ptpconfig_controller.go\<close>.
  \<^item> \<open>HardwareConfig_Controller\<close>: \<open>controllers/hardwareconfig_controller.go\<close>. \<open>Network_Policies\<close> and
    \<open>Operator_Controller\<close>: \<open>controllers/ptpoperatorconfig_controller.go\<close>; \<open>Operator_Reconcile\<close>: a whole run of it.
  \<^item> \<open>Scheme_Registration\<close>: \<open>api/*/groupversion_info.go\<close>, the \<open>init\<close> functions and the client's \<open>register.go\<close> files, with
    the vendored scheme. \<open>Watches\<close>: the \<open>SetupWithManager\<close> functions, that is, which events wake which controller.
  \<^item> \<open>Startup\<close>: \<open>main.go\<close> and \<open>pkg/leaderelection\<close>.
  \<^item> \<open>Go_Heap\<close>: Go values on a heap and the statements that the deep-copy generator emits. \<open>Deep_Copy_Meta\<close>,
    \<open>Deep_Copy_V1\<close> and \<open>Deep_Copy_V2alpha1\<close>: the vendored metadata and both
    \<open>api/*/zz_generated.deepcopy.go\<close>; \<open>Deep_Copy\<close>: what the copies guarantee.
  \<^item> \<open>Rest_Client\<close>: the vendored request builder. \<open>Typed_Client\<close> and \<open>Client_Config\<close>: the generated client
    and its making (\<open>pkg/client/clientset/versioned\<close>); \<open>Fake_Client\<close>: the generated fake and the
    vendored recorder of actions; \<open>Request_Info\<close>: how the API server reads a request, the vendored
    \<open>requestinfo.go\<close>; \<open>Client_Calls\<close>: both clients on the same calls.
  \<^item> \<open>Validate_Crds\<close>: the tool \<open>hack/validate-crds\<close>, which succeeds exactly when there are CRD files and all pass.

  \<^bold>\<open>State and effects.\<close> The API server is a record of functions on an abstract state: a read
  gives an error or an object, a write an optional error and a new state. A controller is a
  function from that record and a state to an outcome and a state, with every call of the
  source in its order, so that what a failed reconcile has already done is visible. Go
  maps whose iteration order can be observed are lists with an order parameter \<open>ord\<close>
  (\<open>range_order_ok ord\<close>: some permutation); theorems hold for every order. Panics are outcomes, not excluded.
  The deep copies are the one part where sharing matters; there values refer to cells of an explicit heap.

  \<^bold>\<open>Contracts.\<close> What is assumed of a component is a locale, and every locale is
  interpreted on the model: \<open>kv_map\<close> (Go maps), \<open>weak_order\<close> (what \<open>sort.Slice\<close> is called with),
  \<open>path_store\<close> (fields of untyped objects), and for the API server \<open>object_store\<close> (objects of \<open>pkg/apply\<close>; any
  call may fail, and the server stores what its relation \<open>admits\<close> of the object that is sent),
  \<open>status_writer\<close>, \<open>hardware_store\<close>, \<open>policy_store\<close> and \<open>device_store\<close>, interpreted on clusters in memory; \<open>operator_cluster\<close> extends \<open>device_store\<close> by the other stores that one
  run of the operator's controller writes, and by their independence; \<open>versioned_store\<close> has resource
  versions, conflicts and defaults, for writers that interleave; for the clients \<open>parameter_codec\<close>, the encoding of
  options by the client and their decoding by the server, interpreted on the codec that the JSON tags of the options define.
  They say that a read that succeeds returns what is stored, that a failed write changes nothing, and
  that a write touches only the object it names. Other inputs are plain parameters: the template engine, the YAML
  and JSON decoders, whether a user's regular expression compiles, semantic versions, URL parsing, the
  conversions of TLS names, time and environment variables.

  \<^bold>\<open>What is shown.\<close>
  \<^item> Admission: the webhook accepts exactly what a declarative policy allows, whatever each read of a secret gives. It
    panics only when a secret that was read once cannot be read again in the same admission, and an admission where it does is given. What it
    accepts keeps the controllers' secret scan from panicking. Parsing keeps an invariant, succeeds exactly on
    well-formed text and inverts printing.
  \<^item> Recommendation: the profiles of a node are those of the matching sections of the smallest priority, with
    unique sorted names, independent of the unstable sort; references between profiles resolve correctly;
    status, references and warnings say exactly what holds.
  \<^item> Hardware: validation accepts every documented clock chain, and the exact set it accepts is given: it is
    more lenient in two places that the documentation rules out. Pin functions round-trip.
  \<^item> Merging and applying: an update by one controller keeps the security volumes, mounts and hashes that the
    other maintains; everything else of the merged object is given exactly. Merging is idempotent, and applying refines one step that stores
    the merged object, for every outcome of its API calls. In every state that interleaved writers of both controllers reach, the
    DaemonSet has the security items written last by the PtpConfig controller; the template may be reverted for a
    moment, and one undisturbed run brings it back.
  \<^item> PtpConfig controller: a sync publishes exactly the recommended profiles, and none if some
    node's cannot be determined; the DaemonSet mounts exactly the referenced secrets that exist; a second sync
    writes no status, in whatever order Go visits its maps, when every node's clock type is determined; a secret's events enqueue exactly when it is referred to.
  \<^item> HardwareConfig controller: after a successful reconcile every node that lists the related profile is recorded, and no
    other one when no node is listed twice; other resources are untouched, and a second reconcile changes nothing.
  \<^item> PtpOperatorConfig controller: network policies converge, allow rules precede default-deny
    rules at every moment, foreign policies are never touched; every node gets a device; the template data are
    complete and deterministic. A successful run leaves devices, config maps, policies, the daemon's objects
    and the event services in place together, each object applied over the one from before. Every event of a DaemonSet wakes
    exactly the PtpOperatorConfigs that control it.
  \<^item> Start: the API types are registered without a panic, each under one kind; the wait for the webhook ends in bounded time, leader election is timed within client-go's
    limits, and the servers and the operand agree on the TLS profile of an APIServer resource that can be read.
  \<^item> Generated code: every deep copy has the content of the original and shares no cell with it; for every
    sequence of regular calls the API server reads, from the requests of the generated client, the operations that the generated fake
    records, and a call that is not sent returns an error.

  \<^bold>\<open>Termination and bounds.\<close> All definitions are total but \<open>poll_until\<close>, the polling loop of the start, which is
  a partial function whose value \<open>None\<close> is not ending; it is shown to end, within 62 turns, when a
  pause lasts at least the polling interval. Fixed regular expressions are decided by derivatives, one per
  character. Go's integers are \<open>int\<close>; the ones that are parsed are checked against their width, and
  durations are shown to fit. The timeouts of the generated client are 64-bit words, since seconds times
  nanoseconds may wrap around.

  \<^bold>\<open>Not modelled.\<close> Logging; caches, work queues and the registration of webhooks with controller-runtime; HTTP transports, retries, serializers and the object tracker of the
  fake client, which are parameters; the manifests themselves, other than the keys they refer to; the daemon, which is another
  repository; the end-to-end tests.
\<close>

end
